(* ===== verification/Prelude.thy ===== *)
theory Prelude
  imports Complex_Main "HOL-Library.AList" "HOL-Library.List_Lexorder" "HOL-Library.Char_ord"
begin

text \<open>
  Shared vocabulary of the development: the named theorem collections the component
  theories fill, JavaScript truthiness of the nullable strings the sources test with
  \<open>if (x)\<close>, and generic facts on lists, options and maps that several components use.
\<close>

named_theorems js_simps "equations for JavaScript truthiness and lookups"
named_theorems frame_simps "fields an operation leaves unchanged"

subsection \<open>JavaScript truthiness\<close>

text \<open>
  \<open>string | null\<close> is \<open>string option\<close>. A test \<open>if (s.playerId)\<close> or
  \<open>filter(s => s.playerId)\<close> is false for \<open>null\<close> and for the empty string.
\<close>

definition js_present :: "string option \<Rightarrow> bool" where
  "js_present v = (case v of None \<Rightarrow> False | Some s \<Rightarrow> s \<noteq> [])"

subsection \<open>JavaScript run-time errors\<close>

text \<open>
  An exception thrown by a handler, such as reading a property of \<open>undefined\<close>
  (a \<^verbatim>\<open>TypeError\<close>) or \<^verbatim>\<open>throw new Error(...)\<close>, is the left value of
  \<open>js_error + 'a\<close>.
\<close>

datatype js_error = TypeError string | Error string

subsection \<open>Lists\<close>

text \<open>The values of the \<open>Some\<close> entries of a list, in order.\<close>

definition somes :: "'a option list \<Rightarrow> 'a list" where
  "somes xs = List.map_filter id xs"

subsection \<open>Facts\<close>

lemma js_present_simps [simp, js_simps]:
  "js_present None = False"
  "js_present (Some s) = (s \<noteq> [])"
  by (simp_all add: js_present_def)

lemma js_present_Some_iff: "js_present v \<longleftrightarrow> (\<exists>s. v = Some s \<and> s \<noteq> [])"
  by (cases v) auto

lemma somes_simps [simp]:
  "somes [] = []"
  "somes (None # xs) = somes xs"
  "somes (Some x # xs) = x # somes xs"
  by (simp_all add: somes_def)

lemma set_somes [simp]: "set (somes xs) = {x. Some x \<in> set xs}"
proof (induction xs)
  case (Cons a xs)
  then show ?case by (cases a) auto
qed simp

lemma somes_append [simp]: "somes (xs @ ys) = somes xs @ somes ys"
  by (simp add: somes_def List.map_filter_def)

lemma find_Some_in_set: "List.find P xs = Some x \<Longrightarrow> x \<in> set xs \<and> P x"
  by (induction xs) (auto split: if_splits)

lemma find_None_iff': "List.find P xs = None \<longleftrightarrow> (\<forall>x \<in> set xs. \<not> P x)"
  by (induction xs) auto

end
