(* ===== verification/Domain.thy ===== *)
theory Domain
  imports Prelude
begin

text \<open>
  The state tree of the tactics board, from \<^verbatim>\<open>src/types.ts\<close>: players, formation slots,
  drawings, playbook items and steps, the tactics, franchise, UI and auth subtrees of
  \<^verbatim>\<open>RootState\<close>, the persisted snapshot, and the core part of the \<^verbatim>\<open>Action\<close> union.
  A TypeScript interface is a \<^theory_text>\<open>record\<close>, a string-literal union a
  \<^theory_text>\<open>datatype\<close>, \<open>T | null\<close> is \<open>T option\<close>, a \<open>Record<string, T>\<close> is a map
  \<open>string \<rightharpoonup> T\<close> where the code only looks keys up, and an association list
  \<open>(string \<times> T) list\<close> (read with \<open>map_of\<close>, written with \<open>AList.update\<close>)
  where its entries are enumerated, an array a list, a JavaScript number \<open>real\<close> (or \<open>int\<close> where
  the code uses it as an index or a counter). Fields the core never reads (age,
  attributes, contracts, statistics of a player; theme, kits, filters of the UI;
  finances and season of the franchise) are left out of the records.
\<close>

subsection \<open>Teams and positions\<close>

datatype position_role = GK | DF | MF | FW

datatype team = Home | Away

text \<open>\<open>TeamView = Team | 'both'\<close>.\<close>

datatype team_view = View_team team | View_both

text \<open>\<open>{ x: number; y: number }\<close> in percentage pitch space.\<close>

record pos =
  pos_x :: real
  pos_y :: real

text \<open>The \<open>{ home: T; away: T }\<close> pairs of the state, indexed by a \<open>team\<close>.\<close>

record 'a team_pair =
  home :: 'a
  away :: 'a

definition team_get :: "team \<Rightarrow> 'a team_pair \<Rightarrow> 'a" where
  "team_get t p = (case t of Home \<Rightarrow> home p | Away \<Rightarrow> away p)"

definition team_set :: "team \<Rightarrow> 'a \<Rightarrow> 'a team_pair \<Rightarrow> 'a team_pair" where
  "team_set t v p = (case t of Home \<Rightarrow> p\<lparr>home := v\<rparr> | Away \<Rightarrow> p\<lparr>away := v\<rparr>)"

subsection \<open>Players\<close>

datatype availability_status =
  Available | Minor_Injury | Major_Injury | Suspended | International_Duty

datatype player_morale =
  Morale_Excellent | Morale_Good | Morale_Okay | Morale_Poor | Morale_Very_Poor

record player =
  player_id :: string
  player_name :: string
  jerseyNumber :: int
  roleId :: string
  player_team :: team
  teamColor :: string
  position :: pos
  availability :: availability_status
  morale :: player_morale
  stamina :: int

subsection \<open>Formations\<close>

record formation_slot =
  slot_id :: string
  slot_role :: position_role
  defaultPosition :: pos
  slot_playerId :: "string option"

record formation =
  formation_id :: string
  formation_name :: string
  slots :: "formation_slot list"

subsection \<open>The slot action menu\<close>

datatype slot_menu_trigger = Trigger_click | Trigger_drag

record slot_action_menu_data =
  sourcePlayerId :: string
  targetSlotId :: string
  targetPlayerId :: "string option"
  trigger :: slot_menu_trigger
  menu_position :: pos

subsection \<open>Drawings and the playbook\<close>

datatype drawing_tool = Tool_select | Tool_arrow | Tool_zone | Tool_pen | Tool_line | Tool_text

record drawing_shape =
  shape_id :: string
  tool :: drawing_tool
  color :: string
  points :: "pos list"
  shape_text :: "string option"

datatype play_category =
  General | Attacking_Corner | Defending_Corner | Attacking_Free_Kick
  | Defending_Free_Kick | Throw_in

datatype playbook_event_type = Event_Goal | Event_Yellow_Card | Event_Red_Card

record playbook_event =
  event_type :: playbook_event_type
  event_description :: string

record player_run =
  run_playerId :: string
  run_points :: "pos list"

record playbook_step =
  step_id :: string
  playerPositions :: "string \<rightharpoonup> pos"
  step_drawings :: "drawing_shape list"
  step_event :: "playbook_event option"
  playerRuns :: "player_run list option"
  ballPath :: "pos list option"

record playbook_item =
  item_id :: string
  item_name :: string
  category :: play_category
  item_formationId :: string
  steps :: "playbook_step list"

subsection \<open>UI values\<close>

datatype notification_type = Notify_success | Notify_error | Notify_info

record notification =
  notification_id :: string
  message :: string
  notification_type :: notification_type

datatype modal_type =
  Modal_editPlayer | Modal_comparePlayer | Modal_slotActionMenu | Modal_chat
  | Modal_customFormationEditor | Modal_loadProject | Modal_matchSimulator
  | Modal_postMatchReport | Modal_contractNegotiation | Modal_pressConference
  | Modal_aiSubSuggestion | Modal_playerConversation | Modal_interactiveTutorial
  | Modal_scouting | Modal_sponsorships | Modal_teamTalk | Modal_seasonEndSummary
  | Modal_playbookLibrary

record ai_insight =
  advantages :: string
  vulnerabilities :: string
  recommendation :: string

datatype positioning_mode = Mode_free | Mode_snap

record animation_trail =
  trail_playerId :: string
  trail_points :: "pos list"
  trail_color :: string

subsection \<open>The subtrees of the root state\<close>

record tactics_state =
  players :: "player list"
  formations :: "(string \<times> formation) list"
  playbook :: "(string \<times> playbook_item) list"
  activeFormationIds :: "string team_pair"
  drawings :: "drawing_shape list"
  chemistry :: "string \<rightharpoonup> (string \<rightharpoonup> int)"
  captainIds :: "string option team_pair"

record mentoring_group =
  mentorId :: string
  menteeIds :: "string list"

datatype relationship_type = Friendship | Rivalry

record match_result =
  homeScore :: int
  awayScore :: int

datatype agent_personality = Agent_standard | Agent_greedy | Agent_loyal

record negotiation_data =
  negotiation_playerId :: string
  conversation :: "string list"
  agentPersonality :: agent_personality

record franchise_state =
  gameWeek :: int
  mentoringGroups :: "mentoring_group list team_pair"
  relationships :: "string \<rightharpoonup> (string \<rightharpoonup> relationship_type)"
  lastMatchResult :: "match_result option"
  negotiationData :: "negotiation_data option"

record ui_state =
  activeSaveSlotId :: "string option"
  notifications :: "notification list"
  activeTeamContext :: team_view
  activeModal :: "modal_type option"
  editingPlayerId :: "string option"
  slotActionMenuData :: "slot_action_menu_data option"
  drawingTool :: drawing_tool
  isGridVisible :: bool
  isFormationStrengthVisible :: bool
  positioningMode :: positioning_mode
  activePlaybookItemId :: "string option"
  activeStepIndex :: "int option"
  isAnimating :: bool
  isPaused :: bool
  playerInitialPositions :: "(string \<rightharpoonup> pos) option"
  animationTrails :: "animation_trail list option"
  isPresentationMode :: bool
  rosterSearchQuery :: string
  playbookCategories :: "string \<rightharpoonup> bool"
  isLoadingAI :: bool
  aiInsight :: "ai_insight option"
  highlightedByAIPlayerIds :: "string list"
  isLoadingNegotiation :: bool
  selectedPlayerId :: "string option"
  isLoadingDevelopmentSummary :: bool
  isLoadingTeamTalk :: bool

datatype user_role = Role_coach | Role_player

record user =
  user_id :: string
  email :: string
  user_role :: user_role
  user_playerId :: "string option"

record auth_state =
  isAuthenticated :: bool
  auth_user :: "user option"
  auth_error :: "string option"

record root_state =
  auth :: auth_state
  tactics :: tactics_state
  franchise :: franchise_state
  ui :: ui_state

subsection \<open>The persisted snapshot\<close>

text \<open>
  What \<^verbatim>\<open>cleanStateForSaving\<close> returns: the root state without \<open>auth\<close>, with a
  \<open>version\<close> key, and with keys of \<open>ui\<close> and \<open>franchise\<close> deleted. A JavaScript
  object with possibly absent keys is a record of \<open>option\<close> fields (\<open>None\<close>: the
  key is absent); the tactics subtree is written whole.
\<close>

record ui_snapshot =
  s_activeSaveSlotId :: "string option option"
  s_notifications :: "notification list option"
  s_activeTeamContext :: "team_view option"
  s_activeModal :: "modal_type option option"
  s_editingPlayerId :: "string option option"
  s_slotActionMenuData :: "slot_action_menu_data option option"
  s_drawingTool :: "drawing_tool option"
  s_isGridVisible :: "bool option"
  s_isFormationStrengthVisible :: "bool option"
  s_positioningMode :: "positioning_mode option"
  s_activePlaybookItemId :: "string option option"
  s_activeStepIndex :: "int option option"
  s_isAnimating :: "bool option"
  s_isPaused :: "bool option"
  s_playerInitialPositions :: "(string \<rightharpoonup> pos) option option"
  s_animationTrails :: "animation_trail list option option"
  s_isPresentationMode :: "bool option"
  s_rosterSearchQuery :: "string option"
  s_playbookCategories :: "(string \<rightharpoonup> bool) option"
  s_isLoadingAI :: "bool option"
  s_aiInsight :: "ai_insight option option"
  s_highlightedByAIPlayerIds :: "string list option"
  s_isLoadingNegotiation :: "bool option"
  s_selectedPlayerId :: "string option option"
  s_isLoadingDevelopmentSummary :: "bool option"
  s_isLoadingTeamTalk :: "bool option"

record franchise_snapshot =
  s_gameWeek :: "int option"
  s_mentoringGroups :: "mentoring_group list team_pair option"
  s_relationships :: "(string \<rightharpoonup> (string \<rightharpoonup> relationship_type)) option"
  s_lastMatchResult :: "match_result option option"
  s_negotiationData :: "negotiation_data option option"

record snapshot =
  snap_tactics :: tactics_state
  snap_franchise :: franchise_snapshot
  snap_ui :: ui_snapshot
  snap_version :: string

subsection \<open>Actions\<close>

text \<open>
  The core of the closed \<^verbatim>\<open>Action\<close> union: the variants that reach the formation,
  slot-action, playbook, animation, persistence and auth parts of the state. Each
  constructor carries the payload of its variant. Left out: the franchise, AI and UI-toggle
  variants, and the formation and playbook variants \<^verbatim>\<open>CLEAR_FORMATION\<close>,
  \<^verbatim>\<open>SAVE_CUSTOM_FORMATION\<close>, \<^verbatim>\<open>DELETE_CUSTOM_FORMATION\<close>,
  \<^verbatim>\<open>DELETE_PLAYBOOK_STEP\<close> and \<^verbatim>\<open>LOAD_PLAYBOOK\<close>, which no code under \<^verbatim>\<open>src/\<close>
  dispatches; \<^verbatim>\<open>ADD_NOTIFICATION\<close> and \<^verbatim>\<open>EXPORT_LINEUP_FINISH\<close> are the layout's own
  actions (\<open>layout_action\<close> of \<open>App_Shell\<close>).
\<close>

datatype slot_decision = Decision_swap | Decision_replace | Decision_bench
  | Decision_captain | Decision_loan

datatype action =
    LOGIN_SUCCESS user
  | LOGIN_FAILURE string
  | LOGOUT
  | SIGNUP_SUCCESS user
  | SIGNUP_FAILURE string
  | LOAD_STATE snapshot
  | SOFT_RESET_APP
  | SELECT_PLAYER "string option"
  | SET_CAPTAIN string
  | BENCH_PLAYER string
  | SET_ACTIVE_FORMATION string team
  | ASSIGN_PLAYER_TO_SLOT string string team
  | UPDATE_PLAYER_POSITION string pos
  | OPEN_SLOT_ACTION_MENU slot_action_menu_data
  | CLOSE_SLOT_ACTION_MENU
  | RESOLVE_SLOT_ACTION slot_decision
  | SWAP_PLAYERS string string
  | SET_DRAWING_TOOL drawing_tool
  | SET_POSITIONING_MODE positioning_mode
  | ADD_DRAWING drawing_shape
  | CLEAR_DRAWINGS
  | CREATE_PLAYBOOK_ITEM string play_category
  | LOAD_PLAYBOOK_ITEM string
  | DELETE_PLAYBOOK_ITEM string
  | SET_ACTIVE_STEP int
  | ADD_PLAYBOOK_STEP
  | START_ANIMATION
  | PAUSE_ANIMATION
  | RESET_ANIMATION
  | SET_ACTIVE_SAVE_SLOT "string option"

subsection \<open>Team-indexed access\<close>

lemma team_get_simps [simp]:
  "team_get Home p = home p" "team_get Away p = away p"
  by (simp_all add: team_get_def)

lemma team_set_simps [simp]:
  "team_set Home v p = p\<lparr>home := v\<rparr>" "team_set Away v p = p\<lparr>away := v\<rparr>"
  by (simp_all add: team_set_def)

end
