(* ===== verification/Seed.thy ===== *)
theory Seed
  imports Domain
begin

text \<open>
  The seed state of \<^verbatim>\<open>src/constants.ts\<close>: \<^verbatim>\<open>APP_VERSION\<close>, the three built-in
  formations, the fifteen default players and \<^verbatim>\<open>INITIAL_STATE\<close> (restricted to the
  fields of the records of \<open>Domain\<close>). Non-ASCII letters of player names are written
  as their UTF-8 bytes.
\<close>

definition APP_VERSION :: string where
  "APP_VERSION = ''8.0.0''"

abbreviation mk_pos :: "real \<Rightarrow> real \<Rightarrow> pos" where
  "mk_pos a b \<equiv> \<lparr>pos_x = a, pos_y = b\<rparr>"

abbreviation mk_slot :: "string \<Rightarrow> position_role \<Rightarrow> real \<Rightarrow> real \<Rightarrow> string option \<Rightarrow> formation_slot" where
  "mk_slot i r a b p \<equiv> \<lparr>slot_id = i, slot_role = r, defaultPosition = mk_pos a b, slot_playerId = p\<rparr>"

definition formation_442 :: formation where
  "formation_442 = \<lparr>formation_id = ''4-4-2'', formation_name = ''4-4-2'', slots =
    [mk_slot ''s1'' GK 8 50 (Some ''p1''), mk_slot ''s2'' DF 30 85 (Some ''p4''),
     mk_slot ''s3'' DF 25 60 (Some ''player4_demo''), mk_slot ''s4'' DF 25 40 (Some ''p11''),
     mk_slot ''s5'' DF 30 15 (Some ''p3''), mk_slot ''s6'' MF 55 80 (Some ''p9''),
     mk_slot ''s7'' MF 50 60 (Some ''player3_demo''), mk_slot ''s8'' MF 50 40 (Some ''player2_demo''),
     mk_slot ''s9'' MF 55 20 (Some ''player1_demo''), mk_slot ''s10'' FW 80 60 (Some ''p10''),
     mk_slot ''s11'' FW 80 40 (Some ''p8'')]\<rparr>"

definition formation_433 :: formation where
  "formation_433 = \<lparr>formation_id = ''4-3-3'', formation_name = ''4-3-3'', slots =
    [mk_slot ''s1'' GK 8 50 None, mk_slot ''s2'' DF 30 85 None, mk_slot ''s3'' DF 25 60 None,
     mk_slot ''s4'' DF 25 40 None, mk_slot ''s5'' DF 30 15 None, mk_slot ''s6'' MF 45 50 None,
     mk_slot ''s7'' MF 60 65 None, mk_slot ''s8'' MF 60 35 None, mk_slot ''s9'' FW 80 80 None,
     mk_slot ''s10'' FW 85 50 None, mk_slot ''s11'' FW 80 20 None]\<rparr>"

definition formation_352 :: formation where
  "formation_352 = \<lparr>formation_id = ''3-5-2'', formation_name = ''3-5-2'', slots =
    [mk_slot ''s1'' GK 8 50 None, mk_slot ''s2'' DF 25 70 None, mk_slot ''s3'' DF 22 50 None,
     mk_slot ''s4'' DF 25 30 None, mk_slot ''s5'' MF 45 90 None, mk_slot ''s6'' MF 50 65 None,
     mk_slot ''s7'' MF 50 35 None, mk_slot ''s8'' MF 45 10 None, mk_slot ''s9'' MF 65 50 None,
     mk_slot ''s10'' FW 80 60 None, mk_slot ''s11'' FW 80 40 None]\<rparr>"

definition initial_formations :: "(string \<times> formation) list" where
  "initial_formations = [(''4-4-2'', formation_442), (''4-3-3'', formation_433),
     (''3-5-2'', formation_352)]"

abbreviation mk_player :: "string \<Rightarrow> string \<Rightarrow> int \<Rightarrow> string \<Rightarrow> team \<Rightarrow> pos
    \<Rightarrow> availability_status \<Rightarrow> player_morale \<Rightarrow> player" where
  "mk_player i n j r t p a m \<equiv> \<lparr>player_id = i, player_name = n, jerseyNumber = j, roleId = r,
     player_team = t, teamColor = (case t of Home \<Rightarrow> ''#3b82f6'' | Away \<Rightarrow> ''#ef4444''),
     position = p, availability = a, morale = m, stamina = 100\<rparr>"

definition defaultPlayers :: "player list" where
  "defaultPlayers =
    [mk_player ''p1'' ''A. Becker'' 1 ''sk'' Home (mk_pos 8 50) Available Morale_Excellent,
     mk_player ''player4_demo'' ''David Chen'' 2 ''bpd'' Home (mk_pos 0 0) Available Morale_Okay,
     mk_player ''p3'' ''T. Alexander-Arnold'' 66 ''wb'' Home (mk_pos 30 15) Available Morale_Good,
     mk_player ''p4'' ''A. Robertson'' 26 ''wb'' Home (mk_pos 30 85) Available Morale_Good,
     mk_player ''player1_demo'' ''Alex Hunter'' 7 ''iw'' Home (mk_pos 0 0) Available Morale_Excellent,
     mk_player ''player2_demo'' ''Ben Carter'' 8 ''b2b'' Home (mk_pos 0 0) Available Morale_Good,
     mk_player ''player3_demo'' ''Carlos Diaz'' 6 ''dlp'' Home (mk_pos 0 0) Available Morale_Good,
     mk_player ''p8'' ''M. Salah'' 11 ''p'' Home (mk_pos 80 40) Available Morale_Good,
     mk_player ''p9'' (''L. D'' @ [CHR 0xC3, CHR 0xAD] @ ''az'') 23 ''w'' Home (mk_pos 55 80)
       Available Morale_Okay,
     mk_player ''p10'' (''D. N'' @ [CHR 0xC3, CHR 0xBA, CHR 0xC3, CHR 0xB1] @ ''ez'') 27 ''p'' Home
       (mk_pos 80 60) Available Morale_Good,
     mk_player ''p11'' (''I. Konat'' @ [CHR 0xC3, CHR 0xA9]) 5 ''ncb'' Home (mk_pos 25 40)
       Available Morale_Good,
     mk_player ''p12'' ''C. Jones'' 17 ''cm'' Away (mk_pos (-100) (-100)) Available Morale_Good,
     mk_player ''p13'' ''H. Elliott'' 19 ''ap'' Away (mk_pos (-100) (-100)) Available Morale_Good,
     mk_player ''p14'' ''K. Tsimikas'' 21 ''fb'' Away (mk_pos (-100) (-100)) Suspended Morale_Poor,
     mk_player ''p15'' ''D. Jota'' 20 ''cf'' Away (mk_pos (-100) (-100)) Available Morale_Excellent]"

definition initial_tactics :: tactics_state where
  "initial_tactics = \<lparr>players = defaultPlayers, formations = initial_formations,
     playbook = [], activeFormationIds = \<lparr>home = ''4-4-2'', away = ''4-3-3''\<rparr>,
     drawings = [], chemistry = Map.empty, captainIds = \<lparr>home = Some ''p2'', away = None\<rparr>\<rparr>"

definition initial_franchise :: franchise_state where
  "initial_franchise = \<lparr>gameWeek = 1, mentoringGroups = \<lparr>home = [], away = []\<rparr>,
     relationships = Map.empty, lastMatchResult = None, negotiationData = None\<rparr>"

definition initial_ui :: ui_state where
  "initial_ui = \<lparr>activeSaveSlotId = None, notifications = [], activeTeamContext = View_both,
     activeModal = None, editingPlayerId = None, slotActionMenuData = None,
     drawingTool = Tool_select, isGridVisible = False, isFormationStrengthVisible = False,
     positioningMode = Mode_snap, activePlaybookItemId = None, activeStepIndex = None,
     isAnimating = False, isPaused = False, playerInitialPositions = None,
     animationTrails = None, isPresentationMode = False, rosterSearchQuery = [],
     playbookCategories = [''General'' \<mapsto> True], isLoadingAI = False, aiInsight = None,
     highlightedByAIPlayerIds = [], isLoadingNegotiation = False, selectedPlayerId = None,
     isLoadingDevelopmentSummary = False, isLoadingTeamTalk = False\<rparr>"

definition initial_auth :: auth_state where
  "initial_auth = \<lparr>isAuthenticated = False, auth_user = None, auth_error = None\<rparr>"

definition INITIAL_STATE :: root_state where
  "INITIAL_STATE = \<lparr>auth = initial_auth, tactics = initial_tactics,
     franchise = initial_franchise, ui = initial_ui\<rparr>"

end
