(* ===== verification/Geometry.thy ===== *)
theory Geometry
  imports Domain
begin

text \<open>
  Away-side mirroring and pitch distances of \<^verbatim>\<open>src/components/SoccerField.tsx\<close>:
  \<^verbatim>\<open>mirrorPosition\<close> (line 89) and the straight-line distance between two slot
  anchors that \<^verbatim>\<open>getChemistryLinks\<close> compares with the adjacency threshold
  (line 166). Coordinates are exact reals; the header of the development says what
  IEEE doubles change.
\<close>

definition mirrorPosition :: "pos \<Rightarrow> pos" where
  "mirrorPosition p = \<lparr>pos_x = 100 - pos_x p, pos_y = 100 - pos_y p\<rparr>"

definition pitch_distance :: "pos \<Rightarrow> pos \<Rightarrow> real" where
  "pitch_distance a b = sqrt ((pos_x a - pos_x b) ^ 2 + (pos_y a - pos_y b) ^ 2)"

text \<open>A position inside the percentage pitch \<open>[0,100]\<^sup>2\<close> of the geometry contract.\<close>

definition on_pitch :: "pos \<Rightarrow> bool" where
  "on_pitch p \<longleftrightarrow> 0 \<le> pos_x p \<and> pos_x p \<le> 100 \<and> 0 \<le> pos_y p \<and> pos_y p \<le> 100"

lemma mirror_coords [simp]:
  "pos_x (mirrorPosition p) = 100 - pos_x p"
  "pos_y (mirrorPosition p) = 100 - pos_y p"
  by (simp_all add: mirrorPosition_def)

lemma mirror_eq_iff: "mirrorPosition p = q \<longleftrightarrow> p = mirrorPosition q"
  by (auto simp: mirrorPosition_def)

lemma pitch_distance_commute: "pitch_distance a b = pitch_distance b a"
  by (simp add: pitch_distance_def power2_commute)

text \<open>
  The threshold test \<open>dist < r\<close> is decided without the square root: the form a
  witness evaluates.
\<close>

lemma pitch_distance_less_iff:
  "0 \<le> r \<Longrightarrow> pitch_distance a b < r \<longleftrightarrow> (pos_x a - pos_x b)\<^sup>2 + (pos_y a - pos_y b)\<^sup>2 < r\<^sup>2"
  unfolding pitch_distance_def
  by (metis abs_of_nonneg real_sqrt_abs real_sqrt_less_iff)

subsection \<open>Properties\<close>

text \<open>
  Mirroring is an involution: mirroring a mirrored position gives back the stored
  home-relative position, exactly (over the reals).
\<close>

theorem mirrorPosition_involutive: "mirrorPosition (mirrorPosition p) = p"
  by (simp add: mirrorPosition_def)

text \<open>
  Mirroring keeps a position on the percentage pitch and keeps every distance between
  two positions, so the adjacency test of the chemistry links gives the same answer on
  either side.
\<close>

theorem mirror_preserves_pitch_and_distance:
  "on_pitch p \<Longrightarrow> on_pitch (mirrorPosition p) \<and>
     pitch_distance (mirrorPosition p) (mirrorPosition q) = pitch_distance p q"
  by (simp add: on_pitch_def pitch_distance_def power2_commute algebra_simps)

theorem mirror_preserves_witness:
  "on_pitch \<lparr>pos_x = 8, pos_y = 50\<rparr> \<and> on_pitch \<lparr>pos_x = 92, pos_y = 50\<rparr> \<and>
   pitch_distance \<lparr>pos_x = 92, pos_y = 50\<rparr> \<lparr>pos_x = 70, pos_y = 15\<rparr> =
     pitch_distance \<lparr>pos_x = 8, pos_y = 50\<rparr> \<lparr>pos_x = 30, pos_y = 85\<rparr>"
proof -
  have h: "on_pitch \<lparr>pos_x = 8, pos_y = 50\<rparr>" by (simp add: on_pitch_def)
  show ?thesis
    using mirror_preserves_pitch_and_distance[OF h, of "\<lparr>pos_x = 30, pos_y = 85\<rparr>"] h
    by (simp add: mirrorPosition_def)
qed

end
