(* ===== verification/Formation.thy ===== *)
theory Formation
  imports Seed Geometry
begin

text \<open>
  The formation/slot model. The lookups are the ones \<^verbatim>\<open>SoccerField.tsx\<close> performs on
  the tactics state (\<^verbatim>\<open>players.find\<close>, \<^verbatim>\<open>formation.slots.filter(s => s.playerId)\<close>,
  \<^verbatim>\<open>formation.slots.find(s => s.playerId === player.id)\<close>,
  \<^verbatim>\<open>formations[activeFormationIds[team]]\<close>). The operations on bindings are the
  reducer cases \<^verbatim>\<open>ASSIGN_PLAYER_TO_SLOT\<close>, \<^verbatim>\<open>UPDATE_PLAYER_POSITION\<close>,
  \<^verbatim>\<open>BENCH_PLAYER\<close>, \<^verbatim>\<open>SET_ACTIVE_FORMATION\<close> and \<^verbatim>\<open>SET_CAPTAIN\<close>: the reducer is not
  among the repository's files, so they follow the contract of section 4.1 of the
  specification. The invariant is slot exclusivity: in every formation the slot ids are
  distinct and no player id is bound to two slots.
\<close>

subsection \<open>Lookups of SoccerField.tsx\<close>

definition find_player :: "player list \<Rightarrow> string \<Rightarrow> player option" where
  "find_player ps pid = List.find (\<lambda>p. player_id p = pid) ps"

definition slotsWithPlayers :: "formation \<Rightarrow> formation_slot list" where
  "slotsWithPlayers f = filter (\<lambda>s. js_present (slot_playerId s)) (slots f)"

definition slot_of_player :: "formation \<Rightarrow> string \<Rightarrow> formation_slot option" where
  "slot_of_player f pid = List.find (\<lambda>s. slot_playerId s = Some pid) (slots f)"

definition team_formation :: "tactics_state \<Rightarrow> team \<Rightarrow> formation option" where
  "team_formation ts t = map_of (formations ts) (team_get t (activeFormationIds ts))"

subsection \<open>Bindings and slot exclusivity\<close>

definition bound_slot_ids :: "formation_slot list \<Rightarrow> string list" where
  "bound_slot_ids ss = somes (map slot_playerId ss)"

abbreviation bound_ids :: "formation \<Rightarrow> string list" where
  "bound_ids f \<equiv> bound_slot_ids (slots f)"

definition formation_wf :: "formation \<Rightarrow> bool" where
  "formation_wf f \<longleftrightarrow> distinct (map slot_id (slots f)) \<and> distinct (bound_ids f)"

definition formations_wf :: "tactics_state \<Rightarrow> bool" where
  "formations_wf ts \<longleftrightarrow> list_all (\<lambda>(k, f). formation_wf f) (formations ts)"

text \<open>The stronger form of section 8: no player bound in two formations at once.\<close>

definition no_double_binding :: "tactics_state \<Rightarrow> bool" where
  "no_double_binding ts \<longleftrightarrow>
     list_all (\<lambda>(k1, f1). list_all (\<lambda>(k2, f2).
         k1 = k2 \<or> list_all (\<lambda>p. p \<notin> set (bound_ids f2)) (bound_ids f1)) (formations ts))
       (formations ts)"

subsection \<open>Operations\<close>

definition set_player_position :: "string \<Rightarrow> pos \<Rightarrow> player list \<Rightarrow> player list" where
  "set_player_position pid p ps = map (\<lambda>q. if player_id q = pid then q\<lparr>position := p\<rparr> else q) ps"

definition bind_slots :: "string \<Rightarrow> string \<Rightarrow> formation_slot list \<Rightarrow> formation_slot list" where
  "bind_slots sid pid ss = map (\<lambda>s. if slot_id s = sid then s\<lparr>slot_playerId := Some pid\<rparr>
     else if slot_playerId s = Some pid then s\<lparr>slot_playerId := None\<rparr> else s) ss"

definition unbind_slots :: "string \<Rightarrow> formation_slot list \<Rightarrow> formation_slot list" where
  "unbind_slots pid ss = map (\<lambda>s. if slot_playerId s = Some pid then s\<lparr>slot_playerId := None\<rparr> else s) ss"

definition swap_slots :: "string \<Rightarrow> string \<Rightarrow> string \<Rightarrow> formation_slot list \<Rightarrow> formation_slot list" where
  "swap_slots tsid p q ss = map (\<lambda>s. if slot_id s = tsid then s\<lparr>slot_playerId := Some p\<rparr>
     else if slot_playerId s = Some p then s\<lparr>slot_playerId := Some q\<rparr> else s) ss"

definition map_slots :: "(formation_slot list \<Rightarrow> formation_slot list) \<Rightarrow> formation \<Rightarrow> formation" where
  "map_slots g f = f\<lparr>slots := g (slots f)\<rparr>"

text \<open>\<^verbatim>\<open>UPDATE_PLAYER_POSITION\<close>: moves the player, touches no binding.\<close>

definition update_player_position :: "string \<Rightarrow> pos \<Rightarrow> tactics_state \<Rightarrow> tactics_state" where
  "update_player_position pid p ts = ts\<lparr>players := set_player_position pid p (players ts)\<rparr>"

text \<open>
  \<^verbatim>\<open>ASSIGN_PLAYER_TO_SLOT\<close>: a no-op for an unknown formation, slot or player, and when
  the slot holds another player; otherwise the slot is bound, any other slot of the same
  formation that held the player is unbound, and the player snaps to the slot's anchor.
\<close>

definition assign_player_to_slot :: "string \<Rightarrow> string \<Rightarrow> team \<Rightarrow> tactics_state \<Rightarrow> tactics_state" where
  "assign_player_to_slot sid pid t ts =
     (let fid = team_get t (activeFormationIds ts) in
      case map_of (formations ts) fid of
        None \<Rightarrow> ts
      | Some f \<Rightarrow>
          (case List.find (\<lambda>s. slot_id s = sid) (slots f) of
             None \<Rightarrow> ts
           | Some s \<Rightarrow>
               if find_player (players ts) pid = None then ts
               else if slot_playerId s \<noteq> None \<and> slot_playerId s \<noteq> Some pid then ts
               else ts\<lparr>formations := AList.update fid (map_slots (bind_slots sid pid) f) (formations ts),
                       players := set_player_position pid (defaultPosition s) (players ts)\<rparr>))"

text \<open>\<^verbatim>\<open>BENCH_PLAYER\<close>: the player leaves every slot of every formation.\<close>

definition bench_player :: "string \<Rightarrow> tactics_state \<Rightarrow> tactics_state" where
  "bench_player pid ts =
     ts\<lparr>formations := map (\<lambda>(k, f). (k, map_slots (unbind_slots pid) f)) (formations ts)\<rparr>"

definition set_active_formation :: "string \<Rightarrow> team \<Rightarrow> tactics_state \<Rightarrow> tactics_state" where
  "set_active_formation fid t ts =
     (if map_of (formations ts) fid = None then ts
      else ts\<lparr>activeFormationIds := team_set t fid (activeFormationIds ts)\<rparr>)"

definition set_captain :: "string \<Rightarrow> tactics_state \<Rightarrow> tactics_state" where
  "set_captain pid ts =
     (case find_player (players ts) pid of
        None \<Rightarrow> ts
      | Some p \<Rightarrow> ts\<lparr>captainIds := team_set (player_team p) (Some pid) (captainIds ts)\<rparr>)"

subsection \<open>Slot lists: bindings under bind, unbind and swap\<close>

text \<open>The player-id transposition that a swap performs on the bound slots.\<close>

definition transpose_id :: "string \<Rightarrow> string \<Rightarrow> string \<Rightarrow> string" where
  "transpose_id p q x = (if x = p then q else if x = q then p else x)"

lemma map_slot_id_bind_slots [simp]: "map slot_id (bind_slots sid pid ss) = map slot_id ss"
  by (simp add: bind_slots_def)
lemma map_slot_id_unbind_slots [simp]: "map slot_id (unbind_slots pid ss) = map slot_id ss"
  by (simp add: unbind_slots_def)
lemma map_slot_id_swap_slots [simp]: "map slot_id (swap_slots tsid p q ss) = map slot_id ss"
  by (simp add: swap_slots_def)

lemma bind_slots_simps [simp]:
  "bind_slots sid pid [] = []"
  "bind_slots sid pid (s # ss) = (if slot_id s = sid then s\<lparr>slot_playerId := Some pid\<rparr>
     else if slot_playerId s = Some pid then s\<lparr>slot_playerId := None\<rparr> else s) # bind_slots sid pid ss"
  by (simp_all add: bind_slots_def)

lemma unbind_slots_simps [simp]:
  "unbind_slots pid [] = []"
  "unbind_slots pid (s # ss) = (if slot_playerId s = Some pid then s\<lparr>slot_playerId := None\<rparr> else s) # unbind_slots pid ss"
  by (simp_all add: unbind_slots_def)

lemma bound_slot_ids_simps [simp]:
  "bound_slot_ids [] = []"
  "bound_slot_ids (s # ss) = (case slot_playerId s of None \<Rightarrow> bound_slot_ids ss | Some p \<Rightarrow> p # bound_slot_ids ss)"
  by (simp_all add: bound_slot_ids_def split: option.split)

lemma set_bound_slot_ids: "set (bound_slot_ids ss) = {p. \<exists>s\<in>set ss. slot_playerId s = Some p}"
  by (force simp: bound_slot_ids_def)


lemma bound_bind_slots_subset:
  "set (bound_slot_ids (bind_slots sid pid ss)) \<subseteq> insert pid (set (bound_slot_ids ss))"
  by (induction ss) (auto split: option.splits)

lemma pid_bound_bind_slots:
  "pid \<in> set (bound_slot_ids (bind_slots sid pid ss)) \<longleftrightarrow> sid \<in> set (map slot_id ss)"
  by (induction ss) (auto split: option.splits)

lemma distinct_bound_bind_slots:
  "distinct (map slot_id ss) \<Longrightarrow> distinct (bound_slot_ids ss) \<Longrightarrow>
   distinct (bound_slot_ids (bind_slots sid pid ss))"
proof (induction ss)
  case (Cons s ss)
  then have IH: "distinct (bound_slot_ids (bind_slots sid pid ss))" by (auto split: option.splits)
  show ?case
  proof (cases "slot_id s = sid")
    case True
    with Cons.prems have "pid \<notin> set (bound_slot_ids (bind_slots sid pid ss))"
      by (simp add: pid_bound_bind_slots)
    with True IH show ?thesis by simp
  next
    case False
    with Cons.prems IH bound_bind_slots_subset[of sid pid ss] show ?thesis
      by (auto split: option.splits)
  qed
qed simp

lemma bound_unbind_slots_subset:
  "set (bound_slot_ids (unbind_slots pid ss)) \<subseteq> set (bound_slot_ids ss)"
  by (induction ss) (auto split: option.splits)

lemma distinct_bound_unbind_slots:
  "distinct (bound_slot_ids ss) \<Longrightarrow> distinct (bound_slot_ids (unbind_slots pid ss))"
  by (induction ss) (use bound_unbind_slots_subset in \<open>fastforce split: option.splits\<close>)+

lemma bound_unique:
  "distinct (bound_slot_ids ss) \<Longrightarrow> s \<in> set ss \<Longrightarrow> s' \<in> set ss \<Longrightarrow>
   slot_playerId s = Some x \<Longrightarrow> slot_playerId s' = Some x \<Longrightarrow> s = s'"
proof (induction ss)
  case (Cons a ss)
  have "x \<in> set (bound_slot_ids ss)" if "t \<in> set ss" "slot_playerId t = Some x" for t
    using that by (auto simp: set_bound_slot_ids)
  with Cons show ?case by (cases "slot_playerId a") auto
qed simp

lemma swap_slots_transpose:
  assumes "distinct (bound_slot_ids ss)" "distinct (map slot_id ss)"
    "t \<in> set ss" "slot_id t = tsid" "slot_playerId t = Some q"
  shows "swap_slots tsid p q ss = map (\<lambda>s. s\<lparr>slot_playerId := map_option (transpose_id p q) (slot_playerId s)\<rparr>) ss"
  unfolding swap_slots_def
proof (rule map_cong[OF refl])
  fix s assume s: "s \<in> set ss"
  from assms(2) have inj: "inj_on slot_id (set ss)" by (simp add: distinct_map)
  have sid: "slot_id s = tsid \<Longrightarrow> s = t"
    using inj_onD[OF inj _ s assms(3)] assms(4) by simp
  have sq: "slot_playerId s = Some q \<Longrightarrow> s = t"
    using bound_unique[OF assms(1) s assms(3) _ assms(5)] by blast
  show "(if slot_id s = tsid then s\<lparr>slot_playerId := Some p\<rparr>
        else if slot_playerId s = Some p then s\<lparr>slot_playerId := Some q\<rparr> else s) =
        s\<lparr>slot_playerId := map_option (transpose_id p q) (slot_playerId s)\<rparr>"
  proof (cases "slot_id s = tsid")
    case True
    then show ?thesis using sid assms(5) by (simp add: transpose_id_def)
  next
    case False
    then show ?thesis using sq sid assms(4) by (cases "slot_playerId s") (auto simp: transpose_id_def)
  qed
qed

lemma bound_map_option:
  "bound_slot_ids (map (\<lambda>s. s\<lparr>slot_playerId := map_option g (slot_playerId s)\<rparr>) ss) = map g (bound_slot_ids ss)"
  by (induction ss) (auto split: option.splits)

lemma inj_transpose_id: "inj_on (transpose_id p q) A"
  by (auto simp: inj_on_def transpose_id_def split: if_splits)

lemma distinct_bound_swap_slots:
  assumes "distinct (bound_slot_ids ss)" "distinct (map slot_id ss)"
    "t \<in> set ss" "slot_id t = tsid" "slot_playerId t = Some q"
  shows "distinct (bound_slot_ids (swap_slots tsid p q ss))"
  using assms(1) inj_transpose_id[of p q "set (bound_slot_ids ss)"]
  by (simp add: swap_slots_transpose[OF assms] bound_map_option distinct_map)

subsection \<open>Formations: exclusivity kept, lookups after an update\<close>

lemma formation_wf_bind [intro]: "formation_wf f \<Longrightarrow> formation_wf (map_slots (bind_slots sid pid) f)"
  by (simp add: formation_wf_def map_slots_def distinct_bound_bind_slots)

lemma formation_wf_unbind [intro]: "formation_wf f \<Longrightarrow> formation_wf (map_slots (unbind_slots pid) f)"
  by (simp add: formation_wf_def map_slots_def distinct_bound_unbind_slots)

lemma formations_wf_lookup:
  "formations_wf ts \<Longrightarrow> map_of (formations ts) k = Some f \<Longrightarrow> formation_wf f"
  by (auto simp: formations_wf_def list_all_iff dest: map_of_SomeD)

lemma list_all_update:
  "list_all P al \<Longrightarrow> P (k, v) \<Longrightarrow> list_all P (AList.update k v al)"
  by (induction al) auto

lemma formations_wf_update [intro]:
  "formations_wf ts \<Longrightarrow> formation_wf f \<Longrightarrow>
   formations_wf (ts\<lparr>formations := AList.update k f (formations ts), players := ps\<rparr>)"
  by (simp add: formations_wf_def list_all_update)

lemma assign_player_to_slot_success:
  "team_formation ts t = Some f \<Longrightarrow> List.find (\<lambda>s. slot_id s = sid) (slots f) = Some s \<Longrightarrow>
   find_player (players ts) pid \<noteq> None \<Longrightarrow> slot_playerId s = None \<or> slot_playerId s = Some pid \<Longrightarrow>
   assign_player_to_slot sid pid t ts =
     ts\<lparr>formations := AList.update (team_get t (activeFormationIds ts)) (map_slots (bind_slots sid pid) f) (formations ts),
        players := set_player_position pid (defaultPosition s) (players ts)\<rparr>"
  by (auto simp: assign_player_to_slot_def team_formation_def)

lemma bind_slots_holds_iff:
  "s \<in> set (bind_slots sid pid ss) \<Longrightarrow> slot_playerId s = Some pid \<longleftrightarrow> slot_id s = sid"
  unfolding bind_slots_def by auto

lemma find_player_set_position:
  "find_player ps pid = Some p \<Longrightarrow> find_player (set_player_position pid x ps) pid = Some (p\<lparr>position := x\<rparr>)"
  by (induction ps) (auto simp: find_player_def set_player_position_def split: if_splits)

lemma bench_player_unbinds:
  "(k, f) \<in> set (formations (bench_player pid ts)) \<Longrightarrow> pid \<notin> set (bound_ids f)"
  by (induction "formations ts" arbitrary: ts) (auto simp: bench_player_def map_slots_def set_bound_slot_ids unbind_slots_def)

lemma bench_player_wf: "formations_wf ts \<Longrightarrow> formations_wf (bench_player pid ts)"
  by (auto simp: formations_wf_def bench_player_def list_all_iff)

lemma formations_wf_players [simp]: "formations_wf (ts\<lparr>players := ps\<rparr>) = formations_wf ts"
  by (simp add: formations_wf_def)

lemma formations_wf_update_formations [intro]:
  "formations_wf ts \<Longrightarrow> formation_wf f \<Longrightarrow> formations_wf (ts\<lparr>formations := AList.update k f (formations ts)\<rparr>)"
  by (simp add: formations_wf_def list_all_update)

lemma find_player_in_set: "find_player ps pid = Some p \<Longrightarrow> p \<in> set ps \<and> player_id p = pid"
  unfolding find_player_def by (drule find_Some_in_set) simp

lemma slot_of_player_None_iff: "slot_of_player f pid = None \<longleftrightarrow> pid \<notin> set (bound_ids f)"
  by (auto simp: slot_of_player_def find_None_iff' set_bound_slot_ids)

lemma formations_wf_team_lookup:
  "formations_wf ts \<Longrightarrow> team_formation ts t = Some f \<Longrightarrow> formation_wf f"
  by (simp add: team_formation_def formations_wf_lookup)

lemma team_formation_update_same [simp]:
  "team_formation (ts\<lparr>formations := AList.update (team_get t (activeFormationIds ts)) f' (formations ts), players := ps\<rparr>) t = Some f'"
  by (simp add: team_formation_def update_conv')

subsection \<open>Properties of ASSIGN\_PLAYER\_TO\_SLOT\<close>

text \<open>
  C3. Slot exclusivity is an invariant of \<^verbatim>\<open>ASSIGN_PLAYER_TO_SLOT\<close>: if every
  formation has distinct slot ids and binds each player at most once, the same holds after
  the assignment, on every branch (no-op or binding).
\<close>

theorem assign_player_to_slot_preserves_wf:
  "formations_wf ts \<Longrightarrow> formations_wf (assign_player_to_slot sid pid t ts)"
  by (auto simp: assign_player_to_slot_def Let_def dest: formations_wf_lookup split: option.split)

theorem assign_wf_witness:
  "formations_wf initial_tactics \<and> formations_wf (assign_player_to_slot ''s1'' ''p12'' Away initial_tactics)"
proof -
  have h: "formations_wf initial_tactics"
    by (simp add: formations_wf_def initial_tactics_def initial_formations_def formation_wf_def
        formation_442_def formation_433_def formation_352_def bound_slot_ids_def)
  show ?thesis using assign_player_to_slot_preserves_wf[OF h] h by simp
qed


text \<open>
  A successful assignment binds exactly the target slot: afterwards the player
  is bound to the slot with the given id and to no other slot of the team's formation, and
  the player's position is the slot's anchor (snap policy).
\<close>

theorem assign_player_to_slot_binds:
  assumes "team_formation ts t = Some f"
    "List.find (\<lambda>s. slot_id s = sid) (slots f) = Some s"
    "find_player (players ts) pid = Some p" "slot_playerId s = None \<or> slot_playerId s = Some pid"
  shows "\<exists>f'. team_formation (assign_player_to_slot sid pid t ts) t = Some f' \<and>
     (\<forall>s' \<in> set (slots f'). slot_playerId s' = Some pid \<longleftrightarrow> slot_id s' = sid) \<and>
     find_player (players (assign_player_to_slot sid pid t ts)) pid = Some (p\<lparr>position := defaultPosition s\<rparr>)"
proof -
  have eq: "assign_player_to_slot sid pid t ts = ts\<lparr>formations := AList.update (team_get t (activeFormationIds ts))
      (map_slots (bind_slots sid pid) f) (formations ts), players := set_player_position pid (defaultPosition s) (players ts)\<rparr>"
    using assms by (simp add: assign_player_to_slot_success)
  have "team_formation (assign_player_to_slot sid pid t ts) t = Some (map_slots (bind_slots sid pid) f)"
    by (simp add: eq team_formation_def update_conv')
  moreover have "\<forall>s' \<in> set (slots (map_slots (bind_slots sid pid) f)). slot_playerId s' = Some pid \<longleftrightarrow> slot_id s' = sid"
    by (simp add: map_slots_def bind_slots_holds_iff)
  moreover have "find_player (players (assign_player_to_slot sid pid t ts)) pid = Some (p\<lparr>position := defaultPosition s\<rparr>)"
    by (simp add: eq find_player_set_position assms(3))
  ultimately show ?thesis by blast
qed

theorem assign_binds_witness:
  "\<exists>f'. team_formation (assign_player_to_slot ''s1'' ''p12'' Away initial_tactics) Away = Some f' \<and>
     (\<forall>s' \<in> set (slots f'). slot_playerId s' = Some ''p12'' \<longleftrightarrow> slot_id s' = ''s1'') \<and>
     find_player (players (assign_player_to_slot ''s1'' ''p12'' Away initial_tactics)) ''p12'' =
       Some (\<lparr>player_id = ''p12'', player_name = ''C. Jones'', jerseyNumber = 17, roleId = ''cm'',
         player_team = Away, teamColor = ''#ef4444'', position = \<lparr>pos_x = 8, pos_y = 50\<rparr>,
         availability = Available, morale = Morale_Good, stamina = 100\<rparr>)"
proof -
  have f: "team_formation initial_tactics Away = Some formation_433"
    by (simp add: team_formation_def initial_tactics_def initial_formations_def)
  have s: "List.find (\<lambda>s. slot_id s = ''s1'') (slots formation_433) = Some (mk_slot ''s1'' GK 8 50 None)"
    by (simp add: formation_433_def)
  have p: "find_player (players initial_tactics) ''p12'' = Some (mk_player ''p12'' ''C. Jones'' 17 ''cm'' Away
      (mk_pos (-100) (-100)) Available Morale_Good)"
    by (simp add: find_player_def initial_tactics_def defaultPlayers_def)
  show ?thesis using assign_player_to_slot_binds[OF f s p] by simp
qed


text \<open>
  Dropping onto a slot that holds a different player is a silent no-op of the
  assignment: the state is returned unchanged.
\<close>

theorem assign_player_to_slot_occupied_noop:
  "team_formation ts t = Some f \<Longrightarrow> List.find (\<lambda>s. slot_id s = sid) (slots f) = Some s \<Longrightarrow>
   slot_playerId s = Some q \<Longrightarrow> q \<noteq> pid \<Longrightarrow> assign_player_to_slot sid pid t ts = ts"
  by (auto simp: assign_player_to_slot_def team_formation_def)

theorem assign_occupied_witness:
  "assign_player_to_slot ''s1'' ''p3'' Home initial_tactics = initial_tactics"
proof -
  have f: "team_formation initial_tactics Home = Some formation_442"
    by (simp add: team_formation_def initial_tactics_def initial_formations_def)
  have s: "List.find (\<lambda>s. slot_id s = ''s1'') (slots formation_442) = Some (mk_slot ''s1'' GK 8 50 (Some ''p1''))"
    by (simp add: formation_442_def)
  show ?thesis using assign_player_to_slot_occupied_noop[OF f s] by simp
qed


text \<open>
  The contract of section 4.1 unbinds the player only in the same formation, so
  it does not keep the stronger invariant of section 8: from the seed state, assigning the
  home goalkeeper p1 to slot s1 of the away formation (as dropping him on that empty slot
  dispatches) binds p1 in two formations at once.
\<close>

theorem assign_double_binding:
  "no_double_binding initial_tactics \<and>
   \<not> no_double_binding (assign_player_to_slot ''s1'' ''p1'' Away initial_tactics)"
proof -
  have f: "team_formation initial_tactics Away = Some formation_433"
    by (simp add: team_formation_def initial_tactics_def initial_formations_def)
  have s: "List.find (\<lambda>s. slot_id s = ''s1'') (slots formation_433) = Some (mk_slot ''s1'' GK 8 50 None)"
    by (simp add: formation_433_def)
  have p: "find_player (players initial_tactics) ''p1'' \<noteq> None"
    by (simp add: find_player_def initial_tactics_def defaultPlayers_def)
  have eq: "formations (assign_player_to_slot ''s1'' ''p1'' Away initial_tactics) =
      AList.update ''4-3-3'' (map_slots (bind_slots ''s1'' ''p1'') formation_433) initial_formations"
    using assign_player_to_slot_success[OF f s p] by (simp add: initial_tactics_def)
  have "\<not> no_double_binding (assign_player_to_slot ''s1'' ''p1'' Away initial_tactics)"
    unfolding no_double_binding_def eq
    by (simp add: initial_formations_def formation_442_def formation_433_def formation_352_def map_slots_def)
  moreover have "no_double_binding initial_tactics"
    by (simp add: no_double_binding_def initial_formations_def initial_tactics_def
        formation_442_def formation_433_def formation_352_def)
  ultimately show ?thesis by blast
qed


end
