(* ===== verification/Slot_Actions.thy ===== *)
theory Slot_Actions
  imports Formation
begin

text \<open>
  Drag, drop and click on the pitch, and the slot action menu they open. The handlers
  are the ones of \<^verbatim>\<open>src/components/SoccerField.tsx\<close>: \<^verbatim>\<open>handleFieldDrop\<close> (lines
  202--221), \<^verbatim>\<open>handleSlotDrop\<close> (223--249), \<^verbatim>\<open>handleActionBubbleClick\<close> (251--261)
  and the per-team rendering of \<^verbatim>\<open>renderTeam\<close> (276--351) that decides which element
  carries which drop handler. Each handler returns the action it dispatches, or
  \<open>None\<close> where it returns early. The menu itself (\<^verbatim>\<open>OPEN_SLOT_ACTION_MENU\<close>,
  \<^verbatim>\<open>CLOSE_SLOT_ACTION_MENU\<close>, \<^verbatim>\<open>RESOLVE_SLOT_ACTION\<close>) is a reducer concern and
  follows section 4.2 of the specification: one menu at a time in
  \<open>slotActionMenuData\<close>, a decision applied to the formation whose target slot holds
  the target player, a no-op that closes the menu when a referenced player has left the
  roster.
\<close>

subsection \<open>Drop and click handlers\<close>

text \<open>\<^verbatim>\<open>fieldRef.current.getBoundingClientRect()\<close>.\<close>

record field_rect =
  rect_left :: real
  rect_top :: real
  rect_width :: real
  rect_height :: real

text \<open>
  \<open>playerId\<close> is \<^verbatim>\<open>e.dataTransfer.getData('text/plain')\<close> (empty when nothing was
  dragged), \<open>rect\<close> is \<open>None\<close> while the field is not mounted, \<open>on_zone\<close> says whether
  the drop target lies in an element marked \<^verbatim>\<open>data-is-interactive-zone\<close>.
\<close>

definition handleFieldDrop :: "string \<Rightarrow> field_rect option \<Rightarrow> drawing_tool \<Rightarrow> positioning_mode
    \<Rightarrow> bool \<Rightarrow> pos \<Rightarrow> action option" where
  "handleFieldDrop playerId rect dtool mode on_zone client =
     (case rect of
        None \<Rightarrow> None
      | Some r \<Rightarrow>
          if dtool \<noteq> Tool_select \<or> playerId = [] then None
          else if mode = Mode_snap then None
          else if on_zone then None
          else Some (UPDATE_PLAYER_POSITION playerId
                 \<lparr>pos_x = (pos_x client - rect_left r) / rect_width r * 100,
                  pos_y = (pos_y client - rect_top r) / rect_height r * 100\<rparr>))"

definition handleSlotDrop :: "string \<Rightarrow> formation_slot \<Rightarrow> team \<Rightarrow> positioning_mode \<Rightarrow> pos
    \<Rightarrow> action option" where
  "handleSlotDrop playerId slot t mode client =
     (if playerId = [] then None
      else if slot_playerId slot = Some playerId then None
      else if js_present (slot_playerId slot) then
        Some (OPEN_SLOT_ACTION_MENU \<lparr>sourcePlayerId = playerId, targetSlotId = slot_id slot,
          targetPlayerId = slot_playerId slot, trigger = Trigger_drag, menu_position = client\<rparr>)
      else if mode = Mode_free then Some (UPDATE_PLAYER_POSITION playerId (defaultPosition slot))
      else Some (ASSIGN_PLAYER_TO_SLOT (slot_id slot) playerId t))"

text \<open>
  The bubble reads \<^verbatim>\<open>slot.id\<close> of the slot found for the player, which is
  \<^verbatim>\<open>undefined\<close> for a player of the team who holds no slot.
\<close>

definition handleActionBubbleClick :: "player \<Rightarrow> formation_slot option \<Rightarrow> field_rect
    \<Rightarrow> js_error + action" where
  "handleActionBubbleClick p slot r =
     (case slot of
        None \<Rightarrow> Inl (TypeError ''Cannot read properties of undefined (reading 'id')'')
      | Some s \<Rightarrow> Inr (OPEN_SLOT_ACTION_MENU \<lparr>sourcePlayerId = player_id p,
          targetSlotId = slot_id s, targetPlayerId = Some (player_id p), trigger = Trigger_click,
          menu_position = \<lparr>pos_x = rect_left r + rect_width r / 2, pos_y = rect_top r\<rparr>\<rparr>))"

text \<open>The cursor lies inside the field element of positive size.\<close>

definition inside_rect :: "pos \<Rightarrow> field_rect \<Rightarrow> bool" where
  "inside_rect c r \<longleftrightarrow> 0 < rect_width r \<and> 0 < rect_height r \<and>
     rect_left r \<le> pos_x c \<and> pos_x c \<le> rect_left r + rect_width r \<and>
     rect_top r \<le> pos_y c \<and> pos_y c \<le> rect_top r + rect_height r"

subsection \<open>What renderTeam puts on the pitch\<close>

text \<open>Each player of the team, the slot that holds it, and where it is drawn.\<close>

definition teamPlayers :: "player list \<Rightarrow> formation \<Rightarrow> team \<Rightarrow> (player \<times> formation_slot option \<times> pos) list" where
  "teamPlayers ps f t =
     map (\<lambda>p. (p, slot_of_player f (player_id p),
                if t = Away then mirrorPosition (position p) else position p))
       (filter (\<lambda>p. player_team p = t) ps)"

definition teamSlots :: "formation \<Rightarrow> team \<Rightarrow> formation_slot list" where
  "teamSlots f t = map (\<lambda>s. s\<lparr>defaultPosition := if t = Away then mirrorPosition (defaultPosition s)
     else defaultPosition s\<rparr>) (slots f)"

text \<open>The empty-slot drop zones: rendered in snap mode only.\<close>

definition emptySlotZones :: "positioning_mode \<Rightarrow> formation \<Rightarrow> team \<Rightarrow> formation_slot list" where
  "emptySlotZones mode f t =
     (if mode = Mode_snap then filter (\<lambda>s. \<not> js_present (slot_playerId s)) (teamSlots f t) else [])"

text \<open>A drop on a player token forwards to \<^verbatim>\<open>handleSlotDrop\<close> in snap mode, for a slotted player.\<close>

definition playerTokenDrop :: "positioning_mode \<Rightarrow> formation_slot option \<Rightarrow> team \<Rightarrow> string \<Rightarrow> pos
    \<Rightarrow> action option" where
  "playerTokenDrop mode slot t playerId client =
     (case slot of
        Some s \<Rightarrow> if mode = Mode_snap then handleSlotDrop playerId s t mode client else None
      | None \<Rightarrow> None)"

subsection \<open>The slot action menu (section 4.2)\<close>

definition open_slot_action_menu :: "slot_action_menu_data \<Rightarrow> ui_state \<Rightarrow> ui_state" where
  "open_slot_action_menu d u = u\<lparr>slotActionMenuData := Some d, activeModal := Some Modal_slotActionMenu\<rparr>"

definition close_slot_action_menu :: "ui_state \<Rightarrow> ui_state" where
  "close_slot_action_menu u = u\<lparr>slotActionMenuData := None, activeModal := None\<rparr>"

text \<open>The target slot, in the formation of the team given.\<close>

definition target_slot :: "formation \<Rightarrow> slot_action_menu_data \<Rightarrow> formation_slot option" where
  "target_slot f d = List.find (\<lambda>s. slot_id s = targetSlotId d) (slots f)"

text \<open>
  The menu data carries no team, and both active formations use the slot ids
  \<open>s1\<close>\ldots\<open>s11\<close>: the menu applies to the first active formation (home, then away)
  whose target slot holds the target player.
\<close>

definition menu_team :: "tactics_state \<Rightarrow> slot_action_menu_data \<Rightarrow> team option" where
  "menu_team ts d = List.find (\<lambda>t. case team_formation ts t of
        None \<Rightarrow> False
      | Some f \<Rightarrow> (case target_slot f d of None \<Rightarrow> False | Some s \<Rightarrow> slot_playerId s = targetPlayerId d))
     [Home, Away]"

text \<open>
  Swap: the source takes the target slot, the target takes the source's slot (or leaves
  the formation when the source held none); each moved player snaps to its new anchor.
\<close>

definition swap_in_team :: "team \<Rightarrow> string \<Rightarrow> string \<Rightarrow> string \<Rightarrow> tactics_state \<Rightarrow> tactics_state" where
  "swap_in_team t p q tsid ts =
     (case team_formation ts t of
        None \<Rightarrow> ts
      | Some f \<Rightarrow>
          let ps1 = (case List.find (\<lambda>s. slot_id s = tsid) (slots f) of
                       None \<Rightarrow> players ts
                     | Some s \<Rightarrow> set_player_position p (defaultPosition s) (players ts));
              ps2 = (case slot_of_player f p of
                       None \<Rightarrow> ps1
                     | Some s \<Rightarrow> set_player_position q (defaultPosition s) ps1)
          in ts\<lparr>formations := AList.update (team_get t (activeFormationIds ts))
                   (map_slots (swap_slots tsid p q) f) (formations ts),
                players := ps2\<rparr>)"

text \<open>Replace: the target is benched, the source takes the target slot.\<close>

definition replace_in_team :: "team \<Rightarrow> string \<Rightarrow> string \<Rightarrow> string \<Rightarrow> tactics_state \<Rightarrow> tactics_state" where
  "replace_in_team t p q tsid ts =
     (let ts1 = bench_player q ts in
      case team_formation ts1 t of
        None \<Rightarrow> ts1
      | Some f \<Rightarrow>
          ts1\<lparr>formations := AList.update (team_get t (activeFormationIds ts1))
                (map_slots (bind_slots tsid p) f) (formations ts1),
              players := (case List.find (\<lambda>s. slot_id s = tsid) (slots f) of
                            None \<Rightarrow> players ts1
                          | Some s \<Rightarrow> set_player_position p (defaultPosition s) (players ts1))\<rparr>)"

definition apply_slot_decision :: "slot_decision \<Rightarrow> slot_action_menu_data \<Rightarrow> tactics_state \<Rightarrow> tactics_state" where
  "apply_slot_decision dec d ts =
     (case dec of
        Decision_swap \<Rightarrow>
          (case (menu_team ts d, targetPlayerId d) of
             (Some t, Some q) \<Rightarrow> swap_in_team t (sourcePlayerId d) q (targetSlotId d) ts
           | _ \<Rightarrow> ts)
      | Decision_replace \<Rightarrow>
          (case (menu_team ts d, targetPlayerId d) of
             (Some t, Some q) \<Rightarrow> replace_in_team t (sourcePlayerId d) q (targetSlotId d) ts
           | _ \<Rightarrow> ts)
      | Decision_bench \<Rightarrow> bench_player (sourcePlayerId d) ts
      | Decision_captain \<Rightarrow> set_captain (sourcePlayerId d) ts
      | Decision_loan \<Rightarrow> ts)"

text \<open>A referenced player that is no longer on the roster makes the resolution stale.\<close>

definition menu_stale :: "tactics_state \<Rightarrow> slot_action_menu_data \<Rightarrow> bool" where
  "menu_stale ts d \<longleftrightarrow>
     find_player (players ts) (sourcePlayerId d) = None \<or>
     (case targetPlayerId d of None \<Rightarrow> False | Some q \<Rightarrow> find_player (players ts) q = None)"

definition resolve_slot_action :: "slot_decision \<Rightarrow> root_state \<Rightarrow> root_state" where
  "resolve_slot_action dec rs =
     (case slotActionMenuData (ui rs) of
        None \<Rightarrow> rs
      | Some d \<Rightarrow>
          let rs' = rs\<lparr>ui := close_slot_action_menu (ui rs)\<rparr> in
          if menu_stale (tactics rs) d then rs'
          else rs'\<lparr>tactics := apply_slot_decision dec d (tactics rs)\<rparr>)"

subsection \<open>Concrete inputs of the witnesses\<close>

definition swap_scenario_menu :: slot_action_menu_data where
  "swap_scenario_menu = \<lparr>sourcePlayerId = ''p1'', targetSlotId = ''s2'', targetPlayerId = Some ''p4'',
     trigger = Trigger_drag, menu_position = \<lparr>pos_x = 0, pos_y = 0\<rparr>\<rparr>"

definition stale_menu :: slot_action_menu_data where
  "stale_menu = \<lparr>sourcePlayerId = ''p2'', targetSlotId = ''s1'', targetPlayerId = Some ''p1'',
     trigger = Trigger_drag, menu_position = \<lparr>pos_x = 0, pos_y = 0\<rparr>\<rparr>"

definition demo_rect :: field_rect where
  "demo_rect = \<lparr>rect_left = 0, rect_top = 0, rect_width = 200, rect_height = 100\<rparr>"

subsection \<open>Resolver and rendering lemmas\<close>

lemma menu_team_SomeD:
  "menu_team ts d = Some t \<Longrightarrow> \<exists>f s. team_formation ts t = Some f \<and> target_slot f d = Some s \<and>
     s \<in> set (slots f) \<and> slot_id s = targetSlotId d \<and> slot_playerId s = targetPlayerId d"
  unfolding menu_team_def target_slot_def
  by (drule find_Some_in_set) (auto split: option.splits dest: find_Some_in_set)

lemma formation_wf_swap:
  "formation_wf f \<Longrightarrow> s \<in> set (slots f) \<Longrightarrow> slot_id s = tsid \<Longrightarrow> slot_playerId s = Some q \<Longrightarrow>
   formation_wf (map_slots (swap_slots tsid p q) f)"
  by (simp add: formation_wf_def map_slots_def distinct_bound_swap_slots)

lemma swap_in_team_wf:
  "formations_wf ts \<Longrightarrow> team_formation ts t = Some f \<Longrightarrow> target_slot f d = Some s \<Longrightarrow>
   slot_playerId s = Some q \<Longrightarrow> formations_wf (swap_in_team t p q (targetSlotId d) ts)"
  unfolding swap_in_team_def target_slot_def
  by (auto simp: Let_def team_formation_def intro!: formations_wf_update formation_wf_swap
      dest: find_Some_in_set formations_wf_lookup)

lemma team_formation_bench:
  "team_formation ts t = Some f \<Longrightarrow> team_formation (bench_player q ts) t = Some (map_slots (unbind_slots q) f)"
  by (simp add: team_formation_def bench_player_def map_of_map)

lemma replace_in_team_wf:
  "formations_wf ts \<Longrightarrow> formations_wf (replace_in_team t p q tsid ts)"
  unfolding replace_in_team_def
  by (auto simp: Let_def team_formation_def intro!: formations_wf_update_formations bench_player_wf
      dest: formations_wf_lookup[OF bench_player_wf] split: option.splits)

lemma set_captain_formations [simp]: "formations (set_captain p ts) = formations ts"
  by (simp add: set_captain_def split: option.splits)

lemma set_captain_wf: "formations_wf ts \<Longrightarrow> formations_wf (set_captain p ts)"
  by (simp add: formations_wf_def)

lemma apply_slot_decision_wf:
  "formations_wf ts \<Longrightarrow> formations_wf (apply_slot_decision dec d ts)"
proof (cases dec)
  case Decision_swap
  assume wf: "formations_wf ts"
  show ?thesis
  proof (cases "menu_team ts d")
    case (Some t)
    then obtain f s where "team_formation ts t = Some f" "target_slot f d = Some s"
        "slot_playerId s = targetPlayerId d"
      using menu_team_SomeD by blast
    with Some Decision_swap wf show ?thesis
      by (auto simp: apply_slot_decision_def intro: swap_in_team_wf split: option.splits)
  qed (simp add: apply_slot_decision_def Decision_swap wf)
qed (auto simp: apply_slot_decision_def replace_in_team_wf bench_player_wf set_captain_wf split: option.splits)

lemma slot_id_teamSlots [simp]: "map slot_id (teamSlots f t) = map slot_id (slots f)"
  by (simp add: teamSlots_def)

lemma free_mode_no_slot_drop:
  "emptySlotZones Mode_free f t = [] \<and> playerTokenDrop Mode_free slot t pid c = None"
  by (simp add: emptySlotZones_def playerTokenDrop_def split: option.split)

subsection \<open>Properties\<close>

text \<open>
  C4. Resolving the menu with the decision swap exchanges the two players' bindings
  in the formation whose target slot holds the target player: the slot ids are unchanged
  and the new bindings are the old ones with source and target transposed; the menu is
  closed. The witness is the scenario of section 8: in 4-4-2 with s1 bound to p1 and s2
  to p4, dragging p1 onto s2 opens the menu, and swap yields s1 to p4 and s2 to p1.
\<close>

theorem resolve_swap_exchanges:
  assumes menu: "slotActionMenuData (ui rs) = Some d"
    and fresh: "\<not> menu_stale (tactics rs) d"
    and team: "menu_team (tactics rs) d = Some t"
    and tgt: "targetPlayerId d = Some q"
    and wf: "formations_wf (tactics rs)"
  shows "\<exists>f f'. team_formation (tactics rs) t = Some f \<and>
     team_formation (tactics (resolve_slot_action Decision_swap rs)) t = Some f' \<and>
     map slot_id (slots f') = map slot_id (slots f) \<and>
     map slot_playerId (slots f') =
       map (map_option (transpose_id (sourcePlayerId d) q)) (map slot_playerId (slots f)) \<and>
     slotActionMenuData (ui (resolve_slot_action Decision_swap rs)) = None"
proof -
  obtain f s where f: "team_formation (tactics rs) t = Some f" and s: "s \<in> set (slots f)"
      "slot_id s = targetSlotId d" "slot_playerId s = Some q"
    using menu_team_SomeD[OF team] tgt by auto
  have fwf: "formation_wf f"
    using f wf by (simp add: team_formation_def formations_wf_lookup)
  have sw: "swap_slots (targetSlotId d) (sourcePlayerId d) q (slots f) =
      map (\<lambda>s. s\<lparr>slot_playerId := map_option (transpose_id (sourcePlayerId d) q) (slot_playerId s)\<rparr>) (slots f)"
    using fwf s by (intro swap_slots_transpose) (auto simp: formation_wf_def)
  have res: "resolve_slot_action Decision_swap rs = rs\<lparr>ui := close_slot_action_menu (ui rs),
      tactics := swap_in_team t (sourcePlayerId d) q (targetSlotId d) (tactics rs)\<rparr>"
    using menu fresh team tgt by (simp add: resolve_slot_action_def apply_slot_decision_def)
  show ?thesis
    using f sw by (auto simp: res swap_in_team_def map_slots_def close_slot_action_menu_def Let_def
        split: option.splits)
qed

theorem resolve_swap_scenario:
  "handleSlotDrop ''p1'' (mk_slot ''s2'' DF 30 85 (Some ''p4'')) Home Mode_snap \<lparr>pos_x = 0, pos_y = 0\<rparr> =
     Some (OPEN_SLOT_ACTION_MENU swap_scenario_menu) \<and>
   (\<exists>f'. team_formation (tactics (resolve_slot_action Decision_swap
       (INITIAL_STATE\<lparr>ui := open_slot_action_menu swap_scenario_menu (ui INITIAL_STATE)\<rparr>))) Home = Some f' \<and>
     map slot_playerId (slots f') = [Some ''p4'', Some ''p1'', Some ''player4_demo'', Some ''p11'', Some ''p3'',
       Some ''p9'', Some ''player3_demo'', Some ''player2_demo'', Some ''player1_demo'', Some ''p10'', Some ''p8''])"
proof -
  let ?rs = "INITIAL_STATE\<lparr>ui := open_slot_action_menu swap_scenario_menu (ui INITIAL_STATE)\<rparr>"
  have menu: "slotActionMenuData (ui ?rs) = Some swap_scenario_menu"
    by (simp add: open_slot_action_menu_def)
  have fresh: "\<not> menu_stale (tactics ?rs) swap_scenario_menu"
    by (simp add: menu_stale_def swap_scenario_menu_def INITIAL_STATE_def initial_tactics_def
        find_player_def defaultPlayers_def)
  have team: "menu_team (tactics ?rs) swap_scenario_menu = Some Home"
    by (simp add: menu_team_def team_formation_def target_slot_def swap_scenario_menu_def INITIAL_STATE_def
        initial_tactics_def initial_formations_def formation_442_def)
  have wf: "formations_wf (tactics ?rs)"
    by (simp add: formations_wf_def INITIAL_STATE_def initial_tactics_def initial_formations_def formation_wf_def
        formation_442_def formation_433_def formation_352_def)
  have f: "team_formation (tactics ?rs) Home = Some formation_442"
    by (simp add: team_formation_def INITIAL_STATE_def initial_tactics_def initial_formations_def)
  obtain f' where "team_formation (tactics (resolve_slot_action Decision_swap ?rs)) Home = Some f'"
      "map slot_playerId (slots f') = map (map_option (transpose_id ''p1'' ''p4'')) (map slot_playerId (slots formation_442))"
    using resolve_swap_exchanges[OF menu fresh team _ wf, of "''p4''"] f
    by (auto simp: swap_scenario_menu_def)
  moreover have "map (map_option (transpose_id ''p1'' ''p4'')) (map slot_playerId (slots formation_442)) =
      [Some ''p4'', Some ''p1'', Some ''player4_demo'', Some ''p11'', Some ''p3'',
       Some ''p9'', Some ''player3_demo'', Some ''player2_demo'', Some ''player1_demo'', Some ''p10'', Some ''p8'']"
    by (simp add: formation_442_def transpose_id_def)
  moreover have "handleSlotDrop ''p1'' (mk_slot ''s2'' DF 30 85 (Some ''p4'')) Home Mode_snap \<lparr>pos_x = 0, pos_y = 0\<rparr> =
     Some (OPEN_SLOT_ACTION_MENU swap_scenario_menu)"
    by (simp add: handleSlotDrop_def swap_scenario_menu_def)
  ultimately show ?thesis by auto
qed

text \<open>
  C7. Every decision of the resolver (swap, replace, bench, captain, loan) keeps slot
  exclusivity of all formations.
\<close>

theorem resolve_slot_action_preserves_wf:
  "formations_wf (tactics rs) \<Longrightarrow> formations_wf (tactics (resolve_slot_action dec rs))"
  by (simp add: resolve_slot_action_def Let_def apply_slot_decision_wf split: option.splits)

theorem resolve_wf_witness:
  "formations_wf (tactics (INITIAL_STATE\<lparr>ui := open_slot_action_menu swap_scenario_menu (ui INITIAL_STATE)\<rparr>)) \<and>
   formations_wf (tactics (resolve_slot_action Decision_replace
      (INITIAL_STATE\<lparr>ui := open_slot_action_menu swap_scenario_menu (ui INITIAL_STATE)\<rparr>)))"
proof -
  have wf: "formations_wf (tactics (INITIAL_STATE\<lparr>ui := open_slot_action_menu swap_scenario_menu (ui INITIAL_STATE)\<rparr>))"
    by (simp add: formations_wf_def INITIAL_STATE_def initial_tactics_def initial_formations_def formation_wf_def
        formation_442_def formation_433_def formation_352_def)
  show ?thesis using resolve_slot_action_preserves_wf[OF wf, of Decision_replace] wf by simp
qed

text \<open>
  A menu that refers to a player no longer on the roster resolves to a no-op: the
  tactics are unchanged and the menu and modal are closed. The witness resolves a menu
  whose source is the seed's captain id p2, which no seed player has.
\<close>

theorem resolve_stale_noop:
  assumes "slotActionMenuData (ui rs) = Some d" "menu_stale (tactics rs) d"
  shows "tactics (resolve_slot_action dec rs) = tactics rs \<and>
    slotActionMenuData (ui (resolve_slot_action dec rs)) = None \<and>
    activeModal (ui (resolve_slot_action dec rs)) = None"
  using assms by (simp add: resolve_slot_action_def close_slot_action_menu_def)

theorem resolve_stale_witness:
  "tactics (resolve_slot_action Decision_captain
      (INITIAL_STATE\<lparr>ui := open_slot_action_menu stale_menu (ui INITIAL_STATE)\<rparr>)) = initial_tactics \<and>
   slotActionMenuData (ui (resolve_slot_action Decision_captain
      (INITIAL_STATE\<lparr>ui := open_slot_action_menu stale_menu (ui INITIAL_STATE)\<rparr>))) = None \<and>
   activeModal (ui (resolve_slot_action Decision_captain
      (INITIAL_STATE\<lparr>ui := open_slot_action_menu stale_menu (ui INITIAL_STATE)\<rparr>))) = None"
proof -
  let ?rs = "INITIAL_STATE\<lparr>ui := open_slot_action_menu stale_menu (ui INITIAL_STATE)\<rparr>"
  have m: "slotActionMenuData (ui ?rs) = Some stale_menu" by (simp add: open_slot_action_menu_def)
  have st: "menu_stale (tactics ?rs) stale_menu"
    by (simp add: menu_stale_def stale_menu_def INITIAL_STATE_def initial_tactics_def find_player_def
        defaultPlayers_def)
  show ?thesis using resolve_stale_noop[OF m st, of Decision_captain] by (simp add: INITIAL_STATE_def)
qed

text \<open>
  Opening a menu while another is pending discards the pending one: resolving after
  two openings is resolving after the second alone.
\<close>

theorem open_menu_discards_pending:
  "resolve_slot_action dec (rs\<lparr>ui := open_slot_action_menu d2 (open_slot_action_menu d1 (ui rs))\<rparr>) =
   resolve_slot_action dec (rs\<lparr>ui := open_slot_action_menu d2 (ui rs)\<rparr>)"
  by (simp add: open_slot_action_menu_def)

text \<open>
  A drop on an empty-slot zone that renderTeam draws dispatches
  \<^verbatim>\<open>ASSIGN_PLAYER_TO_SLOT\<close> for that slot, the dragged player and the team: the zones exist
  in snap mode only, so the free-mode branch of \<^verbatim>\<open>handleSlotDrop\<close> is never taken from them.
\<close>

theorem empty_zone_drop_assigns:
  "s \<in> set (emptySlotZones mode f t) \<Longrightarrow> pid \<noteq> [] \<Longrightarrow>
   handleSlotDrop pid s t mode c = Some (ASSIGN_PLAYER_TO_SLOT (slot_id s) pid t)"
  by (auto simp: emptySlotZones_def handleSlotDrop_def js_present_def split: if_splits option.splits)

theorem empty_zone_drop_witness:
  "mk_slot ''s1'' GK 92 50 None \<in> set (emptySlotZones Mode_snap formation_433 Away) \<and>
   handleSlotDrop ''p12'' (mk_slot ''s1'' GK 92 50 None) Away Mode_snap \<lparr>pos_x = 0, pos_y = 0\<rparr> =
     Some (ASSIGN_PLAYER_TO_SLOT ''s1'' ''p12'' Away)"
proof -
  have z: "mk_slot ''s1'' GK 92 50 None \<in> set (emptySlotZones Mode_snap formation_433 Away)"
    by (simp add: emptySlotZones_def teamSlots_def formation_433_def mirrorPosition_def)
  show ?thesis using empty_zone_drop_assigns[OF z, of "''p12''"] z by simp
qed

text \<open>
  C32. A drop on the open pitch dispatches an action only in free mode with the select
  tool outside interactive zones, and then a position update whose coordinates lie in the
  percentage pitch whenever the cursor lies inside the field's rectangle.
\<close>

theorem field_drop_on_pitch:
  assumes "handleFieldDrop pid (Some r) dtool mode z c = Some a" "inside_rect c r"
  shows "mode = Mode_free \<and> dtool = Tool_select \<and> \<not> z \<and>
    (\<exists>q. a = UPDATE_PLAYER_POSITION pid q \<and> on_pitch q)"
proof -
  have d: "mode = Mode_free \<and> dtool = Tool_select \<and> \<not> z \<and> pid \<noteq> []"
    using assms(1) by (cases mode) (auto simp: handleFieldDrop_def split: if_splits)
  then have "handleFieldDrop pid (Some r) dtool mode z c = Some (UPDATE_PLAYER_POSITION pid
      \<lparr>pos_x = (pos_x c - rect_left r) / rect_width r * 100, pos_y = (pos_y c - rect_top r) / rect_height r * 100\<rparr>)"
    by (simp add: handleFieldDrop_def)
  then have a: "a = UPDATE_PLAYER_POSITION pid \<lparr>pos_x = (pos_x c - rect_left r) / rect_width r * 100,
             pos_y = (pos_y c - rect_top r) / rect_height r * 100\<rparr>"
    using assms(1) by simp
  have "on_pitch \<lparr>pos_x = (pos_x c - rect_left r) / rect_width r * 100,
             pos_y = (pos_y c - rect_top r) / rect_height r * 100\<rparr>"
    using assms(2) by (auto simp: on_pitch_def inside_rect_def pos_divide_le_eq intro!: divide_nonneg_pos)
  with d a show ?thesis by blast
qed

theorem field_drop_witness:
  "handleFieldDrop ''p12'' (Some demo_rect) Tool_select Mode_free False \<lparr>pos_x = 50, pos_y = 25\<rparr> =
     Some (UPDATE_PLAYER_POSITION ''p12'' \<lparr>pos_x = 25, pos_y = 25\<rparr>) \<and>
   inside_rect \<lparr>pos_x = 50, pos_y = 25\<rparr> demo_rect \<and> on_pitch \<lparr>pos_x = 25, pos_y = 25\<rparr>"
proof -
  have h: "handleFieldDrop ''p12'' (Some demo_rect) Tool_select Mode_free False \<lparr>pos_x = 50, pos_y = 25\<rparr> =
     Some (UPDATE_PLAYER_POSITION ''p12'' \<lparr>pos_x = 25, pos_y = 25\<rparr>)"
    by (simp add: handleFieldDrop_def demo_rect_def)
  have i: "inside_rect \<lparr>pos_x = 50, pos_y = 25\<rparr> demo_rect" by (simp add: inside_rect_def demo_rect_def)
  show ?thesis using field_drop_on_pitch[OF h i] h i by auto
qed

text \<open>
  C34. An away player dropped with the select tool in free mode on the open pitch, at the
  cursor point \<open>c\<close> of the field rectangle \<open>r\<close>, is dispatched to the percentage point
  \<open>q\<close> of \<open>c\<close>, stored at \<open>q\<close> and drawn by renderTeam at the mirror of \<open>q\<close>, which
  differs from \<open>q\<close> except at the centre spot: the handler does not undo the away-side
  mirroring before dispatching.
\<close>

theorem away_drop_drawn_mirrored:
  assumes "find_player (players ts) pid = Some p" "player_team p = Away" "pid \<noteq> []"
  shows "let q = \<lparr>pos_x = (pos_x c - rect_left r) / rect_width r * 100,
                  pos_y = (pos_y c - rect_top r) / rect_height r * 100\<rparr> in
         handleFieldDrop pid (Some r) Tool_select Mode_free False c = Some (UPDATE_PLAYER_POSITION pid q) \<and>
         (p\<lparr>position := q\<rparr>, slot_of_player f pid, mirrorPosition q)
           \<in> set (teamPlayers (players (update_player_position pid q ts)) f Away) \<and>
         (mirrorPosition q = q \<longleftrightarrow> q = \<lparr>pos_x = 50, pos_y = 50\<rparr>)"
proof -
  define q where "q = \<lparr>pos_x = (pos_x c - rect_left r) / rect_width r * 100,
                  pos_y = (pos_y c - rect_top r) / rect_height r * 100\<rparr>"
  have h: "handleFieldDrop pid (Some r) Tool_select Mode_free False c = Some (UPDATE_PLAYER_POSITION pid q)"
    using assms(3) by (simp add: handleFieldDrop_def q_def)
  from assms(1) have p: "p \<in> set (players ts)" "player_id p = pid" by (auto dest: find_player_in_set)
  then have "p\<lparr>position := q\<rparr> \<in> set (set_player_position pid q (players ts))"
    by (force simp: set_player_position_def)
  then have "(p\<lparr>position := q\<rparr>, slot_of_player f pid, mirrorPosition q)
      \<in> set (teamPlayers (players (update_player_position pid q ts)) f Away)"
    using p assms(2) by (force simp: teamPlayers_def update_player_position_def)
  moreover have "mirrorPosition q = q \<longleftrightarrow> q = \<lparr>pos_x = 50, pos_y = 50\<rparr>"
    by (cases q) (auto simp: mirrorPosition_def)
  ultimately show ?thesis using h unfolding Let_def q_def [symmetric] by blast
qed

theorem away_drop_witness:
  "handleFieldDrop ''p12'' (Some demo_rect) Tool_select Mode_free False \<lparr>pos_x = 50, pos_y = 25\<rparr> =
     Some (UPDATE_PLAYER_POSITION ''p12'' (mk_pos 25 25)) \<and>
   (mk_player ''p12'' ''C. Jones'' 17 ''cm'' Away (mk_pos 25 25) Available Morale_Good, None, mk_pos 75 75)
     \<in> set (teamPlayers (players (update_player_position ''p12'' (mk_pos 25 25) initial_tactics)) formation_433 Away)"
proof -
  have p: "find_player (players initial_tactics) ''p12'' = Some (mk_player ''p12'' ''C. Jones'' 17 ''cm'' Away
      (mk_pos (-100) (-100)) Available Morale_Good)"
    by (simp add: find_player_def initial_tactics_def defaultPlayers_def)
  have s: "slot_of_player formation_433 ''p12'' = None" by (simp add: slot_of_player_def formation_433_def)
  have q: "\<lparr>pos_x = (pos_x \<lparr>pos_x = 50, pos_y = 25\<rparr> - rect_left demo_rect) / rect_width demo_rect * 100,
      pos_y = (pos_y \<lparr>pos_x = 50, pos_y = 25\<rparr> - rect_top demo_rect) / rect_height demo_rect * 100\<rparr> = mk_pos 25 25"
    by (simp add: demo_rect_def)
  show ?thesis
    using away_drop_drawn_mirrored [OF p, of "\<lparr>pos_x = 50, pos_y = 25\<rparr>" demo_rect formation_433] s q
    by (simp add: Let_def mirrorPosition_def)
qed

text \<open>
  C35. The action bubble of a rendered player throws a TypeError exactly when the player
  holds no slot of the team's active formation (every away player of the seed state).
\<close>

theorem action_bubble_error_iff_unslotted:
  "(p, sl, x) \<in> set (teamPlayers ps f t) \<Longrightarrow>
   isl (handleActionBubbleClick p sl r) \<longleftrightarrow> player_id p \<notin> set (bound_ids f)"
  by (auto simp: teamPlayers_def handleActionBubbleClick_def slot_of_player_None_iff[symmetric]
      split: option.splits)

theorem action_bubble_error_witness:
  "(mk_player ''p12'' ''C. Jones'' 17 ''cm'' Away (mk_pos (-100) (-100)) Available Morale_Good, None, mk_pos 200 200)
     \<in> set (teamPlayers (players initial_tactics) formation_433 Away) \<and>
   isl (handleActionBubbleClick (mk_player ''p12'' ''C. Jones'' 17 ''cm'' Away (mk_pos (-100) (-100)) Available Morale_Good)
     None demo_rect)"
proof -
  have m: "(mk_player ''p12'' ''C. Jones'' 17 ''cm'' Away (mk_pos (-100) (-100)) Available Morale_Good, None, mk_pos 200 200)
     \<in> set (teamPlayers (players initial_tactics) formation_433 Away)"
    by (simp add: teamPlayers_def initial_tactics_def defaultPlayers_def slot_of_player_def formation_433_def
        mirrorPosition_def)
  have "''p12'' \<notin> set (bound_ids formation_433)" by (simp add: formation_433_def)
  then show ?thesis using action_bubble_error_iff_unslotted[OF m, of demo_rect] m by simp
qed

end
