(* ===== verification/Animation.thy ===== *)
theory Animation
  imports Formation
begin

text \<open>
  The playbook sequencer. The animation loop is the second \<^verbatim>\<open>useEffect\<close> of
  \<^verbatim>\<open>AppProvider\<close> in \<^verbatim>\<open>src/context/AppContext.tsx\<close> (lines 75--92): when the UI is
  animating, not paused, and an item is active, it either schedules a 2000 ms timer
  that dispatches \<^verbatim>\<open>SET_ACTIVE_STEP\<close> for the next step, or, at the last step,
  dispatches \<^verbatim>\<open>RESET_ANIMATION\<close>. \<open>animation_effect\<close> is that effect body: what it
  schedules or dispatches, or the \<open>TypeError\<close> it throws when the active id names no
  item. The reducer cases it feeds (\<^verbatim>\<open>SET_ACTIVE_STEP\<close>, \<^verbatim>\<open>START_ANIMATION\<close>,
  \<^verbatim>\<open>PAUSE_ANIMATION\<close>, \<^verbatim>\<open>RESET_ANIMATION\<close>, \<^verbatim>\<open>LOAD_PLAYBOOK_ITEM\<close>,
  \<^verbatim>\<open>DELETE_PLAYBOOK_ITEM\<close>) follow section 4.4 of the specification, the reducer not
  being among the repository's files.
\<close>

subsection \<open>The animation effect (AppContext.tsx)\<close>

text \<open>What one run of an effect body does besides returning a cleanup.\<close>

datatype effect =
    Schedule_timer nat action \<comment> \<open>\<^verbatim>\<open>setTimeout(() => dispatch(a), delay)\<close>, cleared by the cleanup\<close>
  | Dispatch_now action
  | No_effect

text \<open>\<^verbatim>\<open>state.ui.activeStepIndex || 0\<close>.\<close>

definition current_step_index :: "ui_state \<Rightarrow> int" where
  "current_step_index u = (case activeStepIndex u of None \<Rightarrow> 0 | Some i \<Rightarrow> i)"

definition animation_effect :: "root_state \<Rightarrow> js_error + effect" where
  "animation_effect s =
     (case activePlaybookItemId (ui s) of
        None \<Rightarrow> Inr No_effect
      | Some iid \<Rightarrow>
          if isAnimating (ui s) \<and> \<not> isPaused (ui s) \<and> iid \<noteq> [] then
            (let cur = current_step_index (ui s) in
             case map_of (playbook (tactics s)) iid of
               Some it \<Rightarrow>
                 if cur < int (length (steps it)) - 1
                 then Inr (Schedule_timer 2000 (SET_ACTIVE_STEP (cur + 1)))
                 else if cur \<ge> int (length (steps it)) - 1 then Inr (Dispatch_now RESET_ANIMATION)
                 else Inr No_effect
             | None \<Rightarrow> Inl (TypeError ''Cannot read properties of undefined (reading 'steps')''))
          else Inr No_effect)"

text \<open>The effect's dependency list; it runs again only when one of them changes.\<close>

definition animation_deps :: "root_state \<Rightarrow> bool \<times> bool \<times> int option \<times> string option" where
  "animation_deps s = (isAnimating (ui s), isPaused (ui s), activeStepIndex (ui s), activePlaybookItemId (ui s))"

subsection \<open>Steps applied to the live board (section 4.4)\<close>

definition active_item :: "root_state \<Rightarrow> playbook_item option" where
  "active_item s = (case activePlaybookItemId (ui s) of
     None \<Rightarrow> None | Some iid \<Rightarrow> map_of (playbook (tactics s)) iid)"

definition apply_step_positions :: "playbook_step \<Rightarrow> player list \<Rightarrow> player list" where
  "apply_step_positions st ps =
     map (\<lambda>p. case playerPositions st (player_id p) of None \<Rightarrow> p | Some x \<Rightarrow> p\<lparr>position := x\<rparr>) ps"

text \<open>One trail per player that moves between the previous and the new step, in the player's colour.\<close>

definition step_trails :: "player list \<Rightarrow> playbook_step \<Rightarrow> playbook_step \<Rightarrow> animation_trail list" where
  "step_trails ps prev st =
     somes (map (\<lambda>p. case (playerPositions prev (player_id p), playerPositions st (player_id p)) of
         (Some a, Some b) \<Rightarrow> if a = b then None
           else Some \<lparr>trail_playerId = player_id p, trail_points = [a, b], trail_color = teamColor p\<rparr>
       | _ \<Rightarrow> None) ps)"

text \<open>
  \<^verbatim>\<open>SET_ACTIVE_STEP\<close>: an index outside the active item's steps is rejected; otherwise the
  play-head moves, the step's positions and drawings are loaded and the trails from the
  previous step are computed.
\<close>

definition set_active_step :: "int \<Rightarrow> root_state \<Rightarrow> root_state" where
  "set_active_step i s =
     (case active_item s of
        None \<Rightarrow> s
      | Some it \<Rightarrow>
          if 0 \<le> i \<and> i < int (length (steps it)) then
            let st = steps it ! nat i;
                cur = current_step_index (ui s);
                trails = (if 0 \<le> cur \<and> cur < int (length (steps it))
                          then Some (step_trails (players (tactics s)) (steps it ! nat cur) st) else None)
            in s\<lparr>ui := (ui s)\<lparr>activeStepIndex := Some i, animationTrails := trails\<rparr>,
                 tactics := (tactics s)\<lparr>players := apply_step_positions st (players (tactics s)),
                                        drawings := step_drawings st\<rparr>\<rparr>
          else s)"

definition start_animation :: "root_state \<Rightarrow> root_state" where
  "start_animation s =
     (case active_item s of
        None \<Rightarrow> s
      | Some it \<Rightarrow> let s' = set_active_step 0 s in
          s'\<lparr>ui := (ui s')\<lparr>isAnimating := True, isPaused := False\<rparr>\<rparr>)"

definition pause_animation :: "root_state \<Rightarrow> root_state" where
  "pause_animation s =
     (if isAnimating (ui s) then s\<lparr>ui := (ui s)\<lparr>isPaused := \<not> isPaused (ui s)\<rparr>\<rparr> else s)"

definition reset_animation :: "root_state \<Rightarrow> root_state" where
  "reset_animation s =
     s\<lparr>ui := (ui s)\<lparr>isAnimating := False, isPaused := False, animationTrails := None,
        activeStepIndex := (case activePlaybookItemId (ui s) of None \<Rightarrow> activeStepIndex (ui s)
                            | Some _ \<Rightarrow> Some 0)\<rparr>\<rparr>"

text \<open>\<^verbatim>\<open>LOAD_PLAYBOOK_ITEM\<close>: an existing item becomes active at its first step, not animating.\<close>

definition load_playbook_item :: "string \<Rightarrow> root_state \<Rightarrow> root_state" where
  "load_playbook_item iid s =
     (case map_of (playbook (tactics s)) iid of
        None \<Rightarrow> s
      | Some it \<Rightarrow> let s' = s\<lparr>ui := (ui s)\<lparr>activePlaybookItemId := Some iid, activeStepIndex := None,
                                          isAnimating := False, isPaused := False\<rparr>\<rparr>
                   in set_active_step 0 s')"

text \<open>
  \<^verbatim>\<open>DELETE_PLAYBOOK_ITEM\<close>: the item leaves the playbook. Section 4.4 asks that deleting the
  active item cancel the playback; the model clears the active item and the animation
  flags in that case.
\<close>

definition delete_playbook_item :: "string \<Rightarrow> root_state \<Rightarrow> root_state" where
  "delete_playbook_item iid s =
     (let s' = s\<lparr>tactics := (tactics s)\<lparr>playbook := AList.delete iid (playbook (tactics s))\<rparr>\<rparr> in
      if activePlaybookItemId (ui s) = Some iid
      then s'\<lparr>ui := (ui s')\<lparr>activePlaybookItemId := None, activeStepIndex := None,
                              isAnimating := False, isPaused := False, animationTrails := None\<rparr>\<rparr>
      else s')"


text \<open>
  \<^verbatim>\<open>CREATE_PLAYBOOK_ITEM\<close> and \<^verbatim>\<open>ADD_PLAYBOOK_STEP\<close> (section 4.4): a new step is a
  snapshot of the live roster positions and drawings. A new item gets an id longer than
  every id of the playbook, hence fresh, with one seed step; it becomes the active item at
  step 0, not animating. A new step is appended to the active item and becomes the
  play-head.
\<close>

definition live_step :: "string \<Rightarrow> tactics_state \<Rightarrow> playbook_step" where
  "live_step sid ts = \<lparr>step_id = sid,
     playerPositions = map_of (map (\<lambda>p. (player_id p, position p)) (players ts)),
     step_drawings = drawings ts, step_event = None, playerRuns = None, ballPath = None\<rparr>"

definition fresh_item_id :: "(string \<times> playbook_item) list \<Rightarrow> string" where
  "fresh_item_id al = ''play_'' @ replicate (Suc (foldr (\<lambda>(k, _) m. max (length k) m) al 0)) (CHR ''0'')"

definition create_playbook_item :: "string \<Rightarrow> play_category \<Rightarrow> root_state \<Rightarrow> root_state" where
  "create_playbook_item nm cat s =
     (let iid = fresh_item_id (playbook (tactics s));
          it = \<lparr>item_id = iid, item_name = nm, category = cat,
                item_formationId = home (activeFormationIds (tactics s)),
                steps = [live_step (iid @ ''_step0'') (tactics s)]\<rparr>
      in s\<lparr>tactics := (tactics s)\<lparr>playbook := playbook (tactics s) @ [(iid, it)]\<rparr>,
           ui := (ui s)\<lparr>activePlaybookItemId := Some iid, activeStepIndex := Some 0,
                         isAnimating := False, isPaused := False, animationTrails := None\<rparr>\<rparr>)"

definition add_playbook_step :: "root_state \<Rightarrow> root_state" where
  "add_playbook_step s =
     (case activePlaybookItemId (ui s) of
        None \<Rightarrow> s
      | Some iid \<Rightarrow>
          (case map_of (playbook (tactics s)) iid of
             None \<Rightarrow> s
           | Some it \<Rightarrow>
               let st = live_step (iid @ ''_step'' @ replicate (length (steps it)) (CHR ''I'')) (tactics s)
               in s\<lparr>tactics := (tactics s)\<lparr>playbook :=
                      AList.update iid (it\<lparr>steps := steps it @ [st]\<rparr>) (playbook (tactics s))\<rparr>,
                    ui := (ui s)\<lparr>activeStepIndex := Some (int (length (steps it)))\<rparr>\<rparr>))"

subsection \<open>Concrete inputs of the witnesses\<close>

text \<open>Animating a play whose id is not in the playbook (deleted, or never loaded).\<close>

definition dangling_animation_state :: root_state where
  "dangling_animation_state = INITIAL_STATE\<lparr>ui := initial_ui\<lparr>isAnimating := True,
     activePlaybookItemId := Some ''ghost''\<rparr>\<rparr>"

subsection \<open>Lemmas: the effect's branches and the reducer cases\<close>

lemma animation_effect_schedule:
  "isAnimating (ui s) \<Longrightarrow> \<not> isPaused (ui s) \<Longrightarrow> activePlaybookItemId (ui s) = Some iid \<Longrightarrow> iid \<noteq> [] \<Longrightarrow>
   map_of (playbook (tactics s)) iid = Some it \<Longrightarrow> current_step_index (ui s) < int (length (steps it)) - 1 \<Longrightarrow>
   animation_effect s = Inr (Schedule_timer 2000 (SET_ACTIVE_STEP (current_step_index (ui s) + 1)))"
  by (simp add: animation_effect_def)

lemma animation_effect_reset:
  "isAnimating (ui s) \<Longrightarrow> \<not> isPaused (ui s) \<Longrightarrow> activePlaybookItemId (ui s) = Some iid \<Longrightarrow> iid \<noteq> [] \<Longrightarrow>
   map_of (playbook (tactics s)) iid = Some it \<Longrightarrow> int (length (steps it)) - 1 \<le> current_step_index (ui s) \<Longrightarrow>
   animation_effect s = Inr (Dispatch_now RESET_ANIMATION)"
  by (simp add: animation_effect_def)

lemma animation_effect_idle:
  "\<not> isAnimating (ui s) \<Longrightarrow> animation_effect s = Inr No_effect"
  by (simp add: animation_effect_def split: option.split)

lemma set_active_step_frame [frame_simps]:
  "isAnimating (ui (set_active_step i s)) = isAnimating (ui s)"
  "isPaused (ui (set_active_step i s)) = isPaused (ui s)"
  "activePlaybookItemId (ui (set_active_step i s)) = activePlaybookItemId (ui s)"
  "playbook (tactics (set_active_step i s)) = playbook (tactics s)"
  "formations (tactics (set_active_step i s)) = formations (tactics s)"
  by (simp_all add: set_active_step_def Let_def split: option.split)

lemma active_item_set_active_step [simp]: "active_item (set_active_step i s) = active_item s"
  by (simp add: active_item_def set_active_step_frame split: option.split)

lemma set_active_step_index:
  "active_item s = Some it \<Longrightarrow> 0 \<le> i \<Longrightarrow> i < int (length (steps it)) \<Longrightarrow>
   activeStepIndex (ui (set_active_step i s)) = Some i"
  by (simp add: set_active_step_def Let_def)

lemma set_active_step_rejects:
  "active_item s = Some it \<Longrightarrow> \<not> (0 \<le> i \<and> i < int (length (steps it))) \<Longrightarrow> set_active_step i s = s"
  by (auto simp: set_active_step_def)

text \<open>
  The play-head stays inside the play: \<^verbatim>\<open>SET_ACTIVE_STEP\<close> either leaves it where it
  was or moves it to an index of the active item's step list.
\<close>

theorem set_active_step_in_range:
  "activeStepIndex (ui (set_active_step i s)) = activeStepIndex (ui s) \<or>
   (\<exists>it. active_item s = Some it \<and> activeStepIndex (ui (set_active_step i s)) = Some i \<and>
          0 \<le> i \<and> i < int (length (steps it)))"
  by (auto simp: set_active_step_def Let_def split: option.split)

lemma reset_animation_stops: "\<not> isAnimating (ui (reset_animation s))"
  by (simp add: reset_animation_def)

text \<open>
  C36. While animating, an active playbook id that names no item makes the animation
  effect throw: the guard \<^verbatim>\<open>activeItem &&\<close> protects the first branch only, and the
  \<^verbatim>\<open>else if\<close> reads \<^verbatim>\<open>activeItem.steps\<close> of \<^verbatim>\<open>undefined\<close>.
\<close>

theorem animation_effect_dangling_error:
  "isAnimating (ui s) \<Longrightarrow> \<not> isPaused (ui s) \<Longrightarrow> activePlaybookItemId (ui s) = Some iid \<Longrightarrow> iid \<noteq> [] \<Longrightarrow>
   map_of (playbook (tactics s)) iid = None \<Longrightarrow> isl (animation_effect s)"
  by (simp add: animation_effect_def)

theorem animation_dangling_witness:
  "isl (animation_effect dangling_animation_state)"
  by (rule animation_effect_dangling_error [of _ "''ghost''"])
    (simp_all add: dangling_animation_state_def INITIAL_STATE_def initial_ui_def initial_tactics_def initial_formations_def)


end
