(* ===== verification/Persistence.thy ===== *)
theory Persistence
  imports Seed
begin

text \<open>
  The persistence normalizer of \<^verbatim>\<open>src/context/AppContext.tsx\<close>.
  \<^verbatim>\<open>cleanStateForSaving\<close> (lines 12--47) bakes the live positions and drawings into the
  active playbook step, deletes the transient keys of \<open>ui\<close> and \<open>franchise\<close> one by
  one in the order of the two key lists, drops \<open>auth\<close> and stamps \<^verbatim>\<open>APP_VERSION\<close>. The
  mount effect (lines 59--72) reads the active snapshot back and dispatches
  \<^verbatim>\<open>LOAD_STATE\<close> only when its version matches, removing it otherwise; the save effect
  (lines 94--111) writes the snapshot under the save slot's key and under the active key.
  Local storage is a record of the three keys the code uses, each holding a parsed JSON
  value or a value \<^verbatim>\<open>JSON.parse\<close> rejects. \<^verbatim>\<open>LOAD_STATE\<close> is a reducer case (not in the
  repository): it follows section 4.6, keeping the current \<open>auth\<close> and taking every
  key absent from the snapshot from \<^verbatim>\<open>INITIAL_STATE\<close>.
\<close>

subsection \<open>Transient keys\<close>

text \<open>The keys of \<^verbatim>\<open>transientUIKeys\<close>, in the order of the source list.\<close>

datatype ui_key =
    UK_activeModal | UK_isLoadingAI | UK_editingPlayerId | UK_playerToCompareId
  | UK_aiComparisonResult | UK_isComparingAI | UK_slotActionMenuData | UK_isAnimating
  | UK_playerInitialPositions | UK_animationTrails | UK_isSuggestingFormation
  | UK_aiSuggestedFormation | UK_chatHistory | UK_isChatProcessing | UK_highlightedByAIPlayerIds
  | UK_isExportingLineup | UK_isPresentationMode | UK_notifications | UK_rosterSearchQuery
  | UK_rosterRoleFilters | UK_isGridVisible | UK_playbookCategories | UK_isFormationStrengthVisible
  | UK_isLoadingOppositionReport | UK_oppositionReport | UK_advancedRosterFilters
  | UK_isSimulatingMatch | UK_simulationTimeline | UK_isLoadingPostMatchReport | UK_postMatchReport
  | UK_isLoadingPressConference | UK_pressConferenceData | UK_isLoadingAISubSuggestion
  | UK_aiSubSuggestionData | UK_isScoutingPlayer | UK_scoutedPlayerId | UK_scoutReport
  | UK_isLoadingConversation | UK_playerConversationData

definition transientUIKeys :: "ui_key list" where
  "transientUIKeys =
    [UK_activeModal, UK_isLoadingAI, UK_editingPlayerId, UK_playerToCompareId, UK_aiComparisonResult,
     UK_isComparingAI, UK_slotActionMenuData, UK_isAnimating, UK_playerInitialPositions,
     UK_animationTrails, UK_isSuggestingFormation, UK_aiSuggestedFormation, UK_chatHistory,
     UK_isChatProcessing, UK_highlightedByAIPlayerIds, UK_isExportingLineup, UK_isPresentationMode,
     UK_notifications, UK_rosterSearchQuery, UK_rosterRoleFilters, UK_isGridVisible,
     UK_playbookCategories, UK_isFormationStrengthVisible, UK_isLoadingOppositionReport,
     UK_oppositionReport, UK_advancedRosterFilters, UK_isSimulatingMatch, UK_simulationTimeline,
     UK_isLoadingPostMatchReport, UK_postMatchReport, UK_isLoadingPressConference,
     UK_pressConferenceData, UK_isLoadingAISubSuggestion, UK_aiSubSuggestionData,
     UK_isScoutingPlayer, UK_scoutedPlayerId, UK_scoutReport, UK_isLoadingConversation,
     UK_playerConversationData]"

datatype franchise_key = FK_negotiationData | FK_lastMatchResult

definition transientFranchiseKeys :: "franchise_key list" where
  "transientFranchiseKeys = [FK_negotiationData, FK_lastMatchResult]"

text \<open>
  \<^verbatim>\<open>delete draft.ui[key]\<close>. Keys of UI fields outside the \<open>ui_state\<close> record (chat,
  AI reports, filters, simulation) delete nothing the model holds.
\<close>

fun delete_ui_key :: "ui_key \<Rightarrow> ui_snapshot \<Rightarrow> ui_snapshot" where
  "delete_ui_key UK_activeModal u = u\<lparr>s_activeModal := None\<rparr>"
| "delete_ui_key UK_isLoadingAI u = u\<lparr>s_isLoadingAI := None\<rparr>"
| "delete_ui_key UK_editingPlayerId u = u\<lparr>s_editingPlayerId := None\<rparr>"
| "delete_ui_key UK_slotActionMenuData u = u\<lparr>s_slotActionMenuData := None\<rparr>"
| "delete_ui_key UK_isAnimating u = u\<lparr>s_isAnimating := None\<rparr>"
| "delete_ui_key UK_playerInitialPositions u = u\<lparr>s_playerInitialPositions := None\<rparr>"
| "delete_ui_key UK_animationTrails u = u\<lparr>s_animationTrails := None\<rparr>"
| "delete_ui_key UK_highlightedByAIPlayerIds u = u\<lparr>s_highlightedByAIPlayerIds := None\<rparr>"
| "delete_ui_key UK_isPresentationMode u = u\<lparr>s_isPresentationMode := None\<rparr>"
| "delete_ui_key UK_notifications u = u\<lparr>s_notifications := None\<rparr>"
| "delete_ui_key UK_rosterSearchQuery u = u\<lparr>s_rosterSearchQuery := None\<rparr>"
| "delete_ui_key UK_isGridVisible u = u\<lparr>s_isGridVisible := None\<rparr>"
| "delete_ui_key UK_playbookCategories u = u\<lparr>s_playbookCategories := None\<rparr>"
| "delete_ui_key UK_isFormationStrengthVisible u = u\<lparr>s_isFormationStrengthVisible := None\<rparr>"
| "delete_ui_key _ u = u"

fun delete_franchise_key :: "franchise_key \<Rightarrow> franchise_snapshot \<Rightarrow> franchise_snapshot" where
  "delete_franchise_key FK_negotiationData f = f\<lparr>s_negotiationData := None\<rparr>"
| "delete_franchise_key FK_lastMatchResult f = f\<lparr>s_lastMatchResult := None\<rparr>"

subsection \<open>Writing: cleanStateForSaving\<close>

text \<open>The live objects as JSON objects with every key present.\<close>

definition ui_to_snapshot :: "ui_state \<Rightarrow> ui_snapshot" where
  "ui_to_snapshot u = \<lparr>s_activeSaveSlotId = Some (activeSaveSlotId u),
     s_notifications = Some (notifications u), s_activeTeamContext = Some (activeTeamContext u),
     s_activeModal = Some (activeModal u), s_editingPlayerId = Some (editingPlayerId u),
     s_slotActionMenuData = Some (slotActionMenuData u), s_drawingTool = Some (drawingTool u),
     s_isGridVisible = Some (isGridVisible u), s_isFormationStrengthVisible = Some (isFormationStrengthVisible u),
     s_positioningMode = Some (positioningMode u), s_activePlaybookItemId = Some (activePlaybookItemId u),
     s_activeStepIndex = Some (activeStepIndex u), s_isAnimating = Some (isAnimating u),
     s_isPaused = Some (isPaused u), s_playerInitialPositions = Some (playerInitialPositions u),
     s_animationTrails = Some (animationTrails u), s_isPresentationMode = Some (isPresentationMode u),
     s_rosterSearchQuery = Some (rosterSearchQuery u), s_playbookCategories = Some (playbookCategories u),
     s_isLoadingAI = Some (isLoadingAI u), s_aiInsight = Some (aiInsight u),
     s_highlightedByAIPlayerIds = Some (highlightedByAIPlayerIds u),
     s_isLoadingNegotiation = Some (isLoadingNegotiation u), s_selectedPlayerId = Some (selectedPlayerId u),
     s_isLoadingDevelopmentSummary = Some (isLoadingDevelopmentSummary u),
     s_isLoadingTeamTalk = Some (isLoadingTeamTalk u)\<rparr>"

definition franchise_to_snapshot :: "franchise_state \<Rightarrow> franchise_snapshot" where
  "franchise_to_snapshot f = \<lparr>s_gameWeek = Some (gameWeek f), s_mentoringGroups = Some (mentoringGroups f),
     s_relationships = Some (relationships f), s_lastMatchResult = Some (lastMatchResult f),
     s_negotiationData = Some (negotiationData f)\<rparr>"

text \<open>\<^verbatim>\<open>players.reduce((acc, p) => { acc[p.id] = p.position; return acc }, {})\<close>.\<close>

definition positions_record :: "player list \<Rightarrow> (string \<rightharpoonup> pos)" where
  "positions_record ps = fold (\<lambda>p acc. acc(player_id p \<mapsto> position p)) ps Map.empty"

text \<open>Lines 14--25: the live positions and drawings overwrite the active step.\<close>

definition bake_active_step :: "root_state \<Rightarrow> root_state" where
  "bake_active_step s =
     (case (activePlaybookItemId (ui s), activeStepIndex (ui s)) of
        (Some iid, Some k) \<Rightarrow>
          if iid = [] then s
          else (case map_of (playbook (tactics s)) iid of
                  None \<Rightarrow> s
                | Some it \<Rightarrow>
                    if 0 \<le> k \<and> k < int (length (steps it)) then
                      let st = steps it ! nat k;
                          st' = st\<lparr>playerPositions := positions_record (players (tactics s)),
                                   step_drawings := drawings (tactics s)\<rparr>
                      in s\<lparr>tactics := (tactics s)\<lparr>playbook :=
                           AList.update iid (it\<lparr>steps := (steps it)[nat k := st']\<rparr>) (playbook (tactics s))\<rparr>\<rparr>
                    else s)
      | _ \<Rightarrow> s)"

definition cleanStateForSaving :: "root_state \<Rightarrow> snapshot" where
  "cleanStateForSaving s =
     (let s' = bake_active_step s in
      \<lparr>snap_tactics = tactics s',
       snap_franchise = fold delete_franchise_key transientFranchiseKeys (franchise_to_snapshot (franchise s')),
       snap_ui = fold delete_ui_key transientUIKeys (ui_to_snapshot (ui s')),
       snap_version = APP_VERSION\<rparr>)"

subsection \<open>Reading: LOAD\_STATE over the defaults\<close>

definition or_default :: "'a option \<Rightarrow> 'a \<Rightarrow> 'a" where
  "or_default v d = (case v of None \<Rightarrow> d | Some x \<Rightarrow> x)"

definition ui_of_snapshot :: "ui_snapshot \<Rightarrow> ui_state \<Rightarrow> ui_state" where
  "ui_of_snapshot sn d = \<lparr>activeSaveSlotId = or_default (s_activeSaveSlotId sn) (activeSaveSlotId d),
     notifications = or_default (s_notifications sn) (notifications d),
     activeTeamContext = or_default (s_activeTeamContext sn) (activeTeamContext d),
     activeModal = or_default (s_activeModal sn) (activeModal d),
     editingPlayerId = or_default (s_editingPlayerId sn) (editingPlayerId d),
     slotActionMenuData = or_default (s_slotActionMenuData sn) (slotActionMenuData d),
     drawingTool = or_default (s_drawingTool sn) (drawingTool d),
     isGridVisible = or_default (s_isGridVisible sn) (isGridVisible d),
     isFormationStrengthVisible = or_default (s_isFormationStrengthVisible sn) (isFormationStrengthVisible d),
     positioningMode = or_default (s_positioningMode sn) (positioningMode d),
     activePlaybookItemId = or_default (s_activePlaybookItemId sn) (activePlaybookItemId d),
     activeStepIndex = or_default (s_activeStepIndex sn) (activeStepIndex d),
     isAnimating = or_default (s_isAnimating sn) (isAnimating d),
     isPaused = or_default (s_isPaused sn) (isPaused d),
     playerInitialPositions = or_default (s_playerInitialPositions sn) (playerInitialPositions d),
     animationTrails = or_default (s_animationTrails sn) (animationTrails d),
     isPresentationMode = or_default (s_isPresentationMode sn) (isPresentationMode d),
     rosterSearchQuery = or_default (s_rosterSearchQuery sn) (rosterSearchQuery d),
     playbookCategories = or_default (s_playbookCategories sn) (playbookCategories d),
     isLoadingAI = or_default (s_isLoadingAI sn) (isLoadingAI d),
     aiInsight = or_default (s_aiInsight sn) (aiInsight d),
     highlightedByAIPlayerIds = or_default (s_highlightedByAIPlayerIds sn) (highlightedByAIPlayerIds d),
     isLoadingNegotiation = or_default (s_isLoadingNegotiation sn) (isLoadingNegotiation d),
     selectedPlayerId = or_default (s_selectedPlayerId sn) (selectedPlayerId d),
     isLoadingDevelopmentSummary = or_default (s_isLoadingDevelopmentSummary sn) (isLoadingDevelopmentSummary d),
     isLoadingTeamTalk = or_default (s_isLoadingTeamTalk sn) (isLoadingTeamTalk d)\<rparr>"

definition franchise_of_snapshot :: "franchise_snapshot \<Rightarrow> franchise_state \<Rightarrow> franchise_state" where
  "franchise_of_snapshot sn d = \<lparr>gameWeek = or_default (s_gameWeek sn) (gameWeek d),
     mentoringGroups = or_default (s_mentoringGroups sn) (mentoringGroups d),
     relationships = or_default (s_relationships sn) (relationships d),
     lastMatchResult = or_default (s_lastMatchResult sn) (lastMatchResult d),
     negotiationData = or_default (s_negotiationData sn) (negotiationData d)\<rparr>"

definition load_state :: "snapshot \<Rightarrow> root_state \<Rightarrow> root_state" where
  "load_state sn s = \<lparr>auth = auth s, tactics = snap_tactics sn,
     franchise = franchise_of_snapshot (snap_franchise sn) initial_franchise,
     ui = ui_of_snapshot (snap_ui sn) initial_ui\<rparr>"

subsection \<open>Local storage\<close>

text \<open>A stored string: JSON that parses to a value, or text \<^verbatim>\<open>JSON.parse\<close> throws on.\<close>

datatype 'a json_value = Parsed 'a | Malformed

record save_slot =
  save_slot_id :: string
  save_slot_name :: string
  lastSaved :: string
  appVersion :: string

text \<open>
  \<^verbatim>\<open>astralTurfActiveState\<close>, the \<^verbatim>\<open>astralTurfSave_<id>\<close> keys, and
  \<^verbatim>\<open>astralTurfSaveSlots\<close>.
\<close>

record storage =
  active_state :: "snapshot json_value option"
  slot_states :: "string \<rightharpoonup> snapshot json_value"
  save_slots_index :: "(string \<rightharpoonup> save_slot) json_value option"

text \<open>
  The save effect at time \<open>now\<close> (an ISO date string). A malformed slot index makes
  \<^verbatim>\<open>JSON.parse\<close> throw after the slot's snapshot is written; the \<^verbatim>\<open>catch\<close> then
  skips the write of the active snapshot.
\<close>

definition save_effect :: "string \<Rightarrow> root_state \<Rightarrow> storage \<Rightarrow> storage" where
  "save_effect now s st =
     (let snap = cleanStateForSaving s in
      case activeSaveSlotId (ui s) of
        Some sid \<Rightarrow>
          if sid = [] then st\<lparr>active_state := Some (Parsed snap)\<rparr>
          else (let st1 = st\<lparr>slot_states := (slot_states st)(sid \<mapsto> Parsed snap)\<rparr> in
                case save_slots_index st of
                  Some Malformed \<Rightarrow> st1
                | idx \<Rightarrow>
                    let slots = (case idx of Some (Parsed m) \<Rightarrow> m | _ \<Rightarrow> Map.empty);
                        st2 = (case slots sid of
                                 None \<Rightarrow> st1
                               | Some m \<Rightarrow> st1\<lparr>save_slots_index := Some (Parsed (slots(sid \<mapsto> m\<lparr>lastSaved := now\<rparr>)))\<rparr>)
                    in st2\<lparr>active_state := Some (Parsed snap)\<rparr>)
      | None \<Rightarrow> st\<lparr>active_state := Some (Parsed snap)\<rparr>)"

text \<open>What the mount effect does with the stored active snapshot.\<close>

datatype restore_outcome = Restore_dispatch action | Restore_discard | Restore_nothing

definition restore_saved_state :: "snapshot json_value option \<Rightarrow> restore_outcome" where
  "restore_saved_state v =
     (case v of
        None \<Rightarrow> Restore_nothing
      | Some Malformed \<Rightarrow> Restore_nothing
      | Some (Parsed sn) \<Rightarrow>
          if snap_version sn = APP_VERSION then Restore_dispatch (LOAD_STATE sn) else Restore_discard)"

subsection \<open>Concrete inputs of the witnesses\<close>

text \<open>A two-step play whose second step is live, with a team-talk request in flight.\<close>

definition demo_step :: "string \<Rightarrow> playbook_step" where
  "demo_step sid = \<lparr>step_id = sid, playerPositions = Map.empty, step_drawings = [], step_event = None,
     playerRuns = None, ballPath = None\<rparr>"

definition demo_item :: playbook_item where
  "demo_item = \<lparr>item_id = ''pb1'', item_name = ''Overlap'', category = General,
     item_formationId = ''f442'', steps = [demo_step ''st1'', demo_step ''st2'']\<rparr>"

definition demo_playbook_state :: root_state where
  "demo_playbook_state = INITIAL_STATE\<lparr>tactics := initial_tactics\<lparr>playbook := [(''pb1'', demo_item)]\<rparr>,
     ui := initial_ui\<lparr>activePlaybookItemId := Some ''pb1'', activeStepIndex := Some 1,
                      isLoadingTeamTalk := True\<rparr>\<rparr>"

definition demo_saving_state :: root_state where
  "demo_saving_state = INITIAL_STATE\<lparr>ui := initial_ui\<lparr>activeSaveSlotId := Some ''slot1''\<rparr>\<rparr>"

definition corrupt_index_storage :: storage where
  "corrupt_index_storage = \<lparr>active_state = None, slot_states = Map.empty, save_slots_index = Some Malformed\<rparr>"


subsection \<open>Normalizer and storage lemmas\<close>

lemma bake_active_step_frame [frame_simps]:
  "ui (bake_active_step s) = ui s"
  "franchise (bake_active_step s) = franchise s"
  "auth (bake_active_step s) = auth s"
  "players (tactics (bake_active_step s)) = players (tactics s)"
  "formations (tactics (bake_active_step s)) = formations (tactics s)"
  "drawings (tactics (bake_active_step s)) = drawings (tactics s)"
  by (simp_all add: bake_active_step_def Let_def split: option.split prod.split)

lemma positions_record_fold:
  "fold (\<lambda>p acc. acc(player_id p \<mapsto> position p)) ps m = m ++ map_of (rev (map (\<lambda>p. (player_id p, position p)) ps))"
  by (induction ps arbitrary: m) (simp_all add: map_add_def fun_eq_iff split: option.split)

lemma positions_record_lookup:
  "distinct (map player_id ps) \<Longrightarrow> p \<in> set ps \<Longrightarrow> positions_record ps (player_id p) = Some (position p)"
  unfolding positions_record_def positions_record_fold
  by (simp, rule map_of_is_SomeI) (simp_all add: rev_map[symmetric] o_def)

lemma ui_of_clean_snapshot:
  "ui_of_snapshot (fold delete_ui_key transientUIKeys (ui_to_snapshot u)) d =
   u\<lparr>activeModal := activeModal d, isLoadingAI := isLoadingAI d, editingPlayerId := editingPlayerId d,
     slotActionMenuData := slotActionMenuData d, isAnimating := isAnimating d,
     playerInitialPositions := playerInitialPositions d, animationTrails := animationTrails d,
     highlightedByAIPlayerIds := highlightedByAIPlayerIds d, isPresentationMode := isPresentationMode d,
     notifications := notifications d, rosterSearchQuery := rosterSearchQuery d,
     isGridVisible := isGridVisible d, playbookCategories := playbookCategories d,
     isFormationStrengthVisible := isFormationStrengthVisible d\<rparr>"
  by (simp add: transientUIKeys_def ui_to_snapshot_def ui_of_snapshot_def or_default_def)

lemma franchise_of_clean_snapshot:
  "franchise_of_snapshot (fold delete_franchise_key transientFranchiseKeys (franchise_to_snapshot f)) d =
   f\<lparr>lastMatchResult := lastMatchResult d, negotiationData := negotiationData d\<rparr>"
  by (simp add: transientFranchiseKeys_def franchise_to_snapshot_def franchise_of_snapshot_def or_default_def)

lemma cleanStateForSaving_parts:
  "snap_tactics (cleanStateForSaving s) = tactics (bake_active_step s)"
  "snap_version (cleanStateForSaving s) = APP_VERSION"
  "ui_of_snapshot (snap_ui (cleanStateForSaving s)) d = ui_of_snapshot (fold delete_ui_key transientUIKeys (ui_to_snapshot (ui s))) d"
  "franchise_of_snapshot (snap_franchise (cleanStateForSaving s)) df =
   franchise_of_snapshot (fold delete_franchise_key transientFranchiseKeys (franchise_to_snapshot (franchise s))) df"
  by (simp_all add: cleanStateForSaving_def Let_def frame_simps)

lemmas load_clean_simps = load_state_def cleanStateForSaving_parts ui_of_clean_snapshot franchise_of_clean_snapshot

lemma restore_other_version:
  "snap_version sn \<noteq> APP_VERSION \<Longrightarrow> restore_saved_state (Some (Parsed sn)) = Restore_discard"
  by (simp add: restore_saved_state_def)

lemma restore_cleaned:
  "restore_saved_state (Some (Parsed (cleanStateForSaving s))) = Restore_dispatch (LOAD_STATE (cleanStateForSaving s))"
  by (simp add: restore_saved_state_def cleanStateForSaving_parts)

lemma save_effect_active:
  "save_slots_index st \<noteq> Some Malformed \<or> \<not> js_present (activeSaveSlotId (ui s)) \<Longrightarrow>
   active_state (save_effect now s st) = Some (Parsed (cleanStateForSaving s))"
  by (auto simp: save_effect_def Let_def split: option.split json_value.split)

text \<open>
  C6. Snapshot round trip: loading the normalized snapshot gives back the baked tactics,
  every persisted UI and franchise field unchanged, the transient fields at their
  \<^verbatim>\<open>INITIAL_STATE\<close> defaults, and the current session's \<open>auth\<close>.
\<close>

theorem save_load_roundtrip:
  "load_state (cleanStateForSaving s) s0 =
   \<lparr>auth = auth s0, tactics = tactics (bake_active_step s),
    franchise = (franchise s)\<lparr>lastMatchResult := None, negotiationData := None\<rparr>,
    ui = (ui s)\<lparr>activeModal := None, isLoadingAI := False, editingPlayerId := None,
       slotActionMenuData := None, isAnimating := False, playerInitialPositions := None,
       animationTrails := None, highlightedByAIPlayerIds := [], isPresentationMode := False,
       notifications := [], rosterSearchQuery := [], isGridVisible := False,
       playbookCategories := [''General'' \<mapsto> True], isFormationStrengthVisible := False\<rparr>\<rparr>"
  by (simp add: load_clean_simps initial_ui_def initial_franchise_def)

text \<open>
  C13. Before writing, the live step of the active play is re-synced: the saved step maps
  every roster player to its live position and holds the live drawings, and every other
  step is saved as it was.
\<close>

theorem clean_bakes_live_step:
  assumes "activePlaybookItemId (ui s) = Some iid" "iid \<noteq> []" "activeStepIndex (ui s) = Some k"
    "map_of (playbook (tactics s)) iid = Some it" "0 \<le> k" "k < int (length (steps it))"
    "distinct (map player_id (players (tactics s)))"
  shows "\<exists>it'. map_of (playbook (snap_tactics (cleanStateForSaving s))) iid = Some it' \<and>
      length (steps it') = length (steps it) \<and>
      (\<forall>p \<in> set (players (tactics s)). playerPositions (steps it' ! nat k) (player_id p) = Some (position p)) \<and>
      step_drawings (steps it' ! nat k) = drawings (tactics s) \<and>
      (\<forall>j < length (steps it). j \<noteq> nat k \<longrightarrow> steps it' ! j = steps it ! j)"
  using assms by (simp add: cleanStateForSaving_parts bake_active_step_def Let_def update_conv' positions_record_lookup)

theorem clean_bakes_witness:
  "\<exists>it'. map_of (playbook (snap_tactics (cleanStateForSaving demo_playbook_state))) ''pb1'' = Some it' \<and>
      length (steps it') = length (steps demo_item) \<and>
      (\<forall>p \<in> set (players (tactics demo_playbook_state)).
         playerPositions (steps it' ! nat 1) (player_id p) = Some (position p)) \<and>
      step_drawings (steps it' ! nat 1) = drawings (tactics demo_playbook_state) \<and>
      (\<forall>j < length (steps demo_item). j \<noteq> nat 1 \<longrightarrow> steps it' ! j = steps demo_item ! j)"
  by (rule clean_bakes_live_step)
    (simp_all add: demo_playbook_state_def demo_item_def INITIAL_STATE_def initial_tactics_def defaultPlayers_def)

text \<open>
  The negotiation, development-summary and team-talk loading flags, the cached AI
  insight and the animation play-head (\<open>isPaused\<close>, \<open>activeStepIndex\<close>) are not in
  the transient key list: a reload brings them back as they were saved.
\<close>

theorem reload_keeps_inflight_flags:
  "isLoadingNegotiation (ui (load_state (cleanStateForSaving s) s0)) = isLoadingNegotiation (ui s) \<and>
   isLoadingDevelopmentSummary (ui (load_state (cleanStateForSaving s) s0)) = isLoadingDevelopmentSummary (ui s) \<and>
   isLoadingTeamTalk (ui (load_state (cleanStateForSaving s) s0)) = isLoadingTeamTalk (ui s) \<and>
   aiInsight (ui (load_state (cleanStateForSaving s) s0)) = aiInsight (ui s) \<and>
   isPaused (ui (load_state (cleanStateForSaving s) s0)) = isPaused (ui s) \<and>
   activeStepIndex (ui (load_state (cleanStateForSaving s) s0)) = activeStepIndex (ui s)"
  by (simp add: load_clean_simps)

text \<open>
  C37. With a save slot active and a slot index that does not parse, the save effect writes
  the slot's snapshot and then throws: the active snapshot keeps its older value.
\<close>

theorem save_malformed_index_skips_active:
  "activeSaveSlotId (ui s) = Some sid \<Longrightarrow> sid \<noteq> [] \<Longrightarrow> save_slots_index st = Some Malformed \<Longrightarrow>
   slot_states (save_effect now s st) sid = Some (Parsed (cleanStateForSaving s)) \<and>
   active_state (save_effect now s st) = active_state st"
  by (simp add: save_effect_def Let_def)


theorem save_malformed_witness:
  "slot_states (save_effect ''2026-01-01T00:00:00Z'' demo_saving_state corrupt_index_storage) ''slot1'' =
     Some (Parsed (cleanStateForSaving demo_saving_state)) \<and>
   active_state (save_effect ''2026-01-01T00:00:00Z'' demo_saving_state corrupt_index_storage) = None"
  using save_malformed_index_skips_active [of demo_saving_state "''slot1''" corrupt_index_storage]
  by (simp add: demo_saving_state_def corrupt_index_storage_def)

end
