(* ===== verification/Reducer.thy ===== *)
theory Reducer
  imports Slot_Actions Animation Persistence
begin

text \<open>
  The domain reducer. \<^verbatim>\<open>src/context/AppContext.tsx\<close> builds its store with
  \<^verbatim>\<open>useReducer(rootReducer, INITIAL_STATE)\<close>, but \<^verbatim>\<open>rootReducer\<close> is not among
  the repository's files: \<open>root_reducer\<close> dispatches each modelled action to the
  operation of the component theories that section 4 of the specification describes,
  and the few cases the specification leaves to the reducer alone (session, selection,
  drawing tool, save slot) are written here. The reachable states are those built from
  \<^verbatim>\<open>INITIAL_STATE\<close> by dispatching actions, where a loaded snapshot is one this
  version of the application wrote from a reachable state.
\<close>

subsection \<open>Reducer cases outside the component theories\<close>

definition login_success :: "user \<Rightarrow> root_state \<Rightarrow> root_state" where
  "login_success u s = s\<lparr>auth := \<lparr>isAuthenticated = True, auth_user = Some u, auth_error = None\<rparr>\<rparr>"

text \<open>
  \<^verbatim>\<open>LOGIN_FAILURE\<close> and \<^verbatim>\<open>SIGNUP_FAILURE\<close>: signed out, with the message of the
  failed attempt. \<^verbatim>\<open>SIGNUP_SUCCESS\<close> signs the new user in like a login.
\<close>

definition auth_failure :: "string \<Rightarrow> root_state \<Rightarrow> root_state" where
  "auth_failure m s = s\<lparr>auth := \<lparr>isAuthenticated = False, auth_user = None, auth_error = Some m\<rparr>\<rparr>"

definition soft_reset_app :: "root_state \<Rightarrow> root_state" where
  "soft_reset_app s = INITIAL_STATE\<lparr>auth := auth s\<rparr>"

text \<open>
  \<^verbatim>\<open>SWAP_PLAYERS\<close>: the two players exchange slots in the first active formation
  (home, then away) that binds both; a no-op when none does.
\<close>

definition swap_target :: "tactics_state \<Rightarrow> string \<Rightarrow> string \<Rightarrow> team \<Rightarrow> (team \<times> string) option" where
  "swap_target ts p q t =
     (case team_formation ts t of
        None \<Rightarrow> None
      | Some f \<Rightarrow> (case (slot_of_player f p, slot_of_player f q) of
                     (Some _, Some sq) \<Rightarrow> Some (t, slot_id sq)
                   | _ \<Rightarrow> None))"

definition swap_players :: "string \<Rightarrow> string \<Rightarrow> tactics_state \<Rightarrow> tactics_state" where
  "swap_players p q ts =
     (case somes (map (swap_target ts p q) [Home, Away]) of
        [] \<Rightarrow> ts
      | (t, sid) # _ \<Rightarrow> swap_in_team t p q sid ts)"

definition map_tactics :: "(tactics_state \<Rightarrow> tactics_state) \<Rightarrow> root_state \<Rightarrow> root_state" where
  "map_tactics g s = s\<lparr>tactics := g (tactics s)\<rparr>"

definition map_ui :: "(ui_state \<Rightarrow> ui_state) \<Rightarrow> root_state \<Rightarrow> root_state" where
  "map_ui g s = s\<lparr>ui := g (ui s)\<rparr>"

subsection \<open>The root reducer\<close>

fun root_reducer :: "action \<Rightarrow> root_state \<Rightarrow> root_state" where
  "root_reducer (LOGIN_SUCCESS u) s = login_success u s"
| "root_reducer (LOGIN_FAILURE m) s = auth_failure m s"
| "root_reducer LOGOUT s = s\<lparr>auth := initial_auth\<rparr>"
| "root_reducer (SIGNUP_SUCCESS u) s = login_success u s"
| "root_reducer (SIGNUP_FAILURE m) s = auth_failure m s"
| "root_reducer (LOAD_STATE sn) s = load_state sn s"
| "root_reducer SOFT_RESET_APP s = soft_reset_app s"
| "root_reducer (SELECT_PLAYER p) s = map_ui (\<lambda>u. u\<lparr>selectedPlayerId := p\<rparr>) s"
| "root_reducer (SET_CAPTAIN p) s = map_tactics (set_captain p) s"
| "root_reducer (BENCH_PLAYER p) s = map_tactics (bench_player p) s"
| "root_reducer (SET_ACTIVE_FORMATION f t) s = map_tactics (set_active_formation f t) s"
| "root_reducer (ASSIGN_PLAYER_TO_SLOT sid p t) s = map_tactics (assign_player_to_slot sid p t) s"
| "root_reducer (UPDATE_PLAYER_POSITION p x) s = map_tactics (update_player_position p x) s"
| "root_reducer (OPEN_SLOT_ACTION_MENU d) s = map_ui (open_slot_action_menu d) s"
| "root_reducer CLOSE_SLOT_ACTION_MENU s = map_ui close_slot_action_menu s"
| "root_reducer (RESOLVE_SLOT_ACTION dec) s = resolve_slot_action dec s"
| "root_reducer (SWAP_PLAYERS p q) s = map_tactics (swap_players p q) s"
| "root_reducer (SET_DRAWING_TOOL t) s = map_ui (\<lambda>u. u\<lparr>drawingTool := t\<rparr>) s"
| "root_reducer (SET_POSITIONING_MODE m) s = map_ui (\<lambda>u. u\<lparr>positioningMode := m\<rparr>) s"
| "root_reducer (ADD_DRAWING d) s = map_tactics (\<lambda>ts. ts\<lparr>drawings := drawings ts @ [d]\<rparr>) s"
| "root_reducer CLEAR_DRAWINGS s = map_tactics (\<lambda>ts. ts\<lparr>drawings := []\<rparr>) s"
| "root_reducer (CREATE_PLAYBOOK_ITEM nm c) s = create_playbook_item nm c s"
| "root_reducer (LOAD_PLAYBOOK_ITEM i) s = load_playbook_item i s"
| "root_reducer (DELETE_PLAYBOOK_ITEM i) s = delete_playbook_item i s"
| "root_reducer (SET_ACTIVE_STEP k) s = set_active_step k s"
| "root_reducer ADD_PLAYBOOK_STEP s = add_playbook_step s"
| "root_reducer START_ANIMATION s = start_animation s"
| "root_reducer PAUSE_ANIMATION s = pause_animation s"
| "root_reducer RESET_ANIMATION s = reset_animation s"
| "root_reducer (SET_ACTIVE_SAVE_SLOT x) s = map_ui (\<lambda>u. u\<lparr>activeSaveSlotId := x\<rparr>) s"

definition is_load_state :: "action \<Rightarrow> bool" where
  "is_load_state a = (case a of LOAD_STATE _ \<Rightarrow> True | _ \<Rightarrow> False)"

text \<open>
  The states the application reaches: the seed state, any action other than a load
  applied to a reachable state, and the load of a snapshot that this version wrote from a
  reachable state.
\<close>

inductive reachable :: "root_state \<Rightarrow> bool" where
  init: "reachable INITIAL_STATE"
| step: "reachable s \<Longrightarrow> \<not> is_load_state a \<Longrightarrow> reachable (root_reducer a s)"
| load: "reachable s \<Longrightarrow> reachable s' \<Longrightarrow> reachable (root_reducer (LOAD_STATE (cleanStateForSaving s')) s)"

text \<open>
  The invariant of the reachable states: slot exclusivity in every formation, no play
  without steps, a play-head inside the active play, and no animation without an active
  play.
\<close>

definition items_ok :: "tactics_state \<Rightarrow> bool" where
  "items_ok ts \<longleftrightarrow> list_all (\<lambda>(k, it). steps it \<noteq> []) (playbook ts)"

definition play_head_ok :: "root_state \<Rightarrow> bool" where
  "play_head_ok s \<longleftrightarrow>
     (case (active_item s, activeStepIndex (ui s)) of
        (Some it, Some k) \<Rightarrow> 0 \<le> k \<and> k < int (length (steps it))
      | _ \<Rightarrow> True)"

definition play_inv :: "root_state \<Rightarrow> bool" where
  "play_inv s \<longleftrightarrow> items_ok (tactics s) \<and> play_head_ok s \<and> (isAnimating (ui s) \<longrightarrow> active_item s \<noteq> None)"

definition state_inv :: "root_state \<Rightarrow> bool" where
  "state_inv s \<longleftrightarrow> formations_wf (tactics s) \<and> play_inv s"

text \<open>The part of the state the play invariant reads, and the actions that write it.\<close>

definition play_view :: "root_state \<Rightarrow> (string \<times> playbook_item) list \<times> string option \<times> int option \<times> bool" where
  "play_view s = (playbook (tactics s), activePlaybookItemId (ui s), activeStepIndex (ui s), isAnimating (ui s))"

definition touches_play :: "action \<Rightarrow> bool" where
  "touches_play a = (case a of
     LOAD_STATE _ \<Rightarrow> True | SOFT_RESET_APP \<Rightarrow> True | CREATE_PLAYBOOK_ITEM _ _ \<Rightarrow> True
   | LOAD_PLAYBOOK_ITEM _ \<Rightarrow> True | DELETE_PLAYBOOK_ITEM _ \<Rightarrow> True | SET_ACTIVE_STEP _ \<Rightarrow> True
   | ADD_PLAYBOOK_STEP \<Rightarrow> True | START_ANIMATION \<Rightarrow> True | PAUSE_ANIMATION \<Rightarrow> True
   | RESET_ANIMATION \<Rightarrow> True | _ \<Rightarrow> False)"

text \<open>Replaying a sequence of actions, in dispatch order.\<close>

definition run_actions :: "action list \<Rightarrow> root_state \<Rightarrow> root_state" where
  "run_actions as s = fold root_reducer as s"

definition demo_session :: "action list" where
  "demo_session = [CREATE_PLAYBOOK_ITEM ''Overlap'' General, ADD_PLAYBOOK_STEP, START_ANIMATION]"

subsection \<open>Frame and per-operation lemmas\<close>

lemma assign_wf_helper:
  "formations_wf ts \<Longrightarrow> formations_wf (assign_player_to_slot sid pid t ts)"
  by (auto simp: assign_player_to_slot_def Let_def dest: formations_wf_lookup split: option.split)

lemma formations_wf_cong: "formations ts' = formations ts \<Longrightarrow> formations_wf ts' = formations_wf ts"
  by (simp add: formations_wf_def)

lemma formations_wf_initial: "formations_wf initial_tactics"
  by (simp add: formations_wf_def initial_tactics_def initial_formations_def formation_wf_def
      formation_442_def formation_433_def formation_352_def bound_slot_ids_def)

lemma active_item_cong:
  "activePlaybookItemId (ui s') = activePlaybookItemId (ui s) \<Longrightarrow> playbook (tactics s') = playbook (tactics s) \<Longrightarrow>
   active_item s' = active_item s"
  by (simp add: active_item_def split: option.split)

lemma formations_wf_tactics_frame [simp]:
  "formations_wf (ts\<lparr>drawings := d\<rparr>) = formations_wf ts"
  "formations_wf (ts\<lparr>activeFormationIds := ids\<rparr>) = formations_wf ts"
  "formations_wf (ts\<lparr>captainIds := c\<rparr>) = formations_wf ts"
  by (simp_all add: formations_wf_def)

lemma swap_in_team_wf_slot:
  "formations_wf ts \<Longrightarrow> team_formation ts t = Some f \<Longrightarrow> s \<in> set (slots f) \<Longrightarrow> slot_id s = sid \<Longrightarrow>
   slot_playerId s = Some q \<Longrightarrow> formations_wf (swap_in_team t p q sid ts)"
  unfolding swap_in_team_def
  by (auto simp: Let_def team_formation_def intro!: formations_wf_update formation_wf_swap
      dest: formations_wf_lookup split: option.split)

lemma swap_target_SomeD:
  "swap_target ts p q t = Some (t', sid) \<Longrightarrow>
   \<exists>f s. team_formation ts t' = Some f \<and> s \<in> set (slots f) \<and> slot_id s = sid \<and> slot_playerId s = Some q"
  unfolding swap_target_def slot_of_player_def
  by (auto split: option.splits dest!: find_Some_in_set)

lemma swap_players_wf: "formations_wf ts \<Longrightarrow> formations_wf (swap_players p q ts)"
proof -
  assume wf: "formations_wf ts"
  show ?thesis
  proof (cases "somes (map (swap_target ts p q) [Home, Away])")
    case (Cons x xs)
    obtain t sid where x: "x = (t, sid)" by (cases x)
    then have "Some (t, sid) \<in> set (map (swap_target ts p q) [Home, Away])"
      using set_somes [of "map (swap_target ts p q) [Home, Away]"] Cons by (metis list.set_intros(1) mem_Collect_eq)
    then obtain t0 where "swap_target ts p q t0 = Some (t, sid)" by auto
    then obtain f s where "team_formation ts t = Some f" "s \<in> set (slots f)" "slot_id s = sid" "slot_playerId s = Some q"
      using swap_target_SomeD by blast
    with wf Cons x show ?thesis by (simp add: swap_players_def swap_in_team_wf_slot)
  qed (simp add: swap_players_def wf)
qed

lemma tactics_playbook_frame [frame_simps]:
  "playbook (set_captain p ts) = playbook ts"
  "playbook (bench_player p ts) = playbook ts"
  "playbook (set_active_formation f t ts) = playbook ts"
  "playbook (assign_player_to_slot sid p t ts) = playbook ts"
  "playbook (update_player_position p x ts) = playbook ts"
  "playbook (swap_in_team t p q sid ts) = playbook ts"
  "playbook (replace_in_team t p q sid ts) = playbook ts"
  by (simp_all add: set_captain_def bench_player_def set_active_formation_def assign_player_to_slot_def
      update_player_position_def swap_in_team_def replace_in_team_def Let_def split: option.split)

lemma tactics_playbook_frame2 [frame_simps]:
  "playbook (swap_players p q ts) = playbook ts"
  "playbook (apply_slot_decision dec d ts) = playbook ts"
  by (simp_all add: swap_players_def apply_slot_decision_def frame_simps split: list.split prod.split option.split slot_decision.split)

lemma resolve_slot_action_frame [frame_simps]:
  "playbook (tactics (resolve_slot_action dec s)) = playbook (tactics s)"
  "isAnimating (ui (resolve_slot_action dec s)) = isAnimating (ui s)"
  "activePlaybookItemId (ui (resolve_slot_action dec s)) = activePlaybookItemId (ui s)"
  by (simp_all add: resolve_slot_action_def close_slot_action_menu_def Let_def frame_simps split: option.split)

lemma animation_formations_frame [frame_simps]:
  "formations (tactics (start_animation s)) = formations (tactics s)"
  "formations (tactics (load_playbook_item i s)) = formations (tactics s)"
  "formations (tactics (delete_playbook_item i s)) = formations (tactics s)"
  "formations (tactics (pause_animation s)) = formations (tactics s)"
  "formations (tactics (reset_animation s)) = formations (tactics s)"
  "formations (tactics (create_playbook_item nm c s)) = formations (tactics s)"
  "formations (tactics (add_playbook_step s)) = formations (tactics s)"
  by (simp_all add: create_playbook_item_def add_playbook_step_def start_animation_def load_playbook_item_def delete_playbook_item_def pause_animation_def
      reset_animation_def Let_def frame_simps split: option.split)

lemma resolve_slot_action_wf:
  "formations_wf (tactics rs) \<Longrightarrow> formations_wf (tactics (resolve_slot_action dec rs))"
  by (simp add: resolve_slot_action_def Let_def apply_slot_decision_wf split: option.splits)

lemma root_reducer_wf:
  "formations_wf (tactics s) \<Longrightarrow> \<not> is_load_state a \<Longrightarrow> formations_wf (tactics (root_reducer a s))"
proof (cases a)
qed (auto simp: is_load_state_def map_tactics_def map_ui_def login_success_def auth_failure_def soft_reset_app_def
   INITIAL_STATE_def formations_wf_initial set_captain_wf bench_player_wf swap_players_wf resolve_slot_action_wf
   update_player_position_def set_active_formation_def
   formations_wf_cong[OF set_active_step_frame(5)] formations_wf_cong[OF animation_formations_frame(1)]
   formations_wf_cong[OF animation_formations_frame(2)] formations_wf_cong[OF animation_formations_frame(3)]
   formations_wf_cong[OF animation_formations_frame(4)] formations_wf_cong[OF animation_formations_frame(5)]
   formations_wf_cong[OF animation_formations_frame(6)] formations_wf_cong[OF animation_formations_frame(7)]
   intro: assign_wf_helper)



lemma play_inv_cong:
  "playbook (tactics s') = playbook (tactics s) \<Longrightarrow> activePlaybookItemId (ui s') = activePlaybookItemId (ui s) \<Longrightarrow>
   activeStepIndex (ui s') = activeStepIndex (ui s) \<Longrightarrow> isAnimating (ui s') = isAnimating (ui s) \<Longrightarrow>
   play_inv s' = play_inv s"
  by (simp add: play_inv_def items_ok_def play_head_ok_def active_item_def split: option.split)

lemma active_item_ui_update [simp]:
  "activePlaybookItemId u = activePlaybookItemId (ui s) \<Longrightarrow> active_item (s\<lparr>ui := u\<rparr>) = active_item s"
  by (simp add: active_item_def split: option.split)

lemma items_ok_lookup: "items_ok ts \<Longrightarrow> map_of (playbook ts) k = Some it \<Longrightarrow> steps it \<noteq> []"
  by (auto simp: items_ok_def list_all_iff dest: map_of_SomeD)

lemma active_item_items_ok: "items_ok (tactics s) \<Longrightarrow> active_item s = Some it \<Longrightarrow> steps it \<noteq> []"
  by (auto simp: active_item_def items_ok_lookup split: option.splits)

lemma set_active_step_play_inv: "play_inv s \<Longrightarrow> play_inv (set_active_step i s)"
proof (cases "active_item s")
  case (Some it)
  assume inv: "play_inv s"
  show ?thesis
  proof (cases "0 \<le> i \<and> i < int (length (steps it))")
    case True
    with Some inv show ?thesis
      by (simp add: play_inv_def items_ok_def play_head_ok_def set_active_step_index set_active_step_frame)
  qed (simp add: Some set_active_step_rejects inv)
qed (simp add: set_active_step_def)

lemma start_animation_play_inv: "play_inv s \<Longrightarrow> play_inv (start_animation s)"
proof (cases "active_item s")
  case (Some it)
  assume inv: "play_inv s"
  then have "steps it \<noteq> []" using Some active_item_items_ok play_inv_def by blast
  then have "play_inv (set_active_step 0 s)" "activeStepIndex (ui (set_active_step 0 s)) = Some 0"
    using set_active_step_play_inv [OF inv] set_active_step_index [OF Some] by simp_all
  with Some show ?thesis
    by (simp add: start_animation_def Let_def play_inv_def items_ok_def play_head_ok_def)
qed (simp add: start_animation_def)

lemma pause_animation_play_inv: "play_inv s \<Longrightarrow> play_inv (pause_animation s)"
  by (subst play_inv_cong [of _ s]) (simp_all add: pause_animation_def)

lemma reset_animation_play_inv: "play_inv s \<Longrightarrow> play_inv (reset_animation s)"
proof -
  assume inv: "play_inv s"
  have a: "active_item (reset_animation s) = active_item s"
    by (simp add: reset_animation_def active_item_def split: option.split)
  have r: "items_ok (tactics (reset_animation s)) = items_ok (tactics s)" "\<not> isAnimating (ui (reset_animation s))"
    by (simp_all add: reset_animation_def items_ok_def)
  show ?thesis
  proof (cases "active_item s")
    case None
    with inv r show ?thesis unfolding play_inv_def play_head_ok_def a by simp
  next
    case (Some it)
    then have "steps it \<noteq> []" using inv active_item_items_ok play_inv_def by blast
    moreover from Some obtain iid where "activePlaybookItemId (ui s) = Some iid"
      by (auto simp: active_item_def split: option.splits)
    then have "activeStepIndex (ui (reset_animation s)) = Some 0" by (simp add: reset_animation_def)
    ultimately show ?thesis using inv Some r unfolding play_inv_def play_head_ok_def a by simp
  qed
qed

lemma load_playbook_item_play_inv: "play_inv s \<Longrightarrow> play_inv (load_playbook_item i s)"
proof (cases "map_of (playbook (tactics s)) i")
  case (Some it)
  assume inv: "play_inv s"
  have "play_inv (s\<lparr>ui := (ui s)\<lparr>activePlaybookItemId := Some i, activeStepIndex := None,
                                   isAnimating := False, isPaused := False\<rparr>\<rparr>)"
    using inv by (simp add: play_inv_def play_head_ok_def active_item_def items_ok_def split: option.split)
  then show ?thesis by (simp add: load_playbook_item_def Some set_active_step_play_inv split: option.split)
qed (simp add: load_playbook_item_def)

lemma list_all_delete: "list_all P al \<Longrightarrow> list_all P (AList.delete k al)"
  by (induction al) auto

lemma items_ok_delete: "items_ok ts \<Longrightarrow> items_ok (ts\<lparr>playbook := AList.delete i (playbook ts)\<rparr>)"
  by (simp add: items_ok_def list_all_delete)

lemma active_item_delete:
  "activePlaybookItemId (ui s) \<noteq> Some i \<Longrightarrow> active_item (delete_playbook_item i s) = active_item s"
  by (auto simp: delete_playbook_item_def active_item_def delete_conv' split: option.split)

lemma delete_playbook_item_other:
  "activePlaybookItemId (ui s) \<noteq> Some i \<Longrightarrow> ui (delete_playbook_item i s) = ui s"
  "playbook (tactics (delete_playbook_item i s)) = AList.delete i (playbook (tactics s))"
  by (simp_all add: delete_playbook_item_def Let_def)

lemma items_ok_delete_item: "items_ok (tactics s) \<Longrightarrow> items_ok (tactics (delete_playbook_item i s))"
  by (simp add: delete_playbook_item_def Let_def items_ok_delete)

lemma delete_playbook_item_play_inv: "play_inv s \<Longrightarrow> play_inv (delete_playbook_item i s)"
proof (cases "activePlaybookItemId (ui s) = Some i")
  case False
  assume "play_inv s"
  with False show ?thesis
    by (simp add: play_inv_def play_head_ok_def active_item_delete items_ok_delete_item delete_playbook_item_other)
qed (simp add: delete_playbook_item_def play_inv_def play_head_ok_def active_item_def items_ok_delete)

lemma foldr_max_length:
  "(k, v) \<in> set al \<Longrightarrow> length k \<le> foldr (\<lambda>(k, _) m. max (length k) m) al n"
  by (induction al) auto

lemma fresh_item_id_fresh: "map_of al (fresh_item_id al) = None"
proof -
  have "foldr (\<lambda>(k, _) m. max (length k) m) al 0 < length (fresh_item_id al)"
    by (simp add: fresh_item_id_def)
  then have "(fresh_item_id al, v) \<notin> set al" for v
    using foldr_max_length [of "fresh_item_id al" v al 0] by linarith
  then show ?thesis by (force simp: map_of_eq_None_iff)
qed

lemma map_of_append_fresh: "map_of al k = None \<Longrightarrow> map_of (al @ [(k, v)]) k = Some v"
  by (simp add: map_add_def)

lemma create_playbook_item_shape:
  "\<exists>it. playbook (tactics (create_playbook_item nm c s)) =
          playbook (tactics s) @ [(fresh_item_id (playbook (tactics s)), it)] \<and> length (steps it) = 1 \<and>
        ui (create_playbook_item nm c s) = (ui s)\<lparr>activePlaybookItemId := Some (fresh_item_id (playbook (tactics s))),
          activeStepIndex := Some 0, isAnimating := False, isPaused := False, animationTrails := None\<rparr>"
  by (simp add: create_playbook_item_def Let_def)

lemma create_playbook_item_play_inv: "play_inv s \<Longrightarrow> play_inv (create_playbook_item nm c s)"
proof -
  assume inv: "play_inv s"
  obtain it where it: "playbook (tactics (create_playbook_item nm c s)) =
          playbook (tactics s) @ [(fresh_item_id (playbook (tactics s)), it)]" "length (steps it) = 1"
    "ui (create_playbook_item nm c s) = (ui s)\<lparr>activePlaybookItemId := Some (fresh_item_id (playbook (tactics s))),
          activeStepIndex := Some 0, isAnimating := False, isPaused := False, animationTrails := None\<rparr>"
    using create_playbook_item_shape by blast
  have "active_item (create_playbook_item nm c s) = Some it"
    by (simp only: active_item_def it) (simp add: map_of_append_fresh fresh_item_id_fresh del: map_of_append)
  with inv it show ?thesis
    by (auto simp: play_inv_def items_ok_def play_head_ok_def)
qed


lemma add_playbook_step_shape:
  "activePlaybookItemId (ui s) = Some iid \<Longrightarrow> map_of (playbook (tactics s)) iid = Some it \<Longrightarrow>
   \<exists>st. playbook (tactics (add_playbook_step s)) = AList.update iid (it\<lparr>steps := steps it @ [st]\<rparr>) (playbook (tactics s)) \<and>
        ui (add_playbook_step s) = (ui s)\<lparr>activeStepIndex := Some (int (length (steps it)))\<rparr>"
  by (auto simp: add_playbook_step_def Let_def intro!: exI)

lemma add_playbook_step_play_inv: "play_inv s \<Longrightarrow> play_inv (add_playbook_step s)"
proof (cases "active_item s")
  case (Some it)
  assume inv: "play_inv s"
  from Some obtain iid where iid: "activePlaybookItemId (ui s) = Some iid" "map_of (playbook (tactics s)) iid = Some it"
    by (auto simp: active_item_def split: option.splits)
  then obtain st where st: "playbook (tactics (add_playbook_step s)) = AList.update iid (it\<lparr>steps := steps it @ [st]\<rparr>) (playbook (tactics s))"
      "ui (add_playbook_step s) = (ui s)\<lparr>activeStepIndex := Some (int (length (steps it)))\<rparr>"
    using add_playbook_step_shape by blast
  have "active_item (add_playbook_step s) = Some (it\<lparr>steps := steps it @ [st]\<rparr>)"
    using iid by (simp only: active_item_def st) (simp add: update_conv')
  with inv st iid show ?thesis
    by (auto simp: play_inv_def items_ok_def play_head_ok_def list_all_update)
qed (auto simp: add_playbook_step_def active_item_def split: option.splits)

lemma play_inv_view: "play_view s' = play_view s \<Longrightarrow> play_inv s' = play_inv s"
  by (rule play_inv_cong) (simp_all add: play_view_def)

lemma resolve_slot_action_step_frame [frame_simps]:
  "activeStepIndex (ui (resolve_slot_action dec s)) = activeStepIndex (ui s)"
  by (simp add: resolve_slot_action_def close_slot_action_menu_def Let_def split: option.split)

lemma root_reducer_play_view:
  "\<not> touches_play a \<Longrightarrow> play_view (root_reducer a s) = play_view s"
  by (cases a) (simp_all add: touches_play_def play_view_def map_tactics_def map_ui_def login_success_def auth_failure_def
      frame_simps open_slot_action_menu_def close_slot_action_menu_def)

lemma play_inv_initial: "play_inv INITIAL_STATE"
  by (simp add: play_inv_def items_ok_def play_head_ok_def active_item_def INITIAL_STATE_def
      initial_tactics_def initial_ui_def)

lemma play_inv_soft_reset: "play_inv (soft_reset_app s)"
  by (simp add: soft_reset_app_def play_inv_def items_ok_def play_head_ok_def active_item_def INITIAL_STATE_def
      initial_tactics_def initial_ui_def)

lemma root_reducer_play_inv:
  "play_inv s \<Longrightarrow> \<not> is_load_state a \<Longrightarrow> play_inv (root_reducer a s)"
proof (cases "touches_play a")
  case False
  then show "play_inv s \<Longrightarrow> ?thesis" using play_inv_view [OF root_reducer_play_view [OF False]] by simp
next
  case True
  then show "play_inv s \<Longrightarrow> \<not> is_load_state a \<Longrightarrow> ?thesis"
    by (cases a) (simp_all add: touches_play_def is_load_state_def play_inv_soft_reset
       set_active_step_play_inv start_animation_play_inv pause_animation_play_inv reset_animation_play_inv
       load_playbook_item_play_inv delete_playbook_item_play_inv create_playbook_item_play_inv
       add_playbook_step_play_inv)
qed


lemma bake_steps_length:
  "map_option (length \<circ> steps) (map_of (playbook (tactics (bake_active_step s))) k) =
   map_option (length \<circ> steps) (map_of (playbook (tactics s)) k)"
  by (auto simp: bake_active_step_def Let_def update_conv' split: option.split prod.split)

lemma bake_items_ok: "items_ok (tactics s) \<Longrightarrow> items_ok (tactics (bake_active_step s))"
  by (auto simp: bake_active_step_def Let_def items_ok_def intro!: list_all_update
      split: option.split prod.split)

lemma play_head_ok_lengths_form:
  "play_head_ok s \<longleftrightarrow>
     (\<forall>iid k. activePlaybookItemId (ui s) = Some iid \<longrightarrow> activeStepIndex (ui s) = Some k \<longrightarrow>
        (\<forall>n. map_option (length \<circ> steps) (map_of (playbook (tactics s)) iid) = Some n \<longrightarrow> 0 \<le> k \<and> k < int n))"
  by (auto simp: play_head_ok_def active_item_def split: option.splits)

lemma play_head_ok_lengths:
  "activePlaybookItemId (ui s') = activePlaybookItemId (ui s) \<Longrightarrow> activeStepIndex (ui s') = activeStepIndex (ui s) \<Longrightarrow>
   (\<And>k. map_option (length \<circ> steps) (map_of (playbook (tactics s')) k) = map_option (length \<circ> steps) (map_of (playbook (tactics s)) k)) \<Longrightarrow>
   play_head_ok s' = play_head_ok s"
  unfolding play_head_ok_lengths_form by simp

lemma load_clean_play_inv: "play_inv s' \<Longrightarrow> play_inv (load_state (cleanStateForSaving s') s)"
proof -
  assume inv: "play_inv s'"
  let ?l = "load_state (cleanStateForSaving s') s"
  have "play_head_ok ?l = play_head_ok s'"
    by (rule play_head_ok_lengths) (simp_all add: load_clean_simps bake_steps_length)
  moreover have "items_ok (tactics ?l)" using inv by (simp add: load_clean_simps play_inv_def bake_items_ok)
  moreover have "\<not> isAnimating (ui ?l)" by (simp add: load_clean_simps initial_ui_def)
  ultimately show ?thesis using inv by (simp add: play_inv_def)
qed

lemma load_clean_formations:
  "formations (tactics (load_state (cleanStateForSaving s') s)) = formations (tactics s')"
  by (simp add: load_clean_simps frame_simps)

lemma reachable_state_inv: "reachable s \<Longrightarrow> state_inv s"
proof (induction rule: reachable.induct)
  case init
  show ?case by (simp add: state_inv_def INITIAL_STATE_def formations_wf_initial play_inv_initial[unfolded INITIAL_STATE_def])
next
  case (step s a)
  then show ?case by (simp add: state_inv_def root_reducer_wf root_reducer_play_inv)
next
  case (load s s')
  then show ?case
    by (simp add: state_inv_def load_clean_play_inv formations_wf_cong[OF load_clean_formations])
qed

lemma reachable_run_actions:
  "reachable s \<Longrightarrow> list_all (\<lambda>a. \<not> is_load_state a) as \<Longrightarrow> reachable (run_actions as s)"
  by (induction as arbitrary: s) (simp_all add: run_actions_def reachable.step)

lemma animation_effect_total:
  "(isAnimating (ui s) \<longrightarrow> active_item s \<noteq> None) \<Longrightarrow> \<not> isl (animation_effect s)"
  by (auto simp: animation_effect_def active_item_def Let_def split: option.splits)

subsection \<open>Invariants of the reachable states\<close>

text \<open>
  C1. Slot exclusivity holds in every reachable state: whatever actions are dispatched,
  in whatever order, and whatever snapshot of this version is loaded, every formation
  has distinct slot ids and binds each player at most once.
\<close>

theorem reachable_formations_wf: "reachable s \<Longrightarrow> formations_wf (tactics s)"
  using reachable_state_inv state_inv_def by blast

theorem reachable_formations_wf_witness:
  "reachable (run_actions [ASSIGN_PLAYER_TO_SLOT ''s1'' ''p12'' Away, SWAP_PLAYERS ''p1'' ''p4''] INITIAL_STATE) \<and>
   formations_wf (tactics (run_actions [ASSIGN_PLAYER_TO_SLOT ''s1'' ''p12'' Away, SWAP_PLAYERS ''p1'' ''p4''] INITIAL_STATE))"
proof -
  have r: "reachable (run_actions [ASSIGN_PLAYER_TO_SLOT ''s1'' ''p12'' Away, SWAP_PLAYERS ''p1'' ''p4''] INITIAL_STATE)"
    by (rule reachable_run_actions [OF reachable.init]) (simp add: is_load_state_def)
  show ?thesis using reachable_formations_wf [OF r] r by simp
qed

text \<open>
  C10. The play-head never leaves the active play: in every reachable state whose active
  item has a play-head, the index is a position of the item's step list.
\<close>

theorem reachable_play_head_in_range:
  "reachable s \<Longrightarrow> active_item s = Some it \<Longrightarrow> activeStepIndex (ui s) = Some k \<Longrightarrow>
   0 \<le> k \<and> k < int (length (steps it))"
  using reachable_state_inv [of s] by (simp add: state_inv_def play_inv_def play_head_ok_def)

theorem play_head_witness:
  "\<exists>it. active_item (run_actions [CREATE_PLAYBOOK_ITEM ''Overlap'' General, ADD_PLAYBOOK_STEP] INITIAL_STATE) = Some it \<and>
     activeStepIndex (ui (run_actions [CREATE_PLAYBOOK_ITEM ''Overlap'' General, ADD_PLAYBOOK_STEP] INITIAL_STATE)) = Some 1 \<and>
     0 \<le> (1::int) \<and> 1 < int (length (steps it))"
proof -
  let ?x = "run_actions [CREATE_PLAYBOOK_ITEM ''Overlap'' General, ADD_PLAYBOOK_STEP] INITIAL_STATE"
  have r: "reachable ?x"
    by (rule reachable_run_actions [OF reachable.init]) (simp add: is_load_state_def)
  have "active_item ?x \<noteq> None" "activeStepIndex (ui ?x) = Some 1"
    by (simp_all add: run_actions_def create_playbook_item_def add_playbook_step_def active_item_def Let_def
        fresh_item_id_def INITIAL_STATE_def initial_tactics_def initial_ui_def)
  then obtain it where "active_item ?x = Some it" "activeStepIndex (ui ?x) = Some 1" by blast
  with reachable_play_head_in_range [OF r this] show ?thesis by blast
qed

text \<open>
  C9. In every reachable state the animation effect runs without the \<open>TypeError\<close> of
  a dangling active id: an animating state always has its active play in the playbook.
\<close>

theorem reachable_animation_no_error: "reachable s \<Longrightarrow> \<not> isl (animation_effect s)"
  using reachable_state_inv state_inv_def play_inv_def animation_effect_total by blast

theorem animation_no_error_witness:
  "reachable (run_actions demo_session INITIAL_STATE) \<and> isAnimating (ui (run_actions demo_session INITIAL_STATE)) \<and>
   \<not> isl (animation_effect (run_actions demo_session INITIAL_STATE))"
proof -
  have r: "reachable (run_actions demo_session INITIAL_STATE)"
    by (rule reachable_run_actions [OF reachable.init]) (simp add: is_load_state_def demo_session_def)
  have "isAnimating (ui (run_actions demo_session INITIAL_STATE))"
    by (simp add: run_actions_def demo_session_def create_playbook_item_def add_playbook_step_def start_animation_def
        active_item_def Let_def fresh_item_id_def INITIAL_STATE_def initial_tactics_def initial_ui_def set_active_step_frame)
  with reachable_animation_no_error [OF r] r show ?thesis by simp
qed

end
