(* ===== verification/Runtime.thy ===== *)
theory Runtime
  imports Reducer
begin

text \<open>
  The runtime of \<^verbatim>\<open>AppProvider\<close> (\<^verbatim>\<open>src/context/AppContext.tsx\<close>, lines 49--111):
  the store, the one pending \<^verbatim>\<open>setTimeout\<close> callback of the animation effect, and local
  storage. A dispatch reduces the state and commits it; a commit runs the effects whose
  dependencies changed, in declaration order: the animation effect (lines 75--92), whose
  previous run's cleanup clears its timer first, and the save effect (lines 94--111),
  which depends on the whole state and so runs after every dispatch. A dispatch made by an
  effect body is processed after the commit's effects, as React does. The recursion
  through such dispatches is bounded by fuel; \<open>commit_fuel\<close> is shown enough. The
  mount effect (lines 52--73) reads storage before the first commit's save effect
  writes it, and its dispatches are batched into the second render.
\<close>

record app_system =
  app_state :: root_state
  app_timer :: "action option"
  app_storage :: storage

text \<open>The save effect of one commit (the effect depends on \<^verbatim>\<open>[state]\<close>).\<close>

definition save_commit :: "string \<Rightarrow> app_system \<Rightarrow> app_system" where
  "save_commit now sys = sys\<lparr>app_storage := save_effect now (app_state sys) (app_storage sys)\<rparr>"

text \<open>
  \<open>commit fuel now old sys\<close>: the effects after a render of \<open>app_state sys\<close> that
  replaced \<open>old\<close>. \<open>None\<close> is running out of fuel, \<open>Inl\<close> the error an effect
  body throws (it unmounts the tree).
\<close>

fun commit :: "nat \<Rightarrow> string \<Rightarrow> root_state \<Rightarrow> app_system \<Rightarrow> (js_error + app_system) option" where
  "commit 0 now old sys = None"
| "commit (Suc n) now old sys =
     (if animation_deps (app_state sys) = animation_deps old then Some (Inr (save_commit now sys))
      else (case animation_effect (app_state sys) of
              Inl e \<Rightarrow> Some (Inl e)
            | Inr eff \<Rightarrow>
                let sys1 = save_commit now (sys\<lparr>app_timer := None\<rparr>) in
                (case eff of
                   Schedule_timer d a \<Rightarrow> Some (Inr (sys1\<lparr>app_timer := Some a\<rparr>))
                 | No_effect \<Rightarrow> Some (Inr sys1)
                 | Dispatch_now a \<Rightarrow>
                     commit n now (app_state sys1) (sys1\<lparr>app_state := root_reducer a (app_state sys1)\<rparr>))))"

text \<open>Two commits are the deepest cascade: the only dispatch an effect makes is \<^verbatim>\<open>RESET_ANIMATION\<close>.\<close>

definition commit_fuel :: nat where
  "commit_fuel = 2"

definition dispatch :: "string \<Rightarrow> action \<Rightarrow> app_system \<Rightarrow> (js_error + app_system) option" where
  "dispatch now a sys = commit commit_fuel now (app_state sys) (sys\<lparr>app_state := root_reducer a (app_state sys)\<rparr>)"

text \<open>
  Letting time pass: timers fire until none is pending, at most \<open>fuel\<close> of them;
  the result lists the actions the callbacks dispatched.
\<close>

fun run_timers :: "nat \<Rightarrow> string \<Rightarrow> app_system \<Rightarrow> (js_error + action list \<times> app_system) option" where
  "run_timers 0 now sys = (if app_timer sys = None then Some (Inr ([], sys)) else None)"
| "run_timers (Suc f) now sys =
     (case app_timer sys of
        None \<Rightarrow> Some (Inr ([], sys))
      | Some a \<Rightarrow>
          (case dispatch now a (sys\<lparr>app_timer := None\<rparr>) of
             None \<Rightarrow> None
           | Some (Inl e) \<Rightarrow> Some (Inl e)
           | Some (Inr sys') \<Rightarrow> map_option (map_sum id (\<lambda>(as, s). (a # as, s))) (run_timers f now sys')))"

text \<open>
  Mount: the first render of \<^verbatim>\<open>INITIAL_STATE\<close> runs the three effects in order. The
  mount effect queues \<^verbatim>\<open>LOGIN_SUCCESS\<close> for a remembered user and \<^verbatim>\<open>LOAD_STATE\<close> for
  a snapshot of this version (removing one of another version); the animation effect
  finds nothing to do; the save effect writes the seed state. The queued actions are then
  reduced in order and committed together.
\<close>

definition mount_queue :: "user option \<Rightarrow> storage \<Rightarrow> action list \<times> storage" where
  "mount_queue cu st =
     (let login = (case cu of None \<Rightarrow> [] | Some u \<Rightarrow> [LOGIN_SUCCESS u]) in
      case restore_saved_state (active_state st) of
        Restore_dispatch a \<Rightarrow> (login @ [a], st)
      | Restore_discard \<Rightarrow> (login, st\<lparr>active_state := None\<rparr>)
      | Restore_nothing \<Rightarrow> (login, st))"

definition mount :: "string \<Rightarrow> user option \<Rightarrow> storage \<Rightarrow> (js_error + app_system) option" where
  "mount now cu st =
     (let (q, st1) = mount_queue cu st;
          sys0 = \<lparr>app_state = INITIAL_STATE, app_timer = None,
                  app_storage = save_effect now INITIAL_STATE st1\<rparr>
      in if q = [] then Some (Inr sys0)
         else commit commit_fuel now INITIAL_STATE (sys0\<lparr>app_state := run_actions q INITIAL_STATE\<rparr>))"

text \<open>The state after the mount's \<^verbatim>\<open>LOGIN_SUCCESS\<close>, if a user is remembered.\<close>

definition session_start :: "user option \<Rightarrow> root_state" where
  "session_start cu = (case cu of None \<Rightarrow> INITIAL_STATE | Some u \<Rightarrow> login_success u INITIAL_STATE)"

text \<open>
  The states of a playback: the active play \<open>it\<close> animating at step \<open>k\<close> with the
  timer for step \<open>k + 1\<close> pending, and the state after the playback ended.
\<close>

definition playing :: "string \<Rightarrow> playbook_item \<Rightarrow> nat \<Rightarrow> app_system \<Rightarrow> bool" where
  "playing iid it k sys \<longleftrightarrow>
     activePlaybookItemId (ui (app_state sys)) = Some iid \<and> iid \<noteq> [] \<and>
     map_of (playbook (tactics (app_state sys))) iid = Some it \<and>
     isAnimating (ui (app_state sys)) \<and> \<not> isPaused (ui (app_state sys)) \<and>
     activeStepIndex (ui (app_state sys)) = Some (int k) \<and> Suc k < length (steps it) \<and>
     app_timer sys = Some (SET_ACTIVE_STEP (int (Suc k)))"

definition stopped :: "string \<Rightarrow> app_system \<Rightarrow> bool" where
  "stopped iid sys \<longleftrightarrow>
     activePlaybookItemId (ui (app_state sys)) = Some iid \<and> \<not> isAnimating (ui (app_state sys)) \<and>
     activeStepIndex (ui (app_state sys)) = Some 0 \<and> app_timer sys = None"

subsection \<open>The running application as a state machine\<close>

text \<open>
  A pending timer never loads a snapshot, and the stored snapshot of this version, if
  any, is one the app saved from a reachable state. \<open>app_reach\<close> is the set of system
  states of a session: a mount, then user dispatches and timer callbacks. Its abstraction
  is \<open>app_state\<close>; the refinement theorem below relates it to \<open>reachable\<close>.
\<close>

definition timer_ok :: "app_system \<Rightarrow> bool" where
  "timer_ok sys = (case app_timer sys of None \<Rightarrow> True | Some a \<Rightarrow> \<not> is_load_state a)"

definition storage_ok :: "storage \<Rightarrow> bool" where
  "storage_ok st =
     (\<forall>sn. active_state st = Some (Parsed sn) \<longrightarrow> snap_version sn = APP_VERSION \<longrightarrow>
        (\<exists>s. reachable s \<and> sn = cleanStateForSaving s))"

definition sys_inv :: "app_system \<Rightarrow> bool" where
  "sys_inv sys = (reachable (app_state sys) \<and> timer_ok sys \<and> storage_ok (app_storage sys))"

inductive app_reach :: "app_system \<Rightarrow> bool" where
  mount: "storage_ok st \<Longrightarrow> mount now cu st = Some (Inr sys) \<Longrightarrow> app_reach sys"
| dispatch: "app_reach sys \<Longrightarrow> \<not> is_load_state a \<Longrightarrow> dispatch now a sys = Some (Inr sys') \<Longrightarrow> app_reach sys'"
| tick: "app_reach sys \<Longrightarrow> app_timer sys = Some a \<Longrightarrow> dispatch now a (sys\<lparr>app_timer := None\<rparr>) = Some (Inr sys') \<Longrightarrow>
    app_reach sys'"

subsection \<open>Concrete inputs of the witnesses\<close>

definition empty_storage :: storage where
  "empty_storage = \<lparr>active_state = None, slot_states = Map.empty, save_slots_index = None\<rparr>"

text \<open>A two-step play created from the seed board, idle, with nothing stored.\<close>

definition demo_playback_system :: app_system where
  "demo_playback_system = \<lparr>app_state = run_actions [CREATE_PLAYBOOK_ITEM ''Overlap'' General, ADD_PLAYBOOK_STEP] INITIAL_STATE,
     app_timer = None, app_storage = empty_storage\<rparr>"

definition demo_play :: playbook_item where
  "demo_play = the (map_of (playbook (tactics (app_state demo_playback_system))) ''play_0'')"

text \<open>The scenario of section 8: a snapshot stamped \<^verbatim>\<open>7.0.0\<close> in an application stamped \<^verbatim>\<open>8.0.0\<close>.\<close>

definition stale_snapshot :: snapshot where
  "stale_snapshot = (cleanStateForSaving INITIAL_STATE)\<lparr>snap_version := ''7.0.0''\<rparr>"

definition stale_storage :: storage where
  "stale_storage = empty_storage\<lparr>active_state := Some (Parsed stale_snapshot)\<rparr>"

subsection \<open>Commits, timers and mount\<close>

lemma save_commit_frame [simp]:
  "app_state (save_commit now sys) = app_state sys"
  "app_timer (save_commit now sys) = app_timer sys"
  by (simp_all add: save_commit_def)

lemma animation_effect_dispatch:
  "animation_effect s = Inr (Dispatch_now a) \<Longrightarrow> a = RESET_ANIMATION"
  by (auto simp: animation_effect_def Let_def split: option.splits if_splits)

lemma animation_effect_paused: "isPaused (ui s) \<Longrightarrow> animation_effect s = Inr No_effect"
  by (simp add: animation_effect_def split: option.split)

lemma commit_same_deps:
  "animation_deps (app_state sys) = animation_deps old \<Longrightarrow> commit (Suc n) now old sys = Some (Inr (save_commit now sys))"
  by simp

lemma commit_effect:
  "animation_deps (app_state sys) \<noteq> animation_deps old \<Longrightarrow> animation_effect (app_state sys) = Inr eff \<Longrightarrow>
   commit (Suc n) now old sys =
     (case eff of
        Schedule_timer d a \<Rightarrow> Some (Inr ((save_commit now (sys\<lparr>app_timer := None\<rparr>))\<lparr>app_timer := Some a\<rparr>))
      | No_effect \<Rightarrow> Some (Inr (save_commit now (sys\<lparr>app_timer := None\<rparr>)))
      | Dispatch_now a \<Rightarrow> commit n now (app_state sys)
          (save_commit now (sys\<lparr>app_timer := None\<rparr>)\<lparr>app_state := root_reducer a (app_state sys)\<rparr>))"
  by (simp add: Let_def split: effect.split)

lemma commit_idle:
  "\<not> isAnimating (ui (app_state sys)) \<Longrightarrow>
   \<exists>sys'. commit (Suc n) now old sys = Some (Inr sys') \<and> app_state sys' = app_state sys \<and>
     app_timer sys' = (if animation_deps (app_state sys) = animation_deps old then app_timer sys else None)"
  by (cases "animation_deps (app_state sys) = animation_deps old") (simp_all add: commit_effect animation_effect_idle)

lemma reset_not_animating: "\<not> isAnimating (ui (root_reducer RESET_ANIMATION s))"
  by (simp add: reset_animation_def)

lemma commit_returns: "\<exists>r. commit commit_fuel now old sys = Some r"
proof (cases "animation_deps (app_state sys) = animation_deps old")
  case False
  show ?thesis
  proof (cases "animation_effect (app_state sys)")
    case (Inr eff)
    show ?thesis
    proof (cases eff)
      case (Dispatch_now a)
      then have a: "a = RESET_ANIMATION" using Inr animation_effect_dispatch by simp
      let ?sys1 = "save_commit now (sys\<lparr>app_timer := None\<rparr>)\<lparr>app_state := root_reducer RESET_ANIMATION (app_state sys)\<rparr>"
      have "commit commit_fuel now old sys = commit (Suc 0) now (app_state sys) ?sys1"
        using False Inr Dispatch_now a
        by (simp add: commit_fuel_def numeral_2_eq_2 commit_effect del: commit.simps root_reducer.simps)
      moreover have "\<not> isAnimating (ui (app_state ?sys1))" by (simp add: reset_animation_def)
      ultimately show ?thesis using commit_idle [of ?sys1 0 now "app_state sys"] by auto
    qed (simp_all add: False Inr commit_fuel_def commit_effect numeral_2_eq_2)
  qed (simp add: False commit_fuel_def numeral_2_eq_2)
qed (simp add: commit_fuel_def numeral_2_eq_2)


lemma commit_two_reset:
  "animation_deps (app_state sys) \<noteq> animation_deps old \<Longrightarrow>
   animation_effect (app_state sys) = Inr (Dispatch_now RESET_ANIMATION) \<Longrightarrow>
   \<exists>sys'. commit commit_fuel now old sys = Some (Inr sys') \<and>
     app_state sys' = reset_animation (app_state sys) \<and> app_timer sys' = None"
proof -
  assume d: "animation_deps (app_state sys) \<noteq> animation_deps old"
    and e: "animation_effect (app_state sys) = Inr (Dispatch_now RESET_ANIMATION)"
  let ?sys1 = "save_commit now (sys\<lparr>app_timer := None\<rparr>)\<lparr>app_state := root_reducer RESET_ANIMATION (app_state sys)\<rparr>"
  have "commit commit_fuel now old sys = commit (Suc 0) now (app_state sys) ?sys1"
    using d e by (simp add: commit_fuel_def numeral_2_eq_2 commit_effect del: commit.simps root_reducer.simps)
  moreover have "\<not> isAnimating (ui (app_state ?sys1))" by (simp add: reset_animation_def)
  ultimately show ?thesis using commit_idle [of ?sys1 0 now "app_state sys"] by auto
qed

lemma playing_active_item: "playing iid it k sys \<Longrightarrow> active_item (app_state sys) = Some it"
  by (simp add: playing_def active_item_def)

lemma tick_next:
  assumes p: "playing iid it k sys" and more: "Suc (Suc k) < length (steps it)"
  shows "\<exists>sys'. dispatch now (SET_ACTIVE_STEP (int (Suc k))) (sys\<lparr>app_timer := None\<rparr>) = Some (Inr sys') \<and>
           playing iid it (Suc k) sys'"
proof -
  let ?s = "app_state sys"
  let ?s' = "set_active_step (int (Suc k)) ?s"
  have idx: "activeStepIndex (ui ?s') = Some (int (Suc k))"
    using p more by (intro set_active_step_index [OF playing_active_item [OF p]]) simp_all
  have eff: "animation_effect ?s' = Inr (Schedule_timer 2000 (SET_ACTIVE_STEP (int (Suc k) + 1)))"
    using animation_effect_schedule [of ?s' iid it] idx p more
    by (simp add: playing_def set_active_step_frame current_step_index_def)
  have deps: "animation_deps ?s' \<noteq> animation_deps ?s"
    using idx p by (simp add: animation_deps_def playing_def)
  show ?thesis using eff deps idx p more
    by (simp add: dispatch_def commit_fuel_def numeral_2_eq_2 commit_effect set_active_step_frame playing_def)
qed

lemma tick_last:
  assumes p: "playing iid it k sys" and last: "Suc (Suc k) = length (steps it)"
  shows "\<exists>sys'. dispatch now (SET_ACTIVE_STEP (int (Suc k))) (sys\<lparr>app_timer := None\<rparr>) = Some (Inr sys') \<and>
           stopped iid sys'"
proof -
  let ?s = "app_state sys"
  let ?s' = "set_active_step (int (Suc k)) ?s"
  have idx: "activeStepIndex (ui ?s') = Some (int (Suc k))"
    using p last by (intro set_active_step_index [OF playing_active_item [OF p]]) simp_all
  have eff: "animation_effect ?s' = Inr (Dispatch_now RESET_ANIMATION)"
    using animation_effect_reset [of ?s' iid it] idx p last
    by (simp add: playing_def set_active_step_frame current_step_index_def)
  have deps: "animation_deps ?s' \<noteq> animation_deps ?s"
    using idx p by (simp add: animation_deps_def playing_def)
  obtain sys' where "commit commit_fuel now ?s (sys\<lparr>app_timer := None, app_state := ?s'\<rparr>) = Some (Inr sys')"
      "app_state sys' = reset_animation ?s'" "app_timer sys' = None"
    using commit_two_reset [of "sys\<lparr>app_timer := None, app_state := ?s'\<rparr>" ?s now] eff deps by auto
  moreover have "stopped iid sys'" using calculation p
    by (simp add: stopped_def reset_animation_def set_active_step_frame playing_def)
  ultimately show ?thesis by (auto simp: dispatch_def)
qed


lemma run_from_playing:
  "playing iid it k sys \<Longrightarrow>
   \<exists>sys'. run_timers (length (steps it) - Suc k) now sys =
       Some (Inr (map (\<lambda>j. SET_ACTIVE_STEP (int j)) [Suc k..<length (steps it)], sys')) \<and> stopped iid sys'"
proof (induction "length (steps it) - Suc (Suc k)" arbitrary: k sys)
  case 0
  then have last: "Suc (Suc k) = length (steps it)" by (simp add: playing_def)
  obtain sys' where d: "dispatch now (SET_ACTIVE_STEP (int (Suc k))) (sys\<lparr>app_timer := None\<rparr>) = Some (Inr sys')"
      and st: "stopped iid sys'"
    using tick_last [OF "0.prems" last] by blast
  have f: "length (steps it) - Suc k = Suc 0" and u: "[Suc k..<length (steps it)] = [Suc k]"
    using last by (simp_all flip: last)
  show ?case using d st "0.prems" by (simp add: f u playing_def stopped_def)
next
  case (Suc m)
  then have more: "Suc (Suc k) < length (steps it)" by (simp add: playing_def)
  obtain sys1 where d: "dispatch now (SET_ACTIVE_STEP (int (Suc k))) (sys\<lparr>app_timer := None\<rparr>) = Some (Inr sys1)"
      and p1: "playing iid it (Suc k) sys1"
    using tick_next [OF Suc.prems more] by blast
  obtain sys' where r: "run_timers (length (steps it) - Suc (Suc k)) now sys1 =
       Some (Inr (map (\<lambda>j. SET_ACTIVE_STEP (int j)) [Suc (Suc k)..<length (steps it)], sys'))" and st: "stopped iid sys'"
  proof -
    have "m = length (steps it) - Suc (Suc (Suc k))" using Suc.hyps(2) by arith
    then show ?thesis using Suc.hyps(1) [of "Suc k" sys1] p1 that by blast
  qed
  have f: "length (steps it) - Suc k = Suc (length (steps it) - Suc (Suc k))" using more by simp
  have u: "[Suc k..<length (steps it)] = Suc k # [Suc (Suc k)..<length (steps it)]" using more by (simp add: upt_conv_Cons)
  show ?case using Suc.prems d r st by (simp add: f u playing_def)
qed


lemma start_playback:
  assumes a: "activePlaybookItemId (ui (app_state sys)) = Some iid" "iid \<noteq> []"
    "map_of (playbook (tactics (app_state sys))) iid = Some it" "steps it \<noteq> []"
    "\<not> isAnimating (ui (app_state sys))"
  shows "\<exists>sys1. dispatch now START_ANIMATION sys = Some (Inr sys1) \<and>
           (if Suc 0 < length (steps it) then playing iid it 0 sys1 else stopped iid sys1)"
proof -
  let ?s = "app_state sys"
  let ?st0 = "set_active_step 0 ?s"
  let ?s' = "?st0\<lparr>ui := (ui ?st0)\<lparr>isAnimating := True, isPaused := False\<rparr>\<rparr>"
  have ai: "active_item ?s = Some it" using a by (simp add: active_item_def)
  have idx: "activeStepIndex (ui ?st0) = Some 0" using a by (intro set_active_step_index [OF ai]) simp_all
  have start: "start_animation ?s = ?s'" using ai by (simp add: start_animation_def Let_def)
  have deps: "animation_deps ?s' \<noteq> animation_deps ?s" using a by (simp add: animation_deps_def)
  show ?thesis
  proof (cases "Suc 0 < length (steps it)")
    case True
    have "animation_effect ?s' = Inr (Schedule_timer 2000 (SET_ACTIVE_STEP (0 + 1)))"
      using animation_effect_schedule [of ?s' iid it] idx a True
      by (simp add: set_active_step_frame current_step_index_def)
    with True deps idx a show ?thesis
      by (simp add: dispatch_def start commit_fuel_def numeral_2_eq_2 commit_effect set_active_step_frame playing_def)
  next
    case False
    have "animation_effect ?s' = Inr (Dispatch_now RESET_ANIMATION)"
      using animation_effect_reset [of ?s' iid it] idx a False
      by (simp add: set_active_step_frame current_step_index_def)
    then obtain sys1 where "commit commit_fuel now ?s (sys\<lparr>app_state := ?s'\<rparr>) = Some (Inr sys1)"
        "app_state sys1 = reset_animation ?s'" "app_timer sys1 = None"
      using commit_two_reset [of "sys\<lparr>app_state := ?s'\<rparr>" ?s now] deps by auto
    with False a show ?thesis
      by (simp add: dispatch_def start stopped_def reset_animation_def set_active_step_frame)
  qed
qed

text \<open>
  C5. Playback terminates and visits every step in order: starting an idle play of
  \<open>n \<ge> 1\<close> steps and letting its \<open>n - 1\<close> timers fire dispatches \<^verbatim>\<open>SET_ACTIVE_STEP\<close>
  1, \<dots>, \<open>n - 1\<close> and then stops the animation by itself, play-head back at 0 and no
  timer pending.
\<close>

theorem playback_runs_to_completion:
  assumes "activePlaybookItemId (ui (app_state sys)) = Some iid" "iid \<noteq> []"
    "map_of (playbook (tactics (app_state sys))) iid = Some it" "steps it \<noteq> []"
    "\<not> isAnimating (ui (app_state sys))"
  shows "\<exists>sys1 sys'. dispatch now START_ANIMATION sys = Some (Inr sys1) \<and>
           run_timers (length (steps it) - 1) now sys1 =
             Some (Inr (map (\<lambda>j. SET_ACTIVE_STEP (int j)) [1..<length (steps it)], sys')) \<and>
           stopped iid sys'"
proof -
  obtain sys1 where d: "dispatch now START_ANIMATION sys = Some (Inr sys1)"
      and st: "if Suc 0 < length (steps it) then playing iid it 0 sys1 else stopped iid sys1"
    using start_playback [OF assms] by blast
  show ?thesis
  proof (cases "Suc 0 < length (steps it)")
    case True
    then show ?thesis using d st run_from_playing [of iid it 0 sys1 now] by auto
  next
    case False
    then have "length (steps it) = 1" using assms(4) by (cases "steps it") auto
    then show ?thesis using d st False by (auto simp: stopped_def)
  qed
qed


lemma demo_play_facts:
  "activePlaybookItemId (ui (app_state demo_playback_system)) = Some ''play_0''"
  "map_of (playbook (tactics (app_state demo_playback_system))) ''play_0'' = Some demo_play"
  "length (steps demo_play) = 2"
  "\<not> isAnimating (ui (app_state demo_playback_system))"
proof -
  have m: "map_option (length \<circ> steps) (map_of (playbook (tactics (app_state demo_playback_system))) ''play_0'') = Some 2"
    by (simp add: demo_playback_system_def run_actions_def create_playbook_item_def add_playbook_step_def
        Let_def fresh_item_id_def INITIAL_STATE_def initial_tactics_def initial_ui_def)
  then show "map_of (playbook (tactics (app_state demo_playback_system))) ''play_0'' = Some demo_play"
    by (auto simp: demo_play_def)
  with m show "length (steps demo_play) = 2" by simp
  show "activePlaybookItemId (ui (app_state demo_playback_system)) = Some ''play_0''"
      "\<not> isAnimating (ui (app_state demo_playback_system))"
    by (simp_all add: demo_playback_system_def run_actions_def create_playbook_item_def add_playbook_step_def
        Let_def fresh_item_id_def INITIAL_STATE_def initial_tactics_def initial_ui_def)
qed

lemma demo_playback_started:
  "\<exists>sys1. dispatch ''t0'' START_ANIMATION demo_playback_system = Some (Inr sys1) \<and> playing ''play_0'' demo_play 0 sys1"
proof -
  have ne: "steps demo_play \<noteq> []" using demo_play_facts(3) by auto
  show ?thesis
    using start_playback [OF demo_play_facts(1) _ demo_play_facts(2) ne demo_play_facts(4), of "''t0''"]
      demo_play_facts(3) by simp
qed

theorem playback_witness:
  "\<exists>sys1 sys'. dispatch ''t0'' START_ANIMATION demo_playback_system = Some (Inr sys1) \<and>
     run_timers 1 ''t0'' sys1 = Some (Inr ([SET_ACTIVE_STEP 1], sys')) \<and> stopped ''play_0'' sys'"
proof -
  have ne: "steps demo_play \<noteq> []" and nm: "''play_0'' \<noteq> []" using demo_play_facts(3) by auto
  note r = playback_runs_to_completion [OF demo_play_facts(1) nm demo_play_facts(2) ne demo_play_facts(4), of "''t0''"]
  show ?thesis using r demo_play_facts(3) by (simp add: numeral_2_eq_2 del: run_timers.simps)
qed

text \<open>
  C25. Every dispatch returns: the cascade of effects it starts (an animation effect that
  dispatches \<^verbatim>\<open>RESET_ANIMATION\<close>, whose commit runs the effect once more) ends within
  \<open>commit_fuel\<close> commits, with the new system state or the error an effect throws.
\<close>

theorem dispatch_returns: "\<exists>r. dispatch now a sys = Some r"
  by (simp add: dispatch_def commit_returns)

text \<open>
  C23. Pausing a playback cancels its pending timer and keeps the play-head; resuming
  schedules the timer for the next step again, from the same position.
\<close>

theorem pause_resume_keeps_play_head:
  assumes p: "playing iid it k sys"
  shows "\<exists>sys1 sys2. dispatch now PAUSE_ANIMATION sys = Some (Inr sys1) \<and> app_timer sys1 = None \<and>
           isPaused (ui (app_state sys1)) \<and> activeStepIndex (ui (app_state sys1)) = Some (int k) \<and>
           dispatch now PAUSE_ANIMATION sys1 = Some (Inr sys2) \<and> playing iid it k sys2"
proof -
  let ?s = "app_state sys"
  let ?s1 = "?s\<lparr>ui := (ui ?s)\<lparr>isPaused := True\<rparr>\<rparr>"
  have pa: "pause_animation ?s = ?s1" using p by (simp add: pause_animation_def playing_def)
  have e1: "animation_effect ?s1 = Inr No_effect" by (simp add: animation_effect_paused)
  have d1: "animation_deps ?s1 \<noteq> animation_deps ?s" using p by (simp add: animation_deps_def playing_def)
  let ?sys1 = "save_commit now (sys\<lparr>app_state := ?s1, app_timer := None\<rparr>)"
  have r1: "dispatch now PAUSE_ANIMATION sys = Some (Inr ?sys1)"
    using e1 d1 by (simp add: dispatch_def pa commit_fuel_def numeral_2_eq_2 commit_effect)
  have pa2: "pause_animation ?s1 = ?s" using p by (simp add: pause_animation_def playing_def)
  have e2: "animation_effect ?s = Inr (Schedule_timer 2000 (SET_ACTIVE_STEP (int k + 1)))"
    using animation_effect_schedule [of ?s iid it] p by (simp add: playing_def current_step_index_def)
  have d2: "animation_deps ?s \<noteq> animation_deps ?s1" using p by (simp add: animation_deps_def playing_def)
  have r2: "\<exists>sys2. dispatch now PAUSE_ANIMATION ?sys1 = Some (Inr sys2) \<and> playing iid it k sys2"
    using e2 d2 p by (simp add: dispatch_def pa2 commit_fuel_def numeral_2_eq_2 commit_effect playing_def)
  show ?thesis using r1 r2 p by (simp add: playing_def)
qed

text \<open>
  C24. Deleting the play being animated removes it, stops the animation and cancels the
  pending timer: no timer is left to fire against the deleted play.
\<close>

theorem delete_active_cancels_timer:
  assumes p: "playing iid it k sys"
  shows "\<exists>sys1. dispatch now (DELETE_PLAYBOOK_ITEM iid) sys = Some (Inr sys1) \<and> app_timer sys1 = None \<and>
           \<not> isAnimating (ui (app_state sys1)) \<and> map_of (playbook (tactics (app_state sys1))) iid = None"
proof -
  let ?s1 = "delete_playbook_item iid (app_state sys)"
  have n: "\<not> isAnimating (ui ?s1)" "activePlaybookItemId (ui ?s1) = None"
      "map_of (playbook (tactics ?s1)) iid = None"
    using p by (simp_all add: delete_playbook_item_def playing_def delete_conv)
  have d: "animation_deps ?s1 \<noteq> animation_deps (app_state sys)"
    using n p by (simp add: animation_deps_def playing_def)
  show ?thesis using n d
    by (simp add: dispatch_def commit_fuel_def numeral_2_eq_2 commit_effect animation_effect_idle)
qed


theorem pause_resume_witness:
  "\<exists>sys1. dispatch ''t0'' START_ANIMATION demo_playback_system = Some (Inr sys1) \<and>
     (\<exists>sys2 sys3. dispatch ''t0'' PAUSE_ANIMATION sys1 = Some (Inr sys2) \<and> app_timer sys2 = None \<and>
        isPaused (ui (app_state sys2)) \<and> activeStepIndex (ui (app_state sys2)) = Some 0 \<and>
        dispatch ''t0'' PAUSE_ANIMATION sys2 = Some (Inr sys3) \<and> playing ''play_0'' demo_play 0 sys3)"
  using demo_playback_started pause_resume_keeps_play_head [of "''play_0''" demo_play 0 _ "''t0''"] by fastforce

theorem delete_active_witness:
  "\<exists>sys1. dispatch ''t0'' START_ANIMATION demo_playback_system = Some (Inr sys1) \<and>
     (\<exists>sys2. dispatch ''t0'' (DELETE_PLAYBOOK_ITEM ''play_0'') sys1 = Some (Inr sys2) \<and> app_timer sys2 = None \<and>
        \<not> isAnimating (ui (app_state sys2)) \<and> map_of (playbook (tactics (app_state sys2))) ''play_0'' = None)"
  using demo_playback_started delete_active_cancels_timer [of "''play_0''" demo_play 0 _ "''t0''"] by fastforce


lemma cleanStateForSaving_auth [simp]: "cleanStateForSaving (s\<lparr>auth := a\<rparr>) = cleanStateForSaving s"
  by (simp add: cleanStateForSaving_def bake_active_step_def Let_def split: option.split prod.split)

lemma cleanStateForSaving_login [simp]: "cleanStateForSaving (login_success u s) = cleanStateForSaving s"
  by (simp add: login_success_def)

lemma initial_no_save_slot: "\<not> js_present (activeSaveSlotId (ui INITIAL_STATE))"
  by (simp add: INITIAL_STATE_def initial_ui_def)

lemma session_start_parts:
  "tactics (session_start cu) = tactics INITIAL_STATE" "ui (session_start cu) = ui INITIAL_STATE"
  "franchise (session_start cu) = franchise INITIAL_STATE"
  by (simp_all add: session_start_def login_success_def split: option.split)

lemma run_login:
  "run_actions ((case cu of None \<Rightarrow> [] | Some u \<Rightarrow> [LOGIN_SUCCESS u]) @ as) INITIAL_STATE = run_actions as (session_start cu)"
  by (simp add: run_actions_def session_start_def split: option.split)

text \<open>
  C8. A stored snapshot of another application version is discarded wholesale at mount:
  the session starts from the seed state (after the remembered login) and the stored
  snapshot is replaced by the seed state's.
\<close>

theorem mount_discards_other_version:
  assumes "active_state st = Some (Parsed sn)" "snap_version sn \<noteq> APP_VERSION"
  shows "\<exists>sys. mount now cu st = Some (Inr sys) \<and> app_state sys = session_start cu \<and> app_timer sys = None \<and>
           active_state (app_storage sys) = Some (Parsed (cleanStateForSaving INITIAL_STATE))"
proof (cases cu)
  case None
  with assms show ?thesis
    by (simp add: mount_def mount_queue_def restore_other_version session_start_def save_effect_active initial_no_save_slot)
next
  case (Some u)
  have deps: "animation_deps (login_success u INITIAL_STATE) = animation_deps INITIAL_STATE"
    by (simp add: login_success_def animation_deps_def)
  have js: "\<not> js_present (activeSaveSlotId (ui (login_success u INITIAL_STATE)))"
    by (simp add: login_success_def INITIAL_STATE_def initial_ui_def)
  from Some assms deps js show ?thesis
    by (simp add: mount_def mount_queue_def restore_other_version session_start_def commit_fuel_def numeral_2_eq_2
        run_actions_def save_commit_def save_effect_active login_success_def[symmetric])
qed

text \<open>
  C12. Reload round trip of the running application: after the save effect wrote a state,
  mounting from that storage restores the loaded snapshot over the session's login, with
  no timer pending.
\<close>

theorem mount_restores_saved_state:
  assumes "save_slots_index st0 \<noteq> Some Malformed \<or> \<not> js_present (activeSaveSlotId (ui s))"
  shows "\<exists>sys. mount now cu (save_effect now' s st0) = Some (Inr sys) \<and>
           app_state sys = load_state (cleanStateForSaving s) (session_start cu) \<and> app_timer sys = None"
proof -
  let ?st = "save_effect now' s st0"
  let ?q = "(case cu of None \<Rightarrow> [] | Some u \<Rightarrow> [LOGIN_SUCCESS u]) @ [LOAD_STATE (cleanStateForSaving s)]"
  have q: "mount_queue cu ?st = (?q, ?st)"
    using assms by (simp add: mount_queue_def save_effect_active restore_cleaned)
  let ?sys0 = "\<lparr>app_state = INITIAL_STATE, app_timer = None, app_storage = save_effect now INITIAL_STATE ?st\<rparr>"
  have m: "mount now cu ?st = commit commit_fuel now INITIAL_STATE
             (?sys0\<lparr>app_state := load_state (cleanStateForSaving s) (session_start cu)\<rparr>)"
    by (simp add: mount_def q run_login del: commit.simps) (simp add: run_actions_def)
  have "\<not> isAnimating (ui (load_state (cleanStateForSaving s) (session_start cu)))"
    by (simp add: load_clean_simps initial_ui_def)
  then show ?thesis
    using commit_idle [of "?sys0\<lparr>app_state := load_state (cleanStateForSaving s) (session_start cu)\<rparr>" 1 now INITIAL_STATE]
    by (auto simp: m commit_fuel_def numeral_2_eq_2 simp del: commit.simps)
qed

theorem mount_discards_witness:
  "\<exists>sys. mount ''t1'' None stale_storage = Some (Inr sys) \<and> app_state sys = session_start None \<and>
     app_timer sys = None \<and> active_state (app_storage sys) = Some (Parsed (cleanStateForSaving INITIAL_STATE))"
  using mount_discards_other_version [of stale_storage stale_snapshot "''t1''" None]
  by (simp add: stale_storage_def stale_snapshot_def cleanStateForSaving_parts APP_VERSION_def)

theorem mount_restores_witness:
  "\<exists>sys. mount ''t1'' None (save_effect ''t0'' (app_state demo_playback_system) empty_storage) = Some (Inr sys) \<and>
     app_state sys = load_state (cleanStateForSaving (app_state demo_playback_system)) (session_start None) \<and>
     app_timer sys = None"
  using mount_restores_saved_state [of empty_storage "app_state demo_playback_system" "''t1''" None "''t0''"]
  by (simp add: empty_storage_def)



subsection \<open>Refinement of the reducer state machine\<close>

lemma save_effect_storage_ok:
  assumes "reachable s" "storage_ok st"
  shows "storage_ok (save_effect now s st)"
proof -
  have "active_state (save_effect now s st) = Some (Parsed (cleanStateForSaving s)) \<or>
        active_state (save_effect now s st) = active_state st"
    by (auto simp: save_effect_def Let_def split: option.split json_value.split)
  then show ?thesis using assms by (auto simp: storage_ok_def)
qed

lemma animation_effect_schedule_action:
  "animation_effect s = Inr (Schedule_timer d a) \<Longrightarrow> \<not> is_load_state a"
  by (auto simp: animation_effect_def Let_def is_load_state_def split: option.splits if_splits)

lemma commit_sys_inv:
  "sys_inv sys \<Longrightarrow> commit n now old sys = Some (Inr sys') \<Longrightarrow> sys_inv sys'"
proof (induction n now old sys rule: commit.induct)
  case (2 n now old sys)
  show ?case
  proof (cases "animation_deps (app_state sys) = animation_deps old")
    case True
    then show ?thesis using "2.prems" save_effect_storage_ok
      by (auto simp: sys_inv_def timer_ok_def save_commit_def)
  next
    case False
    then obtain eff where e: "animation_effect (app_state sys) = Inr eff"
      using "2.prems"(2) by (cases "animation_effect (app_state sys)") auto
    let ?sys1 = "save_commit now (sys\<lparr>app_timer := None\<rparr>)"
    have inv1: "sys_inv ?sys1"
      using "2.prems"(1) save_effect_storage_ok by (simp add: sys_inv_def timer_ok_def save_commit_def)
    show ?thesis
    proof (cases eff)
      case (Schedule_timer d a)
      then show ?thesis using "2.prems"(2) inv1 e False animation_effect_schedule_action [of _ d a]
        by (auto simp: sys_inv_def timer_ok_def save_commit_def)
    next
      case No_effect
      then show ?thesis using "2.prems"(2) inv1 e False by simp
    next
      case (Dispatch_now a)
      then have "a = RESET_ANIMATION" using e animation_effect_dispatch by blast
      then have "sys_inv (?sys1\<lparr>app_state := root_reducer a (app_state ?sys1)\<rparr>)"
        using inv1 reachable.step [of "app_state ?sys1" a]
        by (simp add: sys_inv_def timer_ok_def is_load_state_def save_commit_def)
      from "2.IH" [OF False e refl Dispatch_now this] show ?thesis
        using "2.prems"(2) e False Dispatch_now by (simp add: Let_def)
    qed
  qed
qed simp

lemma dispatch_sys_inv:
  "sys_inv sys \<Longrightarrow> \<not> is_load_state a \<Longrightarrow> dispatch now a sys = Some (Inr sys') \<Longrightarrow> sys_inv sys'"
  unfolding dispatch_def
  by (erule commit_sys_inv [rotated]) (simp add: sys_inv_def timer_ok_def reachable.step)

lemma reachable_session_start: "reachable (session_start cu)"
proof (cases cu)
  case (Some u)
  have "reachable (root_reducer (LOGIN_SUCCESS u) INITIAL_STATE)"
    by (rule reachable.step [OF reachable.init]) (simp add: is_load_state_def)
  then show ?thesis using Some by (simp add: session_start_def)
qed (simp add: session_start_def reachable.init)

lemma fold_login:
  "fold root_reducer (case cu of None \<Rightarrow> [] | Some u \<Rightarrow> [LOGIN_SUCCESS u]) INITIAL_STATE = session_start cu"
  by (simp add: session_start_def split: option.split)

lemma mount_queue_ok:
  assumes "storage_ok st" "mount_queue cu st = (q, st1)"
  shows "reachable (run_actions q INITIAL_STATE) \<and> storage_ok st1"
proof (cases "restore_saved_state (active_state st)")
  case (Restore_dispatch a)
  then obtain sn where sn: "active_state st = Some (Parsed sn)" "snap_version sn = APP_VERSION" "a = LOAD_STATE sn"
    by (auto simp: restore_saved_state_def split: option.splits json_value.splits if_splits)
  then obtain s' where "reachable s'" "sn = cleanStateForSaving s'" using assms(1) by (auto simp: storage_ok_def)
  then have "reachable (root_reducer (LOAD_STATE sn) (session_start cu))"
    using reachable.load [OF reachable_session_start] by simp
  then show ?thesis using assms Restore_dispatch sn
    by (auto simp: mount_queue_def Let_def run_actions_def fold_login)
next
  case Restore_discard
  then show ?thesis using assms reachable_session_start
    by (auto simp: mount_queue_def Let_def storage_ok_def run_actions_def fold_login)
next
  case Restore_nothing
  then show ?thesis using assms reachable_session_start
    by (auto simp: mount_queue_def Let_def run_actions_def fold_login)
qed

lemma mount_sys_inv: "storage_ok st \<Longrightarrow> mount now cu st = Some (Inr sys) \<Longrightarrow> sys_inv sys"
proof -
  assume ok: "storage_ok st" and m: "mount now cu st = Some (Inr sys)"
  obtain q st1 where q: "mount_queue cu st = (q, st1)" by fastforce
  note qo = mount_queue_ok [OF ok q]
  let ?sys0 = "\<lparr>app_state = INITIAL_STATE, app_timer = None, app_storage = save_effect now INITIAL_STATE st1\<rparr>"
  have s0: "storage_ok (app_storage ?sys0)" using qo save_effect_storage_ok reachable.init by simp
  show ?thesis
  proof (cases "q = []")
    case True
    then show ?thesis using m q s0 by (auto simp: mount_def sys_inv_def timer_ok_def reachable.init)
  next
    case False
    have "sys_inv (?sys0\<lparr>app_state := run_actions q INITIAL_STATE\<rparr>)"
      using qo s0 by (simp add: sys_inv_def timer_ok_def)
    then show ?thesis using m q False commit_sys_inv by (auto simp: mount_def)
  qed
qed

text \<open>
  C2. The running application refines the reducer's state machine: every system state
  reached by mounting over a storage whose snapshot of this version was saved by the app,
  then dispatching user actions (no snapshot loads) and letting the animation timer fire,
  shows a reachable state of the reducer, so the state invariant holds in it.
\<close>

theorem app_reach_refines_reducer:
  "app_reach sys \<Longrightarrow> reachable (app_state sys) \<and> state_inv (app_state sys)"
proof -
  assume "app_reach sys"
  then have "sys_inv sys"
  proof (induction rule: app_reach.induct)
    case (mount st now cu sys)
    then show ?case by (rule mount_sys_inv)
  next
    case (dispatch sys a now sys')
    then show ?case using dispatch_sys_inv by blast
  next
    case (tick sys a now sys')
    then have "sys_inv (sys\<lparr>app_timer := None\<rparr>)" "\<not> is_load_state a"
      by (auto simp: sys_inv_def timer_ok_def)
    then show ?case using tick dispatch_sys_inv by blast
  qed
  then show ?thesis using reachable_state_inv by (simp add: sys_inv_def)
qed

theorem app_refines_witness:
  "app_reach \<lparr>app_state = INITIAL_STATE, app_timer = None, app_storage = save_effect ''t0'' INITIAL_STATE empty_storage\<rparr> \<and>
   reachable INITIAL_STATE \<and> state_inv INITIAL_STATE"
proof -
  have m: "mount ''t0'' None empty_storage =
      Some (Inr \<lparr>app_state = INITIAL_STATE, app_timer = None, app_storage = save_effect ''t0'' INITIAL_STATE empty_storage\<rparr>)"
    by (simp add: mount_def mount_queue_def restore_saved_state_def empty_storage_def)
  have ok: "storage_ok empty_storage" by (simp add: storage_ok_def empty_storage_def)
  have r: "app_reach \<lparr>app_state = INITIAL_STATE, app_timer = None, app_storage = save_effect ''t0'' INITIAL_STATE empty_storage\<rparr>"
    by (rule app_reach.mount [OF ok m])
  show ?thesis using app_reach_refines_reducer [OF r] r by simp
qed

end
