(* ===== verification/Chemistry.thy ===== *)
theory Chemistry
  imports Formation
begin

text \<open>
  Chemistry links and the formation-strength overlay of
  \<^verbatim>\<open>src/components/SoccerField.tsx\<close>. \<^verbatim>\<open>getChemistryLinks\<close> (lines 146--188) walks
  every ordered pair of bound slots with two nested loops, canonicalizes the pair by
  joining the sorted slot ids with \<^verbatim>\<open>-\<close>, skips a key already in \<^verbatim>\<open>checkedPairs\<close>,
  and keeps a link for adjacent slots (anchor distance below 30) whose score exceeds 40.
  The score is \<^verbatim>\<open>calculateChemistryScore\<close> of \<^verbatim>\<open>services/chemistryService\<close>, which is
  not in the repository: it is a parameter \<open>sc\<close>, the score of two players under the
  tables of the render. \<^verbatim>\<open>chemistryLinks\<close> (lines 190--199) concatenates the links of
  the teams in view; \<^verbatim>\<open>FormationStrengthOverlay\<close> (lines 91--121) computes the anchors it
  shades. The reference \<open>links_ref\<close> states what the loops compute: one evaluation per
  unordered pair, in slot order.
\<close>

record chem_link =
  link_key :: string
  link_x1 :: real
  link_y1 :: real
  link_x2 :: real
  link_y2 :: real
  link_color :: string
  link_opacity :: real
  link_score :: int

text \<open>\<^verbatim>\<open>[slotA.id, slotB.id].sort().join('-')\<close>: the default sort compares code units.\<close>

definition pair_key :: "string \<Rightarrow> string \<Rightarrow> string" where
  "pair_key a b = (if a \<le> b then a @ ''-'' @ b else b @ ''-'' @ a)"

text \<open>\<^verbatim>\<open>players.find(p => p.id === slot.playerId)\<close>.\<close>

definition slot_player :: "player list \<Rightarrow> formation_slot \<Rightarrow> player option" where
  "slot_player ps s = (case slot_playerId s of None \<Rightarrow> None | Some q \<Rightarrow> find_player ps q)"

text \<open>Lines 170--183: the link of two players, mirrored for the away side, in its tier.\<close>

definition chem_link_of :: "team \<Rightarrow> (player \<Rightarrow> player \<Rightarrow> int) \<Rightarrow> string \<Rightarrow> player \<Rightarrow> player \<Rightarrow> chem_link option" where
  "chem_link_of t sc k pa pb =
     (let posA = (if t = Away then mirrorPosition (position pa) else position pa);
          posB = (if t = Away then mirrorPosition (position pb) else position pb);
          score = sc pa pb
      in if score > 40
         then Some \<lparr>link_key = k, link_x1 = pos_x posA, link_y1 = pos_y posA,
                    link_x2 = pos_x posB, link_y2 = pos_y posB,
                    link_color = (if score \<ge> 75 then ''#2dd4bf'' else ''#facc15''),
                    link_opacity = (if score \<ge> 75 then 7 / 10 else 1 / 2), link_score = score\<rparr>
         else None)"

text \<open>Lines 164--185, for slot \<open>A\<close> with player \<open>pa\<close> and slot \<open>B\<close>, once the key is new.\<close>

definition link_if :: "team \<Rightarrow> (player \<Rightarrow> player \<Rightarrow> int) \<Rightarrow> player list \<Rightarrow> formation_slot \<Rightarrow> player \<Rightarrow>
    formation_slot \<Rightarrow> chem_link option" where
  "link_if t sc ps a pa b =
     (case slot_player ps b of
        None \<Rightarrow> None
      | Some pb \<Rightarrow>
          if pitch_distance (defaultPosition a) (defaultPosition b) < 30
          then chem_link_of t sc (pair_key (slot_id a) (slot_id b)) pa pb else None)"

text \<open>One iteration of the inner loop (lines 157--186) over \<open>(checkedPairs, links)\<close>.\<close>

definition chem_inner :: "team \<Rightarrow> (player \<Rightarrow> player \<Rightarrow> int) \<Rightarrow> player list \<Rightarrow> formation_slot \<Rightarrow> player \<Rightarrow>
    formation_slot \<Rightarrow> string list \<times> chem_link list \<Rightarrow> string list \<times> chem_link list" where
  "chem_inner t sc ps a pa b st =
     (if slot_id a = slot_id b then st
      else let k = pair_key (slot_id a) (slot_id b) in
        if k \<in> set (fst st) then st
        else (fst st @ [k], snd st @ (case link_if t sc ps a pa b of None \<Rightarrow> [] | Some l \<Rightarrow> [l])))"

definition chem_outer :: "team \<Rightarrow> (player \<Rightarrow> player \<Rightarrow> int) \<Rightarrow> player list \<Rightarrow> formation_slot list \<Rightarrow>
    formation_slot \<Rightarrow> string list \<times> chem_link list \<Rightarrow> string list \<times> chem_link list" where
  "chem_outer t sc ps sw a st =
     (case slot_player ps a of
        None \<Rightarrow> st
      | Some pa \<Rightarrow> fold (chem_inner t sc ps a pa) sw st)"

definition getChemistryLinks :: "team \<Rightarrow> (player \<Rightarrow> player \<Rightarrow> int) \<Rightarrow> player list \<Rightarrow> formation \<Rightarrow> chem_link list" where
  "getChemistryLinks t sc ps f =
     (let sw = slotsWithPlayers f in snd (fold (chem_outer t sc ps sw) sw ([], [])))"

text \<open>Reference: every pair of bound slots taken once, the earlier slot first.\<close>

fun ordered_pairs :: "'a list \<Rightarrow> ('a \<times> 'a) list" where
  "ordered_pairs [] = []"
| "ordered_pairs (x # xs) = map (\<lambda>y. (x, y)) xs @ ordered_pairs xs"

definition link_for :: "team \<Rightarrow> (player \<Rightarrow> player \<Rightarrow> int) \<Rightarrow> player list \<Rightarrow> formation_slot \<times> formation_slot \<Rightarrow>
    chem_link option" where
  "link_for t sc ps ab =
     (case slot_player ps (fst ab) of None \<Rightarrow> None | Some pa \<Rightarrow> link_if t sc ps (fst ab) pa (snd ab))"

definition links_ref :: "team \<Rightarrow> (player \<Rightarrow> player \<Rightarrow> int) \<Rightarrow> player list \<Rightarrow> formation \<Rightarrow> chem_link list" where
  "links_ref t sc ps f = somes (map (link_for t sc ps) (ordered_pairs (slotsWithPlayers f)))"

text \<open>\<^verbatim>\<open>chemistryLinks\<close>: home links, then away links, for the teams in view.\<close>

definition chemistryLinks :: "team_view \<Rightarrow> (team \<Rightarrow> player \<Rightarrow> player \<Rightarrow> int) \<Rightarrow> player list \<Rightarrow>
    formation \<Rightarrow> formation \<Rightarrow> chem_link list" where
  "chemistryLinks v sc ps hf af =
     (if v = View_team Home \<or> v = View_both then getChemistryLinks Home (sc Home) ps hf else []) @
     (if v = View_team Away \<or> v = View_both then getChemistryLinks Away (sc Away) ps af else [])"

text \<open>
  \<^verbatim>\<open>FormationStrengthOverlay\<close>: nothing when hidden or with fewer than three bound
  slots; otherwise the anchors of the bound slots of the team in view (home for
  \<open>both\<close>), mirrored for the away side. An active formation id naming no formation
  makes \<^verbatim>\<open>formation.slots\<close> throw.
\<close>

definition strength_points :: "team_view \<Rightarrow> bool \<Rightarrow> tactics_state \<Rightarrow> js_error + pos list option" where
  "strength_points v visible ts =
     (if \<not> visible then Inr None
      else let t = (if v = View_team Away then Away else Home) in
        case map_of (formations ts) (team_get t (activeFormationIds ts)) of
          None \<Rightarrow> Inl (TypeError ''Cannot read properties of undefined (reading 'slots')'')
        | Some f \<Rightarrow>
            let pts = map (\<lambda>s. if t = Away then mirrorPosition (defaultPosition s) else defaultPosition s)
                        (slotsWithPlayers f)
            in if length pts < 3 then Inr None else Inr (Some pts))"

subsection \<open>Concrete inputs of the witnesses\<close>

text \<open>
  Four adjacent bound slots whose ids contain the separator: the pairs
  \<open>(a-b, c)\<close> and \<open>(a, b-c)\<close> share the key \<open>a-b-c\<close>.
\<close>

definition collide_formation :: formation where
  "collide_formation = \<lparr>formation_id = ''custom'', formation_name = ''Custom'',
     slots = [mk_slot ''a-b'' DF 10 10 (Some ''p1''), mk_slot ''c'' DF 12 10 (Some ''p3''),
              mk_slot ''a'' DF 14 10 (Some ''p4''), mk_slot ''b-c'' DF 16 10 (Some ''p8'')]\<rparr>"


subsection \<open>Key canonicalization and the loops\<close>

lemma sep_inj:
  "CHR ''-'' \<notin> set a \<Longrightarrow> CHR ''-'' \<notin> set c \<Longrightarrow> a @ CHR ''-'' # b = c @ CHR ''-'' # d \<Longrightarrow> a = c \<and> b = d"
proof (induction a arbitrary: c)
  case Nil
  then show ?case by (cases c) auto
next
  case (Cons x a)
  then show ?case by (cases c) auto
qed

lemma pair_key_comm: "pair_key a b = pair_key b a"
  by (auto simp: pair_key_def)

lemma pair_key_inj:
  assumes "CHR ''-'' \<notin> set a" "CHR ''-'' \<notin> set b" "CHR ''-'' \<notin> set c" "CHR ''-'' \<notin> set d"
    and "pair_key a b = pair_key c d"
  shows "(a = c \<and> b = d) \<or> (a = d \<and> b = c)"
  using assms sep_inj [of a c b d] sep_inj [of a d b c] sep_inj [of b c a d] sep_inj [of b d a c]
  by (auto simp: pair_key_def split: if_splits)


lemma somes_link_append [simp]:
  "(case l of None \<Rightarrow> [] | Some x \<Rightarrow> [x]) @ somes xs = somes (l # xs)"
  by (cases l) simp_all

lemma chem_inner_fold:
  "distinct (map (\<lambda>b. pair_key (slot_id x) (slot_id b)) (filter (\<lambda>b. slot_id b \<noteq> slot_id x) ys)) \<Longrightarrow>
   fold (chem_inner t sc ps x px) ys (C, L) =
     (C @ map (\<lambda>b. pair_key (slot_id x) (slot_id b))
            (filter (\<lambda>b. slot_id b \<noteq> slot_id x \<and> pair_key (slot_id x) (slot_id b) \<notin> set C) ys),
      L @ somes (map (link_if t sc ps x px)
            (filter (\<lambda>b. slot_id b \<noteq> slot_id x \<and> pair_key (slot_id x) (slot_id b) \<notin> set C) ys)))"
proof (induction ys arbitrary: C L)
  case Nil
  then show ?case by simp
next
  case (Cons b ys)
  let ?K = "\<lambda>b. pair_key (slot_id x) (slot_id b)"
  show ?case
  proof (cases "slot_id b = slot_id x")
    case True
    with Cons show ?thesis by (simp add: chem_inner_def)
  next
    case False
    show ?thesis
    proof (cases "?K b \<in> set C")
      case True
      with False Cons show ?thesis by (simp add: chem_inner_def)
    next
      case new: False
      have d: "distinct (map ?K (filter (\<lambda>b. slot_id b \<noteq> slot_id x) ys))"
        and nb: "?K b \<notin> ?K ` set (filter (\<lambda>b. slot_id b \<noteq> slot_id x) ys)"
        using Cons.prems False by auto
      have f: "filter (\<lambda>b'. slot_id b' \<noteq> slot_id x \<and> ?K b' \<notin> set (C @ [?K b])) ys =
               filter (\<lambda>b'. slot_id b' \<noteq> slot_id x \<and> ?K b' \<notin> set C) ys"
      proof -
        have "\<forall>b'\<in>set ys. slot_id b' \<noteq> slot_id x \<longrightarrow> ?K b' \<noteq> ?K b"
          using nb by (auto intro: rev_image_eqI)
        then show ?thesis by (intro filter_cong refl) auto
      qed
      show ?thesis
        using Cons.IH [OF d, of "C @ [?K b]"] False new f by (simp add: chem_inner_def Let_def)
    qed
  qed
qed


lemma distinct_ids_eq:
  "distinct (map slot_id sw) \<Longrightarrow> a \<in> set sw \<Longrightarrow> b \<in> set sw \<Longrightarrow> slot_id a = slot_id b \<Longrightarrow> a = b"
  by (metis distinct_map inj_on_def)

lemma chem_keys_distinct:
  assumes dist: "distinct (map slot_id sw)" and nd: "\<forall>s\<in>set sw. CHR ''-'' \<notin> set (slot_id s)"
    and x: "x \<in> set sw"
  shows "distinct (map (\<lambda>b. pair_key (slot_id x) (slot_id b)) (filter (\<lambda>b. slot_id b \<noteq> slot_id x) sw))"
proof -
  have "inj_on (\<lambda>b. pair_key (slot_id x) (slot_id b)) (set (filter (\<lambda>b. slot_id b \<noteq> slot_id x) sw))"
  proof (rule inj_onI)
    fix b b'
    assume b: "b \<in> set (filter (\<lambda>b. slot_id b \<noteq> slot_id x) sw)" and b': "b' \<in> set (filter (\<lambda>b. slot_id b \<noteq> slot_id x) sw)"
      and eq: "pair_key (slot_id x) (slot_id b) = pair_key (slot_id x) (slot_id b')"
    then have "slot_id b = slot_id b'"
      using pair_key_inj [OF _ _ _ _ eq] nd x by auto
    then show "b = b'" using b b' distinct_ids_eq [OF dist] by auto
  qed
  moreover have "distinct (filter (\<lambda>b. slot_id b \<noteq> slot_id x) sw)"
    using dist by (simp add: distinct_map)
  ultimately show ?thesis by (simp add: distinct_map)
qed

lemma chem_key_checked:
  assumes dist: "distinct (map slot_id sw)" and nd: "\<forall>s\<in>set sw. CHR ''-'' \<notin> set (slot_id s)"
    and sw: "sw = pre @ x # rest"
    and b: "b \<in> set sw" "slot_id b \<noteq> slot_id x"
  shows "pair_key (slot_id x) (slot_id b) \<in>
           {pair_key (slot_id a) (slot_id c) | a c. a \<in> set pre \<and> slot_player ps a \<noteq> None \<and> c \<in> set sw \<and> slot_id c \<noteq> slot_id a}
         \<longleftrightarrow> b \<in> set pre \<and> slot_player ps b \<noteq> None"
proof
  assume "pair_key (slot_id x) (slot_id b) \<in>
           {pair_key (slot_id a) (slot_id c) | a c. a \<in> set pre \<and> slot_player ps a \<noteq> None \<and> c \<in> set sw \<and> slot_id c \<noteq> slot_id a}"
  then obtain a c where a: "a \<in> set pre" "slot_player ps a \<noteq> None" "c \<in> set sw"
      and eq: "pair_key (slot_id x) (slot_id b) = pair_key (slot_id a) (slot_id c)" by blast
  have xs: "x \<in> set sw" "a \<in> set sw" using sw a by auto
  have "x \<notin> set pre" using dist sw by (auto simp: distinct_map)
  then have "slot_id x \<noteq> slot_id a" using a xs distinct_ids_eq [OF dist] by metis
  then have "slot_id b = slot_id a"
    using pair_key_inj [OF _ _ _ _ eq] nd xs b a by auto
  then have "b = a" using distinct_ids_eq [OF dist] b xs by auto
  then show "b \<in> set pre \<and> slot_player ps b \<noteq> None" using a by simp
next
  assume "b \<in> set pre \<and> slot_player ps b \<noteq> None"
  moreover have "x \<in> set sw" "slot_id x \<noteq> slot_id b" using sw b by auto
  ultimately show "pair_key (slot_id x) (slot_id b) \<in>
           {pair_key (slot_id a) (slot_id c) | a c. a \<in> set pre \<and> slot_player ps a \<noteq> None \<and> c \<in> set sw \<and> slot_id c \<noteq> slot_id a}"
    using pair_key_comm by blast
qed


lemma link_if_no_player: "slot_player ps b = None \<Longrightarrow> link_if t sc ps a pa b = None"
  by (simp add: link_if_def)

lemma somes_map_None: "(\<And>x. x \<in> set xs \<Longrightarrow> f x = None) \<Longrightarrow> somes (map f xs) = []"
  by (induction xs) auto

lemma chem_outer_fold:
  assumes dist: "distinct (map slot_id sw)" and nd: "\<forall>s\<in>set sw. CHR ''-'' \<notin> set (slot_id s)"
  shows "sw = pre @ rest \<Longrightarrow>
    set C = {pair_key (slot_id a) (slot_id c) | a c. a \<in> set pre \<and> slot_player ps a \<noteq> None \<and> c \<in> set sw \<and> slot_id c \<noteq> slot_id a} \<Longrightarrow>
    snd (fold (chem_outer t sc ps sw) rest (C, L)) = L @ somes (map (link_for t sc ps) (ordered_pairs rest))"
proof (induction rest arbitrary: pre C L)
  case Nil
  then show ?case by simp
next
  case (Cons x rest)
  let ?S = "\<lambda>pre. {pair_key (slot_id a) (slot_id c) | a c. a \<in> set pre \<and> slot_player ps a \<noteq> None \<and> c \<in> set sw \<and> slot_id c \<noteq> slot_id a}"
  have sw': "sw = (pre @ [x]) @ rest" using Cons.prems by simp
  show ?case
  proof (cases "slot_player ps x")
    case None
    have "set C = ?S (pre @ [x])" using Cons.prems(2) None by auto
    moreover have "somes (map (link_for t sc ps) (map (Pair x) rest)) = []"
      using None by (intro somes_map_None) (auto simp: link_for_def)
    ultimately show ?thesis
      using Cons.IH [OF sw'] None by (simp add: chem_outer_def)
  next
    case (Some px)
    let ?K = "\<lambda>b. pair_key (slot_id x) (slot_id b)"
    let ?F = "filter (\<lambda>b. slot_id b \<noteq> slot_id x \<and> ?K b \<notin> set C) sw"
    have xin: "x \<in> set sw" using Cons.prems by simp
    have inner: "fold (chem_inner t sc ps x px) sw (C, L) = (C @ map ?K ?F, L @ somes (map (link_if t sc ps x px) ?F))"
      by (rule chem_inner_fold [OF chem_keys_distinct [OF dist nd xin]])
    have F: "?F = filter (\<lambda>b. slot_player ps b = None) pre @ rest"
    proof -
      have key: "\<And>b. b \<in> set sw \<Longrightarrow> slot_id b \<noteq> slot_id x \<Longrightarrow>
                   (?K b \<in> set C) = (b \<in> set pre \<and> slot_player ps b \<noteq> None)"
        using chem_key_checked [OF dist nd Cons.prems(1)] Cons.prems(2) by simp
      have "?F = filter (\<lambda>b. slot_id b \<noteq> slot_id x \<and> \<not> (b \<in> set pre \<and> slot_player ps b \<noteq> None)) sw"
        by (rule filter_cong [OF refl]) (use key in blast)
      moreover have "\<forall>b\<in>set pre. slot_id b \<noteq> slot_id x" "\<forall>b\<in>set rest. slot_id b \<noteq> slot_id x \<and> b \<notin> set pre"
        using dist Cons.prems(1) xin distinct_ids_eq [OF dist] by (auto simp: distinct_map)
      moreover have "filter (\<lambda>b. slot_id b \<noteq> slot_id x \<and> \<not> (b \<in> set pre \<and> slot_player ps b \<noteq> None)) pre =
                     filter (\<lambda>b. slot_player ps b = None) pre"
        using calculation(2) by (intro filter_cong refl) auto
      moreover have "filter (\<lambda>b. slot_id b \<noteq> slot_id x \<and> \<not> (b \<in> set pre \<and> slot_player ps b \<noteq> None)) rest = rest"
        using calculation(3) by (intro filter_True) auto
      ultimately show ?thesis using Cons.prems(1) by simp
    qed
    have none: "somes (map (link_if t sc ps x px) (filter (\<lambda>b. slot_player ps b = None) pre)) = []"
      by (intro somes_map_None) (simp add: link_if_no_player)
    have C': "set (C @ map ?K ?F) = ?S (pre @ [x])"
    proof -
      have "set (C @ map ?K ?F) = set C \<union> {?K b | b. b \<in> set sw \<and> slot_id b \<noteq> slot_id x}" by auto
      also have "\<dots> = ?S (pre @ [x])" using Cons.prems(2) Some by auto
      finally show ?thesis .
    qed
    have lf: "map (link_for t sc ps) (map (Pair x) rest) = map (link_if t sc ps x px) rest"
      using Some by (simp add: link_for_def)
    have step: "fold (chem_outer t sc ps sw) (x # rest) (C, L) =
        fold (chem_outer t sc ps sw) rest (C @ map ?K ?F, L @ somes (map (link_if t sc ps x px) ?F))"
      by (simp add: chem_outer_def Some inner)
    have "somes (map (link_if t sc ps x px) ?F) = somes (map (link_for t sc ps) (map (Pair x) rest))"
      using F none by (simp only: lf somes_append map_append) simp
    then show ?thesis
      using Cons.IH [OF sw' C', of "L @ somes (map (link_if t sc ps x px) ?F)"] step by simp
  qed
qed


lemma slotsWithPlayers_props:
  "distinct (map slot_id (slots f)) \<Longrightarrow> distinct (map slot_id (slotsWithPlayers f))"
  "set (slotsWithPlayers f) \<subseteq> set (slots f)"
  by (auto simp: slotsWithPlayers_def distinct_map_filter)

text \<open>
  C14. When slot ids are distinct and contain no hyphen, the nested loops of
  getChemistryLinks with their checkedPairs set compute exactly one link evaluation per
  unordered pair of bound slots, in slot order (the reference links_ref).
\<close>

theorem getChemistryLinks_eq_ref:
  "distinct (map slot_id (slots f)) \<Longrightarrow> \<forall>s\<in>set (slots f). CHR ''-'' \<notin> set (slot_id s) \<Longrightarrow>
   getChemistryLinks t sc ps f = links_ref t sc ps f"
  using chem_outer_fold [of "slotsWithPlayers f" "[]" "slotsWithPlayers f" "[]" ps t sc "[]"] slotsWithPlayers_props [of f]
  by (auto simp: getChemistryLinks_def links_ref_def Let_def)

lemma chem_inner_keys:
  "set (map link_key (snd st)) \<subseteq> set (fst st) \<and> distinct (map link_key (snd st)) \<Longrightarrow>
   set (map link_key (snd (fold (chem_inner t sc ps a pa) ys st))) \<subseteq> set (fst (fold (chem_inner t sc ps a pa) ys st)) \<and>
   distinct (map link_key (snd (fold (chem_inner t sc ps a pa) ys st)))"
proof (induction ys arbitrary: st)
  case (Cons b ys)
  have "set (map link_key (snd (chem_inner t sc ps a pa b st))) \<subseteq> set (fst (chem_inner t sc ps a pa b st)) \<and>
        distinct (map link_key (snd (chem_inner t sc ps a pa b st)))"
    using Cons.prems
    by (auto simp: chem_inner_def Let_def link_if_def chem_link_of_def split: option.splits if_splits)
  then show ?case using Cons.IH by simp
qed simp

text \<open>
  C15. getChemistryLinks never returns two links with the same key, for any
  formation: the checkedPairs set guards every emitted link, so the React keys are unique.
\<close>

theorem chem_link_keys_distinct: "distinct (map link_key (getChemistryLinks t sc ps f))"
proof -
  have "set (map link_key (snd (fold (chem_outer t sc ps sw) xs st))) \<subseteq> set (fst (fold (chem_outer t sc ps sw) xs st)) \<and>
        distinct (map link_key (snd (fold (chem_outer t sc ps sw) xs st)))"
    if "set (map link_key (snd st)) \<subseteq> set (fst st) \<and> distinct (map link_key (snd st))" for sw xs st
    using that
  proof (induction xs arbitrary: st)
    case (Cons x xs)
    have "set (map link_key (snd (chem_outer t sc ps sw x st))) \<subseteq> set (fst (chem_outer t sc ps sw x st)) \<and>
          distinct (map link_key (snd (chem_outer t sc ps sw x st)))"
      using Cons.prems chem_inner_keys by (simp add: chem_outer_def split: option.split)
    then show ?case using Cons.IH by simp
  qed simp
  then show ?thesis by (simp add: getChemistryLinks_def Let_def)
qed


lemma chem_fold_links:
  assumes q: "\<And>k pa pb l. chem_link_of t sc k pa pb = Some l \<Longrightarrow> Q l"
  shows "\<forall>l\<in>set (snd st). Q l \<Longrightarrow> \<forall>l\<in>set (snd (fold (chem_outer t sc ps sw) xs st)). Q l"
proof (induction xs arbitrary: st)
  case (Cons x xs)
  have inner: "\<forall>l\<in>set (snd (fold (chem_inner t sc ps a pa) ys st')). Q l" if "\<forall>l\<in>set (snd st'). Q l" for a pa ys st'
    using that
  proof (induction ys arbitrary: st')
    case (Cons b ys)
    have "\<forall>l\<in>set (snd (chem_inner t sc ps a pa b st')). Q l"
      using Cons.prems q by (auto simp: chem_inner_def Let_def link_if_def split: option.splits if_splits)
    then show ?case using Cons.IH by simp
  qed simp
  have "\<forall>l\<in>set (snd (chem_outer t sc ps sw x st)). Q l"
    using Cons.prems inner by (simp add: chem_outer_def split: option.split)
  then show ?case using Cons.IH by simp
qed simp

text \<open>
  C31. Every rendered chemistry link has a score above 40; it is teal exactly when
  the score is at least 75, with opacity 0.7 in that tier and 0.5 otherwise.
\<close>

theorem chemistry_link_tiers:
  "\<forall>l\<in>set (chemistryLinks v sc ps hf af).
     40 < link_score l \<and> (link_color l = ''#2dd4bf'' \<longleftrightarrow> 75 \<le> link_score l) \<and>
     link_opacity l = (if 75 \<le> link_score l then 7 / 10 else 1 / 2)"
proof -
  have "\<forall>l\<in>set (getChemistryLinks t sc' ps f).
     40 < link_score l \<and> (link_color l = ''#2dd4bf'' \<longleftrightarrow> 75 \<le> link_score l) \<and>
     link_opacity l = (if 75 \<le> link_score l then 7 / 10 else 1 / 2)" for t sc' f
    unfolding getChemistryLinks_def Let_def
    by (rule chem_fold_links) (auto simp: chem_link_of_def Let_def split: if_splits)
  note h = this [of Home "sc Home" hf] and a = this [of Away "sc Away" af]
  show ?thesis
  proof
    fix l
    assume "l \<in> set (chemistryLinks v sc ps hf af)"
    then have "l \<in> set (getChemistryLinks Home (sc Home) ps hf) \<or> l \<in> set (getChemistryLinks Away (sc Away) ps af)"
      by (auto simp: chemistryLinks_def split: if_splits)
    then show "40 < link_score l \<and> (link_color l = ''#2dd4bf'' \<longleftrightarrow> 75 \<le> link_score l) \<and>
       link_opacity l = (if 75 \<le> link_score l then 7 / 10 else 1 / 2)"
      using h a by blast
  qed
qed

text \<open>
  Slot ids containing the separator make two different pairs share a key:
  on a formation with slots a-b, c, a, b-c (all adjacent) the loops evaluate five pairs
  where there are six, silently dropping the link of (a, b-c).
\<close>

theorem chem_key_collision:
  "length (getChemistryLinks Home (\<lambda>_ _. 80) defaultPlayers collide_formation) = 5 \<and>
   length (links_ref Home (\<lambda>_ _. 80) defaultPlayers collide_formation) = 6"
  by (simp add: getChemistryLinks_def links_ref_def collide_formation_def slotsWithPlayers_def chem_outer_def
      chem_inner_def link_if_def link_for_def slot_player_def find_player_def defaultPlayers_def pair_key_def
      chem_link_of_def pitch_distance_less_iff Let_def)


lemma on_pitch_mirror: "on_pitch p \<Longrightarrow> on_pitch (mirrorPosition p)"
  by (simp add: on_pitch_def)

text \<open>
  The strength overlay throws exactly when the active formation id of the
  team in view names no formation; when it draws, it has at least three points and, if
  every anchor lies on the pitch, so does every point it shades (mirrored or not).
\<close>

theorem strength_points_result:
  "(isl (strength_points v True ts) \<longleftrightarrow>
      map_of (formations ts) (team_get (if v = View_team Away then Away else Home) (activeFormationIds ts)) = None) \<and>
   (strength_points v True ts = Inr (Some pts) \<longrightarrow>
      (\<forall>f\<in>snd ` set (formations ts). \<forall>s\<in>set (slots f). on_pitch (defaultPosition s)) \<longrightarrow>
      3 \<le> length pts \<and> (\<forall>p\<in>set pts. on_pitch p))"
proof (cases "map_of (formations ts) (team_get (if v = View_team Away then Away else Home) (activeFormationIds ts))")
  case (Some f)
  then have "f \<in> snd ` set (formations ts)" by (force dest: map_of_SomeD)
  then show ?thesis using Some
    by (auto simp: strength_points_def Let_def slotsWithPlayers_def on_pitch_mirror split: if_splits)
qed (simp add: strength_points_def Let_def)

theorem strength_points_witness:
  "strength_points View_both True initial_tactics = Inr (Some (map defaultPosition (slots formation_442))) \<and>
   3 \<le> length (map defaultPosition (slots formation_442)) \<and>
   list_all on_pitch (map defaultPosition (slots formation_442))"
proof -
  have s: "strength_points View_both True initial_tactics = Inr (Some (map defaultPosition (slots formation_442)))"
    by (simp add: strength_points_def initial_tactics_def initial_formations_def formation_442_def slotsWithPlayers_def)
  have p: "\<forall>f\<in>snd ` set (formations initial_tactics). \<forall>s\<in>set (slots f). on_pitch (defaultPosition s)"
    by (simp add: initial_tactics_def initial_formations_def formation_442_def formation_433_def formation_352_def
        on_pitch_def)
  show ?thesis using strength_points_result [of View_both initial_tactics "map defaultPosition (slots formation_442)"] s p
    by (simp add: list_all_iff)
qed

theorem chem_eq_ref_witness:
  "distinct (map slot_id (slots formation_442)) \<and> list_all (\<lambda>s. CHR ''-'' \<notin> set (slot_id s)) (slots formation_442) \<and>
   getChemistryLinks Home (\<lambda>_ _. 60) defaultPlayers formation_442 = links_ref Home (\<lambda>_ _. 60) defaultPlayers formation_442"
proof -
  have h: "distinct (map slot_id (slots formation_442))" "\<forall>s\<in>set (slots formation_442). CHR ''-'' \<notin> set (slot_id s)"
    by (simp_all add: formation_442_def)
  show ?thesis using getChemistryLinks_eq_ref [OF h] h by (simp add: list_all_iff)
qed

theorem chemistry_tiers_witness:
  "list_all (\<lambda>l. 40 < link_score l \<and> (link_color l = ''#2dd4bf'' \<longleftrightarrow> 75 \<le> link_score l) \<and>
     link_opacity l = (if 75 \<le> link_score l then 7 / 10 else 1 / 2))
     (chemistryLinks View_both (\<lambda>_ _ _. 80) defaultPlayers formation_442 formation_433)"
  using chemistry_link_tiers [of View_both "\<lambda>_ _ _. 80" defaultPlayers formation_442 formation_433]
  by (simp add: list_all_iff)

end
