(* ===== verification/Controls.thy ===== *)
theory Controls
  imports Reducer
begin

text \<open>
  The player token and the keyboard shortcuts: \<^verbatim>\<open>PLAYER_ROLES\<close> of
  \<^verbatim>\<open>src/constants.ts\<close>, \<^verbatim>\<open>PlayerToken\<close> of \<^verbatim>\<open>src/components/PlayerToken.tsx\<close>
  (the drag guard, the selection dispatch and what the token shows: role label,
  captain badge, stamina bar, morale and availability indicators) and the
  \<^verbatim>\<open>keydown\<close> listener of \<^verbatim>\<open>src/components/Layout.tsx\<close>. A key press is the action
  the listener dispatches, reduced by \<open>root_reducer\<close>.
\<close>

subsection \<open>The role table\<close>

text \<open>\<^verbatim>\<open>PlayerRole\<close>; the description, which nothing here reads, is left out.\<close>

record player_role =
  role_id :: string
  role_name :: string
  role_abbreviation :: string
  role_category :: position_role

definition mk_role :: "string \<Rightarrow> string \<Rightarrow> string \<Rightarrow> position_role \<Rightarrow> player_role" where
  "mk_role i n a c = \<lparr>role_id = i, role_name = n, role_abbreviation = a, role_category = c\<rparr>"

definition PLAYER_ROLES :: "player_role list" where
  "PLAYER_ROLES =
    [mk_role ''gk'' ''Goalkeeper'' ''GK'' GK, mk_role ''sk'' ''Sweeper Keeper'' ''SK'' GK,
     mk_role ''cb'' ''Central Defender'' ''CB'' DF, mk_role ''bpd'' ''Ball-Playing Defender'' ''BPD'' DF,
     mk_role ''ncb'' ''No-Nonsense Centre-Back'' ''NCB'' DF, mk_role ''fb'' ''Full-Back'' ''FB'' DF,
     mk_role ''wb'' ''Wing-Back'' ''WB'' DF,
     mk_role ''dm'' ''Defensive Midfielder'' ''DM'' MF, mk_role ''dlp'' ''Deep-Lying Playmaker'' ''DLP'' MF,
     mk_role ''cm'' ''Central Midfielder'' ''CM'' MF, mk_role ''b2b'' ''Box-to-Box Midfielder'' ''B2B'' MF,
     mk_role ''ap'' ''Advanced Playmaker'' ''AP'' MF, mk_role ''wm'' ''Wide Midfielder'' ''WM'' MF,
     mk_role ''w'' ''Winger'' ''W'' FW, mk_role ''iw'' ''Inverted Winger'' ''IW'' FW,
     mk_role ''p'' ''Poacher'' ''P'' FW, mk_role ''tf'' ''Target Forward'' ''TF'' FW,
     mk_role ''cf'' ''Complete Forward'' ''CF'' FW]"

subsection \<open>The player token\<close>

text \<open>\<^verbatim>\<open>a || b\<close> on an optional string: the fallback when absent or empty.\<close>

definition js_or :: "string option \<Rightarrow> string \<Rightarrow> string" where
  "js_or v d = (case v of Some s \<Rightarrow> if s = [] then d else s | None \<Rightarrow> d)"

definition find_role :: "string \<Rightarrow> player_role option" where
  "find_role r = List.find (\<lambda>x. role_id x = r) PLAYER_ROLES"

definition is_draggable :: "ui_state \<Rightarrow> bool" where
  "is_draggable u = (drawingTool u = Tool_select \<and> \<not> isPresentationMode u)"

definition is_captain :: "tactics_state \<Rightarrow> player \<Rightarrow> bool" where
  "is_captain ts p = (Some (player_id p) = home (captainIds ts) \<or> Some (player_id p) = away (captainIds ts))"

text \<open>
  \<^verbatim>\<open>handleDragStart\<close>: \<open>None\<close> is \<^verbatim>\<open>preventDefault\<close>; otherwise the
  \<^verbatim>\<open>text/plain\<close> payload the drop handlers read. The ghost image is not modelled.
\<close>

definition handleDragStart :: "ui_state \<Rightarrow> player \<Rightarrow> string option" where
  "handleDragStart u p = (if \<not> is_draggable u then None else Some (player_id p))"

definition handleSelect :: "player \<Rightarrow> action" where
  "handleSelect p = SELECT_PLAYER (Some (player_id p))"

definition availabilityIcon :: "availability_status \<Rightarrow> (string \<times> string) option" where
  "availabilityIcon st =
     (case st of
        Minor_Injury \<Rightarrow> Some (''Minor Injury'', ''text-yellow-400'')
      | Major_Injury \<Rightarrow> Some (''Major Injury'', ''text-red-500'')
      | Suspended \<Rightarrow> Some (''Suspended'', ''bg-red-600'')
      | _ \<Rightarrow> None)"

definition moraleColor :: "player_morale \<Rightarrow> string" where
  "moraleColor m =
     (case m of
        Morale_Excellent \<Rightarrow> ''text-green-400'' | Morale_Good \<Rightarrow> ''text-green-500''
      | Morale_Okay \<Rightarrow> ''text-yellow-400'' | Morale_Poor \<Rightarrow> ''text-orange-500''
      | Morale_Very_Poor \<Rightarrow> ''text-red-500'')"

definition staminaColor :: "int \<Rightarrow> string" where
  "staminaColor st = (if st > 70 then ''bg-green-500'' else if st > 40 then ''bg-yellow-500'' else ''bg-red-500'')"

text \<open>What one token renders, as data.\<close>

record token_view =
  tv_draggable :: bool
  tv_selected :: bool
  tv_ai_highlight :: bool
  tv_title :: string
  tv_label :: string
  tv_stamina_color :: string
  tv_stamina_width :: int
  tv_morale_color :: string
  tv_captain :: bool
  tv_availability :: "(string \<times> string) option"
  tv_caption :: "int \<times> string"

definition PlayerToken :: "tactics_state \<Rightarrow> ui_state \<Rightarrow> bool \<Rightarrow> bool \<Rightarrow> player \<Rightarrow> token_view" where
  "PlayerToken ts u sel ai p =
     (let r = find_role (roleId p) in
      \<lparr>tv_draggable = is_draggable u, tv_selected = sel, tv_ai_highlight = ai,
       tv_title = js_or (map_option role_name r) ''Player'',
       tv_label = js_or (map_option role_abbreviation r) ''??'',
       tv_stamina_color = staminaColor (stamina p), tv_stamina_width = stamina p,
       tv_morale_color = moraleColor (morale p), tv_captain = is_captain ts p,
       tv_availability = availabilityIcon (availability p),
       tv_caption = (jerseyNumber p, player_name p)\<rparr>)"

subsection \<open>Keyboard shortcuts\<close>

text \<open>
  A \<^verbatim>\<open>keydown\<close> event: the key, the two modifiers the listener reads, and whether the
  target lies inside an \<^verbatim>\<open>input\<close>, \<^verbatim>\<open>textarea\<close> or \<^verbatim>\<open>select\<close>.
\<close>

record key_event =
  ev_key :: string
  ev_ctrl :: bool
  ev_meta :: bool
  ev_in_field :: bool

text \<open>
  \<^verbatim>\<open>toLowerCase\<close> on the ASCII letters. Characters are bytes here; no other byte
  lowers to one of the letters the listener compares with.
\<close>

definition js_lower_char :: "char \<Rightarrow> char" where
  "js_lower_char c = (if CHR ''A'' \<le> c \<and> c \<le> CHR ''Z'' then char_of (of_char c + (32::nat)) else c)"

definition js_toLowerCase :: "string \<Rightarrow> string" where
  "js_toLowerCase s = map js_lower_char s"

definition keyMap :: "string \<Rightarrow> drawing_tool option" where
  "keyMap = map_of [(''v'', Tool_select), (''a'', Tool_arrow), (''l'', Tool_line), (''r'', Tool_zone),
                    (''p'', Tool_pen), (''t'', Tool_text)]"

definition handleKeyDown :: "bool \<Rightarrow> key_event \<Rightarrow> action option" where
  "handleKeyDown pm e =
     (if ev_in_field e then None
      else if (ev_ctrl e \<or> ev_meta e) \<and> js_toLowerCase (ev_key e) = ''r'' then Some SOFT_RESET_APP
      else case keyMap (js_toLowerCase (ev_key e)) of
             None \<Rightarrow> None
           | Some t \<Rightarrow> if \<not> pm then Some (SET_DRAWING_TOOL t) else None)"

text \<open>
  The listener is re-registered whenever \<^verbatim>\<open>isPresentationMode\<close> changes, so it reads
  the mode of the current state; a press is the dispatch of what it returns.
\<close>

definition press_key :: "key_event \<Rightarrow> root_state \<Rightarrow> root_state" where
  "press_key e s = (case handleKeyDown (isPresentationMode (ui s)) e of None \<Rightarrow> s | Some a \<Rightarrow> root_reducer a s)"

definition key :: "string \<Rightarrow> key_event" where
  "key k = \<lparr>ev_key = k, ev_ctrl = False, ev_meta = False, ev_in_field = False\<rparr>"

definition ctrl_key :: "string \<Rightarrow> key_event" where
  "ctrl_key k = \<lparr>ev_key = k, ev_ctrl = True, ev_meta = False, ev_in_field = False\<rparr>"

subsection \<open>The tactics board page\<close>

text \<open>
  \<^verbatim>\<open>TacticsBoardPage\<close> (\<^verbatim>\<open>src/pages/TacticsBoardPage.tsx\<close>): which parts of the
  board are laid out, by presentation mode.
\<close>

record board_layout =
  left_sidebar_open :: bool
  field_padded :: bool
  toolbar_shown :: bool
  dugout_shown :: bool
  presentation_controls_shown :: bool
  right_sidebar_open :: bool
  chat_button_shown :: bool

definition TacticsBoardPage :: "ui_state \<Rightarrow> board_layout" where
  "TacticsBoardPage u =
     (let pm = isPresentationMode u in
      \<lparr>left_sidebar_open = \<not> pm, field_padded = \<not> pm, toolbar_shown = \<not> pm, dugout_shown = \<not> pm,
       presentation_controls_shown = pm, right_sidebar_open = \<not> pm, chat_button_shown = \<not> pm\<rparr>)"

subsection \<open>Concrete inputs of the witnesses\<close>

definition presenting_state :: root_state where
  "presenting_state = INITIAL_STATE\<lparr>ui := initial_ui\<lparr>isPresentationMode := True\<rparr>\<rparr>"


subsection \<open>Properties\<close>

lemma char_of_eq_iff: "n < 256 \<Longrightarrow> char_of n = c \<longleftrightarrow> n = (of_char c :: nat)"
  by (metis char_of_char of_char_of mod_less)

lemma js_lower_char_eq:
  "js_lower_char d = c \<longleftrightarrow>
     (if CHR ''A'' \<le> d \<and> d \<le> CHR ''Z'' then of_char c = of_char d + (32::nat) else d = c)"
proof (cases "CHR ''A'' \<le> d \<and> d \<le> CHR ''Z''")
  case True
  then have "of_char d + 32 < (256::nat)" by (simp add: less_eq_char_def)
  then show ?thesis using True char_of_eq_iff [of "of_char d + 32" c] by (auto simp: js_lower_char_def)
next
  case False
  show ?thesis unfolding js_lower_char_def if_not_P [OF False] by (rule refl)
qed

lemma js_lower_char_r: "js_lower_char d = CHR ''r'' \<longleftrightarrow> d = CHR ''r'' \<or> d = CHR ''R''"
proof -
  have R: "of_char d = (82::nat) \<longleftrightarrow> d = CHR ''R''"
    using of_char_eq_iff [of d "CHR ''R''"] by simp
  show ?thesis
  proof (cases "CHR ''A'' \<le> d \<and> d \<le> CHR ''Z''")
    case True
    then show ?thesis using R by (auto simp: js_lower_char_eq less_eq_char_def)
  next
    case False
    then show ?thesis by (auto simp: js_lower_char_eq less_eq_char_def)
  qed
qed

lemma js_toLowerCase_r: "js_toLowerCase s = ''r'' \<longleftrightarrow> s = ''r'' \<or> s = ''R''"
  by (cases s) (auto simp: js_toLowerCase_def js_lower_char_r)

lemma handleKeyDown_cases:
  "handleKeyDown pm e = None \<or> handleKeyDown pm e = Some SOFT_RESET_APP \<or>
   (\<exists>t. \<not> pm \<and> handleKeyDown pm e = Some (SET_DRAWING_TOOL t))"
  by (auto simp: handleKeyDown_def split: option.split)

lemma handleKeyDown_tool:
  "handleKeyDown pm e = Some (SET_DRAWING_TOOL t) \<longleftrightarrow>
   \<not> ev_in_field e \<and> \<not> ((ev_ctrl e \<or> ev_meta e) \<and> js_toLowerCase (ev_key e) = ''r'') \<and> \<not> pm \<and>
   keyMap (js_toLowerCase (ev_key e)) = Some t"
  by (auto simp: handleKeyDown_def split: option.split)

text \<open>
  Ctrl+R or Cmd+R, in either letter case, pressed outside a form field soft-resets
  the app, in presentation mode too, and no other key event does.
\<close>

theorem handleKeyDown_soft_reset:
  "handleKeyDown pm e = Some SOFT_RESET_APP \<longleftrightarrow>
   \<not> ev_in_field e \<and> (ev_ctrl e \<or> ev_meta e) \<and> (ev_key e = ''r'' \<or> ev_key e = ''R'')"
  by (auto simp: handleKeyDown_def js_toLowerCase_r split: option.split)

text \<open>
  In presentation mode a key press leaves the state unchanged or soft-resets it:
  the drawing-tool shortcuts are disabled.
\<close>

theorem presentation_keys_only_reset:
  "isPresentationMode (ui s) \<Longrightarrow> press_key e s = s \<or> press_key e s = soft_reset_app s"
  using handleKeyDown_cases [of True e] by (auto simp: press_key_def)

lemma press_key_cases:
  "press_key e s = s \<or> (\<exists>a. handleKeyDown (isPresentationMode (ui s)) e = Some a \<and> press_key e s = root_reducer a s \<and>
     \<not> is_load_state a)"
  using handleKeyDown_cases [of "isPresentationMode (ui s)" e]
  by (auto simp: press_key_def is_load_state_def)

text \<open>
  Keyboard shortcuts keep the app among the reachable states, so the state invariant
  (slot exclusivity, play-head in range, no animation without a play) holds after any key press.
\<close>

theorem press_key_keeps_invariant: "reachable s \<Longrightarrow> reachable (press_key e s) \<and> state_inv (press_key e s)"
proof -
  assume r: "reachable s"
  have "reachable (press_key e s)"
    using press_key_cases [of e s] r reachable.step by metis
  then show ?thesis using reachable_state_inv by blast
qed

lemma keyMap_v: "keyMap (js_toLowerCase k) = Some Tool_select \<and> js_toLowerCase k \<noteq> ''r''" if "k = ''v'' \<or> k = ''V''"
  using that by (auto simp: keyMap_def js_toLowerCase_def js_lower_char_def char_of_eq_iff)

text \<open>
  Outside presentation mode, pressing v or V selects the select tool without
  touching the tactics, after which every player token is draggable and its drag carries
  the player id the drop handlers read.
\<close>

theorem shortcut_enables_drag:
  "\<not> isPresentationMode (ui s) \<Longrightarrow> k = ''v'' \<or> k = ''V'' \<Longrightarrow>
   tactics (press_key (key k) s) = tactics s \<and> is_draggable (ui (press_key (key k) s)) \<and>
   handleDragStart (ui (press_key (key k) s)) p = Some (player_id p)"
  using keyMap_v [of k]
  by (simp add: press_key_def handleKeyDown_def key_def map_ui_def is_draggable_def handleDragStart_def)

text \<open>
  After SET_CAPTAIN for a roster player, a token shows the captain badge exactly
  when it is that player or the captain of the other team.
\<close>

theorem set_captain_badge:
  "find_player (players ts) pid = Some p \<Longrightarrow>
   tv_captain (PlayerToken (set_captain pid ts) u sel ai q) \<longleftrightarrow>
     player_id q = pid \<or> Some (player_id q) = team_get (if player_team p = Home then Away else Home) (captainIds ts)"
  by (cases "player_team p") (auto simp: PlayerToken_def Let_def is_captain_def set_captain_def)

lemma roles_table_wf:
  "distinct (map role_id PLAYER_ROLES) \<and> list_all (\<lambda>r. role_name r \<noteq> [] \<and> role_abbreviation r \<noteq> []) PLAYER_ROLES"
  by (simp add: PLAYER_ROLES_def mk_role_def)

lemma seeded_tokens_labelled:
  "map (\<lambda>p. tv_label (PlayerToken ts u sel ai p)) defaultPlayers =
   [''SK'', ''BPD'', ''WB'', ''WB'', ''IW'', ''B2B'', ''DLP'', ''P'', ''W'', ''P'', ''NCB'', ''CM'', ''AP'', ''FB'', ''CF'']"
  by (simp add: PlayerToken_def Let_def find_role_def PLAYER_ROLES_def mk_role_def defaultPlayers_def js_or_def)

lemma ctrl_combos_switch_tool:
  "handleKeyDown False (ctrl_key ''a'') = Some (SET_DRAWING_TOOL Tool_arrow) \<and>
   handleKeyDown False (ctrl_key ''v'') = Some (SET_DRAWING_TOOL Tool_select) \<and>
   handleKeyDown False (ctrl_key ''p'') = Some (SET_DRAWING_TOOL Tool_pen) \<and>
   handleKeyDown False (ctrl_key ''t'') = Some (SET_DRAWING_TOOL Tool_text) \<and>
   handleKeyDown False (ctrl_key ''l'') = Some (SET_DRAWING_TOOL Tool_line) \<and>
   handleKeyDown True (ctrl_key ''R'') = Some SOFT_RESET_APP"
  by (simp add: handleKeyDown_def ctrl_key_def keyMap_def js_toLowerCase_def js_lower_char_def char_of_eq_iff)

theorem presentation_keys_witness:
  "isPresentationMode (ui presenting_state) \<and>
   (press_key (key ''v'') presenting_state = presenting_state \<or>
    press_key (key ''v'') presenting_state = soft_reset_app presenting_state)"
proof -
  have h: "isPresentationMode (ui presenting_state)" by (simp add: presenting_state_def initial_ui_def)
  show ?thesis using presentation_keys_only_reset [OF h] h by simp
qed

theorem press_key_invariant_witness:
  "reachable (press_key (ctrl_key ''R'') INITIAL_STATE) \<and> state_inv (press_key (ctrl_key ''R'') INITIAL_STATE)"
  using press_key_keeps_invariant [OF reachable.init] by simp

theorem shortcut_drag_witness:
  "\<not> isPresentationMode (ui INITIAL_STATE) \<and>
   tactics (press_key (key ''V'') INITIAL_STATE) = tactics INITIAL_STATE \<and>
   is_draggable (ui (press_key (key ''V'') INITIAL_STATE)) \<and>
   handleDragStart (ui (press_key (key ''V'') INITIAL_STATE)) (hd defaultPlayers) = Some ''p1''"
proof -
  have h: "\<not> isPresentationMode (ui INITIAL_STATE)" by (simp add: INITIAL_STATE_def initial_ui_def)
  have p: "player_id (hd defaultPlayers) = ''p1''" by (simp add: defaultPlayers_def)
  show ?thesis using shortcut_enables_drag [OF h, of "''V''" "hd defaultPlayers"] h p by simp
qed

theorem set_captain_badge_witness:
  "find_player (players initial_tactics) ''p1'' = Some (hd defaultPlayers) \<and>
   tv_captain (PlayerToken (set_captain ''p1'' initial_tactics) initial_ui False False (hd defaultPlayers))"
proof -
  have h: "find_player (players initial_tactics) ''p1'' = Some (hd defaultPlayers)"
    by (simp add: find_player_def initial_tactics_def defaultPlayers_def)
  have p: "player_id (hd defaultPlayers) = ''p1''" by (simp add: defaultPlayers_def)
  show ?thesis using set_captain_badge [OF h, of initial_ui False False "hd defaultPlayers"] h p by simp
qed


text \<open>
  C39. Presentation mode makes the board read-only: a key press leaves the state as it was
  or soft-resets it, no token can be dragged, and the page hides the toolbar and the dugout
  and shows the presentation controls.
\<close>

theorem presentation_mode_read_only:
  assumes "isPresentationMode (ui s)"
  shows "(press_key e s = s \<or> press_key e s = soft_reset_app s) \<and> \<not> is_draggable (ui s) \<and>
         handleDragStart (ui s) p = None \<and>
         \<not> toolbar_shown (TacticsBoardPage (ui s)) \<and> \<not> dugout_shown (TacticsBoardPage (ui s)) \<and>
         presentation_controls_shown (TacticsBoardPage (ui s))"
  using assms presentation_keys_only_reset [OF assms, of e]
  by (simp add: is_draggable_def handleDragStart_def TacticsBoardPage_def Let_def)

theorem presentation_read_only_witness:
  "isPresentationMode (ui presenting_state) \<and> handleDragStart (ui presenting_state) (hd defaultPlayers) = None \<and>
   \<not> toolbar_shown (TacticsBoardPage (ui presenting_state))"
proof -
  have h: "isPresentationMode (ui presenting_state)" by (simp add: presenting_state_def initial_ui_def)
  show ?thesis using presentation_mode_read_only [OF h, of "key ''v''" "hd defaultPlayers"] h by simp
qed

end
