(* ===== verification/Routing.thy ===== *)
theory Routing
  imports Controls
begin

text \<open>
  The route table of \<^verbatim>\<open>src/App.tsx\<close> and the guard \<^verbatim>\<open>ProtectedRoute\<close> of
  \<^verbatim>\<open>src/components/ProtectedRoute.tsx\<close>. A location is its list of non-empty path
  segments (the router drops empty segments and a trailing slash) and static segments
  match without regard to ASCII case, as the router's matcher does. The element a
  location renders is a value; a \<^verbatim>\<open><Navigate>\<close> carries its target and whether it
  replaces the history entry. Lazy loading and the \<^verbatim>\<open>Suspense\<close> fallback are not modelled.
\<close>

datatype app_page =
    DashboardPage | TacticsBoardPage | FinancesPage | TransfersPage | TrainingPage | InboxPage
  | AnalyticsPage | SettingsPage | YouthAcademyPage | StaffPage | StadiumPage | SponsorshipsPage
  | LeagueTablePage | BoardObjectivesPage | NewsFeedPage | ClubHistoryPage | MedicalCenterPage
  | JobSecurityPage | InternationalManagementPage | OppositionAnalysisPage | PressConferencePage
  | PlayerProfilePage string | SkillChallengesPage | MentoringPage

datatype element = LandingPage | LoginPage | SignupPage | In_layout app_page | Navigate "string list" bool

text \<open>The static children of the layout route (lines 54--77).\<close>

definition layout_routes :: "(string \<times> app_page) list" where
  "layout_routes =
    [(''dashboard'', DashboardPage), (''tactics'', TacticsBoardPage), (''finances'', FinancesPage),
     (''transfers'', TransfersPage), (''training'', TrainingPage), (''inbox'', InboxPage),
     (''analytics'', AnalyticsPage), (''settings'', SettingsPage), (''youth-academy'', YouthAcademyPage),
     (''staff'', StaffPage), (''stadium'', StadiumPage), (''sponsorships'', SponsorshipsPage),
     (''league-table'', LeagueTablePage), (''board-objectives'', BoardObjectivesPage),
     (''news-feed'', NewsFeedPage), (''club-history'', ClubHistoryPage),
     (''medical-center'', MedicalCenterPage), (''job-security'', JobSecurityPage),
     (''international-management'', InternationalManagementPage),
     (''opposition-analysis'', OppositionAnalysisPage), (''press-conference'', PressConferencePage),
     (''skill-challenges'', SkillChallengesPage), (''mentoring'', MentoringPage)]"

text \<open>A child route, \<^verbatim>\<open>player/:playerId\<close> included; \<open>None\<close> falls to the splat route.\<close>

fun layout_child :: "string list \<Rightarrow> app_page option" where
  "layout_child [seg] = map_of layout_routes (js_toLowerCase seg)"
| "layout_child [seg, pid] = (if js_toLowerCase seg = ''player'' then Some (PlayerProfilePage pid) else None)"
| "layout_child _ = None"

definition ProtectedRoute :: "auth_state \<Rightarrow> element \<Rightarrow> element" where
  "ProtectedRoute a child = (if \<not> isAuthenticated a then Navigate [''login''] True else child)"

text \<open>
  \<^verbatim>\<open>App\<close>: the three public routes redirect a signed-in user to the dashboard; every
  other location goes through \<^verbatim>\<open>ProtectedRoute\<close> to a child of the layout or to the
  splat route's redirect.
\<close>

definition App :: "auth_state \<Rightarrow> string list \<Rightarrow> element" where
  "App a path =
     (let lp = map js_toLowerCase path in
      if lp = [] then (if isAuthenticated a then Navigate [''dashboard''] False else LandingPage)
      else if lp = [''login''] then (if isAuthenticated a then Navigate [''dashboard''] False else LoginPage)
      else if lp = [''signup''] then (if isAuthenticated a then Navigate [''dashboard''] False else SignupPage)
      else ProtectedRoute a (case layout_child path of
                               Some pg \<Rightarrow> In_layout pg
                             | None \<Rightarrow> Navigate [''dashboard''] True))"

text \<open>Following redirects, with fuel: \<open>None\<close> when the fuel runs out.\<close>

fun settle :: "nat \<Rightarrow> auth_state \<Rightarrow> string list \<Rightarrow> element option" where
  "settle 0 a p = None"
| "settle (Suc n) a p = (case App a p of Navigate q _ \<Rightarrow> settle n a q | e \<Rightarrow> Some e)"

definition is_redirect :: "element \<Rightarrow> bool" where
  "is_redirect e = (case e of Navigate _ _ \<Rightarrow> True | _ \<Rightarrow> False)"

definition needs_auth :: "element \<Rightarrow> bool" where
  "needs_auth e = (case e of In_layout _ \<Rightarrow> True | _ \<Rightarrow> False)"


subsection \<open>Properties\<close>

lemma App_navigate:
  "App a p = Navigate q r \<Longrightarrow>
   (isAuthenticated a \<and> q = [''dashboard'']) \<or> (\<not> isAuthenticated a \<and> q = [''login''])"
  by (auto simp: App_def Let_def ProtectedRoute_def split: if_splits option.splits)

lemma App_auth:
  "App a p = In_layout pg \<Longrightarrow> isAuthenticated a"
  "App a p \<in> {LandingPage, LoginPage, SignupPage} \<Longrightarrow> \<not> isAuthenticated a"
  by (auto simp: App_def Let_def ProtectedRoute_def split: if_splits option.splits)

lemma App_targets:
  "isAuthenticated a \<Longrightarrow> App a [''dashboard''] = In_layout DashboardPage"
  "\<not> isAuthenticated a \<Longrightarrow> App a [''login''] = LoginPage"
  by (simp_all add: App_def ProtectedRoute_def layout_routes_def js_toLowerCase_def js_lower_char_def)

text \<open>
  C38. Every location, signed in or not, settles within two route resolutions on a page
  that is not a redirect, and it is a page of the layout exactly when the user is
  authenticated.
\<close>

theorem navigation_settles:
  "\<exists>e. settle 2 a p = Some e \<and> \<not> is_redirect e \<and> (needs_auth e \<longleftrightarrow> isAuthenticated a)"
proof (cases "App a p")
  case (Navigate q r)
  then show ?thesis using App_navigate [OF Navigate] App_targets
    by (auto simp: numeral_2_eq_2 is_redirect_def needs_auth_def)
qed (use App_auth in \<open>force simp: numeral_2_eq_2 is_redirect_def needs_auth_def\<close>)+

end
