(* ===== verification/Auth_Forms.thy ===== *)
theory Auth_Forms
  imports Routing "HOL-Library.Sublist"
begin

text \<open>
  The sign-in and sign-up forms of \<^verbatim>\<open>src/pages/LoginPage.tsx\<close> and
  \<^verbatim>\<open>src/pages/SignupPage.tsx\<close>: the email pattern \<^verbatim>\<open>/\S+@\S+\.\S+/\<close>, the
  validation of each form, the input handler that clears a field's error, and the submit
  handlers. \<^verbatim>\<open>authService\<close> is not in the repository: its answer to a submit is a
  parameter, the value the awaited promise settles with. A submit is the page state after
  the promise settled, the actions dispatched and the location navigated to.
\<close>

subsection \<open>The email pattern\<close>

text \<open>
  \<^verbatim>\<open>\s\<close> on the ASCII characters (strings are bytes here, so the non-ASCII white space
  of JavaScript is outside the model), and the run \<^verbatim>\<open>\S+\<close>.
\<close>

definition js_space :: "char \<Rightarrow> bool" where
  "js_space c = (c \<in> set [CHR '' '', CHR 0x09, CHR 0x0A, CHR 0x0B, CHR 0x0C, CHR 0x0D])"

definition nonspace_run :: "string \<Rightarrow> bool" where
  "nonspace_run x = (x \<noteq> [] \<and> list_all (\<lambda>c. \<not> js_space c) x)"

text \<open>The ways to cut a list in two.\<close>

definition splits :: "'a list \<Rightarrow> ('a list \<times> 'a list) list" where
  "splits s = map (\<lambda>i. (take i s, drop i s)) [0..<Suc (length s)]"

text \<open>
  \<^verbatim>\<open>RegExp.prototype.test\<close> searches: the pattern matches some part of the string,
  \<^verbatim>\<open>\S+\<close>, then \<^verbatim>\<open>@\<close>, then \<^verbatim>\<open>\S+\<close>, then \<^verbatim>\<open>.\<close>, then \<^verbatim>\<open>\S+\<close>. Backtracking over
  the greedy runs finds a match exactly when such a cut exists.
\<close>

definition email_pattern_test :: "string \<Rightarrow> bool" where
  "email_pattern_test s =
     list_ex (\<lambda>(u, r). list_ex (\<lambda>(x, r1). nonspace_run x \<and>
        (case r1 of
           [] \<Rightarrow> False
         | c # r2 \<Rightarrow> c = CHR ''@'' \<and> list_ex (\<lambda>(y, r3). nonspace_run y \<and>
              (case r3 of
                 [] \<Rightarrow> False
               | d # r4 \<Rightarrow> d = CHR ''.'' \<and> list_ex (\<lambda>(w, v). nonspace_run w) (splits r4)))
              (splits r2)))
        (splits r)) (splits s)"

subsection \<open>Validation\<close>

text \<open>\<^verbatim>\<open>FormErrors\<close>: a key is present only when its field has an error.\<close>

record form_errors =
  err_email :: "string option"
  err_password :: "string option"
  err_confirmPassword :: "string option"
  err_general :: "string option"

definition no_errors :: form_errors where
  "no_errors = \<lparr>err_email = None, err_password = None, err_confirmPassword = None, err_general = None\<rparr>"

definition email_error :: "string \<Rightarrow> string option" where
  "email_error e =
     (if e = [] then Some ''Email is required''
      else if \<not> email_pattern_test e then Some ''Email is invalid'' else None)"

definition password_error :: "string \<Rightarrow> string option" where
  "password_error p =
     (if p = [] then Some ''Password is required''
      else if length p < 6 then Some ''Password must be at least 6 characters'' else None)"

definition confirm_error :: "string \<Rightarrow> string \<Rightarrow> string option" where
  "confirm_error p c =
     (if c = [] then Some ''Please confirm your password''
      else if p \<noteq> c then Some ''Passwords do not match'' else None)"

record login_form =
  lf_email :: string
  lf_password :: string

record signup_form =
  sf_email :: string
  sf_password :: string
  sf_confirmPassword :: string
  sf_role :: user_role

definition validate_login :: "login_form \<Rightarrow> form_errors" where
  "validate_login fd =
     no_errors\<lparr>err_email := email_error (lf_email fd), err_password := password_error (lf_password fd)\<rparr>"

definition validate_signup :: "signup_form \<Rightarrow> form_errors" where
  "validate_signup fd =
     no_errors\<lparr>err_email := email_error (sf_email fd), err_password := password_error (sf_password fd),
               err_confirmPassword := confirm_error (sf_password fd) (sf_confirmPassword fd)\<rparr>"

text \<open>\<^verbatim>\<open>Object.keys(newErrors).length === 0\<close>.\<close>

definition form_valid :: "form_errors \<Rightarrow> bool" where
  "form_valid e = (e = no_errors)"

subsection \<open>Page state and handlers\<close>

record 'f auth_page =
  page_form :: 'f
  page_errors :: form_errors
  page_loading :: bool

text \<open>The \<^verbatim>\<open>name\<close> of the input that changed.\<close>

datatype form_field = Field_email | Field_password | Field_confirmPassword

definition field_error :: "form_field \<Rightarrow> form_errors \<Rightarrow> string option" where
  "field_error f e = (case f of Field_email \<Rightarrow> err_email e | Field_password \<Rightarrow> err_password e
                      | Field_confirmPassword \<Rightarrow> err_confirmPassword e)"

text \<open>\<^verbatim>\<open>setErrors(prev => ({...prev, [name]: undefined}))\<close>, only when the error is shown.\<close>

definition clear_field_error :: "form_field \<Rightarrow> form_errors \<Rightarrow> form_errors" where
  "clear_field_error f e =
     (if \<not> js_present (field_error f e) then e
      else case f of Field_email \<Rightarrow> e\<lparr>err_email := None\<rparr> | Field_password \<Rightarrow> e\<lparr>err_password := None\<rparr>
                   | Field_confirmPassword \<Rightarrow> e\<lparr>err_confirmPassword := None\<rparr>)"

text \<open>The sign-in page has no confirmation input; its form keeps only its two fields.\<close>

definition set_login_field :: "form_field \<Rightarrow> string \<Rightarrow> login_form \<Rightarrow> login_form" where
  "set_login_field f v fd = (case f of Field_email \<Rightarrow> fd\<lparr>lf_email := v\<rparr> | Field_password \<Rightarrow> fd\<lparr>lf_password := v\<rparr>
                             | Field_confirmPassword \<Rightarrow> fd)"

definition set_signup_field :: "form_field \<Rightarrow> string \<Rightarrow> signup_form \<Rightarrow> signup_form" where
  "set_signup_field f v fd = (case f of Field_email \<Rightarrow> fd\<lparr>sf_email := v\<rparr> | Field_password \<Rightarrow> fd\<lparr>sf_password := v\<rparr>
                              | Field_confirmPassword \<Rightarrow> fd\<lparr>sf_confirmPassword := v\<rparr>)"

definition handleInputChange_login :: "form_field \<Rightarrow> string \<Rightarrow> login_form auth_page \<Rightarrow> login_form auth_page" where
  "handleInputChange_login f v p =
     p\<lparr>page_form := set_login_field f v (page_form p), page_errors := clear_field_error f (page_errors p)\<rparr>"

definition handleInputChange_signup :: "form_field \<Rightarrow> string \<Rightarrow> signup_form auth_page \<Rightarrow> signup_form auth_page" where
  "handleInputChange_signup f v p =
     p\<lparr>page_form := set_signup_field f v (page_form p), page_errors := clear_field_error f (page_errors p)\<rparr>"

definition handleRoleChange :: "user_role \<Rightarrow> signup_form auth_page \<Rightarrow> signup_form auth_page" where
  "handleRoleChange r p = p\<lparr>page_form := (page_form p)\<lparr>sf_role := r\<rparr>\<rparr>"

text \<open>How the awaited \<^verbatim>\<open>authService\<close> call settles: a user, or a thrown value.\<close>

datatype auth_outcome = Auth_resolved user | Auth_rejected_error string | Auth_rejected_other

text \<open>
  After the \<^verbatim>\<open>await\<close> (the \<^verbatim>\<open>try\<close>/\<^verbatim>\<open>catch\<close>/\<^verbatim>\<open>finally\<close> of either page):
  the new page state, the actions dispatched and the location navigated to.
\<close>

definition submit_settle :: "(user \<Rightarrow> action) \<Rightarrow> (string \<Rightarrow> action) \<Rightarrow> auth_outcome \<Rightarrow> 'f auth_page \<Rightarrow>
    'f auth_page \<times> action list \<times> string list option" where
  "submit_settle ok fail r p =
     (case r of
        Auth_resolved u \<Rightarrow> (p\<lparr>page_loading := False\<rparr>, [ok u], Some [''dashboard''])
      | Auth_rejected_error m \<Rightarrow>
          (p\<lparr>page_errors := no_errors\<lparr>err_general := Some m\<rparr>, page_loading := False\<rparr>, [fail m], None)
      | Auth_rejected_other \<Rightarrow>
          (p\<lparr>page_errors := no_errors\<lparr>err_general := Some ''An unknown error occurred''\<rparr>, page_loading := False\<rparr>,
           [fail ''An unknown error occurred''], None))"

definition handleSubmit_login :: "(string \<Rightarrow> string \<Rightarrow> auth_outcome) \<Rightarrow> login_form auth_page \<Rightarrow>
    login_form auth_page \<times> action list \<times> string list option" where
  "handleSubmit_login svc p =
     (let errs = validate_login (page_form p) in
      if \<not> form_valid errs then (p\<lparr>page_errors := errs\<rparr>, [], None)
      else submit_settle LOGIN_SUCCESS LOGIN_FAILURE (svc (lf_email (page_form p)) (lf_password (page_form p)))
             (p\<lparr>page_errors := no_errors, page_loading := True\<rparr>))"

definition handleSubmit_signup :: "(string \<Rightarrow> string \<Rightarrow> user_role \<Rightarrow> auth_outcome) \<Rightarrow> signup_form auth_page \<Rightarrow>
    signup_form auth_page \<times> action list \<times> string list option" where
  "handleSubmit_signup svc p =
     (let errs = validate_signup (page_form p) in
      if \<not> form_valid errs then (p\<lparr>page_errors := errs\<rparr>, [], None)
      else submit_settle SIGNUP_SUCCESS SIGNUP_FAILURE
             (svc (sf_email (page_form p)) (sf_password (page_form p)) (sf_role (page_form p)))
             (p\<lparr>page_errors := no_errors, page_loading := True\<rparr>))"

text \<open>\<^verbatim>\<open>handleAdminLogin\<close>: after its 300 ms timer; the page is left while loading.\<close>

definition admin_user :: user where
  "admin_user = \<lparr>user_id = ''admin_user'', email = ''admin@astralfc.com'', user_role = Role_coach, user_playerId = None\<rparr>"

definition handleAdminLogin :: "'f auth_page \<Rightarrow> 'f auth_page \<times> action list \<times> string list option" where
  "handleAdminLogin p = (p\<lparr>page_loading := True, page_errors := no_errors\<rparr>, [LOGIN_SUCCESS admin_user], Some [''dashboard''])"

text \<open>The initial page states: the sign-in form is prefilled with the demo account.\<close>

definition login_page_init :: "login_form auth_page" where
  "login_page_init = \<lparr>page_form = \<lparr>lf_email = ''coach@astralfc.com'', lf_password = ''password123''\<rparr>,
     page_errors = no_errors, page_loading = False\<rparr>"

definition signup_page_init :: "signup_form auth_page" where
  "signup_page_init = \<lparr>page_form = \<lparr>sf_email = [], sf_password = [], sf_confirmPassword = [], sf_role = Role_coach\<rparr>,
     page_errors = no_errors, page_loading = False\<rparr>"


subsection \<open>Properties\<close>

lemma splits_iff [simp]: "(u, r) \<in> set (splits s) \<longleftrightarrow> s = u @ r"
proof
  assume "(u, r) \<in> set (splits s)" then show "s = u @ r" by (auto simp: splits_def)
next
  assume "s = u @ r"
  then show "(u, r) \<in> set (splits s)" unfolding splits_def set_map set_upt
    by (intro image_eqI [where x = "length u"]) auto
qed

lemma list_ex_splits: "list_ex P (splits s) \<longleftrightarrow> (\<exists>u r. s = u @ r \<and> P (u, r))"
  unfolding list_ex_iff by fastforce

lemma case_list_ex: "(case xs of [] \<Rightarrow> False | c # r \<Rightarrow> P c r) \<longleftrightarrow> (\<exists>c r. xs = c # r \<and> P c r)"
  by (cases xs) auto

lemma email_pattern_unfold:
  "email_pattern_test s \<longleftrightarrow>
   (\<exists>u r. s = u @ r \<and> (\<exists>x r1. r = x @ r1 \<and> nonspace_run x \<and> (\<exists>c r2. r1 = c # r2 \<and> c = CHR ''@'' \<and>
     (\<exists>y r3. r2 = y @ r3 \<and> nonspace_run y \<and> (\<exists>d r4. r3 = d # r4 \<and> d = CHR ''.'' \<and>
       (\<exists>w v. r4 = w @ v \<and> nonspace_run w))))))"
  unfolding email_pattern_test_def list_ex_splits case_list_ex prod.case ..

lemma email_pattern_decomp:
  "email_pattern_test s \<longleftrightarrow>
   (\<exists>u x y w v. s = u @ x @ CHR ''@'' # y @ CHR ''.'' # w @ v \<and> nonspace_run x \<and> nonspace_run y \<and> nonspace_run w)"
proof
  assume "email_pattern_test s"
  then obtain u x y w v where "s = u @ x @ CHR ''@'' # y @ CHR ''.'' # w @ v" "nonspace_run x" "nonspace_run y"
      "nonspace_run w"
    unfolding email_pattern_unfold by (elim exE conjE) (simp only: append_assoc append_Cons)
  then show "\<exists>u x y w v. s = u @ x @ CHR ''@'' # y @ CHR ''.'' # w @ v \<and> nonspace_run x \<and> nonspace_run y \<and> nonspace_run w"
    by blast
next
  assume "\<exists>u x y w v. s = u @ x @ CHR ''@'' # y @ CHR ''.'' # w @ v \<and> nonspace_run x \<and> nonspace_run y \<and> nonspace_run w"
  then obtain u x y w v where h: "s = u @ x @ CHR ''@'' # y @ CHR ''.'' # w @ v" "nonspace_run x" "nonspace_run y"
      "nonspace_run w" by blast
  let ?R4 = "\<lambda>r4. \<exists>w v. r4 = w @ v \<and> nonspace_run w"
  let ?R3 = "\<lambda>r3. \<exists>d r4. r3 = d # r4 \<and> d = CHR ''.'' \<and> ?R4 r4"
  let ?R2 = "\<lambda>r2. \<exists>y r3. r2 = y @ r3 \<and> nonspace_run y \<and> ?R3 r3"
  let ?R1 = "\<lambda>r1. \<exists>c r2. r1 = c # r2 \<and> c = CHR ''@'' \<and> ?R2 r2"
  have f4: "?R4 (w @ v)" by (rule exI [of _ w], rule exI [of _ v]) (intro conjI refl h(4))
  have f3: "?R3 (CHR ''.'' # w @ v)" by (rule exI [of _ "CHR ''.''"], rule exI [of _ "w @ v"]) (intro conjI refl f4)
  have f2: "?R2 (y @ CHR ''.'' # w @ v)" by (rule exI [of _ y], rule exI [of _ "CHR ''.'' # w @ v"]) (intro conjI refl h(3) f3)
  have f1: "?R1 (CHR ''@'' # y @ CHR ''.'' # w @ v)"
    by (rule exI [of _ "CHR ''@''"], rule exI [of _ "y @ CHR ''.'' # w @ v"]) (intro conjI refl f2)
  have f0: "\<exists>x' r1. x @ CHR ''@'' # y @ CHR ''.'' # w @ v = x' @ r1 \<and> nonspace_run x' \<and> ?R1 r1"
    by (rule exI [of _ x], rule exI [of _ "CHR ''@'' # y @ CHR ''.'' # w @ v"]) (intro conjI refl h(2) f1)
  show "email_pattern_test s" unfolding email_pattern_unfold
    by (rule exI [of _ u], rule exI [of _ "x @ CHR ''@'' # y @ CHR ''.'' # w @ v"]) (intro conjI h(1) f0)
qed

lemma nonspace_run_snoc:
  "nonspace_run x \<longleftrightarrow> (\<exists>x' a. x = x' @ [a] \<and> \<not> js_space a \<and> list_all (\<lambda>c. \<not> js_space c) x')"
  by (cases x rule: rev_exhaust) (auto simp: nonspace_run_def)

lemma nonspace_run_cons:
  "nonspace_run w \<longleftrightarrow> (\<exists>c w'. w = c # w' \<and> \<not> js_space c \<and> list_all (\<lambda>c. \<not> js_space c) w')"
  by (cases w) (auto simp: nonspace_run_def)

text \<open>
  C20. The email check of both forms (a regular-expression search) accepts a string exactly when it contains, as
  one contiguous piece, a non-space character, @, a run of non-space characters, a dot and
  a non-space character; nothing is anchored, so text around an address is accepted.
\<close>

theorem email_pattern_minimal:
  "email_pattern_test s \<longleftrightarrow>
   (\<exists>a y c. \<not> js_space a \<and> nonspace_run y \<and> \<not> js_space c \<and> sublist ([a, CHR ''@''] @ y @ [CHR ''.'', c]) s)"
proof
  assume "email_pattern_test s"
  then obtain u x y w v where s: "s = u @ x @ CHR ''@'' # y @ CHR ''.'' # w @ v"
    and r: "nonspace_run x" "nonspace_run y" "nonspace_run w"
    unfolding email_pattern_decomp by blast
  from r(1) obtain x' a where x: "x = x' @ [a]" "\<not> js_space a" by (auto simp: nonspace_run_snoc)
  from r(3) obtain c w' where w: "w = c # w'" "\<not> js_space c" by (auto simp: nonspace_run_cons)
  have "s = (u @ x') @ ([a, CHR ''@''] @ y @ [CHR ''.'', c]) @ (w' @ v)" using s x w by simp
  then have "sublist ([a, CHR ''@''] @ y @ [CHR ''.'', c]) s" unfolding sublist_def by blast
  then show "\<exists>a y c. \<not> js_space a \<and> nonspace_run y \<and> \<not> js_space c \<and> sublist ([a, CHR ''@''] @ y @ [CHR ''.'', c]) s"
    using x(2) w(2) r(2) by blast
next
  assume "\<exists>a y c. \<not> js_space a \<and> nonspace_run y \<and> \<not> js_space c \<and> sublist ([a, CHR ''@''] @ y @ [CHR ''.'', c]) s"
  then obtain a y c u v where s: "s = u @ ([a, CHR ''@''] @ y @ [CHR ''.'', c]) @ v"
    and r: "\<not> js_space a" "nonspace_run y" "\<not> js_space c"
    unfolding sublist_def by blast
  have "s = u @ [a] @ CHR ''@'' # y @ CHR ''.'' # [c] @ v" using s by simp
  moreover have "nonspace_run [a]" "nonspace_run [c]" using r by (simp_all add: nonspace_run_def)
  ultimately show "email_pattern_test s" unfolding email_pattern_decomp using r(2) by blast
qed

lemma email_pattern_examples:
  "email_pattern_test ''coach@astralfc.com''"
  "email_pattern_test ''mail me: x@@.y later''"
  "\<not> email_pattern_test ''user@example''"
  "\<not> email_pattern_test ''a @b.c''"
  by (simp_all add: email_pattern_test_def splits_def nonspace_run_def js_space_def)

lemma email_pattern_nonempty: "email_pattern_test s \<Longrightarrow> s \<noteq> []"
  by (auto simp: email_pattern_decomp)

lemma email_error_None: "email_error e = None \<longleftrightarrow> email_pattern_test e"
  using email_pattern_nonempty by (auto simp: email_error_def)

lemma password_error_None: "password_error p = None \<longleftrightarrow> 6 \<le> length p"
  by (auto simp: password_error_def)

lemma confirm_error_None: "confirm_error p c = None \<longleftrightarrow> c \<noteq> [] \<and> c = p"
  by (auto simp: confirm_error_def)

lemmas validation_simps = email_error_None password_error_None confirm_error_None

lemma input_change_clears_error:
  "js_present (field_error f (page_errors p)) \<Longrightarrow>
   field_error f (page_errors (handleInputChange_signup f v p)) = None \<and>
   (\<forall>g. g \<noteq> f \<longrightarrow> field_error g (page_errors (handleInputChange_signup f v p)) = field_error g (page_errors p))"
  by (cases f; auto simp: handleInputChange_signup_def clear_field_error_def field_error_def split: form_field.split)

text \<open>
  C21. The sign-up form validates exactly when the email matches the pattern, the
  password has at least six characters and the confirmation equals the password.
\<close>

theorem validate_signup_iff:
  "form_valid (validate_signup fd) \<longleftrightarrow>
   email_pattern_test (sf_email fd) \<and> 6 \<le> length (sf_password fd) \<and> sf_confirmPassword fd = sf_password fd"
  by (auto simp: form_valid_def validate_signup_def no_errors_def validation_simps)

lemma validate_login_iff:
  "form_valid (validate_login fd) \<longleftrightarrow> email_pattern_test (lf_email fd) \<and> 6 \<le> length (lf_password fd)"
  by (auto simp: form_valid_def validate_login_def no_errors_def validation_simps)

lemma handleSubmit_login_valid:
  "form_valid (validate_login (page_form p)) \<Longrightarrow>
   handleSubmit_login svc p = submit_settle LOGIN_SUCCESS LOGIN_FAILURE (svc (lf_email (page_form p)) (lf_password (page_form p)))
     (p\<lparr>page_errors := no_errors, page_loading := True\<rparr>)"
  by (simp add: handleSubmit_login_def)

text \<open>
  C18. Submitting a valid sign-in form that the auth service accepts dispatches
  LOGIN_SUCCESS for the returned user and navigates to the dashboard, which then renders
  (the user is signed in), with the spinner cleared.
\<close>

theorem login_submit_signs_in:
  assumes "form_valid (validate_login (page_form p))"
    and "svc (lf_email (page_form p)) (lf_password (page_form p)) = Auth_resolved u"
    and "handleSubmit_login svc p = (p', acts, nav)"
  shows "acts = [LOGIN_SUCCESS u] \<and> nav = Some [''dashboard''] \<and> \<not> page_loading p' \<and>
         auth_user (auth (run_actions acts s)) = Some u \<and>
         settle 1 (auth (run_actions acts s)) [''dashboard''] = Some (In_layout DashboardPage)"
  using assms App_targets(1) [of "auth (login_success u s)"]
  by (auto simp: handleSubmit_login_valid submit_settle_def run_actions_def login_success_def)

text \<open>
  C19. A sign-in submit that fails validation shows the field errors and dispatches
  nothing; one the auth service rejects shows the message, dispatches LOGIN_FAILURE, stays
  on the page and leaves the user signed out with the message recorded.
\<close>

theorem login_submit_rejected:
  assumes "handleSubmit_login svc p = (p', acts, nav)"
  shows "(\<not> form_valid (validate_login (page_form p)) \<longrightarrow>
            acts = [] \<and> nav = None \<and> page_errors p' = validate_login (page_form p)) \<and>
         (form_valid (validate_login (page_form p)) \<longrightarrow>
            svc (lf_email (page_form p)) (lf_password (page_form p)) = Auth_rejected_error m \<longrightarrow>
            acts = [LOGIN_FAILURE m] \<and> nav = None \<and> err_general (page_errors p') = Some m \<and> \<not> page_loading p' \<and>
            \<not> isAuthenticated (auth (run_actions acts s)) \<and> auth_error (auth (run_actions acts s)) = Some m \<and>
            App (auth (run_actions acts s)) [''login''] = LoginPage)"
  using assms App_targets(2) [of "auth (auth_failure m s)"]
  by (auto simp: handleSubmit_login_def submit_settle_def run_actions_def auth_failure_def Let_def)

lemma login_page_init_valid: "form_valid (validate_login (page_form login_page_init))"
  by (simp add: validate_login_iff login_page_init_def email_pattern_examples(1))

theorem login_submit_witness:
  "form_valid (validate_login (page_form login_page_init)) \<and>
   auth_user (auth (run_actions [LOGIN_SUCCESS admin_user] INITIAL_STATE)) = Some admin_user \<and>
   settle 1 (auth (run_actions [LOGIN_SUCCESS admin_user] INITIAL_STATE)) [''dashboard''] = Some (In_layout DashboardPage)"
proof -
  have h: "handleSubmit_login (\<lambda>_ _. Auth_resolved admin_user) login_page_init =
      (login_page_init\<lparr>page_errors := no_errors, page_loading := False\<rparr>, [LOGIN_SUCCESS admin_user], Some [''dashboard''])"
    by (simp add: handleSubmit_login_valid [OF login_page_init_valid] submit_settle_def)
  show ?thesis
    using login_submit_signs_in [OF login_page_init_valid _ h, of admin_user INITIAL_STATE] login_page_init_valid by simp
qed

theorem login_rejected_witness:
  "form_valid (validate_login (page_form login_page_init)) \<and>
   \<not> isAuthenticated (auth (run_actions [LOGIN_FAILURE ''Invalid credentials''] INITIAL_STATE)) \<and>
   App (auth (run_actions [LOGIN_FAILURE ''Invalid credentials''] INITIAL_STATE)) [''login''] = LoginPage"
proof -
  let ?svc = "\<lambda>_ _. Auth_rejected_error ''Invalid credentials''"
  have h: "handleSubmit_login ?svc login_page_init =
      (login_page_init\<lparr>page_errors := no_errors\<lparr>err_general := Some ''Invalid credentials''\<rparr>, page_loading := False\<rparr>,
       [LOGIN_FAILURE ''Invalid credentials''], None)"
    by (simp add: handleSubmit_login_valid [OF login_page_init_valid] submit_settle_def)
  show ?thesis
    using login_submit_rejected [OF h, of "''Invalid credentials''" INITIAL_STATE] login_page_init_valid by simp
qed

end
