(* ===== verification/Library.thy ===== *)
theory Library
  imports Formation
begin

text \<open>
  \<^verbatim>\<open>DEFAULT_PLAYBOOK_LIBRARY\<close> of \<^verbatim>\<open>src/constants.ts\<close> (lines 219--276): the three
  built-in plays offered to copy into a playbook, and the conditions a play must meet to
  be animated and drawn on the pitch: at least one step, distinct step ids, a built-in
  formation, and every coordinate inside the percentage pitch.
\<close>

definition lib_arrow :: "string \<Rightarrow> drawing_tool \<Rightarrow> string \<Rightarrow> pos \<Rightarrow> pos \<Rightarrow> drawing_shape" where
  "lib_arrow i t c a b = \<lparr>shape_id = i, tool = t, color = c, points = [a, b], shape_text = None\<rparr>"

definition lib_step :: "string \<Rightarrow> (string \<times> pos) list \<Rightarrow> drawing_shape list \<Rightarrow> playbook_step" where
  "lib_step i ps ds = \<lparr>step_id = i, playerPositions = map_of ps, step_drawings = ds, step_event = None,
     playerRuns = None, ballPath = None\<rparr>"

definition DEFAULT_PLAYBOOK_LIBRARY :: "playbook_item list" where
  "DEFAULT_PLAYBOOK_LIBRARY =
    [\<lparr>item_id = ''lib_att_overload_433'', item_name = ''Attacking Overload (4-3-3)'', category = General,
      item_formationId = ''4-3-3'',
      steps = [lib_step ''s1'' [(''p3'', mk_pos 40 15), (''p8'', mk_pos 65 20)]
                 [lib_arrow ''d1'' Tool_arrow ''#34D399'' (mk_pos 30 15) (mk_pos 55 15),
                  lib_arrow ''d2'' Tool_arrow ''#FBBF24'' (mk_pos 80 20) (mk_pos 70 35),
                  lib_arrow ''d3'' Tool_arrow ''#60A5FA'' (mk_pos 55 15) (mk_pos 75 18)],
               lib_step ''s2'' [(''p3'', mk_pos 55 15), (''p8'', mk_pos 70 35)]
                 [lib_arrow ''d1'' Tool_arrow ''#FBBF24'' (mk_pos 70 35) (mk_pos 85 30),
                  lib_arrow ''d2'' Tool_arrow ''#60A5FA'' (mk_pos 55 15) (mk_pos 75 18)]]\<rparr>,
     \<lparr>item_id = ''lib_high_press_442'', item_name = ''High Press Trap (4-4-2)'', category = General,
      item_formationId = ''4-4-2'',
      steps = [lib_step ''s1'' []
                 [lib_arrow ''d1'' Tool_arrow ''#FBBF24'' (mk_pos 80 40) (mk_pos 70 30),
                  lib_arrow ''d2'' Tool_arrow ''#FBBF24'' (mk_pos 80 60) (mk_pos 70 70),
                  lib_arrow ''d3'' Tool_arrow ''#60A5FA'' (mk_pos 55 20) (mk_pos 65 25),
                  lib_arrow ''d4'' Tool_zone ''#EF4444'' (mk_pos 60 40) (mk_pos 80 60)]]\<rparr>,
     \<lparr>item_id = ''lib_corner_defense'', item_name = ''Zonal Corner Defense'', category = Defending_Corner,
      item_formationId = ''4-4-2'',
      steps = [lib_step ''s1'' [(''p1'', mk_pos 8 40), (''p2'', mk_pos 12 45), (''p11'', mk_pos 12 55),
                                (''p4'', mk_pos 18 60)] []]\<rparr>]"

text \<open>
  A play fit for the board: steps to animate, distinct step ids, a built-in formation,
  drawings on the pitch, and the roster players it moves moved onto the pitch.
\<close>

definition step_on_pitch :: "player list \<Rightarrow> playbook_step \<Rightarrow> bool" where
  "step_on_pitch ps st =
     (list_all (\<lambda>d. list_all on_pitch (points d)) (step_drawings st) \<and>
      list_all (\<lambda>p. case playerPositions st (player_id p) of None \<Rightarrow> True | Some q \<Rightarrow> on_pitch q) ps)"

definition library_item_ok :: "player list \<Rightarrow> playbook_item \<Rightarrow> bool" where
  "library_item_ok ps it =
     (steps it \<noteq> [] \<and> distinct (map step_id (steps it)) \<and>
      map_of initial_formations (item_formationId it) \<noteq> None \<and> list_all (step_on_pitch ps) (steps it))"

subsection \<open>Properties\<close>

text \<open>
  The built-in play library is well typed for the board: its item ids are distinct,
  and every item has steps, distinct step ids, a built-in formation, drawings inside the
  pitch and roster players moved only onto the pitch.
\<close>

theorem library_well_typed:
  "distinct (map item_id DEFAULT_PLAYBOOK_LIBRARY) \<and> list_all (library_item_ok defaultPlayers) DEFAULT_PLAYBOOK_LIBRARY"
  by (simp add: DEFAULT_PLAYBOOK_LIBRARY_def library_item_ok_def step_on_pitch_def lib_step_def lib_arrow_def
      initial_formations_def defaultPlayers_def on_pitch_def)

lemma library_unknown_player:
  "playerPositions (hd (steps (DEFAULT_PLAYBOOK_LIBRARY ! 2))) ''p2'' = Some (mk_pos 12 45) \<and>
   find_player defaultPlayers ''p2'' = None"
  by (simp add: DEFAULT_PLAYBOOK_LIBRARY_def lib_step_def find_player_def defaultPlayers_def)

end
