(* ===== verification/Fixtures.thy ===== *)
theory Fixtures
  imports Prelude "HOL-Library.Multiset"
begin

text \<open>
  The league of the initial season in \<^verbatim>\<open>src/constants.ts\<close> (lines 155--191): the eight
  league teams, \<^verbatim>\<open>generateFixtures\<close> and the initial league table. The fixtures are
  generated by two nested loops over the team indices, one home and one away fixture per
  pair; then \<^verbatim>\<open>fixtures.sort(() => Math.random() - 0.5)\<close> shuffles them, each fixture
  gets week \<open>\<lfloor>index / (n / 2)\<rfloor> + 1\<close>, and a sort by week returns the list. The result of
  the random sort is a parameter \<open>sh\<close>; the theorems hold for every \<open>sh\<close> that permutes
  its argument. For the indices involved, \<open>index / (n / 2)\<close> is exact enough on doubles
  that its floor is \<open>2 * index div n\<close>.
\<close>

record league_team =
  team_name :: string
  isUser :: bool
  strength :: int

record fixture =
  week :: nat
  homeTeam :: string
  awayTeam :: string

record league_table_entry =
  entry_teamName :: string
  isUserTeam :: bool
  played :: int
  won :: int
  drawn :: int
  lost :: int
  goalsFor :: int
  goalsAgainst :: int
  goalDifference :: int
  points :: int

record season =
  season_year :: int
  leagueTeams :: "league_team list"
  leagueTable :: "string \<rightharpoonup> league_table_entry"
  season_fixtures :: "fixture list"

definition mk_team :: "string \<Rightarrow> bool \<Rightarrow> int \<Rightarrow> league_team" where
  "mk_team n u s = \<lparr>team_name = n, isUser = u, strength = s\<rparr>"

definition leagueTeams_seed :: "league_team list" where
  "leagueTeams_seed =
    [mk_team ''Astral FC'' True 85, mk_team ''Quantum Rovers'' False 88, mk_team ''Nebula United'' False 84,
     mk_team ''Celestial City'' False 86, mk_team ''Stardust Wanderers'' False 82,
     mk_team ''Meteor Milan'' False 80, mk_team ''Galaxy Rangers'' False 83, mk_team ''Cosmos County'' False 79]"

text \<open>The two loops: for \<open>i < j\<close>, the fixture \<open>i\<close> at home to \<open>j\<close>, then the return fixture.\<close>

definition fixture_pairs :: "string list \<Rightarrow> fixture list" where
  "fixture_pairs ns =
     concat (map (\<lambda>i. concat (map (\<lambda>j. [\<lparr>week = 0, homeTeam = ns ! i, awayTeam = ns ! j\<rparr>,
                                          \<lparr>week = 0, homeTeam = ns ! j, awayTeam = ns ! i\<rparr>])
                                 [Suc i..<length ns]))
                 [0..<length ns])"

text \<open>\<^verbatim>\<open>fixture.week = Math.floor(index / (teamNames.length / 2)) + 1\<close>.\<close>

definition assign_weeks :: "nat \<Rightarrow> fixture list \<Rightarrow> fixture list" where
  "assign_weeks n fs = map (\<lambda>(i, f). f\<lparr>week := 2 * i div n + 1\<rparr>) (zip [0..<length fs] fs)"

text \<open>\<^verbatim>\<open>sort((a, b) => a.week - b.week)\<close>: \<^verbatim>\<open>Array.prototype.sort\<close> is stable, as \<open>sort_key\<close> is.\<close>

definition generateFixtures :: "(fixture list \<Rightarrow> fixture list) \<Rightarrow> league_team list \<Rightarrow> fixture list" where
  "generateFixtures sh teams =
     (let ns = map team_name teams in sort_key week (assign_weeks (length ns) (sh (fixture_pairs ns))))"

definition table_entry :: "league_team \<Rightarrow> league_table_entry" where
  "table_entry t = \<lparr>entry_teamName = team_name t, isUserTeam = isUser t, played = 0, won = 0, drawn = 0, lost = 0,
     goalsFor = 0, goalsAgainst = 0, goalDifference = 0, points = 0\<rparr>"

text \<open>\<^verbatim>\<open>leagueTeams.reduce((acc, team) => { acc[team.name] = ...; return acc }, {})\<close>.\<close>

definition initial_league_table :: "league_team list \<Rightarrow> string \<rightharpoonup> league_table_entry" where
  "initial_league_table ts = fold (\<lambda>t acc. acc(team_name t \<mapsto> table_entry t)) ts Map.empty"

definition initialSeason :: "(fixture list \<Rightarrow> fixture list) \<Rightarrow> season" where
  "initialSeason sh = \<lparr>season_year = 2024, leagueTeams = leagueTeams_seed,
     leagueTable = initial_league_table leagueTeams_seed, season_fixtures = generateFixtures sh leagueTeams_seed\<rparr>"

text \<open>Reference: the double round robin, pair by pair, as a recursion on the names.\<close>

fun round_robin :: "string list \<Rightarrow> (string \<times> string) list" where
  "round_robin [] = []"
| "round_robin (x # xs) = concat (map (\<lambda>y. [(x, y), (y, x)]) xs) @ round_robin xs"

definition pairing :: "fixture \<Rightarrow> string \<times> string" where
  "pairing f = (homeTeam f, awayTeam f)"

subsection \<open>The double round robin\<close>

lemma map_upt_nth: "map (\<lambda>j. f (xs ! j)) [0..<length xs] = map f xs"
  by (rule nth_equalityI) simp_all

lemma upt_Suc_shift: "[Suc i..<Suc n] = map Suc [i..<n]"
  by (simp add: map_Suc_upt)

lemma fixture_pairs_Cons:
  "fixture_pairs (x # xs) =
     concat (map (\<lambda>y. [\<lparr>week = 0, homeTeam = x, awayTeam = y\<rparr>, \<lparr>week = 0, homeTeam = y, awayTeam = x\<rparr>]) xs) @
     fixture_pairs xs"
proof -
  have u: "[0..<length (x # xs)] = 0 # map Suc [0..<length xs]"
    by (simp add: upt_conv_Cons map_Suc_upt del: upt_Suc)
  show ?thesis
    unfolding fixture_pairs_def u
    by (simp add: upt_Suc_shift o_def map_upt_nth [of "\<lambda>y. [\<lparr>week = 0, homeTeam = x, awayTeam = y\<rparr>,
          \<lparr>week = 0, homeTeam = y, awayTeam = x\<rparr>]" xs] del: upt_Suc)
qed

lemma fixture_pairs_round_robin: "map pairing (fixture_pairs ns) = round_robin ns"
proof (induction ns)
  case Nil
  then show ?case by (simp add: fixture_pairs_def)
next
  case (Cons x xs)
  then show ?case by (simp add: fixture_pairs_Cons pairing_def o_def map_concat)
qed

lemma round_robin_props:
  "distinct ns \<Longrightarrow> distinct (round_robin ns) \<and>
     set (round_robin ns) = {(a, b). a \<in> set ns \<and> b \<in> set ns \<and> a \<noteq> b} \<and>
     length (round_robin ns) = length ns * (length ns - 1)"
proof (induction ns)
  case (Cons x xs)
  have d: "distinct (concat (map (\<lambda>y. [(x, y), (y, x)]) xs))"
    using Cons.prems by (induction xs) auto
  have l: "length (concat (map (\<lambda>y. [(x, y), (y, x)]) xs)) = 2 * length xs"
    by (induction xs) auto
  have "length xs * (length xs - 1) + 2 * length xs = Suc (length xs) * length xs"
    by (cases "length xs") (simp_all add: algebra_simps)
  then show ?case using Cons d l by (auto simp: distinct_append)
qed simp

lemma assign_weeks_pairing: "map pairing (assign_weeks n fs) = map pairing fs"
  by (rule nth_equalityI) (simp_all add: assign_weeks_def pairing_def)

lemma assign_weeks_week: "map week (assign_weeks n fs) = map (\<lambda>i. 2 * i div n + 1) [0..<length fs]"
  by (rule nth_equalityI) (simp_all add: assign_weeks_def)

lemma assign_weeks_sorted: "sorted (map week (assign_weeks n fs))"
  unfolding assign_weeks_week sorted_iff_nth_mono by (auto intro: div_le_mono)

lemma length_round_robin: "length (round_robin ns) = length ns * (length ns - 1)"
proof (induction ns)
  case (Cons x xs)
  have l: "length (concat (map (\<lambda>y. [(x, y), (y, x)]) xs)) = 2 * length xs"
    by (induction xs) auto
  have "length xs * (length xs - 1) + 2 * length xs = Suc (length xs) * length xs"
    by (cases "length xs") (simp_all add: algebra_simps)
  then show ?case using Cons l by simp
qed simp

lemma length_fixture_pairs: "length (fixture_pairs ns) = length ns * (length ns - 1)"
  using length_round_robin [of ns] fixture_pairs_round_robin [of ns] by (metis length_map)

lemma generateFixtures_unsorted:
  "generateFixtures sh teams = assign_weeks (length teams) (sh (fixture_pairs (map team_name teams)))"
  by (simp add: generateFixtures_def sort_key_id_if_sorted assign_weeks_sorted)

text \<open>
  C16. For distinct team names and any shuffle that permutes the fixtures, \<open>generateFixtures\<close>
  schedules a double round robin: each ordered pair of distinct teams meets exactly once, home and
  away, and no other pairing occurs.
\<close>

theorem generateFixtures_double_round_robin:
  assumes "distinct (map team_name teams)"
    and "mset (sh (fixture_pairs (map team_name teams))) = mset (fixture_pairs (map team_name teams))"
  shows "mset (map pairing (generateFixtures sh teams)) = mset (round_robin (map team_name teams)) \<and>
         distinct (map pairing (generateFixtures sh teams)) \<and>
         set (map pairing (generateFixtures sh teams)) =
           {(a, b). a \<in> set (map team_name teams) \<and> b \<in> set (map team_name teams) \<and> a \<noteq> b}"
proof -
  have m: "mset (map pairing (generateFixtures sh teams)) = mset (round_robin (map team_name teams))"
    using assms(2) by (simp add: generateFixtures_unsorted assign_weeks_pairing fixture_pairs_round_robin [symmetric])
  show ?thesis using m round_robin_props [OF assms(1)] mset_eq_setD [OF m] mset_eq_imp_distinct_iff [OF m] by simp
qed

lemma week_bound: "0 < (n::nat) \<Longrightarrow> i < n * (n - 1) \<Longrightarrow> 2 * i div n + 1 \<le> 2 * (n - 1)"
proof -
  assume n: "0 < n" and i: "i < n * (n - 1)"
  then have "2 * i < 2 * (n - 1) * n" by (simp add: algebra_simps)
  then have "2 * i div n < 2 * (n - 1)" using n by (simp add: div_less_iff_less_mult)
  then show ?thesis by simp
qed

text \<open>
  C17. For any shuffle that permutes the fixtures, the final sort by week leaves the list as the
  week assignment produced it, the weeks are ascending, there are \<open>n (n - 1)\<close> fixtures and
  every week lies between 1 and \<open>2 (n - 1)\<close>.
\<close>

theorem generateFixtures_weeks:
  assumes "mset (sh (fixture_pairs (map team_name teams))) = mset (fixture_pairs (map team_name teams))"
  shows "generateFixtures sh teams = assign_weeks (length teams) (sh (fixture_pairs (map team_name teams))) \<and>
         sorted (map week (generateFixtures sh teams)) \<and>
         length (generateFixtures sh teams) = length teams * (length teams - 1) \<and>
         list_all (\<lambda>f. 1 \<le> week f \<and> week f \<le> 2 * (length teams - 1)) (generateFixtures sh teams)"
proof -
  let ?xs = "sh (fixture_pairs (map team_name teams))"
  have len: "length ?xs = length teams * (length teams - 1)"
    using mset_eq_length [OF assms] length_fixture_pairs [of "map team_name teams"] by simp
  have "list_all (\<lambda>f. 1 \<le> week f \<and> week f \<le> 2 * (length teams - 1)) (assign_weeks (length teams) ?xs)"
  proof (cases "length teams")
    case (Suc k)
    have "\<forall>w\<in>set (map week (assign_weeks (length teams) ?xs)). 1 \<le> w \<and> w \<le> 2 * (length teams - 1)"
      unfolding assign_weeks_week using week_bound [of "length teams"] len Suc by auto
    then show ?thesis by (simp add: list_all_iff)
  next
    case 0
    then show ?thesis using len by (simp add: assign_weeks_def)
  qed
  then show ?thesis
    using len assign_weeks_sorted [of "length teams" ?xs]
    by (simp add: generateFixtures_unsorted assign_weeks_def)
qed

lemma fixture_pairs_seed_prefix:
  "take 4 (fixture_pairs (map team_name leagueTeams_seed)) =
    [\<lparr>week = 0, homeTeam = ''Astral FC'', awayTeam = ''Quantum Rovers''\<rparr>,
     \<lparr>week = 0, homeTeam = ''Quantum Rovers'', awayTeam = ''Astral FC''\<rparr>,
     \<lparr>week = 0, homeTeam = ''Astral FC'', awayTeam = ''Nebula United''\<rparr>,
     \<lparr>week = 0, homeTeam = ''Nebula United'', awayTeam = ''Astral FC''\<rparr>]"
  by (simp add: leagueTeams_seed_def mk_team_def fixture_pairs_Cons)

lemma take_assign_weeks: "take k (assign_weeks n xs) = assign_weeks n (take k xs)"
  by (rule nth_equalityI) (simp_all add: assign_weeks_def)

text \<open>
  The weeks are given by the position in the shuffled list, not by the teams: for the
  shuffle that keeps the order of the loops (a permutation like any other), Astral FC plays all four
  fixtures of week 1 of the initial season.
\<close>

theorem fixtures_week_clash:
  "mset (id (fixture_pairs (map team_name leagueTeams_seed))) = mset (fixture_pairs (map team_name leagueTeams_seed)) \<and>
   map week (take 4 (generateFixtures id leagueTeams_seed)) = [1, 1, 1, 1] \<and>
   list_all (\<lambda>f. homeTeam f = ''Astral FC'' \<or> awayTeam f = ''Astral FC'') (take 4 (generateFixtures id leagueTeams_seed))"
proof -
  have n: "length leagueTeams_seed = 8" by (simp add: leagueTeams_seed_def)
  show ?thesis
    unfolding generateFixtures_unsorted take_assign_weeks id_apply fixture_pairs_seed_prefix n
    by (simp add: assign_weeks_def)
qed

lemma div_eq_range: "0 < (m::nat) \<Longrightarrow> i div m = k \<longleftrightarrow> k * m \<le> i \<and> i < k * m + m"
proof
  assume m: "0 < m" and d: "i div m = k"
  have "i = k * m + i mod m" using d div_mult_mod_eq [of i m] by simp
  moreover have "i mod m < m" using m by simp
  ultimately show "k * m \<le> i \<and> i < k * m + m" by linarith
next
  assume m: "0 < m" and r: "k * m \<le> i \<and> i < k * m + m"
  then obtain d where "i = k * m + d" "d < m" by (metis add_less_cancel_left le_iff_add)
  then show "i div m = k" using m by simp
qed

lemma count_div_block:
  assumes "0 < (m::nat)" "k < q"
  shows "length (filter (\<lambda>i. i div m = k) [0..<q * m]) = m"
proof -
  have "{i. i < q * m \<and> i div m = k} = {k * m..<k * m + m}"
  proof -
    have "k * m + m \<le> q * m" using assms(2) by (metis add.commute mult_Suc mult_le_mono1 Suc_leI)
    then show ?thesis using div_eq_range [OF assms(1)] by auto
  qed
  moreover have "{i. i < q * m \<and> [0..<q * m] ! i div m = k} = {i. i < q * m \<and> i div m = k}" by auto
  ultimately show ?thesis by (simp add: length_filter_conv_card)
qed

lemma week_filter_count:
  "length (filter (\<lambda>f. week f = w) (assign_weeks n xs)) = length (filter (\<lambda>i. 2 * i div n + 1 = w) [0..<length xs])"
proof -
  have "length (filter (\<lambda>f. week f = w) (assign_weeks n xs)) = length (filter (\<lambda>x. x = w) (map week (assign_weeks n xs)))"
    by (simp add: filter_map o_def)
  also have "\<dots> = length (filter (\<lambda>i. 2 * i div n + 1 = w) [0..<length xs])"
    unfolding assign_weeks_week by (simp add: filter_map o_def)
  finally show ?thesis .
qed

text \<open>
  C33. With an even number of teams and any permuting shuffle, each week from 1 to \<open>2 (n - 1)\<close>
  holds exactly \<open>n / 2\<close> fixtures.
\<close>

theorem generateFixtures_week_sizes:
  assumes "even (length teams)"
    and "mset (sh (fixture_pairs (map team_name teams))) = mset (fixture_pairs (map team_name teams))"
    and "1 \<le> w" "w \<le> 2 * (length teams - 1)"
  shows "length (filter (\<lambda>f. week f = w) (generateFixtures sh teams)) = length teams div 2"
proof -
  obtain m where n: "length teams = 2 * m" using assms(1) by (auto elim: evenE)
  then have m: "0 < m" using assms(3,4) by (cases m) auto
  let ?xs = "sh (fixture_pairs (map team_name teams))"
  have len: "length ?xs = (2 * (2 * m - 1)) * m"
    using mset_eq_length [OF assms(2)] length_fixture_pairs [of "map team_name teams"] n by (simp add: algebra_simps)
  have "(\<lambda>i. 2 * i div (2 * m) + 1 = w) = (\<lambda>i. i div m = w - 1)" using assms(3) by auto
  moreover have "w - 1 < 2 * (2 * m - 1)" using assms(3,4) n by simp
  ultimately show ?thesis
    using count_div_block [OF m, of "w - 1" "2 * (2 * m - 1)"] len n
    by (simp add: generateFixtures_unsorted week_filter_count)
qed

subsection \<open>Witnesses on the initial season\<close>

lemma seed_names: "distinct (map team_name leagueTeams_seed)" "length leagueTeams_seed = 8"
  by (simp_all add: leagueTeams_seed_def mk_team_def)

theorem double_round_robin_witness:
  "distinct (map team_name leagueTeams_seed) \<and> distinct (map pairing (generateFixtures id leagueTeams_seed)) \<and>
   (''Astral FC'', ''Cosmos County'') \<in> set (map pairing (generateFixtures id leagueTeams_seed))"
  using generateFixtures_double_round_robin [OF seed_names(1), of id] seed_names(1)
  by (simp add: leagueTeams_seed_def mk_team_def)

theorem fixture_weeks_witness:
  "sorted (map week (generateFixtures id leagueTeams_seed)) \<and> length (generateFixtures id leagueTeams_seed) = 56 \<and>
   list_all (\<lambda>f. 1 \<le> week f \<and> week f \<le> 14) (generateFixtures id leagueTeams_seed)"
  proof -
  have m: "mset (id (fixture_pairs (map team_name leagueTeams_seed))) = mset (fixture_pairs (map team_name leagueTeams_seed))"
    by simp
  show ?thesis using conjunct2 [OF generateFixtures_weeks [of id leagueTeams_seed, OF m]] seed_names(2) by simp
qed

theorem week_sizes_witness:
  "length (filter (\<lambda>f. week f = 14) (generateFixtures id leagueTeams_seed)) = 4"
  using generateFixtures_week_sizes [of leagueTeams_seed id 14] seed_names(2) by simp

end
