(* ===== verification/Pitch_View.thy ===== *)
theory Pitch_View
  imports Controls Chemistry
begin

text \<open>
  What \<^verbatim>\<open>SoccerField\<close> of \<^verbatim>\<open>src/components/SoccerField.tsx\<close> draws: the pitch markings
  (\<^verbatim>\<open>SoccerFieldBackground\<close>), the set-piece highlight (\<^verbatim>\<open>SetPieceContext\<close>), the
  grid (\<^verbatim>\<open>FieldGrid\<close>), the trail markers, and the layers the component composes.
  SVG coordinates are exact reals; stroke colours and widths, which are the same for every
  shape of a layer, are left out, and so is the dash pattern of the free-kick circles.
\<close>

subsection \<open>SVG shapes\<close>

text \<open>
  Path commands as the paths of the file use them: every arc has equal radii, no rotation
  and the small-arc flag; its sweep flag is kept.
\<close>

datatype path_cmd = Move_to real real | Line_to real real | Arc_to real bool real real | Close_path

datatype svg_shape =
    Svg_rect real real real real
  | Svg_line real real real real
  | Svg_circle real real real
  | Svg_path "path_cmd list"

text \<open>A shape and whether it is filled (\<^verbatim>\<open>fill\<close> other than \<^verbatim>\<open>none\<close>).\<close>

type_synonym mark = "svg_shape \<times> bool"

subsection \<open>The pitch markings\<close>

definition SoccerFieldBackground :: "mark list" where
  "SoccerFieldBackground =
    [(Svg_rect 1 1 1048 678, False), (Svg_line 525 1 525 679, False), (Svg_circle 525 340 91.5, False),
     (Svg_circle 525 340 3, True), (Svg_rect 1 130.5 165 419, False), (Svg_rect 1 248.5 55 183, False),
     (Svg_circle 110 340 3, True), (Svg_path [Move_to 165 248.5, Arc_to 91.5 True 165 431.5], False),
     (Svg_rect 884 130.5 165 419, False), (Svg_rect 994 248.5 55 183, False),
     (Svg_circle 940 340 3, True), (Svg_path [Move_to 884 248.5, Arc_to 91.5 False 884 431.5], False)]"

subsection \<open>The set-piece highlight\<close>

text \<open>
  \<^verbatim>\<open>contexts[category]\<close>: the categories with a highlight; \<^verbatim>\<open>General\<close> is no key of
  the object, so the component renders \<^verbatim>\<open>null\<close>.
\<close>

definition SetPieceContext :: "play_category \<Rightarrow> mark list option" where
  "SetPieceContext c = map_of
    [(Attacking_Corner,
       [(Svg_path [Move_to 1050 0, Line_to 958.5 0, Arc_to 91.5 True 1050 91.5, Close_path], True),
        (Svg_path [Move_to 1050 680, Line_to 958.5 680, Arc_to 91.5 False 1050 588.5, Close_path], True)]),
     (Defending_Corner,
       [(Svg_path [Move_to 0 0, Line_to 91.5 0, Arc_to 91.5 False 0 91.5, Close_path], True),
        (Svg_path [Move_to 0 680, Line_to 91.5 680, Arc_to 91.5 True 0 588.5, Close_path], True)]),
     (Attacking_Free_Kick, [(Svg_circle 800 340 91.5, True)]),
     (Defending_Free_Kick, [(Svg_circle 250 340 91.5, True)]),
     (Throw_in, [(Svg_rect 425 0 200 40, True), (Svg_rect 425 640 200 40, True)])] c"

subsection \<open>The grid\<close>

text \<open>A natural number in decimal, as a template literal prints it.\<close>

fun js_nat_str :: "nat \<Rightarrow> string" where
  "js_nat_str n = (if n < 10 then [char_of (48 + n)] else js_nat_str (n div 10) @ [char_of (48 + n mod 10)])"

declare js_nat_str.simps [simp del]

text \<open>The two loops of \<^verbatim>\<open>FieldGrid\<close>: each line with its React key, in the 100 by 100 box.\<close>

definition FieldGrid :: "(string \<times> svg_shape) list" where
  "FieldGrid =
     map (\<lambda>i. (''v-'' @ js_nat_str i, Svg_line (10 * real i) 0 (10 * real i) 100)) [1..<10] @
     map (\<lambda>i. (''h-'' @ js_nat_str i, Svg_line 0 (10 * real i) 100 (10 * real i))) [1..<10]"

subsection \<open>The half-turn of the pitch\<close>

text \<open>
  The point reflection through the centre of a \<open>w\<close> by \<open>h\<close> box. On the percentage box
  it is \<^verbatim>\<open>mirrorPosition\<close>, which draws the away side.
\<close>

definition half_turn_pt :: "real \<Rightarrow> real \<Rightarrow> real \<times> real \<Rightarrow> real \<times> real" where
  "half_turn_pt w h p = (w - fst p, h - snd p)"

fun half_turn_cmd :: "real \<Rightarrow> real \<Rightarrow> path_cmd \<Rightarrow> path_cmd" where
  "half_turn_cmd w h (Move_to x y) = Move_to (w - x) (h - y)"
| "half_turn_cmd w h (Line_to x y) = Line_to (w - x) (h - y)"
| "half_turn_cmd w h (Arc_to r s x y) = Arc_to r s (w - x) (h - y)"
| "half_turn_cmd w h Close_path = Close_path"

fun half_turn_shape :: "real \<Rightarrow> real \<Rightarrow> svg_shape \<Rightarrow> svg_shape" where
  "half_turn_shape w h (Svg_rect x y a b) = Svg_rect (w - x - a) (h - y - b) a b"
| "half_turn_shape w h (Svg_line x1 y1 x2 y2) = Svg_line (w - x1) (h - y1) (w - x2) (h - y2)"
| "half_turn_shape w h (Svg_circle x y r) = Svg_circle (w - x) (h - y) r"
| "half_turn_shape w h (Svg_path cs) = Svg_path (map (half_turn_cmd w h) cs)"

definition half_turn_mark :: "real \<Rightarrow> real \<Rightarrow> mark \<Rightarrow> mark" where
  "half_turn_mark w h m = (half_turn_shape w h (fst m), snd m)"

text \<open>
  A line, and a path of one arc, draw the same curve traversed backwards (the arc with
  the other sweep).
\<close>

fun reverse_shape :: "svg_shape \<Rightarrow> svg_shape" where
  "reverse_shape (Svg_line x1 y1 x2 y2) = Svg_line x2 y2 x1 y1"
| "reverse_shape (Svg_path [Move_to x0 y0, Arc_to r s x1 y1]) = Svg_path [Move_to x1 y1, Arc_to r (\<not> s) x0 y0]"
| "reverse_shape s = s"

definition same_mark :: "mark \<Rightarrow> mark \<Rightarrow> bool" where
  "same_mark m m' = (snd m = snd m' \<and> (fst m = fst m' \<or> fst m = reverse_shape (fst m')))"

text \<open>The marks whose half-turn image is drawn by no mark of the list.\<close>

definition unmatched_marks :: "real \<Rightarrow> real \<Rightarrow> mark list \<Rightarrow> mark list" where
  "unmatched_marks w h ms = filter (\<lambda>m. \<not> list_ex (same_mark (half_turn_mark w h m)) ms) ms"


subsection \<open>Trail markers\<close>

text \<open>\<^verbatim>\<open>[...new Set(xs)]\<close>: the values in order of first insertion.\<close>

definition js_set_values :: "'a list \<Rightarrow> 'a list" where
  "js_set_values xs = fold (\<lambda>x acc. if x \<in> set acc then acc else acc @ [x]) xs []"

definition uniqueTrailColors :: "animation_trail list option \<Rightarrow> string list" where
  "uniqueTrailColors tr = (case tr of None \<Rightarrow> [] | Some ts \<Rightarrow> js_set_values (map trail_color ts))"

text \<open>\<^verbatim>\<open>s.replace('#', '')\<close>: a string pattern replaces its first occurrence only.\<close>

definition js_replace_first :: "char \<Rightarrow> string \<Rightarrow> string \<Rightarrow> string" where
  "js_replace_first c r s =
     (if c \<in> set s then takeWhile (\<lambda>x. x \<noteq> c) s @ r @ tl (dropWhile (\<lambda>x. x \<noteq> c) s) else s)"

definition arrowhead_id :: "string \<Rightarrow> string" where
  "arrowhead_id c = ''arrowhead-trail-'' @ js_replace_first CHR ''#'' [] c"

definition dot_id :: "string \<Rightarrow> string" where
  "dot_id c = ''dot-trail-'' @ js_replace_first CHR ''#'' [] c"

text \<open>The \<^verbatim>\<open><defs>\<close>: per colour, its fragment key and the ids of its two markers.\<close>

definition trail_markers :: "string list \<Rightarrow> (string \<times> string \<times> string) list" where
  "trail_markers cs = map (\<lambda>c. (c, arrowhead_id c, dot_id c)) cs"

record trail_view =
  trv_key :: string
  trv_points :: "pos list"
  trv_stroke :: string
  trv_marker_end :: string
  trv_marker_mid :: string

definition trail_polylines :: "animation_trail list option \<Rightarrow> trail_view list" where
  "trail_polylines tr =
     (case tr of None \<Rightarrow> []
      | Some ts \<Rightarrow> map (\<lambda>t. \<lparr>trv_key = trail_playerId t, trv_points = trail_points t, trv_stroke = trail_color t,
                             trv_marker_end = arrowhead_id (trail_color t), trv_marker_mid = dot_id (trail_color t)\<rparr>) ts)"

subsection \<open>The teams on the pitch\<close>

text \<open>
  One rendered player of \<^verbatim>\<open>renderTeam\<close>: the player, its slot, where it is drawn, the
  drop-target ring, the stacking order, the token and whether the action bubble is shown.
\<close>

record token_slot =
  tk_player :: player
  tk_slot :: "formation_slot option"
  tk_pos :: pos
  tk_ring :: bool
  tk_z :: int
  tk_view :: token_view
  tk_bubble :: bool

record slot_zone =
  zone_slot :: formation_slot
  zone_active :: bool

record team_render =
  tr_tokens :: "token_slot list"
  tr_zones :: "slot_zone list"

text \<open>\<open>dov\<close> is the component's \<^verbatim>\<open>dragOverSlotId\<close>.\<close>

definition renderTeam :: "tactics_state \<Rightarrow> ui_state \<Rightarrow> string option \<Rightarrow> formation \<Rightarrow> team \<Rightarrow> team_render" where
  "renderTeam ts u dov f t =
     \<lparr>tr_tokens = map (\<lambda>(p, sl, q).
        \<lparr>tk_player = p, tk_slot = sl, tk_pos = q,
         tk_ring = (case sl of Some s \<Rightarrow> dov = Some (slot_id s) \<and> positioningMode u = Mode_snap | None \<Rightarrow> False),
         tk_z = (if Some (player_id p) = selectedPlayerId u then 15 else 5),
         tk_view = PlayerToken ts u (Some (player_id p) = selectedPlayerId u)
                     (player_id p \<in> set (highlightedByAIPlayerIds u)) p,
         tk_bubble = (\<not> isPresentationMode u)\<rparr>) (teamPlayers (players ts) f t),
      tr_zones = map (\<lambda>s. \<lparr>zone_slot = s, zone_active = (dov = Some (slot_id s))\<rparr>) (emptySlotZones (positioningMode u) f t)\<rparr>"

subsection \<open>The field\<close>

definition getCursorStyle :: "ui_state \<Rightarrow> string" where
  "getCursorStyle u =
     (if isPresentationMode u then ''default'' else if drawingTool u \<noteq> Tool_select then ''crosshair'' else ''default'')"

text \<open>\<^verbatim>\<open>activePlaybookItemId ? playbook[activePlaybookItemId] : null\<close>.\<close>

definition activePlaybookItem :: "ui_state \<Rightarrow> tactics_state \<Rightarrow> playbook_item option" where
  "activePlaybookItem u ts =
     (case activePlaybookItemId u of
        Some iid \<Rightarrow> if iid = [] then None else map_of (playbook ts) iid
      | None \<Rightarrow> None)"

record field_view =
  fv_cursor :: string
  fv_free_mode :: bool
  fv_set_piece :: "mark list option"
  fv_grid :: "(string \<times> svg_shape) list option"
  fv_strength :: "pos list option"
  fv_markers :: "(string \<times> string \<times> string) list"
  fv_links :: "chem_link list"
  fv_trails :: "trail_view list"
  fv_home :: "team_render option"
  fv_away :: "team_render option"
  fv_timeline :: bool

datatype field_render = Loading_formation | Field_rendered field_view

text \<open>
  \<^verbatim>\<open>SoccerField\<close>: the loading fallback when an active formation is missing; otherwise
  the layers in document order. \<^verbatim>\<open>FormationStrengthOverlay\<close> is a child: when it
  throws, the render of the field fails. \<open>sc\<close> is the chemistry score of a pair on a
  side, \<open>dov\<close> the slot dragged over.
\<close>

definition SoccerField :: "(team \<Rightarrow> player \<Rightarrow> player \<Rightarrow> int) \<Rightarrow> string option \<Rightarrow> root_state \<Rightarrow>
    js_error + field_render" where
  "SoccerField sc dov s =
     (let ts = tactics s; u = ui s; v = activeTeamContext u in
      case (team_formation ts Home, team_formation ts Away) of
        (Some hf, Some af) \<Rightarrow>
          (case strength_points v (isFormationStrengthVisible u) ts of
             Inl e \<Rightarrow> Inl e
           | Inr pts \<Rightarrow> Inr (Field_rendered
               \<lparr>fv_cursor = getCursorStyle u, fv_free_mode = (positioningMode u = Mode_free),
                fv_set_piece = Option.bind (activePlaybookItem u ts) (\<lambda>it. SetPieceContext (category it)),
                fv_grid = (if isGridVisible u then Some FieldGrid else None),
                fv_strength = pts,
                fv_markers = trail_markers (uniqueTrailColors (animationTrails u)),
                fv_links = chemistryLinks v sc (players ts) hf af,
                fv_trails = trail_polylines (animationTrails u),
                fv_home = (if v = View_team Home \<or> v = View_both then Some (renderTeam ts u dov hf Home) else None),
                fv_away = (if v = View_team Away \<or> v = View_both then Some (renderTeam ts u dov af Away) else None),
                fv_timeline = (\<not> isPresentationMode u)\<rparr>))
      | _ \<Rightarrow> Inr Loading_formation)"

text \<open>
  The hooks a render calls, in order: the three context hooks, \<^verbatim>\<open>useRef\<close> and
  \<^verbatim>\<open>useState\<close> before the loading fallback, then \<^verbatim>\<open>useMemo\<close>, \<^verbatim>\<open>useMemo\<close> and
  \<^verbatim>\<open>useCallback\<close>. React requires every render of a component to call the same hooks.
\<close>

datatype hook = Hook_context | Hook_ref | Hook_state | Hook_memo | Hook_callback

definition SoccerField_hooks :: "field_render \<Rightarrow> hook list" where
  "SoccerField_hooks r =
     [Hook_context, Hook_context, Hook_context, Hook_ref, Hook_state] @
     (case r of Loading_formation \<Rightarrow> [] | Field_rendered _ \<Rightarrow> [Hook_memo, Hook_memo, Hook_callback])"

text \<open>Both active formations resolve: the condition under which the field is drawn.\<close>

definition formations_present :: "tactics_state \<Rightarrow> bool" where
  "formations_present ts = (team_formation ts Home \<noteq> None \<and> team_formation ts Away \<noteq> None)"

text \<open>An operation that keeps the active formation ids and every formation key.\<close>

definition keeps_formations :: "tactics_state \<Rightarrow> tactics_state \<Rightarrow> bool" where
  "keeps_formations ts ts' =
     (activeFormationIds ts' = activeFormationIds ts \<and> fst ` set (formations ts) \<subseteq> fst ` set (formations ts'))"

text \<open>The player tokens of the teams in view.\<close>

definition field_tokens :: "field_view \<Rightarrow> token_slot list" where
  "field_tokens fv = (case fv_home fv of None \<Rightarrow> [] | Some r \<Rightarrow> tr_tokens r) @ (case fv_away fv of None \<Rightarrow> [] | Some r \<Rightarrow> tr_tokens r)"

subsection \<open>Concrete inputs of the witnesses\<close>

definition demo_trail :: "string \<Rightarrow> string \<Rightarrow> animation_trail" where
  "demo_trail pid c = \<lparr>trail_playerId = pid, trail_points = [\<lparr>pos_x = 10, pos_y = 20\<rparr>, \<lparr>pos_x = 30, pos_y = 40\<rparr>],
     trail_color = c\<rparr>"

text \<open>Three trails, two of them in the home colour.\<close>

definition trails_state :: root_state where
  "trails_state = INITIAL_STATE\<lparr>ui := initial_ui\<lparr>animationTrails :=
     Some [demo_trail ''p1'' ''#3b82f6'', demo_trail ''p3'' ''#3b82f6'', demo_trail ''p9'' ''#ef4444'']\<rparr>\<rparr>"

subsection \<open>Symmetry of the markings\<close>

text \<open>
  The pitch markings are symmetric under the half-turn of the pitch (the away side's
  \<^verbatim>\<open>mirrorPosition\<close>) except for the two penalty arcs: the left arc starts at \<open>x = 165\<close>, whose
  image is \<open>885\<close>, while the right arc is drawn at \<open>884\<close>.
\<close>

theorem background_half_turn:
  "unmatched_marks 1050 680 SoccerFieldBackground =
     [(Svg_path [Move_to 165 248.5, Arc_to 91.5 True 165 431.5], False),
      (Svg_path [Move_to 884 248.5, Arc_to 91.5 False 884 431.5], False)]"
  by (simp add: unmatched_marks_def SoccerFieldBackground_def same_mark_def half_turn_mark_def)

lemma set_piece_half_turn:
  "map_option (map (half_turn_mark 1050 680)) (SetPieceContext Attacking_Corner) = map_option rev (SetPieceContext Defending_Corner) \<and>
   map_option (map (half_turn_mark 1050 680)) (SetPieceContext Attacking_Free_Kick) = SetPieceContext Defending_Free_Kick \<and>
   map_option (map (half_turn_mark 1050 680)) (SetPieceContext Throw_in) = map_option rev (SetPieceContext Throw_in) \<and>
   SetPieceContext General = None"
  by (simp add: SetPieceContext_def half_turn_mark_def)

lemma grid_keys: "distinct (map fst FieldGrid) \<and> length FieldGrid = 18"
  by (simp add: FieldGrid_def js_nat_str.simps upt_rec)


subsection \<open>Both active formations resolve\<close>

lemma keeps_formations_present:
  "formations_present ts \<Longrightarrow> keeps_formations ts ts' \<Longrightarrow> formations_present ts'"
  by (auto simp: formations_present_def keeps_formations_def team_formation_def map_of_eq_None_iff)

lemma keeps_formations_refl [simp]: "keeps_formations ts ts"
  by (simp add: keeps_formations_def)

lemma keeps_formations_trans:
  "keeps_formations ts ts1 \<Longrightarrow> keeps_formations ts1 ts2 \<Longrightarrow> keeps_formations ts ts2"
  by (auto simp: keeps_formations_def)

lemma keeps_formations_update [simp]:
  "keeps_formations ts (ts\<lparr>formations := AList.update k f (formations ts), players := ps\<rparr>)"
  "keeps_formations ts (ts\<lparr>formations := AList.update k f (formations ts)\<rparr>)"
  by (auto simp: keeps_formations_def AList.dom_update)

lemma keys_map_values [simp]: "fst ` (\<lambda>(k, f). (k, g f)) ` A = fst ` A"
  by (force simp: image_image case_prod_beta)

lemma keeps_formations_bench:
  "keeps_formations ts (bench_player p ts)"
  by (simp add: keeps_formations_def bench_player_def)

lemma keeps_formations_ops:
  "keeps_formations ts (set_captain p ts)"
  "keeps_formations ts (assign_player_to_slot sid p t ts)"
  "keeps_formations ts (update_player_position p x ts)"
  "keeps_formations ts (swap_in_team t p q sid ts)"
  by (auto simp: keeps_formations_def set_captain_def bench_player_def assign_player_to_slot_def update_player_position_def
      swap_in_team_def Let_def AList.dom_update image_iff split: option.split)

lemma keeps_formations_replace: "keeps_formations ts (replace_in_team t p q sid ts)"
proof -
  have "keeps_formations (bench_player q ts) (replace_in_team t p q sid ts)"
    by (auto simp: replace_in_team_def keeps_formations_def Let_def AList.dom_update split: option.split)
  then show ?thesis using keeps_formations_bench keeps_formations_trans by blast
qed

lemma keeps_formations_swap_players: "keeps_formations ts (swap_players p q ts)"
  by (simp add: swap_players_def keeps_formations_ops split: list.split prod.split)

lemma keeps_formations_decision: "keeps_formations ts (apply_slot_decision dec d ts)"
  by (simp add: apply_slot_decision_def keeps_formations_ops keeps_formations_bench keeps_formations_replace
      split: slot_decision.split option.split prod.split)

lemma formations_present_initial: "formations_present initial_tactics"
  by (simp add: formations_present_def team_formation_def initial_tactics_def initial_formations_def)


lemma keeps_formations_frame:
  "formations ts' = formations ts \<Longrightarrow> activeFormationIds ts' = activeFormationIds ts \<Longrightarrow> keeps_formations ts ts'"
  by (simp add: keeps_formations_def)

lemma set_active_step_ids [simp]:
  "activeFormationIds (tactics (set_active_step i s)) = activeFormationIds (tactics s)"
  by (simp add: set_active_step_def Let_def split: option.split)

lemma animation_ids_frame:
  "activeFormationIds (tactics (start_animation s)) = activeFormationIds (tactics s)"
  "activeFormationIds (tactics (load_playbook_item i s)) = activeFormationIds (tactics s)"
  "activeFormationIds (tactics (delete_playbook_item i s)) = activeFormationIds (tactics s)"
  "activeFormationIds (tactics (pause_animation s)) = activeFormationIds (tactics s)"
  "activeFormationIds (tactics (reset_animation s)) = activeFormationIds (tactics s)"
  "activeFormationIds (tactics (create_playbook_item nm c s)) = activeFormationIds (tactics s)"
  "activeFormationIds (tactics (add_playbook_step s)) = activeFormationIds (tactics s)"
  by (simp_all add: create_playbook_item_def add_playbook_step_def start_animation_def load_playbook_item_def
      delete_playbook_item_def pause_animation_def reset_animation_def Let_def split: option.split)

lemma keeps_formations_resolve: "keeps_formations (tactics s) (tactics (resolve_slot_action dec s))"
  by (simp add: resolve_slot_action_def Let_def keeps_formations_decision split: option.split)

lemma keeps_formations_set_active:
  "formations_present ts \<Longrightarrow> formations_present (set_active_formation fid t ts)"
  by (cases t) (auto simp: set_active_formation_def formations_present_def team_formation_def team_get_def team_set_def)

lemmas present_ops =
  keeps_formations_present [OF _ keeps_formations_ops(1)] keeps_formations_present [OF _ keeps_formations_ops(2)]
  keeps_formations_present [OF _ keeps_formations_ops(3)] keeps_formations_present [OF _ keeps_formations_ops(4)]
  keeps_formations_present [OF _ keeps_formations_bench] keeps_formations_present [OF _ keeps_formations_swap_players]

lemma root_reducer_present:
  "formations_present (tactics s) \<Longrightarrow> \<not> is_load_state a \<Longrightarrow> formations_present (tactics (root_reducer a s))"
proof (cases a)
  case SOFT_RESET_APP
  then show ?thesis by (simp add: soft_reset_app_def INITIAL_STATE_def formations_present_initial)
next
  case (SET_ACTIVE_FORMATION f t)
  then show "formations_present (tactics s) \<Longrightarrow> ?thesis" by (simp add: map_tactics_def keeps_formations_set_active)
qed (auto simp: is_load_state_def map_tactics_def map_ui_def login_success_def auth_failure_def
      keeps_formations_ops keeps_formations_bench keeps_formations_swap_players
      animation_ids_frame animation_formations_frame set_active_step_frame
      intro: keeps_formations_present [OF _ keeps_formations_resolve] present_ops
             keeps_formations_present [OF _ keeps_formations_frame])


lemma bake_ids [simp]: "activeFormationIds (tactics (bake_active_step s)) = activeFormationIds (tactics s)"
  by (simp add: bake_active_step_def Let_def split: option.split prod.split)

lemma load_present:
  "formations_present (tactics s') \<Longrightarrow> formations_present (tactics (load_state (cleanStateForSaving s') s))"
  by (simp add: load_state_def cleanStateForSaving_def Let_def formations_present_def team_formation_def bake_active_step_frame)

theorem reachable_formations_present: "reachable s \<Longrightarrow> formations_present (tactics s)"
  by (induction rule: reachable.induct)
     (simp_all add: INITIAL_STATE_def formations_present_initial root_reducer_present load_present)

lemma strength_points_present:
  "formations_present ts \<Longrightarrow> \<not> isl (strength_points v b ts)"
  by (auto simp: strength_points_def formations_present_def team_formation_def Let_def split: option.split)

lemma SoccerField_present:
  "formations_present (tactics s) \<Longrightarrow> \<exists>fv. SoccerField sc dov s = Inr (Field_rendered fv)"
  using strength_points_present [of "tactics s" "activeTeamContext (ui s)" "isFormationStrengthVisible (ui s)"]
  by (auto simp: SoccerField_def formations_present_def Let_def split: sum.split)



text \<open>
  In every reachable state both active formations resolve, so the field is drawn, with the
  same eight hooks on every render.
\<close>

lemma reachable_field_renders:
  "reachable s \<Longrightarrow> \<exists>fv. SoccerField sc dov s = Inr (Field_rendered fv) \<and>
     SoccerField_hooks (Field_rendered fv) = [Hook_context, Hook_context, Hook_context, Hook_ref, Hook_state, Hook_memo, Hook_memo, Hook_callback]"
  using SoccerField_present [OF reachable_formations_present] by (simp add: SoccerField_hooks_def)


subsection \<open>The layers of the field\<close>

lemma js_set_values_fold:
  "fold (\<lambda>x acc. if x \<in> set acc then acc else acc @ [x]) xs acc = acc @ [x \<leftarrow> rev (remdups (rev xs)). x \<notin> set acc]"
proof (induction xs arbitrary: acc rule: rev_induct)
  case (snoc x xs)
  then show ?case by (auto simp: filter_empty_conv)
qed simp

lemma js_set_values_remdups: "js_set_values xs = rev (remdups (rev xs))"
  by (simp add: js_set_values_def js_set_values_fold)

lemma js_set_values_props: "distinct (js_set_values xs) \<and> set (js_set_values xs) = set xs"
  by (simp add: js_set_values_remdups)

lemma SoccerField_Field:
  "SoccerField sc dov s = Inr (Field_rendered fv) \<Longrightarrow>
   \<exists>hf af pts. team_formation (tactics s) Home = Some hf \<and> team_formation (tactics s) Away = Some af \<and>
     strength_points (activeTeamContext (ui s)) (isFormationStrengthVisible (ui s)) (tactics s) = Inr pts \<and>
     fv = \<lparr>fv_cursor = getCursorStyle (ui s), fv_free_mode = (positioningMode (ui s) = Mode_free),
      fv_set_piece = Option.bind (activePlaybookItem (ui s) (tactics s)) (\<lambda>it. SetPieceContext (category it)),
      fv_grid = (if isGridVisible (ui s) then Some FieldGrid else None), fv_strength = pts,
      fv_markers = trail_markers (uniqueTrailColors (animationTrails (ui s))),
      fv_links = chemistryLinks (activeTeamContext (ui s)) sc (players (tactics s)) hf af,
      fv_trails = trail_polylines (animationTrails (ui s)),
      fv_home = (if activeTeamContext (ui s) = View_team Home \<or> activeTeamContext (ui s) = View_both
                 then Some (renderTeam (tactics s) (ui s) dov hf Home) else None),
      fv_away = (if activeTeamContext (ui s) = View_team Away \<or> activeTeamContext (ui s) = View_both
                 then Some (renderTeam (tactics s) (ui s) dov af Away) else None),
      fv_timeline = (\<not> isPresentationMode (ui s))\<rparr>"
proof -
  assume r: "SoccerField sc dov s = Inr (Field_rendered fv)"
  obtain hf af where h: "team_formation (tactics s) Home = Some hf" "team_formation (tactics s) Away = Some af"
    using r by (auto simp: SoccerField_def Let_def split: option.splits)
  obtain pts where p: "strength_points (activeTeamContext (ui s)) (isFormationStrengthVisible (ui s)) (tactics s) = Inr pts"
    using r h by (auto simp: SoccerField_def Let_def split: sum.splits)
  show ?thesis
    apply (rule exI [of _ hf], rule exI [of _ af], rule exI [of _ pts])
    using r h p by (simp add: SoccerField_def Let_def)
qed

lemma renderTeam_tokens:
  "k \<in> set (tr_tokens (renderTeam ts u dov f t)) \<Longrightarrow> tk_bubble k = (\<not> isPresentationMode u) \<and> tv_draggable (tk_view k) = is_draggable u"
  by (auto simp: renderTeam_def PlayerToken_def Let_def)

text \<open>
  C28. In presentation mode the field shows the default cursor, no animation timeline, and no
  player token with an action bubble or that can be dragged.
\<close>

theorem presentation_field_static:
  "isPresentationMode (ui s) \<Longrightarrow> SoccerField sc dov s = Inr (Field_rendered fv) \<Longrightarrow>
   fv_cursor fv = ''default'' \<and> \<not> fv_timeline fv \<and>
   list_all (\<lambda>k. \<not> tk_bubble k \<and> \<not> tv_draggable (tk_view k)) (field_tokens fv)"
proof -
  assume pm: "isPresentationMode (ui s)" and r: "SoccerField sc dov s = Inr (Field_rendered fv)"
  obtain hf af pts where fv: "fv = \<lparr>fv_cursor = getCursorStyle (ui s), fv_free_mode = (positioningMode (ui s) = Mode_free),
      fv_set_piece = Option.bind (activePlaybookItem (ui s) (tactics s)) (\<lambda>it. SetPieceContext (category it)),
      fv_grid = (if isGridVisible (ui s) then Some FieldGrid else None), fv_strength = pts,
      fv_markers = trail_markers (uniqueTrailColors (animationTrails (ui s))),
      fv_links = chemistryLinks (activeTeamContext (ui s)) sc (players (tactics s)) hf af,
      fv_trails = trail_polylines (animationTrails (ui s)),
      fv_home = (if activeTeamContext (ui s) = View_team Home \<or> activeTeamContext (ui s) = View_both
                 then Some (renderTeam (tactics s) (ui s) dov hf Home) else None),
      fv_away = (if activeTeamContext (ui s) = View_team Away \<or> activeTeamContext (ui s) = View_both
                 then Some (renderTeam (tactics s) (ui s) dov af Away) else None),
      fv_timeline = (\<not> isPresentationMode (ui s))\<rparr>"
    using SoccerField_Field [OF r] by blast
  have sub: "set (field_tokens fv) \<subseteq>
      set (tr_tokens (renderTeam (tactics s) (ui s) dov hf Home)) \<union> set (tr_tokens (renderTeam (tactics s) (ui s) dov af Away))"
    unfolding fv field_tokens_def by simp
  have "\<forall>k\<in>set (field_tokens fv). \<not> tk_bubble k \<and> \<not> tv_draggable (tk_view k)"
  proof
    fix k assume "k \<in> set (field_tokens fv)"
    then have "k \<in> set (tr_tokens (renderTeam (tactics s) (ui s) dov hf Home)) \<or>
               k \<in> set (tr_tokens (renderTeam (tactics s) (ui s) dov af Away))" using sub by blast
    then show "\<not> tk_bubble k \<and> \<not> tv_draggable (tk_view k)" using renderTeam_tokens pm by (metis is_draggable_def)
  qed
  then show ?thesis using pm fv by (simp add: getCursorStyle_def list_all_iff)
qed

lemma trail_markers_props:
  "map fst (trail_markers cs) = cs" "c \<in> set cs \<Longrightarrow> (c, arrowhead_id c, dot_id c) \<in> set (trail_markers cs)"
  by (auto simp: trail_markers_def o_def)

text \<open>
  C29. The trail markers have distinct React keys, and the end and mid markers every trail
  polyline references are defined in the markers of the field.
\<close>

theorem field_markers_resolve:
  "SoccerField sc dov s = Inr (Field_rendered fv) \<Longrightarrow>
   distinct (map fst (fv_markers fv)) \<and>
   (\<forall>t\<in>set (fv_trails fv). \<exists>m\<in>set (fv_markers fv). fst (snd m) = trv_marker_end t \<and> snd (snd m) = trv_marker_mid t)"
proof -
  assume r: "SoccerField sc dov s = Inr (Field_rendered fv)"
  then have m: "fv_markers fv = trail_markers (uniqueTrailColors (animationTrails (ui s)))"
    and t: "fv_trails fv = trail_polylines (animationTrails (ui s))"
    using SoccerField_Field [OF r] by auto
  have "\<forall>t\<in>set (fv_trails fv). \<exists>m\<in>set (fv_markers fv). fst (snd m) = trv_marker_end t \<and> snd (snd m) = trv_marker_mid t"
  proof
    fix t assume "t \<in> set (fv_trails fv)"
    then obtain ts a where "animationTrails (ui s) = Some ts" "a \<in> set ts" "t = \<lparr>trv_key = trail_playerId a,
        trv_points = trail_points a, trv_stroke = trail_color a,
        trv_marker_end = arrowhead_id (trail_color a), trv_marker_mid = dot_id (trail_color a)\<rparr>"
      using t by (auto simp: trail_polylines_def split: option.splits)
    moreover have "trail_color a \<in> set (uniqueTrailColors (Some ts))" using \<open>a \<in> set ts\<close>
      by (simp add: uniqueTrailColors_def js_set_values_props)
    ultimately have "(trail_color a, arrowhead_id (trail_color a), dot_id (trail_color a)) \<in> set (fv_markers fv)"
      "trv_marker_end t = arrowhead_id (trail_color a)" "trv_marker_mid t = dot_id (trail_color a)"
      using m trail_markers_props(2) by simp_all
    then show "\<exists>m\<in>set (fv_markers fv). fst (snd m) = trv_marker_end t \<and> snd (snd m) = trv_marker_mid t"
      by force
  qed
  moreover have "distinct (uniqueTrailColors (animationTrails (ui s)))"
    by (simp add: uniqueTrailColors_def js_set_values_props split: option.split)
  ultimately show ?thesis using m by (simp add: trail_markers_props(1))
qed

lemma js_replace_first_hash: "js_replace_first CHR ''#'' [] (CHR ''#'' # c) = c"
  by (simp add: js_replace_first_def)

lemma marker_ids_injective:
  "distinct cs \<Longrightarrow> list_all (\<lambda>c. take 1 c = ''#'') cs \<Longrightarrow> distinct (map arrowhead_id cs) \<and> distinct (map dot_id cs)"
proof -
  assume d: "distinct cs" and h: "list_all (\<lambda>c. take 1 c = ''#'') cs"
  have "\<forall>c\<in>set cs. c = CHR ''#'' # tl c"
  proof
    fix c assume "c \<in> set cs"
    then have "take 1 c = ''#''" using h by (simp add: list_all_iff)
    then show "c = CHR ''#'' # tl c" by (cases c) auto
  qed
  then have "inj_on arrowhead_id (set cs) \<and> inj_on dot_id (set cs)"
    unfolding inj_on_def arrowhead_id_def dot_id_def by (metis append_eq_append_conv js_replace_first_hash)
  then show ?thesis using d by (simp add: distinct_map)
qed

lemma marker_id_collision: "arrowhead_id ''#fff'' = arrowhead_id ''fff'' \<and> ''#fff'' \<noteq> ''fff''"
  by (simp add: arrowhead_id_def js_replace_first_def)

lemma half_turn_mirror:
  "half_turn_pt 1050 680 (10.5 * pos_x p, 6.8 * pos_y p) = (10.5 * pos_x (mirrorPosition p), 6.8 * pos_y (mirrorPosition p))"
  by (simp add: half_turn_pt_def mirrorPosition_def algebra_simps)


subsection \<open>Witnesses\<close>

lemma initial_present: "formations_present (tactics INITIAL_STATE)"
  by (simp add: INITIAL_STATE_def formations_present_initial)

theorem presentation_field_witness:
  "\<exists>fv. SoccerField (\<lambda>_ _ _. 50) None presenting_state = Inr (Field_rendered fv) \<and> isPresentationMode (ui presenting_state) \<and>
     fv_cursor fv = ''default'' \<and> \<not> fv_timeline fv \<and> list_all (\<lambda>k. \<not> tk_bubble k \<and> \<not> tv_draggable (tk_view k)) (field_tokens fv)"
proof -
  have p: "isPresentationMode (ui presenting_state)" by (simp add: presenting_state_def)
  have "formations_present (tactics presenting_state)" using initial_present by (simp add: presenting_state_def INITIAL_STATE_def)
  then obtain fv where r: "SoccerField (\<lambda>_ _ _. 50) None presenting_state = Inr (Field_rendered fv)" using SoccerField_present by blast
  show ?thesis using presentation_field_static [OF p r] r p by blast
qed

theorem markers_resolve_witness:
  "\<exists>fv. SoccerField (\<lambda>_ _ _. 50) None trails_state = Inr (Field_rendered fv) \<and> length (fv_markers fv) = 2 \<and>
     distinct (map fst (fv_markers fv)) \<and>
     list_all (\<lambda>t. list_ex (\<lambda>m. fst (snd m) = trv_marker_end t \<and> snd (snd m) = trv_marker_mid t) (fv_markers fv)) (fv_trails fv)"
proof -
  have "formations_present (tactics trails_state)" using initial_present by (simp add: trails_state_def INITIAL_STATE_def)
  then obtain fv where r: "SoccerField (\<lambda>_ _ _. 50) None trails_state = Inr (Field_rendered fv)" using SoccerField_present by blast
  then have "fv_markers fv = trail_markers (uniqueTrailColors (animationTrails (ui trails_state)))"
    using SoccerField_Field by fastforce
  then have "length (fv_markers fv) = 2"
    by (simp add: trails_state_def trail_markers_def uniqueTrailColors_def js_set_values_def demo_trail_def)
  then show ?thesis using field_markers_resolve [OF r] r by (auto simp: list_all_iff list_ex_iff)
qed

theorem marker_ids_witness:
  "distinct (map arrowhead_id [''#3b82f6'', ''#ef4444'']) \<and> distinct (map dot_id [''#3b82f6'', ''#ef4444''])"
  using marker_ids_injective [of "[''#3b82f6'', ''#ef4444'']"] by simp

end
