(* ===== verification/Training.thy ===== *)
theory Training
  imports Seed
begin

text \<open>
  The training and instruction tables of \<^verbatim>\<open>src/constants.ts\<close>: \<^verbatim>\<open>TRAINING_DRILLS\<close>
  (lines 64--97), the weekly schedule every club starts with (lines 193--207, used for both
  teams at line 338), the two built-in plan templates (lines 277--305),
  \<^verbatim>\<open>DETAILED_PLAYER_INSTRUCTIONS\<close> with the instructions of the default players, and
  \<^verbatim>\<open>TACTIC_OPTIONS\<close> with the seeded team tactics. The types are those of
  \<^verbatim>\<open>src/types.ts\<close>; descriptions, which nothing reads, are left out.
\<close>

subsection \<open>Drills\<close>

datatype drill_category =
  Cat_attacking | Cat_defending | Cat_physical | Cat_technical | Cat_tactical | Cat_set_pieces | Cat_warmup | Cat_cooldown

datatype training_intensity = Intensity_low | Intensity_medium | Intensity_high

text \<open>\<^verbatim>\<open>keyof PlayerAttributes\<close>.\<close>

datatype attribute_key = Attr_speed | Attr_passing | Attr_tackling | Attr_shooting | Attr_dribbling | Attr_positioning | Attr_stamina

text \<open>
  \<^verbatim>\<open>TrainingDrill\<close>; the source documents \<^verbatim>\<open>fatigueEffect\<close> as 0--20,
  \<^verbatim>\<open>moraleEffect\<close> as -2 to 2 and \<^verbatim>\<open>injuryRisk\<close> as 0--1.
\<close>

record training_drill =
  drill_id :: string
  drill_name :: string
  drill_category :: drill_category
  primaryAttributes :: "attribute_key list"
  secondaryAttributes :: "attribute_key list"
  intensity :: training_intensity
  fatigueEffect :: int
  moraleEffect :: int
  injuryRisk :: real

definition mk_drill :: "string \<Rightarrow> string \<Rightarrow> drill_category \<Rightarrow> attribute_key list \<Rightarrow> attribute_key list \<Rightarrow>
    training_intensity \<Rightarrow> int \<Rightarrow> int \<Rightarrow> real \<Rightarrow> training_drill" where
  "mk_drill i n c p s t f m r = \<lparr>drill_id = i, drill_name = n, drill_category = c, primaryAttributes = p,
     secondaryAttributes = s, intensity = t, fatigueEffect = f, moraleEffect = m, injuryRisk = r\<rparr>"

definition TRAINING_DRILLS :: "training_drill list" where
  "TRAINING_DRILLS =
    [mk_drill ''warmup_jog'' ''Light Jog & Stretches'' Cat_warmup [Attr_stamina] [] Intensity_low 2 0 0.05,
     mk_drill ''warmup_rondo'' ''Rondo (5v2)'' Cat_warmup [Attr_passing, Attr_positioning] [] Intensity_low 4 1 0.1,
     mk_drill ''att_shoot'' ''Shooting Practice'' Cat_attacking [Attr_shooting] [Attr_positioning] Intensity_medium 10 1 0.2,
     mk_drill ''att_cross'' ''Crossing Drills'' Cat_attacking [Attr_passing] [Attr_dribbling] Intensity_medium 8 0 0.1,
     mk_drill ''att_final_third'' ''Final Third Play'' Cat_attacking [Attr_passing, Attr_positioning, Attr_shooting]
       [Attr_dribbling] Intensity_high 15 1 0.3,
     mk_drill ''att_1v1'' ''1v1 Attacking'' Cat_attacking [Attr_dribbling, Attr_speed] [Attr_shooting] Intensity_high 12 0 0.4,
     mk_drill ''att_counter'' ''Counter-Attacking'' Cat_attacking [Attr_speed, Attr_passing] [Attr_positioning]
       Intensity_high 16 0 0.3,
     mk_drill ''def_pos'' ''Defensive Positioning'' Cat_defending [Attr_positioning] [Attr_tackling] Intensity_medium 8 0 0.1,
     mk_drill ''def_tackle'' ''Tackling Drills'' Cat_defending [Attr_tackling] [] Intensity_high 12 0 0.4,
     mk_drill ''def_shape'' ''Shape Recovery'' Cat_defending [Attr_positioning, Attr_stamina] [Attr_speed] Intensity_medium 14 0 0.2,
     mk_drill ''def_1v1'' ''1v1 Defending'' Cat_defending [Attr_tackling, Attr_positioning] [Attr_speed] Intensity_high 12 0 0.4,
     mk_drill ''phys_sprints'' ''Sprint Training'' Cat_physical [Attr_speed] [Attr_stamina] Intensity_high 18 (-1) 0.5,
     mk_drill ''phys_endurance'' ''Endurance Running'' Cat_physical [Attr_stamina] [Attr_speed] Intensity_medium 15 (-1) 0.2,
     mk_drill ''phys_agility'' ''Agility Ladders'' Cat_physical [Attr_speed] [Attr_dribbling] Intensity_medium 10 0 0.2,
     mk_drill ''tech_passing'' ''Passing Triangle'' Cat_technical [Attr_passing] [Attr_positioning] Intensity_low 5 1 0.1,
     mk_drill ''tech_dribble'' ''Dribbling Course'' Cat_technical [Attr_dribbling] [Attr_speed] Intensity_medium 9 0 0.2,
     mk_drill ''tech_longpass'' ''Long Passing'' Cat_technical [Attr_passing] [] Intensity_medium 7 0 0.1,
     mk_drill ''tech_gk_dist'' ''Goalkeeper Distribution'' Cat_technical [Attr_passing] [Attr_positioning] Intensity_medium 8 0 0.1,
     mk_drill ''tact_shape'' ''Formation Shape'' Cat_tactical [Attr_positioning] [] Intensity_low 4 0 0.05,
     mk_drill ''tact_press'' ''Pressing Triggers'' Cat_tactical [Attr_stamina, Attr_positioning] [Attr_tackling] Intensity_high 16 0 0.3,
     mk_drill ''tact_possession'' ''Positional Play Game'' Cat_tactical [Attr_passing, Attr_positioning] [Attr_dribbling]
       Intensity_medium 15 1 0.2,
     mk_drill ''set_corners'' ''Corner Routines'' Cat_set_pieces [Attr_passing, Attr_positioning] [Attr_shooting] Intensity_low 6 0 0.1,
     mk_drill ''set_delivery'' ''Set Piece Delivery'' Cat_set_pieces [Attr_passing] [] Intensity_low 5 0 0.1,
     mk_drill ''cooldown_stretch'' ''Yoga & Stretching'' Cat_cooldown [Attr_stamina] [] Intensity_low (-5) 1 0.05]"

subsection \<open>Schedules\<close>

text \<open>\<^verbatim>\<open>TrainingSession\<close>: a drill id per part of the session, or \<^verbatim>\<open>null\<close>.\<close>

record training_session =
  session_warmup :: "string option"
  session_main :: "string option"
  session_cooldown :: "string option"

record daily_schedule =
  morning :: training_session
  afternoon :: training_session
  isRestDay :: bool

record weekly_schedule =
  monday :: daily_schedule
  tuesday :: daily_schedule
  wednesday :: daily_schedule
  thursday :: daily_schedule
  friday :: daily_schedule
  saturday :: daily_schedule
  sunday :: daily_schedule

record training_plan_template =
  template_id :: string
  template_name :: string
  template_schedule :: weekly_schedule
  template_isDefault :: "bool option"

definition session :: "string option \<Rightarrow> string option \<Rightarrow> string option \<Rightarrow> training_session" where
  "session w m c = \<lparr>session_warmup = w, session_main = m, session_cooldown = c\<rparr>"

definition day :: "training_session \<Rightarrow> training_session \<Rightarrow> daily_schedule" where
  "day mo af = \<lparr>morning = mo, afternoon = af, isRestDay = False\<rparr>"

definition defaultDailySchedule :: daily_schedule where
  "defaultDailySchedule = \<lparr>morning = session None None None, afternoon = session None None None, isRestDay = False\<rparr>"

text \<open>\<^verbatim>\<open>{ ...defaultDailySchedule, isRestDay: true }\<close>.\<close>

definition rest_day :: daily_schedule where
  "rest_day = defaultDailySchedule\<lparr>isRestDay := True\<rparr>"

definition defaultSchedule :: weekly_schedule where
  "defaultSchedule =
    \<lparr>monday = day (session (Some ''warmup_rondo'') (Some ''tech_passing'') (Some ''cooldown_stretch''))
                  (session None (Some ''def_pos'') None),
     tuesday = day (session (Some ''warmup_jog'') (Some ''tact_shape'') None)
                   (session None (Some ''att_shoot'') (Some ''cooldown_stretch'')),
     wednesday = day (session (Some ''warmup_jog'') (Some ''phys_sprints'') None)
                     (session None (Some ''def_tackle'') (Some ''cooldown_stretch'')),
     thursday = day (session (Some ''warmup_rondo'') (Some ''tech_dribble'') None)
                    (session None (Some ''tact_press'') (Some ''cooldown_stretch'')),
     friday = day (session (Some ''warmup_jog'') (Some ''att_final_third'') None)
                  (session None (Some ''set_corners'') (Some ''cooldown_stretch'')),
     saturday = rest_day, sunday = rest_day\<rparr>"

definition defaultTemplates :: "(string \<times> training_plan_template) list" where
  "defaultTemplates =
    [(''default_pre_season'',
      \<lparr>template_id = ''default_pre_season'', template_name = ''Pre-Season Fitness'',
       template_schedule =
        \<lparr>monday = day (session (Some ''warmup_jog'') (Some ''phys_endurance'') (Some ''cooldown_stretch''))
                      (session None (Some ''phys_sprints'') (Some ''cooldown_stretch'')),
         tuesday = day (session (Some ''warmup_rondo'') (Some ''phys_agility'') (Some ''cooldown_stretch''))
                       (session None (Some ''phys_endurance'') (Some ''cooldown_stretch'')),
         wednesday = day (session (Some ''warmup_jog'') (Some ''phys_sprints'') (Some ''cooldown_stretch''))
                         (session None None None),
         thursday = day (session (Some ''warmup_rondo'') (Some ''phys_agility'') (Some ''cooldown_stretch''))
                        (session None (Some ''phys_endurance'') (Some ''cooldown_stretch'')),
         friday = day (session (Some ''warmup_jog'') (Some ''tact_possession'') (Some ''cooldown_stretch''))
                      (session None None None),
         saturday = rest_day, sunday = rest_day\<rparr>,
       template_isDefault = Some True\<rparr>),
     (''default_tactical_prep'',
      \<lparr>template_id = ''default_tactical_prep'', template_name = ''Tactical Prep Week'',
       template_schedule =
        \<lparr>monday = day (session (Some ''warmup_rondo'') (Some ''tact_shape'') (Some ''cooldown_stretch''))
                      (session None (Some ''def_pos'') None),
         tuesday = day (session (Some ''warmup_jog'') (Some ''att_final_third'') (Some ''cooldown_stretch''))
                       (session None (Some ''tact_press'') None),
         wednesday = rest_day,
         thursday = day (session (Some ''warmup_rondo'') (Some ''tact_possession'') (Some ''cooldown_stretch''))
                        (session None (Some ''def_shape'') None),
         friday = day (session (Some ''warmup_jog'') (Some ''set_corners'') (Some ''cooldown_stretch''))
                      (session None (Some ''att_counter'') None),
         saturday = rest_day, sunday = rest_day\<rparr>,
       template_isDefault = Some True\<rparr>)]"

text \<open>\<^verbatim>\<open>trainingSchedule: { home: { ...defaultSchedule }, away: { ...defaultSchedule } }\<close>.\<close>

definition initial_trainingSchedule :: "weekly_schedule team_pair" where
  "initial_trainingSchedule = \<lparr>home = defaultSchedule, away = defaultSchedule\<rparr>"

subsection \<open>Instructions and team tactics\<close>

text \<open>\<^verbatim>\<open>DETAILED_PLAYER_INSTRUCTIONS\<close>: per key, its name and its options (id, name).\<close>

definition DETAILED_PLAYER_INSTRUCTIONS :: "(string \<times> string \<times> (string \<times> string) list) list" where
  "DETAILED_PLAYER_INSTRUCTIONS =
    [(''attacking_runs'', ''Attacking Runs'', [(''default'', ''Default''), (''get_forward'', ''Get Forward''), (''stay_back'', ''Stay Back'')]),
     (''width'', ''Width'', [(''default'', ''Default''), (''cut_inside'', ''Cut Inside''), (''stay_wide'', ''Stay Wide'')]),
     (''defensive_style'', ''Defensive Style'', [(''default'', ''Default''), (''man_mark'', ''Man Mark''), (''zonal_mark'', ''Zonal Mark'')]),
     (''positioning_freedom'', ''Positioning Freedom'', [(''default'', ''Default''), (''roam'', ''Roam''), (''hold_position'', ''Hold Position'')]),
     (''dribbling_style'', ''Dribbling Style'', [(''default'', ''Default''), (''dribble_more'', ''Dribble More''), (''dribble_less'', ''Dribble Less'')]),
     (''shooting_style'', ''Shooting Style'', [(''default'', ''Default''), (''shoot_more'', ''Shoot More''), (''shoot_less'', ''Shoot Less'')]),
     (''pressing_intensity'', ''Pressing Intensity'', [(''default'', ''Default''), (''press_aggressively'', ''Press Aggressively''), (''press_less'', ''Press Less'')])]"

text \<open>The \<^verbatim>\<open>instructions\<close> of the default players, by player id, in roster order.\<close>

definition default_instructions :: "(string \<times> (string \<times> string) list) list" where
  "default_instructions =
    [(''p1'', []), (''player4_demo'', []), (''p3'', [(''attacking_runs'', ''get_forward'')]),
     (''p4'', [(''attacking_runs'', ''get_forward'')]), (''player1_demo'', [(''width'', ''cut_inside'')]),
     (''player2_demo'', []), (''player3_demo'', [(''positioning_freedom'', ''roam'')]), (''p8'', []),
     (''p9'', [(''dribbling_style'', ''dribble_more'')]), (''p10'', []), (''p11'', []),
     (''p12'', []), (''p13'', []), (''p14'', []), (''p15'', [])]"

text \<open>\<^verbatim>\<open>TeamTacticValue\<close> and \<^verbatim>\<open>TeamTactics\<close>.\<close>

datatype team_tactic_value =
  Very_defensive | Defensive | Balanced | Attacking | Very_attacking | Low | Medium | High | Deep | Narrow | Wide

record team_tactics =
  mentality :: team_tactic_value
  pressing :: team_tactic_value
  defensiveLine :: team_tactic_value
  attackingWidth :: team_tactic_value

text \<open>\<^verbatim>\<open>TACTIC_OPTIONS\<close>: per field, its options (value, label).\<close>

record tactic_options =
  opt_mentality :: "(team_tactic_value \<times> string) list"
  opt_pressing :: "(team_tactic_value \<times> string) list"
  opt_defensiveLine :: "(team_tactic_value \<times> string) list"
  opt_attackingWidth :: "(team_tactic_value \<times> string) list"

definition TACTIC_OPTIONS :: tactic_options where
  "TACTIC_OPTIONS =
    \<lparr>opt_mentality = [(Very_defensive, ''Very Defensive''), (Defensive, ''Defensive''), (Balanced, ''Balanced''),
                      (Attacking, ''Attacking''), (Very_attacking, ''Very Attacking'')],
     opt_pressing = [(Low, ''Low''), (Medium, ''Medium''), (High, ''High'')],
     opt_defensiveLine = [(Deep, ''Deep''), (Medium, ''Medium''), (High, ''High'')],
     opt_attackingWidth = [(Narrow, ''Narrow''), (Medium, ''Medium''), (Wide, ''Wide'')]\<rparr>"

definition defaultTactics :: team_tactics where
  "defaultTactics = \<lparr>mentality = Balanced, pressing = Medium, defensiveLine = Medium, attackingWidth = Medium\<rparr>"

text \<open>\<^verbatim>\<open>teamTactics: { home: { ...defaultTactics }, away: { ...defaultTactics, pressing: 'low' } }\<close>.\<close>

definition initial_teamTactics :: "team_tactics team_pair" where
  "initial_teamTactics = \<lparr>home = defaultTactics, away = defaultTactics\<lparr>pressing := Low\<rparr>\<rparr>"

subsection \<open>What makes the tables consistent\<close>

definition find_drill :: "string \<Rightarrow> training_drill option" where
  "find_drill i = List.find (\<lambda>d. drill_id d = i) TRAINING_DRILLS"

text \<open>An empty part, or a drill that exists and whose category fits the part.\<close>

definition part_ok :: "(drill_category \<Rightarrow> bool) \<Rightarrow> string option \<Rightarrow> bool" where
  "part_ok fits x = (case x of None \<Rightarrow> True | Some i \<Rightarrow> (case find_drill i of None \<Rightarrow> False | Some d \<Rightarrow> fits (drill_category d)))"

definition session_ok :: "training_session \<Rightarrow> bool" where
  "session_ok s \<longleftrightarrow>
     part_ok (\<lambda>c. c = Cat_warmup) (session_warmup s) \<and>
     part_ok (\<lambda>c. c \<noteq> Cat_warmup \<and> c \<noteq> Cat_cooldown) (session_main s) \<and>
     part_ok (\<lambda>c. c = Cat_cooldown) (session_cooldown s)"

definition session_empty :: "training_session \<Rightarrow> bool" where
  "session_empty s \<longleftrightarrow> session_warmup s = None \<and> session_main s = None \<and> session_cooldown s = None"

text \<open>A rest day has no sessions; a training day has two valid sessions.\<close>

definition day_ok :: "daily_schedule \<Rightarrow> bool" where
  "day_ok d = (if isRestDay d then session_empty (morning d) \<and> session_empty (afternoon d)
               else session_ok (morning d) \<and> session_ok (afternoon d))"

definition week_days :: "weekly_schedule \<Rightarrow> daily_schedule list" where
  "week_days w = [monday w, tuesday w, wednesday w, thursday w, friday w, saturday w, sunday w]"

definition schedule_ok :: "weekly_schedule \<Rightarrow> bool" where
  "schedule_ok w = list_all day_ok (week_days w)"

definition instruction_ok :: "string \<times> string \<Rightarrow> bool" where
  "instruction_ok kv =
     (case map_of DETAILED_PLAYER_INSTRUCTIONS (fst kv) of
        None \<Rightarrow> False
      | Some (n, opts) \<Rightarrow> list_ex (\<lambda>op. fst op = snd kv) opts)"

definition tactics_ok :: "team_tactics \<Rightarrow> bool" where
  "tactics_ok t \<longleftrightarrow>
     mentality t \<in> fst ` set (opt_mentality TACTIC_OPTIONS) \<and> pressing t \<in> fst ` set (opt_pressing TACTIC_OPTIONS) \<and>
     defensiveLine t \<in> fst ` set (opt_defensiveLine TACTIC_OPTIONS) \<and>
     attackingWidth t \<in> fst ` set (opt_attackingWidth TACTIC_OPTIONS)"

subsection \<open>The tables are consistent\<close>

text \<open>
  The drill ids are distinct, every drill's morale effect lies in -2..2 and its injury risk
  in 0..1 as \<^verbatim>\<open>TrainingDrill\<close> documents, and every fatigue effect lies in 0..20 except
  that of \<^verbatim>\<open>cooldown_stretch\<close>, which is -5.
\<close>

theorem training_drills_bounds:
  "distinct (map drill_id TRAINING_DRILLS) \<and>
   list_all (\<lambda>d. -2 \<le> moraleEffect d \<and> moraleEffect d \<le> 2 \<and> 0 \<le> injuryRisk d \<and> injuryRisk d \<le> 1) TRAINING_DRILLS \<and>
   map drill_id (filter (\<lambda>d. \<not> (0 \<le> fatigueEffect d \<and> fatigueEffect d \<le> 20)) TRAINING_DRILLS) = [''cooldown_stretch'']"
  by (simp add: TRAINING_DRILLS_def mk_drill_def)

lemma default_schedule_ok: "schedule_ok defaultSchedule"
  by code_simp

lemma default_templates_ok: "list_all (\<lambda>(k, t). template_id t = k \<and> schedule_ok (template_schedule t)) defaultTemplates"
  by code_simp

text \<open>
  The schedule both clubs start with and the two built-in plan templates are consistent:
  every part of a training day names an existing drill of the fitting category (a warm-up
  drill first, a cool-down drill last, neither in between), rest days have no sessions,
  and each template is stored under its own id.
\<close>

theorem seed_schedules_consistent:
  "schedule_ok (home initial_trainingSchedule) \<and> schedule_ok (away initial_trainingSchedule) \<and>
   list_all (\<lambda>(k, t). template_id t = k \<and> schedule_ok (template_schedule t)) defaultTemplates"
  using default_schedule_ok default_templates_ok by (simp add: initial_trainingSchedule_def)

lemma seed_instructions_valid:
  "map fst default_instructions = map player_id defaultPlayers \<and>
   list_all (\<lambda>(pid, ins). list_all instruction_ok ins) default_instructions \<and>
   tactics_ok (home initial_teamTactics) \<and> tactics_ok (away initial_teamTactics)"
  by (simp add: default_instructions_def defaultPlayers_def instruction_ok_def DETAILED_PLAYER_INSTRUCTIONS_def
      tactics_ok_def TACTIC_OPTIONS_def initial_teamTactics_def defaultTactics_def)

end
