(* ===== verification/App_Shell.thy ===== *)
theory App_Shell
  imports Routing
begin

text \<open>
  The application shell: the four context providers of \<^verbatim>\<open>AppProvider\<close>
  (\<^verbatim>\<open>src/context/AppContext.tsx\<close>, lines 113--123) and the hooks that read them
  (\<^verbatim>\<open>src/hooks/use*Context.ts\<close>); \<^verbatim>\<open>Layout\<close> (\<^verbatim>\<open>src/components/Layout.tsx\<close>):
  its theme effect, its lineup-export effect, \<^verbatim>\<open>MODAL_MAP\<close> and what it renders; and the
  body class \<^verbatim>\<open>auth-bg\<close> that \<^verbatim>\<open>LandingPage\<close>, \<^verbatim>\<open>LoginPage\<close> and
  \<^verbatim>\<open>SignupPage\<close> add when they mount and remove when they unmount, over navigations
  through the routes of \<^verbatim>\<open>App\<close>. The \<^verbatim>\<open>dispatch\<close> each context carries is the
  store's and is left out of the context values.
\<close>

subsection \<open>Contexts and hooks\<close>

text \<open>
  The value each context provides to a component: \<open>None\<close> outside \<^verbatim>\<open>AppProvider\<close>,
  where \<^verbatim>\<open>createContext\<close> gives \<^verbatim>\<open>undefined\<close>.
\<close>

record providers =
  auth_ctx :: "auth_state option"
  tactics_ctx :: "tactics_state option"
  franchise_ctx :: "franchise_state option"
  ui_ctx :: "ui_state option"

definition no_provider :: providers where
  "no_provider = \<lparr>auth_ctx = None, tactics_ctx = None, franchise_ctx = None, ui_ctx = None\<rparr>"

definition AppProvider :: "root_state \<Rightarrow> providers" where
  "AppProvider s = \<lparr>auth_ctx = Some (auth s), tactics_ctx = Some (tactics s), franchise_ctx = Some (franchise s),
     ui_ctx = Some (ui s)\<rparr>"

text \<open>\<^verbatim>\<open>if (context === undefined) throw new Error(...)\<close>; otherwise the context value.\<close>

definition use_context :: "string \<Rightarrow> 'a option \<Rightarrow> js_error + 'a" where
  "use_context hook c =
     (case c of None \<Rightarrow> Inl (Error (hook @ '' must be used within an AppProvider'')) | Some v \<Rightarrow> Inr v)"

definition useAuthContext :: "providers \<Rightarrow> js_error + auth_state" where
  "useAuthContext c = use_context ''useAuthContext'' (auth_ctx c)"

definition useTacticsContext :: "providers \<Rightarrow> js_error + tactics_state" where
  "useTacticsContext c = use_context ''useTacticsContext'' (tactics_ctx c)"

definition useFranchiseContext :: "providers \<Rightarrow> js_error + franchise_state" where
  "useFranchiseContext c = use_context ''useFranchiseContext'' (franchise_ctx c)"

definition useUIContext :: "providers \<Rightarrow> js_error + ui_state" where
  "useUIContext c = use_context ''useUIContext'' (ui_ctx c)"

subsection \<open>Layout\<close>

text \<open>\<^verbatim>\<open>AppTheme\<close>; \<^verbatim>\<open>uiState.theme\<close> is not a field of the modelled UI state, so it is an input.\<close>

datatype app_theme = Theme_light | Theme_dark

text \<open>\<^verbatim>\<open>classList.toggle(c, force)\<close> adds \<open>c\<close> when \<open>force\<close> holds and removes it otherwise.\<close>

definition class_toggle :: "string \<Rightarrow> bool \<Rightarrow> string set \<Rightarrow> string set" where
  "class_toggle c force cls = (if force then insert c cls else cls - {c})"

text \<open>The theme effect on the classes of \<^verbatim>\<open>document.documentElement\<close> (lines 66--70).\<close>

definition theme_effect :: "app_theme \<Rightarrow> string set \<Rightarrow> string set" where
  "theme_effect th cls = class_toggle ''dark'' (th = Theme_dark) (class_toggle ''light'' (th = Theme_light) cls)"

text \<open>The components of \<^verbatim>\<open>MODAL_MAP\<close>; the sponsorships entry lazily loads a page.\<close>

datatype modal_component =
    PlayerEditPopup | PlayerComparePopup | SlotActionMenu | AIChatPopup | CustomFormationEditorPopup
  | LoadProjectPopup | MatchSimulatorPopup | PostMatchReportPopup | ContractNegotiationPopup
  | PressConferencePopup | AISubstitutionSuggestionPopup | PlayerConversationPopup
  | InteractiveTutorialPopup | ScoutingPopup | SponsorshipsPage_modal | TeamTalkPopup
  | SeasonEndSummaryPopup | PlaybookLibraryPopup

definition MODAL_MAP :: "modal_type \<Rightarrow> modal_component" where
  "MODAL_MAP m = (case m of
      Modal_editPlayer \<Rightarrow> PlayerEditPopup | Modal_comparePlayer \<Rightarrow> PlayerComparePopup
    | Modal_slotActionMenu \<Rightarrow> SlotActionMenu | Modal_chat \<Rightarrow> AIChatPopup
    | Modal_customFormationEditor \<Rightarrow> CustomFormationEditorPopup | Modal_loadProject \<Rightarrow> LoadProjectPopup
    | Modal_matchSimulator \<Rightarrow> MatchSimulatorPopup | Modal_postMatchReport \<Rightarrow> PostMatchReportPopup
    | Modal_contractNegotiation \<Rightarrow> ContractNegotiationPopup | Modal_pressConference \<Rightarrow> PressConferencePopup
    | Modal_aiSubSuggestion \<Rightarrow> AISubstitutionSuggestionPopup | Modal_playerConversation \<Rightarrow> PlayerConversationPopup
    | Modal_interactiveTutorial \<Rightarrow> InteractiveTutorialPopup | Modal_scouting \<Rightarrow> ScoutingPopup
    | Modal_sponsorships \<Rightarrow> SponsorshipsPage_modal | Modal_teamTalk \<Rightarrow> TeamTalkPopup
    | Modal_seasonEndSummary \<Rightarrow> SeasonEndSummaryPopup | Modal_playbookLibrary \<Rightarrow> PlaybookLibraryPopup)"

text \<open>
  The actions the export effect dispatches. \<^verbatim>\<open>ADD_NOTIFICATION\<close> and
  \<^verbatim>\<open>EXPORT_LINEUP_FINISH\<close> are cases of the \<^verbatim>\<open>Action\<close> union outside the modelled
  reducer; they are named here as the effect sends them.
\<close>

datatype layout_action = ADD_NOTIFICATION string notification_type | EXPORT_LINEUP_FINISH

text \<open>How the awaited \<^verbatim>\<open>toPng\<close> settles: a data URL, or a rejection.\<close>

datatype png_outcome = Png_resolved string | Png_rejected

record export_run =
  export_download :: "(string \<times> string) option"
  export_dispatched :: "layout_action list"

definition export_background :: "app_theme \<Rightarrow> string" where
  "export_background th = (if th = Theme_light then ''#f1f5f9'' else ''#1e293b'')"

text \<open>
  \<^verbatim>\<open>exportLineup\<close> (lines 107--131): nothing unless an export is requested and the
  printable sheet is mounted; then the image of the sheet is rendered with the theme's
  background (\<open>toPng\<close> maps the background to how the call settles), the file is
  downloaded on success, a notification reports the result, and \<^verbatim>\<open>finally\<close> the export
  is marked finished. The download is the file name and the link's \<^verbatim>\<open>href\<close>.
\<close>

definition exportLineup :: "(string \<Rightarrow> png_outcome) \<Rightarrow> app_theme \<Rightarrow> bool \<Rightarrow> bool \<Rightarrow> export_run" where
  "exportLineup toPng th exporting mounted =
     (if \<not> exporting \<or> \<not> mounted then \<lparr>export_download = None, export_dispatched = []\<rparr>
      else case toPng (export_background th) of
        Png_resolved url \<Rightarrow>
          \<lparr>export_download = Some (''astral-turf-tactic-sheet.png'', url),
           export_dispatched = [ADD_NOTIFICATION ''Tactic Sheet exported successfully!'' Notify_success, EXPORT_LINEUP_FINISH]\<rparr>
      | Png_rejected \<Rightarrow>
          \<lparr>export_download = None,
           export_dispatched = [ADD_NOTIFICATION ''An error occurred while exporting.'' Notify_error, EXPORT_LINEUP_FINISH]\<rparr>)"

text \<open>What \<^verbatim>\<open>Layout\<close> renders (lines 135--180).\<close>

record layout_view =
  lv_theme_class :: app_theme
  lv_header :: bool
  lv_modal :: "modal_component option"
  lv_tutorial :: bool
  lv_export_sheet :: bool

text \<open>
  The UI and tactics hooks are called first, and throw outside the provider. The theme,
  the export request and the tutorial flag are fields of \<^verbatim>\<open>uiState\<close> outside the
  modelled UI state, so they are inputs.
\<close>

definition Layout :: "app_theme \<Rightarrow> bool \<Rightarrow> bool \<Rightarrow> providers \<Rightarrow> js_error + layout_view" where
  "Layout th exporting tutorial c =
     (case useUIContext c of
        Inl e \<Rightarrow> Inl e
      | Inr u \<Rightarrow> (case useTacticsContext c of
          Inl e \<Rightarrow> Inl e
        | Inr ts \<Rightarrow> Inr \<lparr>lv_theme_class = th, lv_header = (\<not> isPresentationMode u),
                         lv_modal = map_option MODAL_MAP (activeModal u), lv_tutorial = tutorial,
                         lv_export_sheet = exporting\<rparr>))"

text \<open>
  The export effect runs after the render has mounted the sheet: \<^verbatim>\<open>lineupRef.current\<close>
  is set exactly when the sheet is rendered.
\<close>

definition layout_export :: "(string \<Rightarrow> png_outcome) \<Rightarrow> app_theme \<Rightarrow> bool \<Rightarrow> layout_view \<Rightarrow> export_run" where
  "layout_export toPng th exporting v = exportLineup toPng th exporting (lv_export_sheet v)"

subsection \<open>The body class of the sign-in pages\<close>

definition auth_bg_page :: "element \<Rightarrow> bool" where
  "auth_bg_page e = (e = LandingPage \<or> e = LoginPage \<or> e = SignupPage)"

text \<open>
  The mount effect (\<^verbatim>\<open>document.body.classList.add('auth-bg')\<close>) and its cleanup
  (\<^verbatim>\<open>remove\<close>) of each page: \<^verbatim>\<open>LandingPage.tsx\<close> lines 6--11,
  \<^verbatim>\<open>LoginPage.tsx\<close> lines 29--34, \<^verbatim>\<open>SignupPage.tsx\<close> lines 33--38.
\<close>

definition page_mount_effect :: "element \<Rightarrow> string set \<Rightarrow> string set" where
  "page_mount_effect e cls = (if auth_bg_page e then insert ''auth-bg'' cls else cls)"

definition page_cleanup :: "element \<Rightarrow> string set \<Rightarrow> string set" where
  "page_cleanup e cls = (if auth_bg_page e then cls - {''auth-bg''} else cls)"

record page_dom =
  shown :: "element option"
  body_classes :: "string set"

text \<open>
  A commit that replaces the routed element: React runs the cleanups of the element that
  leaves before the effects of the element that arrives; the same element stays mounted.
\<close>

definition commit_page :: "element \<Rightarrow> page_dom \<Rightarrow> page_dom" where
  "commit_page e d =
     (if shown d = Some e then d
      else \<lparr>shown = Some e,
            body_classes = page_mount_effect e
              (case shown d of None \<Rightarrow> body_classes d | Some p \<Rightarrow> page_cleanup p (body_classes d))\<rparr>)"

text \<open>
  A navigation renders the route of the location; a \<^verbatim>\<open><Navigate>\<close> renders nothing and
  navigates on, with fuel as in \<open>settle\<close>.
\<close>

fun navigate :: "nat \<Rightarrow> auth_state \<Rightarrow> string list \<Rightarrow> page_dom \<Rightarrow> page_dom option" where
  "navigate 0 a p d = None"
| "navigate (Suc n) a p d =
     (let e = App a p; d' = commit_page e d in
      case e of Navigate q _ \<Rightarrow> navigate n a q d' | _ \<Rightarrow> Some d')"

text \<open>A session of navigations, each with the auth state at that time; \<open>None\<close> if one does not settle.\<close>

fun navigate_all :: "(auth_state \<times> string list) list \<Rightarrow> page_dom \<Rightarrow> page_dom option" where
  "navigate_all [] d = Some d"
| "navigate_all ((a, p) # ns) d = (case navigate 2 a p d of None \<Rightarrow> None | Some d' \<Rightarrow> navigate_all ns d')"

text \<open>The two links of \<^verbatim>\<open>LandingPage\<close> (lines 26--37): label and target.\<close>

definition LandingPage_links :: "(string \<times> string list) list" where
  "LandingPage_links = [(''Login'', [''login'']), (''Sign Up'', [''signup''])]"

text \<open>The body carries \<^verbatim>\<open>auth-bg\<close> exactly while a sign-in page is shown.\<close>

definition body_ok :: "page_dom \<Rightarrow> bool" where
  "body_ok d \<longleftrightarrow> (''auth-bg'' \<in> body_classes d \<longleftrightarrow> (case shown d of None \<Rightarrow> False | Some e \<Rightarrow> auth_bg_page e))"

definition blank_page :: page_dom where
  "blank_page = \<lparr>shown = None, body_classes = {}\<rparr>"

subsection \<open>Concrete inputs of the witnesses\<close>

text \<open>A session: the landing page, the sign-in page, then the dashboard once signed in.\<close>

definition demo_navigations :: "(auth_state \<times> string list) list" where
  "demo_navigations = [(initial_auth, []), (initial_auth, [''login'']),
     (initial_auth\<lparr>isAuthenticated := True\<rparr>, [''dashboard''])]"

subsection \<open>Navigation and the body class\<close>

lemma commit_page_body_ok: "body_ok d \<Longrightarrow> body_ok (commit_page e d)"
  by (auto simp: body_ok_def commit_page_def page_mount_effect_def page_cleanup_def split: option.splits if_splits)

lemma commit_page_shown [simp]: "shown (commit_page e d) = Some e"
  by (simp add: commit_page_def)

lemma navigate_Suc_cases:
  "App a p = Navigate q r \<Longrightarrow> navigate (Suc n) a p d = navigate n a q (commit_page (Navigate q r) d)"
  "\<not> is_redirect (App a p) \<Longrightarrow> navigate (Suc n) a p d = Some (commit_page (App a p) d)"
  by (simp_all add: is_redirect_def split: element.splits)

lemma settle_Suc_cases:
  "App a p = Navigate q r \<Longrightarrow> settle (Suc n) a p = settle n a q"
  "\<not> is_redirect (App a p) \<Longrightarrow> settle (Suc n) a p = Some (App a p)"
  by (simp_all add: is_redirect_def split: element.splits)

lemma navigate_settle:
  "(navigate n a p d \<noteq> None \<longleftrightarrow> settle n a p \<noteq> None) \<and>
   (navigate n a p d = Some d' \<longrightarrow> shown d' = settle n a p \<and> (body_ok d \<longrightarrow> body_ok d'))"
proof (induction n arbitrary: p d)
  case (Suc n)
  show ?case
  proof (cases "is_redirect (App a p)")
    case True
    then obtain q r where e: "App a p = Navigate q r" by (auto simp: is_redirect_def split: element.splits)
    show ?thesis using Suc.IH [of q "commit_page (Navigate q r) d"] commit_page_body_ok
      by (simp del: navigate.simps settle.simps add: navigate_Suc_cases(1) [OF e] settle_Suc_cases(1) [OF e])
  next
    case False
    then show ?thesis using commit_page_body_ok by (auto simp del: navigate.simps settle.simps simp: navigate_Suc_cases(2) settle_Suc_cases(2))
  qed
qed simp


lemma settle_two: "\<exists>e. settle 2 a p = Some e \<and> \<not> is_redirect e"
proof (cases "is_redirect (App a p)")
  case True
  then obtain q r where e: "App a p = Navigate q r" by (auto simp: is_redirect_def split: element.splits)
  have "\<not> is_redirect (App a q)"
    using App_navigate [OF e] App_targets by (auto simp: is_redirect_def)
  then show ?thesis
    by (simp del: settle.simps add: numeral_2_eq_2 settle_Suc_cases(1) [OF e] settle_Suc_cases(2))
next
  case False
  then show ?thesis by (simp del: settle.simps add: numeral_2_eq_2 settle_Suc_cases(2))
qed

lemma navigate_two: "body_ok d \<Longrightarrow> \<exists>d'. navigate 2 a p d = Some d' \<and> body_ok d' \<and> shown d' = settle 2 a p"
  using navigate_settle [of 2 a p d] settle_two [of a p] by auto

text \<open>
  C27. Over any session of navigations, each settles within two route resolutions, and
  afterwards the body carries the class \<^verbatim>\<open>auth-bg\<close> exactly when the landing, sign-in
  or sign-up page is shown: React runs the cleanup of the page that leaves before the
  effect of the page that arrives, so moving between two of these pages keeps the class.
\<close>

theorem auth_bg_tracks_page:
  "body_ok d \<Longrightarrow> \<exists>d'. navigate_all ns d = Some d' \<and> body_ok d' \<and>
     (ns \<noteq> [] \<longrightarrow> shown d' = settle 2 (fst (last ns)) (snd (last ns)))"
proof (induction ns arbitrary: d)
  case (Cons n ns)
  obtain a p where n: "n = (a, p)" by (cases n)
  obtain d1 where d1: "navigate 2 a p d = Some d1" "body_ok d1" "shown d1 = settle 2 a p"
    using navigate_two [OF Cons.prems] by blast
  then show ?case using Cons.IH [OF d1(2)] n by (cases ns) auto
qed simp

subsection \<open>Contexts and the layout\<close>

lemma landing_links:
  "\<not> isAuthenticated a \<Longrightarrow> map (\<lambda>l. settle 2 a (snd l)) LandingPage_links = [Some LoginPage, Some SignupPage]"
  by (simp add: LandingPage_links_def numeral_2_eq_2 App_def js_toLowerCase_def js_lower_char_def)

lemma hooks_under_provider:
  "useAuthContext (AppProvider s) = Inr (auth s) \<and> useTacticsContext (AppProvider s) = Inr (tactics s) \<and>
   useFranchiseContext (AppProvider s) = Inr (franchise s) \<and> useUIContext (AppProvider s) = Inr (ui s)"
  by (simp add: AppProvider_def useAuthContext_def useTacticsContext_def useFranchiseContext_def useUIContext_def
      use_context_def)

lemma hooks_outside_provider:
  "useUIContext no_provider = Inl (Error ''useUIContext must be used within an AppProvider'') \<and>
   Layout th ex tut no_provider = Inl (Error ''useUIContext must be used within an AppProvider'')"
  by (simp add: no_provider_def useUIContext_def use_context_def Layout_def)

lemma theme_effect_classes:
  "(''light'' \<in> theme_effect th cls \<longleftrightarrow> th = Theme_light) \<and> (''dark'' \<in> theme_effect th cls \<longleftrightarrow> th = Theme_dark) \<and>
   theme_effect th cls - {''light'', ''dark''} = cls - {''light'', ''dark''}"
  by (cases th) (auto simp: theme_effect_def class_toggle_def)

lemma exportLineup_cases:
  "exporting \<Longrightarrow> mounted \<Longrightarrow>
   filter (\<lambda>x. x = EXPORT_LINEUP_FINISH) (export_dispatched (exportLineup toPng th exporting mounted)) = [EXPORT_LINEUP_FINISH] \<and>
   last (export_dispatched (exportLineup toPng th exporting mounted)) = EXPORT_LINEUP_FINISH \<and>
   (export_download (exportLineup toPng th exporting mounted) \<noteq> None \<longleftrightarrow> toPng (export_background th) \<noteq> Png_rejected)"
  "\<not> exporting \<or> \<not> mounted \<Longrightarrow> export_dispatched (exportLineup toPng th exporting mounted) = [] \<and>
     export_download (exportLineup toPng th exporting mounted) = None"
  by (auto simp: exportLineup_def split: png_outcome.split)

text \<open>
  C26. Under \<^verbatim>\<open>AppProvider\<close> the layout renders, with the header exactly outside
  presentation mode and the modal of \<^verbatim>\<open>MODAL_MAP\<close>; when an export is requested, the
  export effect dispatches \<^verbatim>\<open>EXPORT_LINEUP_FINISH\<close> exactly once and last, whether
  \<^verbatim>\<open>toPng\<close> resolves or rejects, and downloads the sheet exactly when it resolves;
  otherwise it does nothing.
\<close>

theorem layout_export_finishes:
  "\<exists>v. Layout th ex tut (AppProvider s) = Inr v \<and> lv_header v = (\<not> isPresentationMode (ui s)) \<and>
     lv_modal v = map_option MODAL_MAP (activeModal (ui s)) \<and>
     (ex \<longrightarrow> filter (\<lambda>x. x = EXPORT_LINEUP_FINISH) (export_dispatched (layout_export toPng th ex v)) = [EXPORT_LINEUP_FINISH] \<and>
            last (export_dispatched (layout_export toPng th ex v)) = EXPORT_LINEUP_FINISH \<and>
            (export_download (layout_export toPng th ex v) \<noteq> None \<longleftrightarrow> toPng (export_background th) \<noteq> Png_rejected)) \<and>
     (\<not> ex \<longrightarrow> export_dispatched (layout_export toPng th ex v) = [] \<and> export_download (layout_export toPng th ex v) = None)"
  using hooks_under_provider [of s] exportLineup_cases [of ex ex toPng th]
  by (simp add: Layout_def layout_export_def)


subsection \<open>Witnesses\<close>

lemma blank_page_ok: "body_ok blank_page"
  by (simp add: body_ok_def blank_page_def)

theorem auth_bg_witness:
  "\<exists>d'. navigate_all demo_navigations blank_page = Some d' \<and> body_ok d' \<and> shown d' = Some (In_layout DashboardPage) \<and>
     ''auth-bg'' \<notin> body_classes d'"
proof -
  obtain d' where d': "navigate_all demo_navigations blank_page = Some d'" "body_ok d'"
    "demo_navigations \<noteq> [] \<longrightarrow> shown d' = settle 2 (fst (last demo_navigations)) (snd (last demo_navigations))"
    using auth_bg_tracks_page [OF blank_page_ok, of demo_navigations] by blast
  have s: "shown d' = Some (In_layout DashboardPage)"
    using d'(3) by (simp add: demo_navigations_def numeral_2_eq_2 App_def ProtectedRoute_def layout_routes_def
        js_toLowerCase_def js_lower_char_def)
  then show ?thesis using d' by (simp add: body_ok_def auth_bg_page_def)
qed

theorem layout_export_witness:
  "\<exists>v. Layout Theme_dark True False (AppProvider INITIAL_STATE) = Inr v \<and> lv_header v \<and>
     last (export_dispatched (layout_export (\<lambda>_. Png_rejected) Theme_dark True v)) = EXPORT_LINEUP_FINISH \<and>
     export_download (layout_export (\<lambda>_. Png_rejected) Theme_dark True v) = None"
proof -
  have p: "\<not> isPresentationMode (ui INITIAL_STATE)" by (simp add: INITIAL_STATE_def initial_ui_def)
  obtain v where v: "Layout Theme_dark True False (AppProvider INITIAL_STATE) = Inr v"
    "lv_header v = (\<not> isPresentationMode (ui INITIAL_STATE))"
    "last (export_dispatched (layout_export (\<lambda>_. Png_rejected) Theme_dark True v)) = EXPORT_LINEUP_FINISH"
    "export_download (layout_export (\<lambda>_. Png_rejected) Theme_dark True v) \<noteq> None \<longleftrightarrow> Png_rejected \<noteq> Png_rejected"
    using layout_export_finishes [of Theme_dark True False INITIAL_STATE "\<lambda>_. Png_rejected"] by auto
  have "export_download (layout_export (\<lambda>_. Png_rejected) Theme_dark True v) = None" using v(4) by blast
  then show ?thesis using p v(1-3) by blast
qed

end
