(* ===== verification/Auth_Views.thy ===== *)
theory Auth_Views
  imports Auth_Forms
begin

text \<open>
  What the sign-in and sign-up pages render (\<^verbatim>\<open>src/pages/LoginPage.tsx\<close> lines 110--218,
  \<^verbatim>\<open>src/pages/SignupPage.tsx\<close> lines 111--254), as data: each input with its value, the
  message under it and whether it is marked invalid or disabled, the role buttons of the
  sign-up form, the banner of \<^verbatim>\<open>errors.general || authState.error\<close>, the buttons and the
  links. Icons, the spinner's markup and the styling are left out.
\<close>

subsection \<open>Truthiness in the markup\<close>

text \<open>\<^verbatim>\<open>a || b\<close> on optional strings: \<open>a\<close> when it is a non-empty string, else \<open>b\<close>.\<close>

definition js_or_opt :: "string option \<Rightarrow> string option \<Rightarrow> string option" where
  "js_or_opt a b = (if js_present a then a else b)"

text \<open>\<^verbatim>\<open>{x && <p>{x}</p>}\<close>: the text is shown when \<open>x\<close> is truthy.\<close>

definition shown_if :: "string option \<Rightarrow> string option" where
  "shown_if x = (if js_present x then x else None)"

subsection \<open>The forms\<close>

record input_view =
  iv_name :: string
  iv_value :: string
  iv_error :: "string option"
  iv_invalid :: bool
  iv_disabled :: bool

definition mk_input :: "string \<Rightarrow> string \<Rightarrow> string option \<Rightarrow> bool \<Rightarrow> input_view" where
  "mk_input n v e loading =
     \<lparr>iv_name = n, iv_value = v, iv_error = shown_if e, iv_invalid = js_present e, iv_disabled = loading\<rparr>"

text \<open>
  A rendered form: the role buttons (role, selected, disabled), the inputs, the banner,
  the submit button (disabled, and its label, \<open>None\<close> for the spinner), the admin button
  (whether it is disabled, when the page has one) and the links (text, target).
\<close>

record auth_form_view =
  afv_roles :: "(user_role \<times> bool \<times> bool) list"
  afv_inputs :: "input_view list"
  afv_banner :: "string option"
  afv_submit_disabled :: bool
  afv_submit_label :: "string option"
  afv_admin_button :: "bool option"
  afv_links :: "(string \<times> string list) list"

definition general_banner :: "auth_state \<Rightarrow> form_errors \<Rightarrow> string option" where
  "general_banner a e = shown_if (js_or_opt (err_general e) (auth_error a))"

definition LoginPage_view :: "auth_state \<Rightarrow> login_form auth_page \<Rightarrow> auth_form_view" where
  "LoginPage_view a p =
     (let fd = page_form p; e = page_errors p; l = page_loading p in
      \<lparr>afv_roles = [],
       afv_inputs = [mk_input ''email'' (lf_email fd) (err_email e) l, mk_input ''password'' (lf_password fd) (err_password e) l],
       afv_banner = general_banner a e,
       afv_submit_disabled = l, afv_submit_label = (if l then None else Some ''Login''),
       afv_admin_button = Some l,
       afv_links = [(''Sign up'', [''signup'']), (''Back to Home'', [])]\<rparr>)"

definition SignupPage_view :: "auth_state \<Rightarrow> signup_form auth_page \<Rightarrow> auth_form_view" where
  "SignupPage_view a p =
     (let fd = page_form p; e = page_errors p; l = page_loading p in
      \<lparr>afv_roles = [(Role_coach, sf_role fd = Role_coach, l), (Role_player, sf_role fd = Role_player, l)],
       afv_inputs = [mk_input ''email'' (sf_email fd) (err_email e) l, mk_input ''password'' (sf_password fd) (err_password e) l,
                     mk_input ''confirmPassword'' (sf_confirmPassword fd) (err_confirmPassword e) l],
       afv_banner = general_banner a e,
       afv_submit_disabled = l, afv_submit_label = (if l then None else Some ''Sign Up''),
       afv_admin_button = None,
       afv_links = [(''Login'', [''login'']), (''Back to Home'', [])]\<rparr>)"

subsection \<open>Concrete inputs of the witnesses\<close>

definition demo_signup_page :: "signup_form auth_page" where
  "demo_signup_page = signup_page_init\<lparr>page_form := \<lparr>sf_email = ''new@astralfc.com'', sf_password = ''secret1'',
     sf_confirmPassword = ''secret1'', sf_role = Role_player\<rparr>\<rparr>"

subsection \<open>What the forms show\<close>

lemma general_banner_cases:
  "general_banner a e = (if js_present (err_general e) then err_general e else if js_present (auth_error a) then auth_error a else None)"
  by (simp add: general_banner_def js_or_opt_def shown_if_def)

lemma loading_disables:
  "page_loading p \<Longrightarrow>
   list_all iv_disabled (afv_inputs (LoginPage_view a p)) \<and> afv_submit_disabled (LoginPage_view a p) \<and>
   afv_admin_button (LoginPage_view a p) = Some True \<and> afv_submit_label (LoginPage_view a p) = None"
  "page_loading q \<Longrightarrow>
   list_all iv_disabled (afv_inputs (SignupPage_view a q)) \<and> afv_submit_disabled (SignupPage_view a q) \<and>
   list_all (\<lambda>r. snd (snd r)) (afv_roles (SignupPage_view a q)) \<and> afv_submit_label (SignupPage_view a q) = None"
  by (simp_all add: LoginPage_view_def SignupPage_view_def mk_input_def Let_def)

lemma input_errors_shown:
  "map iv_error (afv_inputs (SignupPage_view a q)) =
     map shown_if [err_email (page_errors q), err_password (page_errors q), err_confirmPassword (page_errors q)]"
  "map iv_error (afv_inputs (LoginPage_view a p)) = map shown_if [err_email (page_errors p), err_password (page_errors p)]"
  by (simp_all add: LoginPage_view_def SignupPage_view_def mk_input_def Let_def)

lemma validate_signup_shown:
  "map iv_error (afv_inputs (SignupPage_view a (q\<lparr>page_errors := validate_signup (page_form q)\<rparr>))) =
     [email_error (sf_email (page_form q)), password_error (sf_password (page_form q)),
      confirm_error (sf_password (page_form q)) (sf_confirmPassword (page_form q))]"
  by (simp add: input_errors_shown validate_signup_def no_errors_def shown_if_def js_present_def email_error_def
      password_error_def confirm_error_def)

text \<open>
  C22. A valid sign-up that the auth service rejects with a message dispatches
  \<^verbatim>\<open>SIGNUP_FAILURE\<close>, which records the message as the global auth error; the
  sign-up page shows it, and the sign-in page its link leads to shows it again on a fresh
  form, since both pages display \<^verbatim>\<open>errors.general || authState.error\<close> and nothing
  clears the global error before a successful sign-in.
\<close>

theorem signup_error_shown_on_login:
  assumes "form_valid (validate_signup (page_form p))"
    and "svc (sf_email (page_form p)) (sf_password (page_form p)) (sf_role (page_form p)) = Auth_rejected_error m"
    and "m \<noteq> []"
    and "handleSubmit_signup svc p = (p', acts, nav)"
  shows "acts = [SIGNUP_FAILURE m] \<and> nav = None \<and> afv_banner (SignupPage_view (auth (run_actions acts s)) p') = Some m \<and>
         (''Login'', [''login'']) \<in> set (afv_links (SignupPage_view (auth (run_actions acts s)) p')) \<and>
         settle 1 (auth (run_actions acts s)) [''login''] = Some LoginPage \<and>
         afv_banner (LoginPage_view (auth (run_actions acts s)) login_page_init) = Some m"
  using assms App_targets(2) [of "auth (auth_failure m s)"]
  by (auto simp: handleSubmit_signup_def submit_settle_def run_actions_def auth_failure_def Let_def
      SignupPage_view_def LoginPage_view_def general_banner_cases login_page_init_def no_errors_def js_present_def)


subsection \<open>Witnesses\<close>

lemma demo_signup_valid: "form_valid (validate_signup (page_form demo_signup_page))"
proof -
  have "email_pattern_test ''new@astralfc.com''" by code_simp
  then show ?thesis
    by (simp add: form_valid_def validate_signup_def no_errors_def validation_simps demo_signup_page_def)
qed

theorem signup_error_witness:
  "fst (snd (handleSubmit_signup (\<lambda>_ _ _. Auth_rejected_error ''Email already registered'') demo_signup_page)) =
     [SIGNUP_FAILURE ''Email already registered''] \<and>
   afv_banner (LoginPage_view (auth (run_actions [SIGNUP_FAILURE ''Email already registered''] INITIAL_STATE)) login_page_init) =
     Some ''Email already registered''"
proof -
  obtain p' acts nav where r: "handleSubmit_signup (\<lambda>_ _ _. Auth_rejected_error ''Email already registered'') demo_signup_page =
      (p', acts, nav)" by (cases "handleSubmit_signup (\<lambda>_ _ _. Auth_rejected_error ''Email already registered'') demo_signup_page") auto
  have "acts = [SIGNUP_FAILURE ''Email already registered''] \<and>
      afv_banner (LoginPage_view (auth (run_actions acts INITIAL_STATE)) login_page_init) = Some ''Email already registered''"
    using signup_error_shown_on_login [OF demo_signup_valid _ _ r, of "''Email already registered''" INITIAL_STATE] by blast
  then show ?thesis using r by auto
qed

end
