(* ===== verification/Kits.thy ===== *)
theory Kits
  imports Seed
begin

text \<open>
  The kit a player token is painted with: \<^verbatim>\<open>KitPattern\<close> of
  \<^verbatim>\<open>src/components/PlayerToken.tsx\<close> (lines 13--48) over \<^verbatim>\<open>uiState.teamKits\<close>
  (\<^verbatim>\<open>TeamKit\<close> of \<^verbatim>\<open>src/types.ts\<close>, the seeded kits of \<^verbatim>\<open>src/constants.ts\<close>). A striped
  or hooped kit is an SVG \<^verbatim>\<open><pattern>\<close> with a document-wide id, referenced by the
  token's circle as \<^verbatim>\<open>url(#id)\<close>; a solid kit is a disc of the primary colour. Every
  token of the field emits its own pattern element, so a reference resolves to the first
  element of the document with that id.
\<close>

datatype kit_pattern_kind = Kit_solid | Kit_stripes | Kit_hoops

record team_kit =
  primaryColor :: string
  secondaryColor :: string
  pattern :: kit_pattern_kind

text \<open>\<^verbatim>\<open>teamKits: { home: TeamKit, away: TeamKit }\<close>; a persisted state may lack an entry,
  which the \<^verbatim>\<open>if (!kit) return null\<close> guard of the component covers.\<close>

type_synonym team_kits = "team \<Rightarrow> team_kit option"

definition defaultKit :: team_kit where
  "defaultKit = \<lparr>primaryColor = ''#3b82f6'', secondaryColor = ''#ffffff'', pattern = Kit_solid\<rparr>"

definition initial_teamKits :: team_kits where
  "initial_teamKits t = (case t of Home \<Rightarrow> Some defaultKit
     | Away \<Rightarrow> Some \<lparr>primaryColor = ''#ef4444'', secondaryColor = ''#ffffff'', pattern = Kit_solid\<rparr>)"

text \<open>\<^verbatim>\<open>${player.team}\<close>: the string of the \<^verbatim>\<open>Team\<close> union.\<close>

primrec team_str :: "team \<Rightarrow> string" where
  "team_str Home = ''home''"
| "team_str Away = ''away''"

text \<open>A \<^verbatim>\<open><pattern>\<close> element: its id and its rectangles (width, height, fill), in order.\<close>

record svg_pattern =
  pat_id :: string
  pat_rects :: "(nat \<times> nat \<times> string) list"

text \<open>What \<^verbatim>\<open>KitPattern\<close> renders: an \<^verbatim>\<open><svg>\<close> with a pattern in its \<^verbatim>\<open><defs>\<close> and a
  circle filled with the given paint, or a disc of a background colour.\<close>

datatype kit_render = Kit_svg svg_pattern string | Kit_disc string

definition url_ref :: "string \<Rightarrow> string" where
  "url_ref i = ''url(#'' @ i @ '')''"

definition KitPattern :: "team_kits \<Rightarrow> player \<Rightarrow> kit_render option" where
  "KitPattern kits p =
     (case kits (player_team p) of
        None \<Rightarrow> None
      | Some kit \<Rightarrow>
          (case pattern kit of
             Kit_stripes \<Rightarrow>
               (let i = ''stripes-'' @ team_str (player_team p) in
                Some (Kit_svg \<lparr>pat_id = i, pat_rects = [(8, 8, primaryColor kit), (4, 8, secondaryColor kit)]\<rparr> (url_ref i)))
           | Kit_hoops \<Rightarrow>
               (let i = ''hoops-'' @ team_str (player_team p) in
                Some (Kit_svg \<lparr>pat_id = i, pat_rects = [(8, 8, primaryColor kit), (8, 4, secondaryColor kit)]\<rparr> (url_ref i)))
           | Kit_solid \<Rightarrow> Some (Kit_disc (primaryColor kit))))"

text \<open>The pattern elements of a document holding the tokens of \<open>ps\<close>, in document order.\<close>

definition kit_doc :: "team_kits \<Rightarrow> player list \<Rightarrow> svg_pattern list" where
  "kit_doc kits ps =
     concat (map (\<lambda>p. case KitPattern kits p of Some (Kit_svg q f) \<Rightarrow> [q] | _ \<Rightarrow> []) ps)"

text \<open>A paint \<^verbatim>\<open>url(#id)\<close> names the first element of the document with that id.\<close>

definition url_target :: "string \<Rightarrow> string option" where
  "url_target f =
     (if take 5 f = ''url(#'' \<and> f \<noteq> [] \<and> last f = CHR '')'' then Some (butlast (drop 5 f)) else None)"

definition resolve_paint :: "svg_pattern list \<Rightarrow> string \<Rightarrow> svg_pattern option" where
  "resolve_paint doc f = (case url_target f of None \<Rightarrow> None | Some i \<Rightarrow> find (\<lambda>q. pat_id q = i) doc)"

text \<open>What a token is painted with once the document is assembled: the rectangles of
  the pattern its fill resolves to, or its disc colour.\<close>

datatype paint = Paint_pattern "(nat \<times> nat \<times> string) list" | Paint_colour string | Paint_none

definition token_paint :: "svg_pattern list \<Rightarrow> kit_render option \<Rightarrow> paint" where
  "token_paint doc r =
     (case r of
        None \<Rightarrow> Paint_none
      | Some (Kit_disc c) \<Rightarrow> Paint_colour c
      | Some (Kit_svg _ f) \<Rightarrow> (case resolve_paint doc f of None \<Rightarrow> Paint_none | Some q \<Rightarrow> Paint_pattern (pat_rects q)))"

text \<open>What the kit promises: stripes and hoops in the two colours of the token's own kit.\<close>

definition kit_paint :: "team_kits \<Rightarrow> team \<Rightarrow> paint" where
  "kit_paint kits t =
     (case kits t of
        None \<Rightarrow> Paint_none
      | Some kit \<Rightarrow> (case pattern kit of
          Kit_solid \<Rightarrow> Paint_colour (primaryColor kit)
        | Kit_stripes \<Rightarrow> Paint_pattern [(8, 8, primaryColor kit), (4, 8, secondaryColor kit)]
        | Kit_hoops \<Rightarrow> Paint_pattern [(8, 8, primaryColor kit), (8, 4, secondaryColor kit)]))"


subsection \<open>Concrete inputs of the witnesses\<close>

text \<open>Both teams in striped kits of different colours.\<close>

definition demo_kits :: team_kits where
  "demo_kits t = Some \<lparr>primaryColor = (case t of Home \<Rightarrow> ''#3b82f6'' | Away \<Rightarrow> ''#ef4444''),
     secondaryColor = ''#ffffff'', pattern = Kit_stripes\<rparr>"

subsection \<open>Pattern ids and their resolution\<close>

lemma url_target_ref [simp]: "url_target (url_ref i) = Some i"
  by (simp add: url_target_def url_ref_def)

lemma team_str_inj [simp]: "team_str a = team_str b \<longleftrightarrow> a = b"
  by (cases a; cases b) simp_all


lemma KitPattern_svg:
  assumes "KitPattern kits p = Some (Kit_svg q f)"
  obtains kit where "kits (player_team p) = Some kit" "f = url_ref (pat_id q)"
    "pattern kit = Kit_stripes \<and> pat_id q = ''stripes-'' @ team_str (player_team p) \<and>
       pat_rects q = [(8, 8, primaryColor kit), (4, 8, secondaryColor kit)] \<or>
     pattern kit = Kit_hoops \<and> pat_id q = ''hoops-'' @ team_str (player_team p) \<and>
       pat_rects q = [(8, 8, primaryColor kit), (8, 4, secondaryColor kit)]"
proof (cases "kits (player_team p)")
  case (Some kit)
  then show ?thesis using assms that
    by (cases "pattern kit") (auto simp: KitPattern_def Let_def)
qed (use assms in \<open>simp add: KitPattern_def\<close>)

lemma KitPattern_id_determines:
  assumes "KitPattern kits p = Some (Kit_svg q f)" "KitPattern kits p' = Some (Kit_svg q' f')"
    and "pat_id q = pat_id q'"
  shows "q = q'"
proof -
  obtain k1 where k1: "kits (player_team p) = Some k1" and
    d1: "pattern k1 = Kit_stripes \<and> pat_id q = ''stripes-'' @ team_str (player_team p) \<and>
       pat_rects q = [(8, 8, primaryColor k1), (4, 8, secondaryColor k1)] \<or>
     pattern k1 = Kit_hoops \<and> pat_id q = ''hoops-'' @ team_str (player_team p) \<and>
       pat_rects q = [(8, 8, primaryColor k1), (8, 4, secondaryColor k1)]"
    using assms(1) by (rule KitPattern_svg)
  obtain k2 where k2: "kits (player_team p') = Some k2" and
    d2: "pattern k2 = Kit_stripes \<and> pat_id q' = ''stripes-'' @ team_str (player_team p') \<and>
       pat_rects q' = [(8, 8, primaryColor k2), (4, 8, secondaryColor k2)] \<or>
     pattern k2 = Kit_hoops \<and> pat_id q' = ''hoops-'' @ team_str (player_team p') \<and>
       pat_rects q' = [(8, 8, primaryColor k2), (8, 4, secondaryColor k2)]"
    using assms(2) by (rule KitPattern_svg)
  have "player_team p = player_team p'" and "pattern k1 = pattern k2"
    using d1 d2 assms(3) by auto
  then have "k1 = k2" using k1 k2 by simp
  then show ?thesis using d1 d2 assms(3) \<open>pattern k1 = pattern k2\<close>
    by (auto intro: svg_pattern.equality)
qed

lemma kit_doc_mem:
  "q \<in> set (kit_doc kits ps) \<longleftrightarrow> (\<exists>p\<in>set ps. \<exists>f. KitPattern kits p = Some (Kit_svg q f))"
  unfolding kit_doc_def by (auto split: option.splits kit_render.splits) (metis)+

lemma find_unique:
  assumes "x \<in> set xs" "P x" "\<And>y. y \<in> set xs \<Longrightarrow> P y \<Longrightarrow> y = x"
  shows "find P xs = Some x"
  using assms
proof (induction xs)
  case (Cons a xs)
  show ?case
  proof (cases "P a")
    case True
    then have "a = x" by (rule Cons.prems(3) [rotated]) simp
    then show ?thesis using True by simp
  next
    case False
    then have "x \<in> set xs" using Cons.prems(1,2) by auto
    moreover have "\<And>y. y \<in> set xs \<Longrightarrow> P y \<Longrightarrow> y = x" by (rule Cons.prems(3)) simp_all
    ultimately have "find P xs = Some x" using Cons.IH Cons.prems(2) by blast
    then show ?thesis using False by simp
  qed
qed simp

lemma KitPattern_disc:
  "KitPattern kits p = Some (Kit_disc c) \<Longrightarrow> kit_paint kits (player_team p) = Paint_colour c"
  by (cases "kits (player_team p)") (simp_all add: KitPattern_def kit_paint_def Let_def split: kit_pattern_kind.splits)

lemma KitPattern_None:
  "KitPattern kits p = None \<Longrightarrow> kit_paint kits (player_team p) = Paint_none"
  by (cases "kits (player_team p)") (simp_all add: KitPattern_def kit_paint_def Let_def split: kit_pattern_kind.splits)

text \<open>
  C30. Every token of a document is painted with its own team's kit: the \<^verbatim>\<open>url(#...)\<close>
  fill of a striped or hooped token resolves, among all the pattern elements the tokens emit,
  to one carrying its own team's colours, because the ids are scoped by team and one team
  has one kit.
\<close>

theorem kit_paint_resolves:
  assumes "p \<in> set ps"
  shows "token_paint (kit_doc kits ps) (KitPattern kits p) = kit_paint kits (player_team p)"
proof (cases "KitPattern kits p")
  case None
  then show ?thesis by (simp add: token_paint_def KitPattern_None)
next
  case (Some r)
  show ?thesis
  proof (cases r)
    case (Kit_disc c)
    then show ?thesis using Some by (simp add: token_paint_def KitPattern_disc)
  next
    case (Kit_svg q f)
    with Some have r: "KitPattern kits p = Some (Kit_svg q f)" by simp
    obtain kit where k: "kits (player_team p) = Some kit" and f: "f = url_ref (pat_id q)" and
      d: "pattern kit = Kit_stripes \<and> pat_id q = ''stripes-'' @ team_str (player_team p) \<and>
       pat_rects q = [(8, 8, primaryColor kit), (4, 8, secondaryColor kit)] \<or>
     pattern kit = Kit_hoops \<and> pat_id q = ''hoops-'' @ team_str (player_team p) \<and>
       pat_rects q = [(8, 8, primaryColor kit), (8, 4, secondaryColor kit)]"
      using r by (rule KitPattern_svg)
    have "find (\<lambda>q'. pat_id q' = pat_id q) (kit_doc kits ps) = Some q"
    proof (rule find_unique)
      show "q \<in> set (kit_doc kits ps)" using assms r by (auto simp: kit_doc_mem)
    next
      fix y assume "y \<in> set (kit_doc kits ps)" "pat_id y = pat_id q"
      then show "y = q" using r by (auto simp: kit_doc_mem dest: KitPattern_id_determines)
    qed simp
    then show ?thesis using Some Kit_svg f k d
      by (auto simp: token_paint_def resolve_paint_def kit_paint_def)
  qed
qed

text \<open>A striped away token among all the default players is painted in the away colours.\<close>

theorem kit_paint_witness:
  "last defaultPlayers \<in> set defaultPlayers \<and>
   token_paint (kit_doc demo_kits defaultPlayers) (KitPattern demo_kits (last defaultPlayers)) =
     Paint_pattern [(8, 8, ''#ef4444''), (4, 8, ''#ffffff'')]"
proof
  show m: "last defaultPlayers \<in> set defaultPlayers" by (simp add: defaultPlayers_def)
  show "token_paint (kit_doc demo_kits defaultPlayers) (KitPattern demo_kits (last defaultPlayers)) =
     Paint_pattern [(8, 8, ''#ef4444''), (4, 8, ''#ffffff'')]"
    using kit_paint_resolves [OF m, of demo_kits]
    by (simp add: kit_paint_def demo_kits_def defaultPlayers_def)
qed

end
