(* ===== verification/Spec2Isabelle.thy ===== *)
theory Spec2Isabelle
  imports Runtime Chemistry Auth_Forms Library Fixtures Pitch_View Training App_Shell Auth_Views Kits
begin

text \<open>
  \<^bold>\<open>A verification library for the tactics-board core of astral-turf-lite.\<close>

  \<^bold>\<open>The program.\<close> A React single-page app. \<^verbatim>\<open>src/types.ts\<close> declares the state tree
  (\<^verbatim>\<open>RootState\<close> = auth, tactics, franchise, ui) and the \<^verbatim>\<open>Action\<close> union;
  \<^verbatim>\<open>src/constants.ts\<close> the seed state \<^verbatim>\<open>INITIAL_STATE\<close>, \<^verbatim>\<open>APP_VERSION\<close>, the
  play library and the initial league season with its generated fixtures;
  \<^verbatim>\<open>src/context/AppContext.tsx\<close> the store (\<^verbatim>\<open>useReducer(rootReducer, ...)\<close>), the
  normalizer \<^verbatim>\<open>cleanStateForSaving\<close>, and three effects: mount (restore from local
  storage), the playbook animation loop (a 2000 ms timer per step) and save;
  \<^verbatim>\<open>src/components/SoccerField.tsx\<close> the pitch: mirroring of the away side, drag and drop
  handlers that dispatch actions, the slot-action menu, the chemistry links and the
  formation-strength overlay; \<^verbatim>\<open>src/components/PlayerToken.tsx\<close> a player on the pitch
  (drag source, selection, badges); \<^verbatim>\<open>src/components/Layout.tsx\<close> the keyboard shortcuts;
  \<^verbatim>\<open>src/App.tsx\<close> and \<^verbatim>\<open>src/components/ProtectedRoute.tsx\<close> the routes and their
  authentication guard; \<^verbatim>\<open>src/pages/LoginPage.tsx\<close> and \<^verbatim>\<open>src/pages/SignupPage.tsx\<close> the
  sign-in and sign-up forms; \<^verbatim>\<open>src/pages/TacticsBoardPage.tsx\<close> the board's layout. \<^verbatim>\<open>rootReducer\<close> itself is not in the repository; its cases are
  modelled from sections 4.1--4.6 of the specification.

  \<^bold>\<open>Theories.\<close>
  \<^item> \<open>Prelude\<close>: JS truthiness of strings (\<open>js_present\<close>), \<open>js_error\<close>, option/list
    lemmas shared by the components, the \<open>js_simps\<close> and \<open>frame_simps\<close> collections.
  \<^item> \<open>Domain\<close>: the types of \<^verbatim>\<open>types.ts\<close> the core reads, as records and datatypes
    (\<open>player\<close>, \<open>formation\<close>, \<open>playbook_item\<close>, \<open>tactics_state\<close>, \<open>ui_state\<close>,
    \<open>root_state\<close>, \<open>action\<close>, the snapshot records with every key optional).
    \<^verbatim>\<open>Record\<close>s the code iterates are association lists (\<open>formations\<close>, \<open>playbook\<close>).
  \<^item> \<open>Seed\<close>: \<^verbatim>\<open>constants.ts\<close>: the three built-in formations, the default players
    (names as UTF-8 bytes), \<open>INITIAL_STATE\<close>.
  \<^item> \<open>Geometry\<close>: \<open>mirrorPosition\<close> and pitch distances over exact reals.
  \<^item> \<open>Formation\<close>: slot bindings, the invariant \<open>formations_wf\<close> (distinct slot ids,
    each player bound at most once per formation), and the formation reducer cases.
  \<^item> \<open>Slot_Actions\<close>: \<open>handleFieldDrop\<close>, \<open>handleSlotDrop\<close>,
    \<open>handleActionBubbleClick\<close>, \<open>renderTeam\<close>'s wiring, and the resolver
    (swap/replace/bench/captain/loan) of section 4.2.
  \<^item> \<open>Animation\<close>: the animation effect as a value (\<open>Schedule_timer\<close>,
    \<open>Dispatch_now\<close>, \<open>No_effect\<close>, or the \<open>TypeError\<close> it throws) and the playbook
    reducer cases of section 4.4.
  \<^item> \<open>Persistence\<close>: \<open>cleanStateForSaving\<close>, the save effect over a model of the three
    storage keys, the mount-time version check, and \<^verbatim>\<open>LOAD_STATE\<close>.
  \<^item> \<open>Reducer\<close>: \<open>root_reducer\<close> over all modelled actions, the inductive set of
    \<open>reachable\<close> states and the invariant \<open>state_inv\<close> proved by rule induction.
  \<^item> \<open>Runtime\<close>: React's commit (effects whose dependencies changed run in declaration
    order; the animation effect's cleanup clears its timer first), \<open>dispatch\<close>,
    \<open>run_timers\<close> (letting time pass) and \<open>mount\<close>; \<open>app_reach\<close>, the system states
    of a session (a mount, user dispatches, timer callbacks), with the invariant
    \<open>sys_inv\<close> (reducer state reachable, pending timer not a load, stored snapshot one
    the app saved).
  \<^item> \<open>Chemistry\<close>: \<open>getChemistryLinks\<close> as the two nested folds of the source with
    their \<^verbatim>\<open>checkedPairs\<close> set (\<open>chem_outer\<close>, \<open>chem_inner\<close>), the reference
    \<open>links_ref\<close> (one evaluation per unordered pair), \<open>chemistryLinks\<close> and
    \<open>strength_points\<close> (\<^verbatim>\<open>FormationStrengthOverlay\<close>). The score service is a parameter.
  \<^item> \<open>Controls\<close>: \<^verbatim>\<open>PLAYER_ROLES\<close>, \<open>PlayerToken\<close> (what a token renders, as a
    record, with \<open>handleDragStart\<close> and \<open>handleSelect\<close>), and \<open>handleKeyDown\<close> of the
    layout; \<open>press_key\<close> dispatches its action through \<open>root_reducer\<close>;
    \<open>TacticsBoardPage\<close>, the parts of the board shown by presentation mode.
  \<^item> \<open>Routing\<close>: \<open>App\<close> and \<open>ProtectedRoute\<close> from the auth state and the path
    segments to the element rendered; \<open>settle\<close> follows redirects with fuel.
  \<^item> \<open>Auth_Forms\<close>: the email pattern as a regular-expression search
    (\<open>email_pattern_test\<close>, over the cuts of the string), \<open>validate_login\<close>,
    \<open>validate_signup\<close>, the input, role and submit handlers; the answer of
    \<^verbatim>\<open>authService\<close> (not in the repository) is a parameter.
  \<^item> \<open>Library\<close>: \<^verbatim>\<open>DEFAULT_PLAYBOOK_LIBRARY\<close> and what makes a play fit for the board.
  \<^item> \<open>Fixtures\<close>: the league of the initial season (\<^verbatim>\<open>leagueTeams\<close>,
    \<^verbatim>\<open>generateFixtures\<close>, \<^verbatim>\<open>initialSeason\<close>): the two pair loops
    (\<open>fixture_pairs\<close>), the random sort as a parameter \<open>sh\<close> that permutes the list, the
    index-based week assignment (\<open>assign_weeks\<close>) and the stable sort by week, against the
    reference \<open>round_robin\<close>.
  \<^item> \<open>Pitch_View\<close>: what \<^verbatim>\<open>SoccerField\<close> draws, as data: the pitch markings and the
    set-piece highlights as SVG shapes over exact reals, \<^verbatim>\<open>FieldGrid\<close>, the trail markers
    (\<^verbatim>\<open>new Set\<close> as \<open>js_set_values\<close>, \<^verbatim>\<open>replace\<close> as \<open>js_replace_first\<close>), each team's
    tokens and drop zones (\<open>renderTeam\<close>), the cursor and timeline, the loading fallback,
    and the hooks a render calls (\<open>SoccerField_hooks\<close>); the invariant
    \<open>formations_present\<close> (both active formation ids resolve) over the reachable states.
  \<^item> \<open>Training\<close>: \<^verbatim>\<open>TRAINING_DRILLS\<close>, the seeded weekly schedule and plan templates,
    \<^verbatim>\<open>DETAILED_PLAYER_INSTRUCTIONS\<close> with the default players' instructions, and
    \<^verbatim>\<open>TACTIC_OPTIONS\<close> with the seeded team tactics, with the predicates that say when
    they are consistent (\<open>schedule_ok\<close>, \<open>instruction_ok\<close>, \<open>tactics_ok\<close>).
  \<^item> \<open>App_Shell\<close>: the context values of \<^verbatim>\<open>AppProvider\<close> and the four
    \<^verbatim>\<open>use*Context\<close> hooks (an \<open>Error\<close> outside the provider); \<^verbatim>\<open>Layout\<close>: its theme
    effect on the root classes, its lineup export with the outcome of \<^verbatim>\<open>toPng\<close> as a
    parameter, \<^verbatim>\<open>MODAL_MAP\<close> and what it renders; the \<^verbatim>\<open>auth-bg\<close> body class of the
    landing, sign-in and sign-up pages, committed along navigations through \<open>App\<close>
    (\<open>commit_page\<close>, \<open>navigate\<close>; fuel 2 as for \<open>settle\<close>).
  \<^item> \<open>Auth_Views\<close>: what the sign-in and sign-up pages render, as data
    (\<open>LoginPage_view\<close>, \<open>SignupPage_view\<close>): inputs with their messages, the role
    buttons, the banner of \<^verbatim>\<open>errors.general || authState.error\<close>, buttons and links.
  \<^item> \<open>Kits\<close>: \<^verbatim>\<open>KitPattern\<close> of \<^verbatim>\<open>PlayerToken.tsx\<close> over the team kits (a parameter; the
    seeded kits of \<^verbatim>\<open>INITIAL_STATE\<close>), and the resolution of a token's \<^verbatim>\<open>url(#id)\<close> fill
    among the pattern elements of all tokens of the document (\<open>kit_doc\<close>,
    \<open>resolve_paint\<close>), against the paint the kit promises (\<open>kit_paint\<close>).

  \<^bold>\<open>What is proved.\<close> Slot exclusivity holds in every reachable state and is kept by
  each operation; the running app, with its effects, timers and mount, refines the reducer
  state machine, so the invariant holds in every state a session shows; the swap scenario of section 8; the resolver's no-op on stale
  references; playback terminates, visiting every step in order, and stops itself;
  pause/resume and deletion cancel the pending timer; every dispatch returns; the snapshot
  round trip, at the level of the normalizer and of a reload of the running app; a snapshot
  of another version is discarded wholesale; the chemistry loops evaluate each unordered
  pair once when slot ids are distinct and free of the separator, never emit two links
  with one key, and render only the two documented tiers; keyboard shortcuts keep the
  state invariant, and only Ctrl/Cmd+R acts in presentation mode; every location settles
  on a page, which is a layout page exactly when the user is signed in; presentation mode
  is read-only; the email check accepts exactly the strings containing an address-like
  piece; sign-up validation, and the sign-in submit's success and error paths composed
  with the reducer and the routes; the built-in play library is well typed; for every
  permuting shuffle the generated fixtures are a double round robin (each ordered pair of
  distinct teams once), the sort by week is the identity, weeks run from 1 to \<open>2 (n - 1)\<close>
  and, for an even number of teams, each week holds \<open>n / 2\<close> fixtures; in no state does the
  field throw: it shows the loading fallback exactly when an active formation is missing, and
  in every reachable state both active formations resolve, so the field is drawn with the same
  hooks on every render; a drop on the open pitch dispatches a point of the pitch, and an
  away player dropped there is drawn at the mirror of the cursor; each player token is painted
  with its own team's kit; presentation mode draws no action
  bubble, draggable token or timeline; every trail references markers that are defined; the
  pitch markings are symmetric under the half-turn of \<open>mirrorPosition\<close> but for one arc; the
  seeded schedules and templates name existing drills of the fitting category, the default
  instructions and tactics are among their options, and the drills respect their documented
  ranges but for one fatigue effect; the body class of the sign-in pages follows the page
  shown over any session of navigations, and the lineup export always ends with exactly one
  \<^verbatim>\<open>EXPORT_LINEUP_FINISH\<close>, whether the image renders or not; the message of a rejected sign-up reappears on the
  fresh sign-in page. Several theorems document defects (see the
  findings of the manifest): the away-side drop stored unmirrored, the action bubble and
  the animation effect throwing, loading flags surviving a reload, a corrupted slot index
  blocking the active save, slot ids containing the separator losing chemistry links,
  modified keys other than Ctrl/Cmd+R switching the drawing tool, the unanchored email
  check, a library play moving a player who is not on the roster, fixtures weeks that let a
  team play several times in one week, the right penalty arc one unit off its mirror
  position, trail marker ids that collide for colours differing in a leading \<^verbatim>\<open>#\<close>, a cool-down
  drill whose fatigue effect is below its documented range, the stale global auth error
  shown by both auth pages.

  \<^bold>\<open>Fuel and bounds.\<close> \<open>commit\<close> takes fuel; \<open>commit_fuel\<close> = 2 is enough because the
  only dispatch an effect makes is \<^verbatim>\<open>RESET_ANIMATION\<close>, after which the animation
  effect has nothing to do (\<open>dispatch_returns\<close>). \<open>run_timers\<close> takes the number of ticks;
  \<open>n - 1\<close> ticks play an \<open>n\<close>-step play to its end (\<open>playback_runs_to_completion\<close>).
  \<open>settle\<close> takes fuel; two resolutions suffice, since every redirect targets the
  dashboard (signed in) or the login page (signed out), neither of which redirects
  (\<open>navigation_settles\<close>). Coordinates are reals: IEEE rounding of \<open>100 - x\<close> is not modelled.

  \<^bold>\<open>Not modelled.\<close> Styling (the drag ghost image, stroke colours and
  widths, class names beyond the body and root classes); the chemistry score service
  (\<^verbatim>\<open>services/chemistryService\<close>), AI services, \<^verbatim>\<open>authService\<close> and the franchise
  simulation, which are not in the repository; the Action cases outside the core
  (franchise, AI, UI toggles) and the formation and playbook variants no code under
  \<^verbatim>\<open>src/\<close> dispatches (\<^verbatim>\<open>CLEAR_FORMATION\<close>, \<^verbatim>\<open>SAVE_CUSTOM_FORMATION\<close>,
  \<^verbatim>\<open>DELETE_CUSTOM_FORMATION\<close>, \<^verbatim>\<open>DELETE_PLAYBOOK_STEP\<close>, \<^verbatim>\<open>LOAD_PLAYBOOK\<close>); the application of training, which no code under
  \<^verbatim>\<open>src/\<close> performs; the markup of the pages (the Header, notifications, popups and the printable sheet
  are not in the repository); the theme, export and tutorial fields of \<^verbatim>\<open>uiState\<close>,
  which are inputs of \<open>Layout\<close> rather than fields of the modelled UI state;
  JavaScript string lengths and white space beyond ASCII (strings are byte lists); the router's own matching beyond segment lists and ASCII case; JSON serialization itself (a stored value
  is either a parsed snapshot or text that does not parse; a slot index that parses to
  \<^verbatim>\<open>null\<close> and quota errors of \<^verbatim>\<open>setItem\<close> are not modelled); a second run of the lineup
  export started while \<^verbatim>\<open>toPng\<close> is pending (\<open>exportLineup\<close> models one run).
\<close>

end
